(* ===== verification/Prelude.thy ===== *)
theory Prelude
  imports Complex_Main
begin

text \<open>
  What every component shares: the exceptions of the program and how an except clause
  selects them, the result type of code that may raise (a sum whose left side is the
  exception), the two combinators that sequence such code, and the theorem collections
  the component proofs use.
\<close>

named_theorems res_simps \<open>equations that evaluate code which may raise\<close>
named_theorems table_simps \<open>what lookups return after a table operation\<close>
named_theorems policy_defs \<open>definitions a policy proof unfolds\<close>

subsection \<open>Exceptions\<close>

text \<open>
  One constructor per exception class the modelled code raises or catches. The class is kept
  with the message, as the code's except clauses look at the class and its receipts keep the
  message.
\<close>

datatype exn_class =
    ValueError | TypeError | KeyError | AttributeError | IndexError | RuntimeError
  | JSONDecodeError | UnicodeDecodeError | ZeroDivisionError | OverflowError | OSError
  | HTTPError | URLError | TimeoutError
  | RedisError | PsycopgError
  | ProviderError
  | AgentRolePolicyError | AgentTransitionPolicyError | AgentBudgetPolicyError
  | AgentReceiptPolicyError | EngineeringPolicyError | McpPolicyError | RunTracePolicyError
  | ResearchEvidencePolicyError | ItResearchError | ItResearchStorageError
  | ClaimReviewError | DocumentCardError | DiagramCardError | SolutionMemoryError
  | EvaluatorEvolutionError | EvaluatorStorageError | SemanticHoldoutError
  | ResponseReplayDiagnosticError | GigaChatResponseReplayError
  | FullTextVerificationError | PublisherFullTextError | PublisherEvidenceError
  | LicenseVerificationError | ArtifactVerificationError
  | GigaChatRetryError | AssertionError | SystemExit
  | HTTPException

datatype exn = Exn (exn_class: exn_class) (exn_msg: string)

text \<open>
  The base class each class is declared with, where the code relies on it: a clause
  except ValueError also catches the policy errors declared as ValueError, and the JSON and
  Unicode decode errors of the standard library.
\<close>

fun base_class :: "exn_class \<Rightarrow> exn_class option" where
  "base_class JSONDecodeError = Some ValueError"
| "base_class UnicodeDecodeError = Some ValueError"
| "base_class HTTPError = Some URLError"
| "base_class ProviderError = Some RuntimeError"
| "base_class AgentRolePolicyError = Some ValueError"
| "base_class AgentTransitionPolicyError = Some ValueError"
| "base_class AgentBudgetPolicyError = Some ValueError"
| "base_class AgentReceiptPolicyError = Some ValueError"
| "base_class EngineeringPolicyError = Some ValueError"
| "base_class McpPolicyError = Some ValueError"
| "base_class RunTracePolicyError = Some ValueError"
| "base_class ResearchEvidencePolicyError = Some ValueError"
| "base_class ItResearchError = Some RuntimeError"
| "base_class ItResearchStorageError = Some RuntimeError"
| "base_class ClaimReviewError = Some ValueError"
| "base_class DocumentCardError = Some ValueError"
| "base_class DiagramCardError = Some ValueError"
| "base_class SolutionMemoryError = Some ValueError"
| "base_class EvaluatorEvolutionError = Some ValueError"
| "base_class EvaluatorStorageError = Some RuntimeError"
| "base_class SemanticHoldoutError = Some ValueError"
| "base_class ResponseReplayDiagnosticError = Some ValueError"
| "base_class GigaChatResponseReplayError = Some RuntimeError"
| "base_class FullTextVerificationError = Some RuntimeError"
| "base_class PublisherFullTextError = Some RuntimeError"
| "base_class PublisherEvidenceError = Some RuntimeError"
| "base_class LicenseVerificationError = Some RuntimeError"
| "base_class ArtifactVerificationError = Some RuntimeError"
| "base_class GigaChatRetryError = Some RuntimeError"
| "base_class URLError = Some OSError"
| "base_class TimeoutError = Some OSError"
| "base_class _ = None"

definition is_a :: "exn \<Rightarrow> exn_class \<Rightarrow> bool" where
  "is_a e c \<longleftrightarrow> exn_class e = c \<or> base_class (exn_class e) = Some c
     \<or> Option.bind (base_class (exn_class e)) base_class = Some c"

subsection \<open>Code that may raise\<close>

type_synonym 'a res = "exn + 'a"

abbreviation raise :: "exn_class \<Rightarrow> string \<Rightarrow> 'a res" where
  "raise c m \<equiv> Inl (Exn c m)"

definition bindR :: "'a res \<Rightarrow> ('a \<Rightarrow> 'b res) \<Rightarrow> 'b res" where
  "bindR r f = (case r of Inl e \<Rightarrow> Inl e | Inr x \<Rightarrow> f x)"

text \<open>A statement sequence whose first part returns nothing.\<close>

abbreviation thenR :: "unit res \<Rightarrow> 'b res \<Rightarrow> 'b res" where
  "thenR r s \<equiv> bindR r (\<lambda>_. s)"

text \<open>if cond: raise C(m)\<close>

definition raise_if :: "bool \<Rightarrow> exn_class \<Rightarrow> string \<Rightarrow> unit res" where
  "raise_if b c m = (if b then raise c m else Inr ())"

text \<open>try: r / except E: raise C(m) from error\<close>

definition reraise :: "exn_class \<Rightarrow> exn_class \<Rightarrow> string \<Rightarrow> 'a res \<Rightarrow> 'a res" where
  "reraise c c' m r = (case r of Inl e \<Rightarrow> if is_a e c then raise c' m else Inl e | Inr x \<Rightarrow> Inr x)"

text \<open>A for loop whose body may raise: the first raise ends it.\<close>

fun forR :: "('a \<Rightarrow> unit res) \<Rightarrow> 'a list \<Rightarrow> unit res" where
  "forR f [] = Inr ()"
| "forR f (x # xs) = thenR (f x) (forR f xs)"

text \<open>A comprehension whose element expression may raise.\<close>

fun mapR :: "('a \<Rightarrow> 'b res) \<Rightarrow> 'a list \<Rightarrow> 'b list res" where
  "mapR f [] = Inr []"
| "mapR f (x # xs) = bindR (f x) (\<lambda>y. bindR (mapR f xs) (\<lambda>ys. Inr (y # ys)))"

lemma bindR_simps [simp, res_simps]:
  "bindR (Inl e) f = Inl e"
  "bindR (Inr x) f = f x"
  by (simp_all add: bindR_def)

lemma bindR_Inr_iff [res_simps]:
  "bindR r f = Inr y \<longleftrightarrow> (\<exists>x. r = Inr x \<and> f x = Inr y)"
  by (cases r) auto

lemma bindR_InrE: "bindR r f = Inr y \<Longrightarrow> (\<And>x. r = Inr x \<Longrightarrow> f x = Inr y \<Longrightarrow> P) \<Longrightarrow> P"
  by (cases r) auto

lemma bindR_Inl_iff [res_simps]:
  "bindR r f = Inl e \<longleftrightarrow> r = Inl e \<or> (\<exists>x. r = Inr x \<and> f x = Inl e)"
  by (cases r) auto

lemma raise_if_simps [simp, res_simps]:
  "raise_if True c m = raise c m"
  "raise_if False c m = Inr ()"
  by (simp_all add: raise_if_def)

lemma raise_if_Inr [res_simps]: "raise_if b c m = Inr u \<longleftrightarrow> \<not> b"
  by (cases b) auto

lemma raise_if_Inl [res_simps]: "raise_if b c m = Inl e \<longleftrightarrow> b \<and> e = Exn c m"
  by (cases b) auto

lemma reraise_Inr [res_simps]: "reraise c c' m r = Inr x \<longleftrightarrow> r = Inr x"
  by (cases r) (auto simp: reraise_def)

lemma forR_Inr [res_simps]: "forR f xs = Inr u \<longleftrightarrow> (\<forall>x \<in> set xs. f x = Inr ())"
  by (induction xs) (auto simp: bindR_Inr_iff)

lemma mapR_Inr: "mapR f xs = Inr ys \<longleftrightarrow> list_all2 (\<lambda>x y. f x = Inr y) xs ys"
  by (induction xs arbitrary: ys) (auto simp: bindR_Inr_iff list_all2_Cons1)

lemma mapR_length: "mapR f xs = Inr ys \<Longrightarrow> length ys = length xs"
  by (auto simp: mapR_Inr dest: list_all2_lengthD)

lemma mapR_total: "(\<And>x. x \<in> set xs \<Longrightarrow> f x = Inr (g x)) \<Longrightarrow> mapR f xs = Inr (map g xs)"
  by (induction xs) auto

subsection \<open>Lists\<close>

lemma filter_map_of_key:
  "distinct (map fst t) \<Longrightarrow> filter (\<lambda>(k', v). k' = k) t = (case map_of t k of None \<Rightarrow> [] | Some v \<Rightarrow> [(k, v)])"
  by (induction t) (auto split: option.splits simp: rev_image_eqI)

lemma count_remove1: "count_list (remove1 x xs) y = count_list xs y - (if x = y then 1 else 0)"
proof (induction xs)
  case (Cons a xs)
  then show ?case
    by (cases "x = y") (auto simp: count_list_0_iff[symmetric] not_le Suc_le_eq intro!: Suc_pred
      dest: count_notin)
qed simp

end
