(* ===== verification/Tables.thy ===== *)
theory Tables
  imports Prelude
begin

text \<open>
  Database tables with a primary key, as the lists of their rows in insertion order, and the
  statement forms the program issues: \<open>INSERT ... ON CONFLICT DO NOTHING\<close>, \<open>INSERT ... ON
  CONFLICT DO UPDATE\<close>, \<open>UPDATE ... WHERE\<close>, \<open>DELETE ... WHERE\<close> and the affected row count.
  The locale \<open>keyed_store\<close> is the interface the components rely on; \<open>lifecycle\<close> adds a notion of
  final row and shows that statements guarded against final rows never change one.
\<close>

type_synonym ('k, 'v) table = "('k \<times> 'v) list"

abbreviation row :: "('k, 'v) table \<Rightarrow> 'k \<Rightarrow> 'v option" where
  "row t k \<equiv> map_of t k"

definition insert_nothing :: "'k \<Rightarrow> 'v \<Rightarrow> ('k, 'v) table \<Rightarrow> ('k, 'v) table" where
  "insert_nothing k v t = (case row t k of None \<Rightarrow> t @ [(k, v)] | Some _ \<Rightarrow> t)"

definition update_where :: "('k \<Rightarrow> 'v \<Rightarrow> bool) \<Rightarrow> ('v \<Rightarrow> 'v) \<Rightarrow> ('k, 'v) table \<Rightarrow> ('k, 'v) table" where
  "update_where p f t = map (\<lambda>(k, v). (k, if p k v then f v else v)) t"

definition upsert :: "'k \<Rightarrow> 'v \<Rightarrow> ('v \<Rightarrow> 'v) \<Rightarrow> ('k, 'v) table \<Rightarrow> ('k, 'v) table" where
  "upsert k v f t = (case row t k of None \<Rightarrow> t @ [(k, v)] | Some _ \<Rightarrow> update_where (\<lambda>k' _. k' = k) f t)"

definition delete_where :: "('k \<Rightarrow> 'v \<Rightarrow> bool) \<Rightarrow> ('k, 'v) table \<Rightarrow> ('k, 'v) table" where
  "delete_where p t = filter (\<lambda>(k, v). \<not> p k v) t"

definition row_count :: "('k \<Rightarrow> 'v \<Rightarrow> bool) \<Rightarrow> ('k, 'v) table \<Rightarrow> nat" where
  "row_count p t = length (filter (\<lambda>(k, v). p k v) t)"

text \<open>The primary key: no two rows share it.\<close>

definition keyed :: "('k, 'v) table \<Rightarrow> bool" where
  "keyed t \<longleftrightarrow> distinct (map fst t)"

text \<open>
  Statements that fail: a taken primary key, a reference to a missing row. \<open>upsert_unique\<close> is an insertion
  with a unique condition: a row that has \<open>same\<close> is updated by \<open>f\<close> if the guard of the update holds, and the
  statement returns its key, or nothing; otherwise the new row is stored once its references hold.
\<close>

definition new_key :: "'k \<Rightarrow> ('k, 'v) table \<Rightarrow> unit res" where
  "new_key k t = raise_if (row t k \<noteq> None) PsycopgError ''duplicate key''"

definition refers :: "'k \<Rightarrow> ('k, 'v) table \<Rightarrow> unit res" where
  "refers k t = raise_if (row t k = None) PsycopgError ''missing reference''"

definition upsert_unique ::
    "('v \<Rightarrow> bool) \<Rightarrow> ('v \<Rightarrow> bool) \<Rightarrow> 'k \<Rightarrow> 'v \<Rightarrow> ('v \<Rightarrow> 'v) \<Rightarrow> unit res \<Rightarrow> ('k, 'v) table \<Rightarrow> ('k option \<times> ('k, 'v) table) res" where
  "upsert_unique same guard k v f refs t = (case find (\<lambda>(_, w). same w) t of
     Some (k', w) \<Rightarrow> Inr (if guard w then (Some k', update_where (\<lambda>k'' _. k'' = k') f t) else (None, t))
   | None \<Rightarrow> thenR (new_key k t) (thenR refs (Inr (Some k, insert_nothing k v t))))"

text \<open>
  One connection: an exception inside leaves the tables as they were; those of the operation's own
  class pass if the code says so, every other one becomes one with the operation's message. \<open>check\<close>
  is what the code does with the returned row after the commit.
\<close>

definition transact ::
    "exn_class \<Rightarrow> string \<Rightarrow> bool \<Rightarrow> ('s \<Rightarrow> ('a \<times> 's) res) \<Rightarrow> ('a \<Rightarrow> 'b res) \<Rightarrow> 's \<Rightarrow> 'b res \<times> 's" where
  "transact c failed own tx check s = (case tx s of
     Inl e \<Rightarrow> (if own \<and> is_a e c then Inl e else raise c failed, s)
   | Inr (x, s') \<Rightarrow> (check x, s'))"

lemma transact_snd: "snd (transact c failed own tx check s) = s \<or> (\<exists>x. tx s = Inr (x, snd (transact c failed own tx check s)))"
  by (auto simp: transact_def split: sum.splits)

lemma transact_Inr: "transact c failed own tx check s = (Inr y, s') \<longleftrightarrow> (\<exists>x. tx s = Inr (x, s') \<and> check x = Inr y)"
  by (auto simp: transact_def split: sum.splits if_splits)

text \<open>What holds before a transaction and after each of its successes holds after it.\<close>

lemma transact_keeps: "P s \<Longrightarrow> (\<And>x s'. tx s = Inr (x, s') \<Longrightarrow> P s') \<Longrightarrow> P (snd (transact c failed own tx check s))"
  using transact_snd [of c failed own tx check s] by force

subsection \<open>What the statements do to a lookup\<close>

lemma row_insert_nothing [table_simps]:
  "row (insert_nothing k v t) k' = (if k' = k \<and> row t k = None then Some v else row t k')"
  by (auto simp: insert_nothing_def map_add_def split: option.splits)

lemma row_update_where [table_simps]:
  "row (update_where p f t) k = map_option (\<lambda>v. if p k v then f v else v) (row t k)"
  by (induction t) (auto simp: update_where_def)

lemma row_upsert [table_simps]:
  "row (upsert k v f t) k' =
     (if k' = k then Some (case row t k of None \<Rightarrow> v | Some w \<Rightarrow> f w) else row t k')"
  by (auto simp: upsert_def row_update_where map_add_def split: option.splits)

lemma row_delete_where [table_simps]:
  "keyed t \<Longrightarrow> row (delete_where p t) k = (case row t k of None \<Rightarrow> None | Some v \<Rightarrow> if p k v then None else Some v)"
  by (induction t) (auto simp: delete_where_def keyed_def split: option.splits dest: map_of_SomeD intro: rev_image_eqI)

lemma keys_update_where [simp]: "map fst (update_where p f t) = map fst t"
  by (simp add: update_where_def case_prod_beta)

lemma keyed_Nil [simp]: "keyed []"
  by (simp add: keyed_def)

lemma keyed_insert_nothing [simp]: "keyed t \<Longrightarrow> keyed (insert_nothing k v t)"
  by (auto simp: insert_nothing_def keyed_def map_of_eq_None_iff split: option.splits)

lemma keyed_update_where [simp]: "keyed (update_where p f t) \<longleftrightarrow> keyed t"
  by (simp add: keyed_def)

lemma keyed_upsert [simp]: "keyed t \<Longrightarrow> keyed (upsert k v f t)"
  by (auto simp: upsert_def keyed_def map_of_eq_None_iff split: option.splits)

lemma keyed_delete_where [simp]: "keyed t \<Longrightarrow> keyed (delete_where p t)"
  by (simp add: keyed_def delete_where_def distinct_map_filter)

text \<open>At most one row has a given key, so an update on one key affects one row or none.\<close>

lemma row_count_key:
  assumes "keyed t" "\<And>k' v. p k' v \<Longrightarrow> k' = k"
  shows "row_count p t = (case row t k of None \<Rightarrow> 0 | Some v \<Rightarrow> if p k v then 1 else 0)"
proof -
  have "filter (\<lambda>(k', v). p k' v) t = filter (\<lambda>(k', v). p k' v) (filter (\<lambda>(k', v). k' = k) t)"
    using assms(2) by (auto intro: filter_cong)
  with assms(1) show ?thesis
    by (auto simp: row_count_def keyed_def filter_map_of_key split: option.splits)
qed

subsection \<open>The interface\<close>

locale keyed_store =
  fixes get :: "'s \<Rightarrow> 'k \<Rightarrow> 'v option"
    and ins :: "'k \<Rightarrow> 'v \<Rightarrow> 's \<Rightarrow> 's"
    and upd :: "('k \<Rightarrow> 'v \<Rightarrow> bool) \<Rightarrow> ('v \<Rightarrow> 'v) \<Rightarrow> 's \<Rightarrow> 's"
  assumes get_ins: "get (ins k v s) k' = (if k' = k \<and> get s k = None then Some v else get s k')"
    and get_upd: "get (upd p f s) k = map_option (\<lambda>v. if p k v then f v else v) (get s k)"
begin

lemma ins_keeps: "get s k = Some v \<Longrightarrow> get (ins k' w s) k = Some v"
  by (auto simp: get_ins)

lemma ins_present: "get (ins k v s) k \<noteq> None"
  by (simp add: get_ins)

lemma upd_none_iff: "get (upd p f s) k = None \<longleftrightarrow> get s k = None"
  by (simp add: get_upd)

lemma upd_other: "\<not> (\<exists>v. get s k = Some v \<and> p k v) \<Longrightarrow> get (upd p f s) k = get s k"
  by (cases "get s k") (auto simp: get_upd)

end

text \<open>
  A store whose rows have a life cycle: \<open>final\<close> says that a row has reached its end. A guard is
  safe when it never selects a final row.
\<close>

locale lifecycle = keyed_store get ins upd
  for get :: "'s \<Rightarrow> 'k \<Rightarrow> 'v option"
    and ins :: "'k \<Rightarrow> 'v \<Rightarrow> 's \<Rightarrow> 's"
    and upd :: "('k \<Rightarrow> 'v \<Rightarrow> bool) \<Rightarrow> ('v \<Rightarrow> 'v) \<Rightarrow> 's \<Rightarrow> 's" +
  fixes final :: "'v \<Rightarrow> bool"
begin

lemma final_upd:
  assumes "get s k = Some v" "final v" "\<And>v'. p k v' \<Longrightarrow> \<not> final v'"
  shows "get (upd p f s) k = Some v"
  using assms by (auto simp: get_upd)

lemma final_ins: "get s k = Some v \<Longrightarrow> final v \<Longrightarrow> get (ins k' w s) k = Some v"
  by (rule ins_keeps)

text \<open>
  If a row became final by an update, the update selected it and wrote a final value: the state
  before was not final.
\<close>

lemma became_final:
  assumes "get (upd p f s) k = Some v" "final v" "get s k = Some w" "\<not> final w"
  shows "p k w \<and> v = f w"
  using assms by (auto simp: get_upd split: if_splits)

end

interpretation tables: keyed_store row insert_nothing update_where
  by unfold_locales (auto simp: table_simps)

end
