(* ===== verification/PyStrings.thy ===== *)
theory PyStrings
  imports Prelude
begin

text \<open>
  Python strings and byte strings as \<open>string\<close>: one \<open>char\<close> per code point (or byte), so the
  development covers texts whose code points are below 256. On that range the definitions
  below are the methods of \<open>str\<close> the code uses: \<open>strip\<close>, \<open>split\<close>, \<open>join\<close>, \<open>casefold\<close>,
  \<open>startswith\<close>, \<open>endswith\<close>, \<open>removeprefix\<close>, the \<open>in\<close> operator and the decimal and
  hexadecimal notation of integers.
\<close>

abbreviation code :: "char \<Rightarrow> nat" where
  "code c \<equiv> of_char c"

subsection \<open>Character classes\<close>

definition is_space :: "char \<Rightarrow> bool" where
  "is_space c = (let n = code c in (9 \<le> n \<and> n \<le> 13) \<or> (28 \<le> n \<and> n \<le> 32) \<or> n = 133 \<or> n = 160)"

definition is_digit :: "char \<Rightarrow> bool" where
  "is_digit c = (48 \<le> code c \<and> code c \<le> 57)"

definition is_hex_lower :: "char \<Rightarrow> bool" where
  "is_hex_lower c = (is_digit c \<or> (97 \<le> code c \<and> code c \<le> 102))"

subsection \<open>Methods of str\<close>

definition lstrip :: "string \<Rightarrow> string" where
  "lstrip s = dropWhile is_space s"

definition strip :: "string \<Rightarrow> string" where
  "strip s = rev (lstrip (rev (lstrip s)))"

text \<open>\<open>s.strip(chars)\<close> for a set of characters given as a string.\<close>

definition strip_chars :: "string \<Rightarrow> string \<Rightarrow> string" where
  "strip_chars cs s = (let d = dropWhile (\<lambda>c. c \<in> set cs) in rev (d (rev (d s))))"

definition starts_with :: "string \<Rightarrow> string \<Rightarrow> bool" where
  "starts_with p s \<longleftrightarrow> take (length p) s = p"

definition ends_with :: "string \<Rightarrow> string \<Rightarrow> bool" where
  "ends_with p s \<longleftrightarrow> starts_with (rev p) (rev s)"

definition remove_prefix :: "string \<Rightarrow> string \<Rightarrow> string" where
  "remove_prefix p s = (if starts_with p s then drop (length p) s else s)"

fun has_sub :: "string \<Rightarrow> string \<Rightarrow> bool" where
  "has_sub p [] \<longleftrightarrow> p = []"
| "has_sub p (c # s) \<longleftrightarrow> starts_with p (c # s) \<or> has_sub p s"

text \<open>\<open>s.split(c)\<close> for one separator character: never the empty list.\<close>

fun split_on :: "char \<Rightarrow> string \<Rightarrow> string list" where
  "split_on c [] = [[]]"
| "split_on c (x # xs) =
     (if x = c then [] # split_on c xs
      else (case split_on c xs of [] \<Rightarrow> [[x]] | w # ws \<Rightarrow> (x # w) # ws))"

text \<open>\<open>s.split()\<close>: the maximal runs of characters that are not white space.\<close>

fun words_acc :: "string \<Rightarrow> string \<Rightarrow> string list" where
  "words_acc w [] = (if w = [] then [] else [rev w])"
| "words_acc w (x # xs) =
     (if is_space x then (if w = [] then words_acc [] xs else rev w # words_acc [] xs)
      else words_acc (x # w) xs)"

definition words :: "string \<Rightarrow> string list" where
  "words s = words_acc [] s"

fun join :: "string \<Rightarrow> string list \<Rightarrow> string" where
  "join sep [] = []"
| "join sep [x] = x"
| "join sep (x # y # xs) = x @ sep @ join sep (y # xs)"

text \<open>
  \<open>casefold\<close> below 256: the Latin letters are lowered and the sharp s becomes ss. (The micro
  sign, whose folding is a Greek letter above 255, is kept.)
\<close>

definition fold_char :: "char \<Rightarrow> string" where
  "fold_char c = (let n = code c in
     if 65 \<le> n \<and> n \<le> 90 then [char_of (n + 32)]
     else if 192 \<le> n \<and> n \<le> 222 \<and> n \<noteq> 215 then [char_of (n + 32)]
     else if n = 223 then ''ss'' else [c])"

definition casefold :: "string \<Rightarrow> string" where
  "casefold s = concat (map fold_char s)"

definition lower_char :: "char \<Rightarrow> char" where
  "lower_char c = (let n = code c in
     if (65 \<le> n \<and> n \<le> 90) \<or> (192 \<le> n \<and> n \<le> 222 \<and> n \<noteq> 215) then char_of (n + 32) else c)"

definition lower :: "string \<Rightarrow> string" where
  "lower s = map lower_char s"

text \<open>\<open>rsplit("/", 1)[-1]\<close>: what follows the last separator.\<close>

definition after_last :: "char \<Rightarrow> string \<Rightarrow> string" where
  "after_last c s = last (split_on c s)"

subsection \<open>Notation of integers\<close>

definition digit_char :: "nat \<Rightarrow> char" where
  "digit_char d = char_of (if d < 10 then 48 + d else 87 + d)"

fun show_base :: "nat \<Rightarrow> nat \<Rightarrow> string" where
  "show_base b n = (if b < 2 \<or> n < b then [digit_char n] else show_base b (n div b) @ [digit_char (n mod b)])"

declare show_base.simps [simp del]

definition show_nat :: "nat \<Rightarrow> string" where
  "show_nat n = show_base 10 n"

definition show_int :: "int \<Rightarrow> string" where
  "show_int i = (if i < 0 then CHR ''-'' # show_nat (nat (- i)) else show_nat (nat i))"

definition digit_val :: "char \<Rightarrow> nat" where
  "digit_val c = (if code c \<le> 57 then code c - 48 else code c - 87)"

definition read_base :: "nat \<Rightarrow> string \<Rightarrow> nat" where
  "read_base b s = foldl (\<lambda>n c. n * b + digit_val c) 0 s"

subsection \<open>Lemmas\<close>

lemma starts_with_iff: "starts_with p s \<longleftrightarrow> (\<exists>t. s = p @ t)"
  by (auto simp: starts_with_def) (metis append_take_drop_id)

lemma ends_with_iff: "ends_with p s \<longleftrightarrow> (\<exists>t. s = t @ p)"
  unfolding ends_with_def starts_with_iff
  by (metis rev_append rev_rev_ident)

lemma has_sub_iff: "has_sub p s \<longleftrightarrow> (\<exists>u v. s = u @ p @ v)"
proof (induction s)
  case (Cons c s)
  show ?case
  proof
    assume "has_sub p (c # s)"
    then show "\<exists>u v. c # s = u @ p @ v"
    proof (cases "starts_with p (c # s)")
      case True
      then show ?thesis by (auto simp: starts_with_iff intro: exI [of _ "[]"])
    next
      case False
      with \<open>has_sub p (c # s)\<close> Cons.IH obtain u v where "s = u @ p @ v" by auto
      then have "c # s = (c # u) @ p @ v" by simp
      then show ?thesis by blast
    qed
  next
    assume "\<exists>u v. c # s = u @ p @ v"
    then obtain u v where uv: "c # s = u @ p @ v" by blast
    show "has_sub p (c # s)"
    proof (cases u)
      case Nil
      with uv have "starts_with p (c # s)" by (auto simp: starts_with_iff)
      then show ?thesis by simp
    next
      case (Cons d u')
      with uv have "s = u' @ p @ v" by simp
      with Cons.IH show ?thesis by auto
    qed
  qed
qed simp

lemma split_on_nonempty [simp]: "split_on c s \<noteq> []"
  by (induction s) (auto split: list.splits)

lemma join_Cons: "xs \<noteq> [] \<Longrightarrow> join sep (x # xs) = x @ sep @ join sep xs"
  by (cases xs) auto

lemma join_split_on: "join [c] (split_on c s) = s"
proof (induction s)
  case (Cons x xs)
  obtain w ws where w: "split_on c xs = w # ws"
    by (cases "split_on c xs") auto
  with Cons.IH show ?case
    by (cases ws) auto
qed simp

lemma split_on_no_sep: "w \<in> set (split_on c s) \<Longrightarrow> c \<notin> set w"
  by (induction s arbitrary: w) (auto split: list.splits if_splits)

lemma dropWhile_twice: "dropWhile P (dropWhile P xs) = dropWhile P xs"
  by (induction xs) auto

lemma dropWhile_no_head: "dropWhile P xs = [] \<or> \<not> P (hd (dropWhile P xs))"
  by (induction xs) auto

lemma strip_idem [simp]: "strip (strip s) = strip s"
proof -
  define t where "t = dropWhile is_space s"
  define u where "u = dropWhile is_space (rev t)"
  have u_tl: "dropWhile is_space u = u" by (simp add: u_def dropWhile_twice)
  have "dropWhile is_space (rev u) = rev u"
  proof (cases "u = []")
    case False
    then obtain c cs where c: "rev u = c # cs" by (metis list.exhaust rev_is_Nil_conv)
    have "\<exists>pre. rev t = pre @ u" unfolding u_def by (metis takeWhile_dropWhile_id)
    then obtain pre where "rev t = pre @ u" by blast
    then have "t = rev u @ rev pre" by (metis rev_append rev_rev_ident)
    with c have t: "t = c # cs @ rev pre" by simp
    then have "\<not> is_space c" using dropWhile_no_head [of is_space s] by (auto simp: t_def)
    with c show ?thesis by simp
  qed simp
  then show ?thesis by (simp add: strip_def lstrip_def flip: t_def u_def) (simp add: u_tl)
qed

lemma strip_Nil [simp]: "strip [] = []"
  by (simp add: strip_def lstrip_def)

lemma digit_val_char: "d < 36 \<Longrightarrow> digit_val (digit_char d) = d"
  by (auto simp: digit_val_def digit_char_def of_char_of)

lemma read_base_snoc: "read_base b (s @ [c]) = read_base b s * b + digit_val c"
  by (simp add: read_base_def)

lemma read_show_base: "2 \<le> b \<Longrightarrow> b \<le> 36 \<Longrightarrow> read_base b (show_base b n) = n"
proof (induction b n rule: show_base.induct)
  case (1 b n)
  show ?case
  proof (cases "n < b")
    case True
    with 1 show ?thesis
      by (simp add: show_base.simps [of b n] read_base_def digit_val_char)
  next
    case False
    with 1 have "read_base b (show_base b (n div b)) = n div b" by simp
    moreover have "n mod b < 36" using "1.prems" using mod_less_divisor [of b n] by linarith
    ultimately show ?thesis using False "1.prems"
      by (simp add: show_base.simps [of b n] read_base_snoc digit_val_char)
  qed
qed

lemma show_base_nonempty [simp]: "show_base b n \<noteq> []"
  by (subst show_base.simps) simp

lemma show_nat_nonempty [simp]: "show_nat n \<noteq> []"
  by (simp add: show_nat_def)

lemma is_digit_digit_char [simp]: "d < 10 \<Longrightarrow> is_digit (digit_char d)"
  by (simp add: is_digit_def digit_char_def of_char_of)

lemma show_nat_digits:
  assumes "c \<in> set (show_nat n)"
  shows "is_digit c"
proof -
  have "2 \<le> b \<Longrightarrow> b \<le> 10 \<Longrightarrow> \<forall>c \<in> set (show_base b n). is_digit c" for b
  proof (induction b n rule: show_base.induct)
    case (1 b n)
    show ?case
    proof (cases "n < b")
      case True
      with 1 show ?thesis by (simp add: show_base.simps [of b n])
    next
      case False
      with 1 show ?thesis by (simp add: show_base.simps [of b n] pos_mod_bound less_le_trans [OF mod_less_divisor])
    qed
  qed
  from this [of 10] assms show ?thesis by (simp add: show_nat_def)
qed

lemma show_nat_inject [simp]: "show_nat m = show_nat n \<longleftrightarrow> m = n"
proof
  assume "show_nat m = show_nat n"
  then have "read_base 10 (show_nat m) = read_base 10 (show_nat n)" by simp
  then show "m = n" by (simp add: show_nat_def read_show_base)
qed simp

end
