(* ===== verification/Json.thy ===== *)
theory Json
  imports PyStrings "HOL-Library.Char_ord" "HOL-Library.List_Lexorder"
begin

text \<open>
  JSON values, \<open>json.dumps\<close> with the options the code passes (separators, \<open>ensure_ascii\<close>,
  \<open>sort_keys\<close>) and \<open>json.loads\<close>. A dict is the list of its items in insertion order. A float
  is kept as its literal. Escapes of code points above 255 are outside the texts covered.
  The main results: \<open>loads\<close> inverts \<open>dumps\<close> on values without floats, whatever the
  separators, so \<open>dumps\<close> is injective there; and the fuel \<open>loads\<close> starts with never runs out.
\<close>

datatype json =
    JNull | JBool bool | JInt int | JFloat string | JStr string
  | JList "json list" | JObj "(string \<times> json) list"

abbreviation qt :: char where "qt \<equiv> CHR 0x22"
abbreviation bsl :: char where "bsl \<equiv> CHR 0x5C"

subsection \<open>dumps\<close>

record json_opts =
  ensure_ascii :: bool
  item_sep :: string
  key_sep :: string

definition default_opts :: json_opts where
  "default_opts = \<lparr>ensure_ascii = True, item_sep = '', '', key_sep = '': ''\<rparr>"

definition unicode_opts :: json_opts where
  "unicode_opts = \<lparr>ensure_ascii = False, item_sep = '', '', key_sep = '': ''\<rparr>"

definition compact_opts :: json_opts where
  "compact_opts = \<lparr>ensure_ascii = True, item_sep = '','', key_sep = '':''\<rparr>"

definition u_escape :: "char \<Rightarrow> string" where
  "u_escape c = [bsl, CHR ''u'', CHR ''0'', CHR ''0'', digit_char (code c div 16), digit_char (code c mod 16)]"

definition esc_char :: "bool \<Rightarrow> char \<Rightarrow> string" where
  "esc_char ascii c =
     (if c = qt then [bsl, qt] else if c = bsl then [bsl, bsl]
      else if code c = 8 then [bsl, CHR ''b''] else if code c = 9 then [bsl, CHR ''t'']
      else if code c = 10 then [bsl, CHR ''n''] else if code c = 12 then [bsl, CHR ''f'']
      else if code c = 13 then [bsl, CHR ''r'']
      else if code c < 32 \<or> (ascii \<and> 126 < code c) then u_escape c else [c])"

definition dump_str :: "bool \<Rightarrow> string \<Rightarrow> string" where
  "dump_str ascii s = qt # concat (map (esc_char ascii) s) @ [qt]"

fun dumps :: "json_opts \<Rightarrow> json \<Rightarrow> string" where
  "dumps opt JNull = ''null''"
| "dumps opt (JBool b) = (if b then ''true'' else ''false'')"
| "dumps opt (JInt i) = show_int i"
| "dumps opt (JFloat t) = t"
| "dumps opt (JStr s) = dump_str (ensure_ascii opt) s"
| "dumps opt (JList xs) = CHR ''['' # join (item_sep opt) (map (dumps opt) xs) @ '']''"
| "dumps opt (JObj kvs) = CHR ''{'' # join (item_sep opt)
     (map (\<lambda>(k, v). dump_str (ensure_ascii opt) k @ key_sep opt @ dumps opt v) kvs) @ ''}''"

text \<open>\<open>sort_keys=True\<close> orders the items of every dict by key.\<close>

fun sort_keys :: "json \<Rightarrow> json" where
  "sort_keys (JList xs) = JList (map sort_keys xs)"
| "sort_keys (JObj kvs) = JObj (sort_key fst (map (\<lambda>(k, v). (k, sort_keys v)) kvs))"
| "sort_keys j = j"

subsection \<open>loads\<close>

definition is_ws :: "char \<Rightarrow> bool" where
  "is_ws c \<longleftrightarrow> code c = 32 \<or> code c = 9 \<or> code c = 10 \<or> code c = 13"

definition skip_ws :: "string \<Rightarrow> string" where
  "skip_ws s = dropWhile is_ws s"

definition hex_val :: "char \<Rightarrow> nat option" where
  "hex_val c = (let n = code c in
     if 48 \<le> n \<and> n \<le> 57 then Some (n - 48)
     else if 97 \<le> n \<and> n \<le> 102 then Some (n - 87)
     else if 65 \<le> n \<and> n \<le> 70 then Some (n - 55) else None)"

definition esc_simple :: "char \<Rightarrow> char option" where
  "esc_simple e =
     (if e = qt then Some qt else if e = bsl then Some bsl else if e = CHR ''/'' then Some e
      else if e = CHR ''b'' then Some (char_of (8::nat)) else if e = CHR ''f'' then Some (char_of (12::nat))
      else if e = CHR ''n'' then Some (char_of (10::nat)) else if e = CHR ''r'' then Some (char_of (13::nat))
      else if e = CHR ''t'' then Some (char_of (9::nat)) else None)"

definition hex4 :: "char \<Rightarrow> char \<Rightarrow> char \<Rightarrow> char \<Rightarrow> char option" where
  "hex4 a b c d = (case (hex_val a, hex_val b, hex_val c, hex_val d) of
     (Some x, Some y, Some z, Some w) \<Rightarrow>
        if x = 0 \<and> y = 0 then Some (char_of (16 * z + w)) else None
   | _ \<Rightarrow> None)"

text \<open>What follows an opening quote: the string and the text after the closing quote.\<close>

fun parse_str :: "string \<Rightarrow> (string \<times> string) option" where
  "parse_str [] = None"
| "parse_str (c # s) =
     (if c = qt then Some ([], s)
      else if c = bsl then
        (case s of
           [] \<Rightarrow> None
         | e # t \<Rightarrow>
             if e = CHR ''u'' then
               (case t of
                  a # b # x # y # r \<Rightarrow>
                    (case hex4 a b x y of None \<Rightarrow> None
                     | Some ch \<Rightarrow> map_option (apfst (Cons ch)) (parse_str r))
                | _ \<Rightarrow> None)
             else (case esc_simple e of None \<Rightarrow> None
                   | Some ch \<Rightarrow> map_option (apfst (Cons ch)) (parse_str t)))
      else if code c < 32 then None
      else map_option (apfst (Cons c)) (parse_str s))"

definition take_digits :: "string \<Rightarrow> string \<times> string" where
  "take_digits s = (takeWhile is_digit s, dropWhile is_digit s)"

text \<open>The optional fraction and exponent of a number, with what follows.\<close>

definition parse_frac :: "string \<Rightarrow> string \<times> string" where
  "parse_frac s = (case s of
     c # t \<Rightarrow> if c = CHR ''.'' \<and> fst (take_digits t) \<noteq> [] then (c # fst (take_digits t), snd (take_digits t)) else ([], s)
   | [] \<Rightarrow> ([], s))"

definition parse_exp :: "string \<Rightarrow> string \<times> string" where
  "parse_exp s = (case s of
     c # t \<Rightarrow>
       if c = CHR ''e'' \<or> c = CHR ''E'' then
         (let (sg, u) = (case t of x # t' \<Rightarrow> if x = CHR ''+'' \<or> x = CHR ''-'' then ([x], t') else ([], t) | [] \<Rightarrow> ([], t))
          in if fst (take_digits u) \<noteq> [] then (c # sg @ fst (take_digits u), snd (take_digits u)) else ([], s))
       else ([], s)
   | [] \<Rightarrow> ([], s))"

text \<open>The integer part: a single 0, or digits that do not start with 0.\<close>

definition parse_int_part :: "string \<Rightarrow> (string \<times> string) option" where
  "parse_int_part s = (case s of
     [] \<Rightarrow> None
   | c # t \<Rightarrow> if c = CHR ''0'' then Some ([c], t)
             else if is_digit c then Some (take_digits s) else None)"

definition parse_number :: "string \<Rightarrow> (json \<times> string) option" where
  "parse_number s =
     (let (sg, u) = (case s of c # t \<Rightarrow> if c = CHR ''-'' then ([c], t) else ([], s) | [] \<Rightarrow> ([], s))
      in case parse_int_part u of
           None \<Rightarrow> None
         | Some (ip, r) \<Rightarrow>
             (let (fr, r1) = parse_frac r; (ex, r2) = parse_exp r1
              in if fr = [] \<and> ex = []
                 then Some (JInt (if sg = [] then int (read_base 10 ip) else - int (read_base 10 ip)), r)
                 else Some (JFloat (sg @ ip @ fr @ ex), r2)))"

text \<open>A dict built from pairs: a repeated key keeps its first position and its last value.\<close>

definition dict_of :: "(string \<times> json) list \<Rightarrow> (string \<times> json) list" where
  "dict_of kvs = foldl (\<lambda>d (k, v). if map_of d k = None then d @ [(k, v)]
      else map (\<lambda>(k', v'). (k', if k' = k then v else v')) d) [] kvs"

definition parse_literal :: "string \<Rightarrow> (json \<times> string) option" where
  "parse_literal s =
     (if starts_with ''null'' s then Some (JNull, drop 4 s)
      else if starts_with ''true'' s then Some (JBool True, drop 4 s)
      else if starts_with ''false'' s then Some (JBool False, drop 5 s)
      else if starts_with ''NaN'' s then Some (JFloat ''NaN'', drop 3 s)
      else if starts_with ''Infinity'' s then Some (JFloat ''Infinity'', drop 8 s)
      else if starts_with ''-Infinity'' s then Some (JFloat ''-Infinity'', drop 9 s)
      else parse_number s)"

fun parse_value :: "nat \<Rightarrow> string \<Rightarrow> (json \<times> string) option"
and parse_items :: "nat \<Rightarrow> string \<Rightarrow> (json list \<times> string) option"
and parse_members :: "nat \<Rightarrow> string \<Rightarrow> ((string \<times> json) list \<times> string) option" where
  "parse_value 0 s = None"
| "parse_value (Suc n) s = (case s of
     [] \<Rightarrow> None
   | c # t \<Rightarrow>
       if c = qt then map_option (apfst JStr) (parse_str t)
       else if c = CHR ''['' then
         (case skip_ws t of
            [] \<Rightarrow> None
          | d # u \<Rightarrow> if d = CHR '']'' then Some (JList [], u)
                    else map_option (apfst JList) (parse_items n (d # u)))
       else if c = CHR ''{'' then
         (case skip_ws t of
            [] \<Rightarrow> None
          | d # u \<Rightarrow> if d = CHR ''}'' then Some (JObj [], u)
                    else map_option (apfst (\<lambda>kvs. JObj (dict_of kvs))) (parse_members n (d # u)))
       else parse_literal s)"
| "parse_items 0 s = None"
| "parse_items (Suc n) s = (case parse_value n s of
     None \<Rightarrow> None
   | Some (v, r) \<Rightarrow> (case skip_ws r of
       [] \<Rightarrow> None
     | d # u \<Rightarrow> if d = CHR '']'' then Some ([v], u)
               else if d = CHR '','' then map_option (apfst (Cons v)) (parse_items n (skip_ws u))
               else None))"
| "parse_members 0 s = None"
| "parse_members (Suc n) s = (case s of
     [] \<Rightarrow> None
   | c # t \<Rightarrow>
       if c \<noteq> qt then None
       else (case parse_str t of
         None \<Rightarrow> None
       | Some (k, r) \<Rightarrow> (case skip_ws r of
           [] \<Rightarrow> None
         | d # u \<Rightarrow>
             if d \<noteq> CHR '':'' then None
             else (case parse_value n (skip_ws u) of
               None \<Rightarrow> None
             | Some (v, r2) \<Rightarrow> (case skip_ws r2 of
                 [] \<Rightarrow> None
               | e # w \<Rightarrow>
                   if e = CHR ''}'' then Some ([(k, v)], w)
                   else if e = CHR '','' then map_option (apfst (Cons (k, v))) (parse_members n (skip_ws w))
                   else None)))))"

definition loads :: "string \<Rightarrow> json res" where
  "loads s = (case parse_value (Suc (2 * length s)) (skip_ws s) of
     Some (j, r) \<Rightarrow> if skip_ws r = [] then Inr j else raise JSONDecodeError ''Extra data''
   | None \<Rightarrow> raise JSONDecodeError ''Expecting value'')"

text \<open>Access to a dict: \<open>d.get(k)\<close>, with None for a missing key.\<close>

definition jget :: "(string \<times> json) list \<Rightarrow> string \<Rightarrow> json" where
  "jget kvs k = (case map_of kvs k of None \<Rightarrow> JNull | Some v \<Rightarrow> v)"

text \<open>The truth value of a JSON value, as \<open>if x\<close> and \<open>x or y\<close> test it.\<close>

fun truthy :: "json \<Rightarrow> bool" where
  "truthy JNull = False"
| "truthy (JBool b) = b"
| "truthy (JInt i) = (i \<noteq> 0)"
| "truthy (JFloat t) = (\<exists>c \<in> set (takeWhile (\<lambda>c. c \<noteq> CHR ''e'' \<and> c \<noteq> CHR ''E'') t). c \<notin> set ''0.-'')"
| "truthy (JStr s) = (s \<noteq> [])"
| "truthy (JList xs) = (xs \<noteq> [])"
| "truthy (JObj kvs) = (kvs \<noteq> [])"

subsection \<open>loads inverts dumps\<close>

text \<open>Values without floats whose dicts have distinct keys.\<close>

fun plain :: "json \<Rightarrow> bool" where
  "plain (JFloat t) = False"
| "plain (JList xs) = list_all plain xs"
| "plain (JObj kvs) = (distinct (map fst kvs) \<and> list_all (\<lambda>(k, v). plain v) kvs)"
| "plain j = True"

definition ok_opts :: "json_opts \<Rightarrow> bool" where
  "ok_opts opt \<longleftrightarrow> (case item_sep opt of c # w \<Rightarrow> c = CHR '','' \<and> list_all is_ws w | [] \<Rightarrow> False) \<and>
     (case key_sep opt of c # w \<Rightarrow> c = CHR '':'' \<and> list_all is_ws w | [] \<Rightarrow> False)"

lemma ok_opts_used [simp]: "ok_opts default_opts" "ok_opts unicode_opts" "ok_opts compact_opts"
  by (simp_all add: ok_opts_def default_opts_def unicode_opts_def compact_opts_def is_ws_def)

text \<open>A text a number before it cannot run into.\<close>

definition delim :: "string \<Rightarrow> bool" where
  "delim r \<longleftrightarrow> (case r of [] \<Rightarrow> True
     | c # _ \<Rightarrow> \<not> is_digit c \<and> c \<noteq> CHR ''.'' \<and> c \<noteq> CHR ''e'' \<and> c \<noteq> CHR ''E'')"

lemma delim_simps [simp]:
  "delim []" "delim (CHR '']'' # r)" "delim (CHR ''}'' # r)" "delim (CHR '','' # r)"
  by (simp_all add: delim_def is_digit_def)

lemma hex_val_digit: "d < 16 \<Longrightarrow> hex_val (digit_char d) = Some d"
  by (auto simp: hex_val_def digit_char_def of_char_of Let_def)

lemma code_lt [simp]: "code c < 256"
  using of_char_mod_256 [of c] by (metis mod_less_divisor zero_less_numeral)

lemma hex4_escape:
  "hex4 (CHR ''0'') (CHR ''0'') (digit_char (code c div 16)) (digit_char (code c mod 16)) = Some c"
proof -
  have "code c div 16 < 16" using code_lt [of c] by linarith
  moreover have "16 * (code c div 16) + code c mod 16 = code c" by simp
  moreover have "hex_val (CHR ''0'') = Some 0" by (simp add: hex_val_def)
  ultimately show ?thesis by (simp add: hex4_def hex_val_digit del: mult_div_mod_eq)
qed

lemma code_eqD: "code c = n \<Longrightarrow> char_of n = c"
  by auto

lemma parse_esc_char: "parse_str (esc_char a c @ s) = map_option (apfst (Cons c)) (parse_str s)"
proof -
  consider "c = qt" | "c = bsl" | "code c \<in> {8, 9, 10, 12, 13}"
    | "c \<noteq> qt" "c \<noteq> bsl" "code c \<notin> {8, 9, 10, 12, 13}" "code c < 32 \<or> a \<and> 126 < code c"
    | "c \<noteq> qt" "c \<noteq> bsl" "code c \<notin> {8, 9, 10, 12, 13}" "\<not> (code c < 32 \<or> a \<and> 126 < code c)"
    by blast
  then show ?thesis
  proof cases
    case 3
    then show ?thesis by (auto simp: esc_char_def esc_simple_def dest!: code_eqD)
  next
    case 4
    then show ?thesis by (simp add: esc_char_def u_escape_def hex4_escape)
  next
    case 5
    then have "esc_char a c = [c]" "\<not> code c < 32" by (auto simp: esc_char_def)
    with 5 show ?thesis by simp
  qed (simp_all add: esc_char_def esc_simple_def)
qed

lemma parse_dump_str: "parse_str (concat (map (esc_char a) s) @ qt # r) = Some (s, r)"
  by (induction s) (simp_all add: parse_esc_char)

lemma skip_ws_append [simp]: "list_all is_ws w \<Longrightarrow> skip_ws (w @ s) = skip_ws s"
  by (induction w) (simp_all add: skip_ws_def)

lemma skip_ws_id: "\<not> is_ws c \<Longrightarrow> skip_ws (c # s) = c # s"
  by (simp add: skip_ws_def)

lemma skip_ws_simps [simp]:
  "skip_ws [] = []"
  "skip_ws (CHR '']'' # s) = CHR '']'' # s" "skip_ws (CHR ''}'' # s) = CHR ''}'' # s"
  "skip_ws (CHR '','' # s) = CHR '','' # s" "skip_ws (CHR '':'' # s) = CHR '':'' # s"
  "skip_ws (CHR ''['' # s) = CHR ''['' # s" "skip_ws (CHR ''{'' # s) = CHR ''{'' # s"
  "skip_ws (qt # s) = qt # s"
  by (simp_all add: skip_ws_def is_ws_def)

lemma show_base_hd: "2 \<le> b \<Longrightarrow> b \<le> 10 \<Longrightarrow> 0 < n \<Longrightarrow> hd (show_base b n) \<noteq> CHR ''0''"
proof (induction b n rule: show_base.induct)
  case (1 b n)
  show ?case
  proof (cases "n < b")
    case True
    with 1 have "code (digit_char n) \<noteq> code CHR ''0''" by (simp add: digit_char_def of_char_of)
    then have "digit_char n \<noteq> CHR ''0''" by auto
    then show ?thesis using True 1 by (simp add: show_base.simps [of b n])
  next
    case False
    with 1 show ?thesis by (simp add: show_base.simps [of b n] div_greater_zero_iff)
  qed
qed

lemma show_nat_0 [simp]: "show_nat 0 = ''0''"
proof -
  have "code (digit_char 0) = code CHR ''0''" by (simp add: digit_char_def of_char_of)
  then have "digit_char 0 = CHR ''0''" by (simp only: of_char_eq_iff)
  then show ?thesis by (simp add: show_nat_def show_base.simps [of 10 0])
qed

lemma takeWhile_show_nat: "delim r \<Longrightarrow> take_digits (show_nat n @ r) = (show_nat n, r)"
proof -
  assume d: "delim r"
  have "takeWhile is_digit r = []" "dropWhile is_digit r = r"
    using d by (cases r; simp add: delim_def)+
  then show ?thesis
    by (simp add: take_digits_def takeWhile_append2 dropWhile_append2 show_nat_digits)
qed

lemma parse_int_part_show: "delim r \<Longrightarrow> parse_int_part (show_nat n @ r) = Some (show_nat n, r)"
proof (cases "n = 0")
  case False
  assume d: "delim r"
  obtain c t where ct: "show_nat n = c # t" by (cases "show_nat n") auto
  then have "is_digit c" using show_nat_digits [of c n] by simp
  moreover have "c \<noteq> CHR ''0''"
    using show_base_hd [of 10 n] False ct by (simp add: show_nat_def)
  ultimately show ?thesis using takeWhile_show_nat [OF d, of n] ct by (simp add: parse_int_part_def)
qed (simp add: parse_int_part_def)

lemma parse_frac_delim: "delim r \<Longrightarrow> parse_frac r = ([], r)" "delim r \<Longrightarrow> parse_exp r = ([], r)"
  by (cases r; simp add: parse_frac_def parse_exp_def delim_def)+

lemma show_int_starts:
  obtains c t where "show_int i = c # t" "is_digit c"
  | c t where "show_int i = CHR ''-'' # c # t" "is_digit c"
proof (cases "i < 0")
  case True
  obtain c t where "show_nat (nat (- i)) = c # t" by (cases "show_nat (nat (- i))") auto
  with show_nat_digits [of c "nat (- i)"] True that(2) show ?thesis by (simp add: show_int_def)
next
  case False
  obtain c t where "show_nat (nat i) = c # t" by (cases "show_nat (nat i)") auto
  with show_nat_digits [of c "nat i"] False that(1) show ?thesis by (simp add: show_int_def)
qed

lemma digit_neq:
  assumes "is_digit c" "\<not> is_digit d"
  shows "c \<noteq> d"
  using assms by blast

lemma not_digits:
  "\<not> is_digit CHR ''n''" "\<not> is_digit CHR ''t''" "\<not> is_digit CHR ''f''" "\<not> is_digit CHR ''N''"
  "\<not> is_digit CHR ''I''" "\<not> is_digit CHR ''-''" "\<not> is_digit CHR ''[''" "\<not> is_digit CHR ''{''"
  "\<not> is_digit qt"
  by (simp_all add: is_digit_def)

lemmas digit_neqs = not_digits [THEN digit_neq [rotated]]

lemma parse_literal_digit: "is_digit c \<Longrightarrow> parse_literal (c # t) = parse_number (c # t)"
  by (simp add: parse_literal_def starts_with_def digit_neqs)

lemma parse_literal_minus: "is_digit c \<Longrightarrow> parse_literal (CHR ''-'' # c # t) = parse_number (CHR ''-'' # c # t)"
  by (simp add: parse_literal_def starts_with_def digit_neqs)

lemma parse_number_show: "delim r \<Longrightarrow> parse_number (show_int i @ r) = Some (JInt i, r)"
proof -
  assume d: "delim r"
  show ?thesis
  proof (cases "i < 0")
    case True
    with d show ?thesis
      by (simp add: parse_number_def show_int_def parse_int_part_show parse_frac_delim)
        (simp add: show_nat_def read_show_base)
  next
    case False
    obtain c t where ct: "show_nat (nat i) = c # t" by (cases "show_nat (nat i)") auto
    then have "is_digit c" using show_nat_digits [of c "nat i"] by simp
    then have "c \<noteq> CHR ''-''" by (auto simp: is_digit_def)
    with False d ct have "parse_number (show_int i @ r) =
        Some (JInt (int (read_base 10 (show_nat (nat i)))), r)"
      using parse_int_part_show [OF d, of "nat i"]
      by (simp add: parse_number_def show_int_def parse_frac_delim)
    with False show ?thesis by (simp add: show_nat_def read_show_base)
  qed
qed

lemma parse_literal_int: "delim r \<Longrightarrow> parse_literal (show_int i @ r) = Some (JInt i, r)"
proof -
  assume d: "delim r"
  have "parse_literal (show_int i @ r) = parse_number (show_int i @ r)"
  proof (rule show_int_starts [of i])
    fix c t assume "show_int i = c # t" "is_digit c"
    then show ?thesis by (simp only: append_Cons parse_literal_digit)
  next
    fix c t assume "show_int i = CHR ''-'' # c # t" "is_digit c"
    then show ?thesis by (simp only: append_Cons parse_literal_minus)
  qed
  with parse_number_show [OF d] show ?thesis by simp
qed

lemma dict_of_distinct: "distinct (map fst kvs) \<Longrightarrow> dict_of kvs = kvs"
proof -
  let ?f = "\<lambda>d (k, v). if map_of d k = None then d @ [(k, v)]
      else map (\<lambda>(k', v'). (k', if k' = k then v else v')) d"
  have "distinct (map fst (d @ kvs)) \<Longrightarrow> foldl ?f d kvs = d @ kvs" for d :: "(string \<times> json) list"
  proof (induction kvs arbitrary: d)
    case (Cons kv kvs)
    then have "map_of d (fst kv) = None" by (auto simp: map_of_eq_None_iff)
    moreover have "foldl ?f (d @ [kv]) kvs = (d @ [kv]) @ kvs" using Cons by (intro Cons.IH) simp
    ultimately show ?case by (cases kv) simp
  qed simp
  from this [of "[]"] show "distinct (map fst kvs) \<Longrightarrow> dict_of kvs = kvs" by (simp add: dict_of_def)
qed

text \<open>The first character of a printed value is neither white space nor a closing bracket.\<close>

definition starts_value :: "string \<Rightarrow> bool" where
  "starts_value s \<longleftrightarrow> (case s of [] \<Rightarrow> False | c # _ \<Rightarrow> \<not> is_ws c \<and> c \<noteq> CHR '']'' \<and> c \<noteq> CHR ''}'')"

lemma digit_starts: "is_digit c \<Longrightarrow> starts_value (c # s)"
  by (auto simp: starts_value_def is_ws_def is_digit_def)

lemma starts_dumps: "plain j \<Longrightarrow> starts_value (dumps opt j @ r)"
proof (cases j)
  case (JInt i)
  then show ?thesis
    by (rule_tac show_int_starts [of i]) (simp_all add: digit_starts, simp add: starts_value_def is_ws_def)
qed (auto simp: starts_value_def is_ws_def dump_str_def)

lemma skip_ws_starts: "starts_value s \<Longrightarrow> skip_ws s = s"
  by (cases s) (auto simp: starts_value_def skip_ws_id)

lemma starts_join:
  assumes "xs \<noteq> []" "\<And>x r. x \<in> set xs \<Longrightarrow> starts_value (x @ r)"
  shows "starts_value (join sep xs @ r)"
proof (cases xs)
  case (Cons x ys)
  with assms(2) [of x] show ?thesis by (cases ys) auto
qed (use assms in simp)

text \<open>What \<open>parse_value\<close> has to do on one printed value; the lists follow from their elements.\<close>

definition parses :: "json_opts \<Rightarrow> json \<Rightarrow> bool" where
  "parses opt j \<longleftrightarrow> (\<forall>n r. length (dumps opt j) \<le> n \<longrightarrow> delim r \<longrightarrow>
      parse_value n (dumps opt j @ r) = Some (j, r))"

lemma parsesD: "parses opt j \<Longrightarrow> length (dumps opt j) \<le> n \<Longrightarrow> delim r \<Longrightarrow>
    parse_value n (dumps opt j @ r) = Some (j, r)"
  by (simp add: parses_def)

lemma item_sepE:
  assumes "ok_opts opt"
  obtains w where "item_sep opt = CHR '','' # w" "list_all is_ws w"
  using assms by (auto simp: ok_opts_def split: list.splits)

lemma key_sepE:
  assumes "ok_opts opt"
  obtains w where "key_sep opt = CHR '':'' # w" "list_all is_ws w"
  using assms by (auto simp: ok_opts_def split: list.splits)

lemma parse_items_dumps:
  assumes opt: "ok_opts opt"
  shows "xs \<noteq> [] \<Longrightarrow> (\<And>x. x \<in> set xs \<Longrightarrow> parses opt x \<and> plain x) \<Longrightarrow>
    length (join (item_sep opt) (map (dumps opt) xs)) < n \<Longrightarrow>
    parse_items n (join (item_sep opt) (map (dumps opt) xs) @ '']'' @ r) = Some (xs, r)"
proof (induction xs arbitrary: n)
  case (Cons x xs)
  obtain m where n: "n = Suc m" using Cons.prems(3) by (cases n) auto
  obtain w where w: "item_sep opt = CHR '','' # w" "list_all is_ws w" using opt by (rule item_sepE)
  have px: "parses opt x" "plain x" using Cons.prems(2) by auto
  show ?case
  proof (cases "xs = []")
    case True
    with px Cons.prems(3) n show ?thesis by (simp add: parsesD)
  next
    case False
    let ?J = "join (item_sep opt) (map (dumps opt) xs)"
    have "starts_value (?J @ '']'' @ r)"
      using False Cons.prems(2) by (intro starts_join) (auto intro: starts_dumps)
    then have "skip_ws (w @ ?J @ '']'' @ r) = ?J @ '']'' @ r"
      using w by (simp add: skip_ws_starts)
    moreover have "parse_items m (?J @ '']'' @ r) = Some (xs, r)"
      using False Cons.prems n w by (intro Cons.IH) (auto simp: join_Cons)
    moreover have "parse_value m (dumps opt x @ item_sep opt @ ?J @ '']'' @ r)
        = Some (x, item_sep opt @ ?J @ '']'' @ r)"
      using px(1) Cons.prems(3) n w False by (intro parsesD) (simp_all add: join_Cons)
    ultimately show ?thesis using False n w by (simp add: join_Cons)
  qed
qed simp

abbreviation dump_member :: "json_opts \<Rightarrow> string \<times> json \<Rightarrow> string" where
  "dump_member opt \<equiv> \<lambda>(k, v). dump_str (ensure_ascii opt) k @ key_sep opt @ dumps opt v"

lemma parse_member_dumps:
  assumes opt: "ok_opts opt" and px: "parses opt v" "plain v"
    and len: "length (dump_member opt (k, v)) \<le> m" and d: "delim r"
  shows "parse_members (Suc m) (dump_member opt (k, v) @ r) =
    (case skip_ws r of [] \<Rightarrow> None
     | e # w \<Rightarrow> if e = CHR ''}'' then Some ([(k, v)], w)
               else if e = CHR '','' then map_option (apfst (Cons (k, v))) (parse_members m (skip_ws w))
               else None)"
proof -
  obtain w where w: "key_sep opt = CHR '':'' # w" "list_all is_ws w" using opt by (rule key_sepE)
  have "parse_str (concat (map (esc_char (ensure_ascii opt)) k) @ qt # key_sep opt @ dumps opt v @ r)
      = Some (k, key_sep opt @ dumps opt v @ r)" by (rule parse_dump_str)
  moreover have "skip_ws (w @ dumps opt v @ r) = dumps opt v @ r"
    using w px by (simp add: skip_ws_starts starts_dumps)
  moreover have "parse_value m (dumps opt v @ r) = Some (v, r)"
    using px len d by (intro parsesD) simp_all
  ultimately show ?thesis using w by (simp add: dump_str_def)
qed

lemma parse_members_dumps:
  assumes opt: "ok_opts opt"
  shows "kvs \<noteq> [] \<Longrightarrow> (\<And>k v. (k, v) \<in> set kvs \<Longrightarrow> parses opt v \<and> plain v) \<Longrightarrow>
    length (join (item_sep opt) (map (dump_member opt) kvs)) < n \<Longrightarrow>
    parse_members n (join (item_sep opt) (map (dump_member opt) kvs) @ ''}'' @ r) = Some (kvs, r)"
proof (induction kvs arbitrary: n)
  case (Cons kv kvs)
  obtain k v where kv: "kv = (k, v)" by (cases kv)
  obtain m where n: "n = Suc m" using Cons.prems(3) by (cases n) auto
  obtain w where w: "item_sep opt = CHR '','' # w" "list_all is_ws w" using opt by (rule item_sepE)
  have px: "parses opt v" "plain v" using Cons.prems(2) kv by auto
  show ?case
  proof (cases "kvs = []")
    case True
    have "length (dump_member opt (k, v)) \<le> m" using Cons.prems(3) n True kv by simp
    from parse_member_dumps [OF opt px this, of "''}'' @ r"] True kv n show ?thesis by simp
  next
    case False
    let ?J = "join (item_sep opt) (map (dump_member opt) kvs)"
    have "starts_value (?J @ ''}'' @ r)"
      using False by (intro starts_join) (auto simp: dump_str_def starts_value_def is_ws_def)
    then have "skip_ws (w @ ?J @ ''}'' @ r) = ?J @ ''}'' @ r"
      using w by (simp add: skip_ws_starts)
    moreover have "parse_members m (?J @ ''}'' @ r) = Some (kvs, r)"
      using False Cons.prems n w by (intro Cons.IH) (auto simp: join_Cons)
    moreover have "length (dump_member opt (k, v)) \<le> m"
      using Cons.prems(3) n w False kv by (simp add: join_Cons)
    ultimately show ?thesis
      using parse_member_dumps [OF opt px, of k m "item_sep opt @ ?J @ ''}'' @ r"] False kv n w
      by (simp add: join_Cons)
  qed
qed simp

lemma parse_value_atoms:
  "0 < n \<Longrightarrow> parse_value n (CHR ''n'' # CHR ''u'' # CHR ''l'' # CHR ''l'' # r) = Some (JNull, r)"
  "0 < n \<Longrightarrow> parse_value n (CHR ''t'' # CHR ''r'' # CHR ''u'' # CHR ''e'' # r) = Some (JBool True, r)"
  "0 < n \<Longrightarrow> parse_value n (CHR ''f'' # CHR ''a'' # CHR ''l'' # CHR ''s'' # CHR ''e'' # r) = Some (JBool False, r)"
  "0 < n \<Longrightarrow> parse_value n (qt # concat (map (esc_char a) x) @ qt # r) = Some (JStr x, r)"
  by (cases n; simp add: parse_literal_def starts_with_def parse_dump_str)+

lemma parses_plain:
  assumes opt: "ok_opts opt"
  shows "plain j \<Longrightarrow> parses opt j"
proof (induction j)
  case (JInt i)
  have "parse_value n (show_int i @ r) = Some (JInt i, r)" if n: "length (show_int i) \<le> n" and d: "delim r" for n r
  proof -
    have "\<exists>m. n = Suc m" using n show_int_starts [of i] by (metis Suc_le_D length_Cons)
    then obtain m where "n = Suc m" ..
    then show ?thesis using parse_literal_int [OF d, of i]
      by (rule_tac show_int_starts [of i]) (auto simp: digit_neqs)
  qed
  then show ?case by (simp add: parses_def)
next
  case (JList xs)
  have "parse_value n (dumps opt (JList xs) @ r) = Some (JList xs, r)"
    if n: "length (dumps opt (JList xs)) \<le> n" for n r
  proof -
    obtain m where m: "n = Suc m" using n by (cases n) auto
    show ?thesis
    proof (cases "xs = []")
      case False
      let ?J = "join (item_sep opt) (map (dumps opt) xs)"
      have all: "parses opt x \<and> plain x" if "x \<in> set xs" for x
        using JList that by (auto simp: list_all_iff)
      have "starts_value (?J @ '']'' @ r)"
        using False all by (intro starts_join) (auto intro: starts_dumps)
      then obtain d u where "?J @ '']'' @ r = d # u" "skip_ws (d # u) = d # u" "d \<noteq> CHR '']''"
        by (cases "?J @ '']'' @ r") (auto simp: starts_value_def skip_ws_id)
      moreover have "parse_items m (?J @ '']'' @ r) = Some (xs, r)"
        using parse_items_dumps [OF opt False all] n m by simp
      ultimately show ?thesis using m by simp
    qed (use m in simp)
  qed
  then show ?case by (simp add: parses_def)
next
  case (JObj kvs)
  have "parse_value n (dumps opt (JObj kvs) @ r) = Some (JObj kvs, r)"
    if n: "length (dumps opt (JObj kvs)) \<le> n" for n r
  proof -
    obtain m where m: "n = Suc m" using n by (cases n) auto
    show ?thesis
    proof (cases "kvs = []")
      case False
      let ?J = "join (item_sep opt) (map (dump_member opt) kvs)"
      have all: "parses opt v \<and> plain v" if "(k, v) \<in> set kvs" for k v
        using JObj that by (fastforce simp: list_all_iff)
      have "starts_value (?J @ ''}'' @ r)"
        using False by (intro starts_join) (auto simp: dump_str_def starts_value_def is_ws_def)
      then obtain d u where "?J @ ''}'' @ r = d # u" "skip_ws (d # u) = d # u" "d \<noteq> CHR ''}''"
        by (cases "?J @ ''}'' @ r") (auto simp: starts_value_def skip_ws_id)
      moreover have "parse_members m (?J @ ''}'' @ r) = Some (kvs, r)"
        using parse_members_dumps [OF opt False all] n m by simp
      moreover have "dict_of kvs = kvs" using JObj.prems by (simp add: dict_of_distinct)
      ultimately show ?thesis using m by simp
    qed (use m in simp)
  qed
  then show ?case by (simp add: parses_def)
qed (auto simp: parses_def parse_value_atoms dump_str_def Suc_le_eq intro!: parse_value_atoms)

text \<open>
  A parser that returns has consumed something, so the fuel \<open>loads\<close> starts with is enough:
  any larger amount gives the same result.
\<close>

lemma skip_ws_length: "length (skip_ws s) \<le> length s"
  by (simp add: skip_ws_def length_dropWhile_le)

lemma parse_str_length: "parse_str s = Some (k, r) \<Longrightarrow> length r < length s"
  by (induction s arbitrary: k r rule: parse_str.induct)
    (fastforce split: if_splits list.splits option.splits)+

lemma take_digits_length: "length (snd (take_digits s)) \<le> length s"
  by (simp add: take_digits_def length_dropWhile_le)

lemma parse_frac_length: "parse_frac s = (f, r) \<Longrightarrow> length r \<le> length s"
  using take_digits_length [of "tl s"]
  by (auto simp: parse_frac_def split: list.splits if_splits)

lemma parse_exp_length: "parse_exp s = (f, r) \<Longrightarrow> length r \<le> length s"
  using take_digits_length [of "tl s"] take_digits_length [of "tl (tl s)"]
  by (auto simp: parse_exp_def Let_def split: list.splits if_splits)

lemma parse_int_part_length: "parse_int_part s = Some (p, r) \<Longrightarrow> length r < length s"
  using length_dropWhile_le [of is_digit "tl s"]
  by (auto simp: parse_int_part_def take_digits_def split: list.splits if_splits)

lemma parse_number_length: "parse_number s = Some (j, r) \<Longrightarrow> length r < length s"
  by (auto simp: parse_number_def split: list.splits if_splits option.splits prod.splits
      dest!: parse_int_part_length parse_frac_length parse_exp_length)

lemma parse_literal_length: "parse_literal s = Some (j, r) \<Longrightarrow> length r < length s"
  by (auto simp: parse_literal_def starts_with_iff split: if_splits dest: parse_number_length)

lemma parse_consumes:
  "parse_value n s = Some (j, r) \<Longrightarrow> length r < length s"
  "parse_items n s = Some (js, r) \<Longrightarrow> length r < length s"
  "parse_members n s = Some (kvs, r) \<Longrightarrow> length r < length s"
proof (induction n s and n s and n s arbitrary: j r and js r and kvs r
    rule: parse_value_parse_items_parse_members.induct)
  case (2 n s)
  then show ?case
    using skip_ws_length [of "tl s"]
    by (fastforce split: list.splits if_splits dest: parse_str_length parse_literal_length)
next
  case (4 n s)
  then obtain v q where v: "parse_value n s = Some (v, q)" by (auto split: option.splits)
  with 4 have "length q < length s" by simp
  with v 4 skip_ws_length [of q] skip_ws_length [of "tl (skip_ws q)"] show ?case
    by (fastforce split: list.splits if_splits)
next
  case (6 n s)
  then obtain c t k q d u v q2 e w where
    st: "s = c # t" "parse_str t = Some (k, q)" "skip_ws q = d # u"
      "parse_value n (skip_ws u) = Some (v, q2)" "skip_ws q2 = e # w" "c = qt" "d = CHR '':''"
    by (auto split: list.splits if_splits option.splits prod.splits)
  then have "length q2 < length (skip_ws u)" using 6 by simp
  with st parse_str_length [OF st(2)] skip_ws_length [of q] skip_ws_length [of u] skip_ws_length [of q2]
  have le: "length (e # w) < length s" by simp
  show ?case
  proof (cases "e = CHR ''}''")
    case True
    with 6 st le show ?thesis by simp
  next
    case False
    with 6 st have "e = CHR '',''" "parse_members n (skip_ws w) \<noteq> None"
      by (auto split: if_splits)
    with False 6 st le skip_ws_length [of w] show ?thesis by fastforce
  qed
qed simp_all

lemma parse_fuel:
  "2 * length s < n \<Longrightarrow> 2 * length s < m \<Longrightarrow> parse_value n s = parse_value m s"
  "2 * length s + 1 < n \<Longrightarrow> 2 * length s + 1 < m \<Longrightarrow> parse_items n s = parse_items m s"
  "2 * length s < n \<Longrightarrow> 2 * length s < m \<Longrightarrow> parse_members n s = parse_members m s"
proof (induction n s and n s and n s arbitrary: m and m and m
    rule: parse_value_parse_items_parse_members.induct)
  case (2 n s)
  obtain k where m: "m = Suc k" using "2.prems" by (cases m) auto
  show ?case
  proof (cases s)
    case (Cons c t)
    have i: "parse_items n (d # u) = parse_items k (d # u)" if "c = CHR ''[''" "skip_ws t = d # u" "d \<noteq> CHR '']''" for d u
      using 2 that Cons m skip_ws_length [of t] by (auto simp: digit_neqs)
    have o: "parse_members n (d # u) = parse_members k (d # u)" if "c = CHR ''{''" "skip_ws t = d # u" "d \<noteq> CHR ''}''" for d u
      using 2 that Cons m skip_ws_length [of t] by (auto simp: digit_neqs)
    show ?thesis using Cons m i o by (auto split: list.splits)
  qed (use m in simp)
next
  case (4 n s)
  obtain k where m: "m = Suc k" using "4.prems" by (cases m) auto
  have v: "parse_value n s = parse_value k s" using "4.prems" m by (intro "4.IH"(1)) auto
  show ?case
  proof (cases "parse_value k s")
    case (Some vq)
    obtain x q where vq: "vq = (x, q)" by (cases vq)
    have l: "length q < length s" using parse_consumes(1) Some vq by blast
    have "parse_items n (skip_ws u) = parse_items k (skip_ws u)"
      if "skip_ws q = d # u" "d = CHR '',''" for d u
      using that m l v Some vq skip_ws_length [of q] skip_ws_length [of u] "4.prems"
      by (intro "4.IH"(2)) auto
    with v Some vq m show ?thesis by (auto split: list.splits)
  qed (use v m in simp)
next
  case (6 n s)
  obtain k where m: "m = Suc k" using "6.prems" by (cases m) auto
  have v: "parse_value n (skip_ws u) = parse_value k (skip_ws u)"
    if "s = c # t" "c = qt" "parse_str t = Some (key, q)" "skip_ws q = d # u" "d = CHR '':''" for c t key q d u
    using 6 that m parse_str_length [OF that(3)] skip_ws_length [of q] skip_ws_length [of u] by auto
  have w: "parse_members n (skip_ws w) = parse_members k (skip_ws w)"
    if h: "s = c # t" "c = qt" "parse_str t = Some (key, q)" "skip_ws q = d # u" "d = CHR '':''"
      "parse_value n (skip_ws u) = Some (x, q2)" "skip_ws q2 = e # w" "e = CHR '',''" for c t key q d u x q2 e w
  proof -
    have "length q2 < length (skip_ws u)" using parse_consumes(1) h(6) by blast
    with h parse_str_length [OF h(3)] skip_ws_length [of q] skip_ws_length [of u] skip_ws_length [of q2]
      skip_ws_length [of w] have l: "length (skip_ws w) < length s" by simp
    show ?thesis using h l m "6.prems" by (intro "6.IH"(2)) auto
  qed
  show ?case
  proof (cases "\<exists>t key q u. s = qt # t \<and> parse_str t = Some (key, q) \<and> skip_ws q = CHR '':'' # u")
    case True
    then obtain t key q u where h: "s = qt # t" "parse_str t = Some (key, q)" "skip_ws q = CHR '':'' # u"
      by blast
    note vv = v [OF h(1) refl h(2) h(3) refl]
    show ?thesis
    proof (cases "\<exists>x q2 w. parse_value n (skip_ws u) = Some (x, q2) \<and> skip_ws q2 = CHR '','' # w")
      case True
      then obtain x q2 w' where g: "parse_value n (skip_ws u) = Some (x, q2)" "skip_ws q2 = CHR '','' # w'"
        by blast
      from w [OF h(1) refl h(2) h(3) refl g refl] h m show ?thesis
        by (simp add: vv g(2) g(1) [unfolded vv])
    next
      case False
      with vv h m show ?thesis by (cases "parse_value k (skip_ws u)") (auto split: list.splits)
    qed
  next
    case False
    then show ?thesis using m
      by (cases s; cases "parse_str (tl s)") (auto split: list.splits)
  qed
qed simp_all

lemma loads_fuel:
  assumes "2 * length s < n"
  shows "parse_value n (skip_ws s) = parse_value (Suc (2 * length s)) (skip_ws s)"
  using assms skip_ws_length [of s] by (intro parse_fuel(1)) auto

theorem loads_dumps:
  assumes "ok_opts opt" "plain j"
  shows "loads (dumps opt j) = Inr j"
proof -
  have "starts_value (dumps opt j @ [])" using assms(2) by (rule starts_dumps)
  then have "skip_ws (dumps opt j) = dumps opt j" by (simp add: skip_ws_starts)
  moreover have "parse_value (Suc (2 * length (dumps opt j))) (dumps opt j @ []) = Some (j, [])"
    using parses_plain [OF assms] by (intro parsesD) simp_all
  ultimately show ?thesis by (simp add: loads_def del: parse_value.simps)
qed

lemma dumps_inject:
  assumes "ok_opts opt" "plain j" "plain j'" "dumps opt j = dumps opt j'"
  shows "j = j'"
proof -
  have "Inr j = loads (dumps opt j')" using loads_dumps [OF assms(1,2)] assms(4) by (simp only:)
  also have "\<dots> = Inr j'" by (rule loads_dumps [OF assms(1,3)])
  finally show ?thesis by simp
qed

end
