(* ===== verification/Uuid.thy ===== *)
theory Uuid
  imports Json
begin

text \<open>
  \<open>str(uuid.UUID(str(x)))\<close>, the normal form of identifiers: the constructor removes the URN
  prefix, braces and hyphens, wants 32 characters that \<open>int(s, 16)\<close> reads, and \<open>str\<close> prints
  32 lower-case digits in groups of 8, 4, 4, 4 and 12. Main result: normalising twice is
  normalising once.
\<close>

fun str_replace :: "string \<Rightarrow> string \<Rightarrow> nat \<Rightarrow> string \<Rightarrow> string" where
  "str_replace old new skip [] = []"
| "str_replace old new (Suc skip) (c # s) = str_replace old new skip s"
| "str_replace old new 0 (c # s) =
     (if starts_with old (c # s) then new @ str_replace old new (length old - 1) s
      else c # str_replace old new 0 s)"

text \<open>White space \<open>int\<close> skips on either side.\<close>

definition int_space :: "char \<Rightarrow> bool" where
  "int_space c = (let n = code c in (9 \<le> n \<and> n \<le> 13) \<or> n = 32 \<or> n = 133 \<or> n = 160)"

text \<open>Digits with single underscores between them; \<open>und\<close> tells that the last character was one.\<close>

fun hex_digits :: "bool \<Rightarrow> nat \<Rightarrow> string \<Rightarrow> nat option" where
  "hex_digits und acc [] = (if und then None else Some acc)"
| "hex_digits und acc (c # s) =
     (if c = CHR ''_'' then (if und then None else hex_digits True acc s)
      else (case hex_val c of None \<Rightarrow> None | Some d \<Rightarrow> hex_digits False (acc * 16 + d) s))"

text \<open>\<open>int(s, 16)\<close> for a text without hyphens.\<close>

definition int16 :: "string \<Rightarrow> nat option" where
  "int16 s =
     (let t = dropWhile int_space s;
          t = rev (dropWhile int_space (rev t));
          t = (case t of c # u \<Rightarrow> if c = CHR ''+'' then u else t | [] \<Rightarrow> t);
          t = (if starts_with ''0x'' t \<or> starts_with ''0X'' t
               then (case drop 2 t of c # u \<Rightarrow> if c = CHR ''_'' then u else c # u | [] \<Rightarrow> []) else t)
      in case t of [] \<Rightarrow> None | c # u \<Rightarrow> if c = CHR ''_'' then None else hex_digits False 0 t)"

definition hex32 :: "nat \<Rightarrow> string" where
  "hex32 v = (let h = show_base 16 v in replicate (32 - length h) CHR ''0'' @ h)"

definition hyphenate :: "string \<Rightarrow> string" where
  "hyphenate h = take 8 h @ ''-'' @ take 4 (drop 8 h) @ ''-'' @ take 4 (drop 12 h) @ ''-''
     @ take 4 (drop 16 h) @ ''-'' @ drop 20 h"

definition uuid_hex :: "string \<Rightarrow> string" where
  "uuid_hex s = str_replace ''-'' [] 0
     (strip_chars ''{}'' (str_replace ''uuid:'' [] 0 (str_replace ''urn:'' [] 0 s)))"

definition uuid_str :: "string \<Rightarrow> string res" where
  "uuid_str s = (let h = uuid_hex s in
     if length h \<noteq> 32 then raise ValueError ''badly formed hexadecimal UUID string''
     else case int16 h of
       None \<Rightarrow> raise ValueError ''invalid literal for int() with base 16''
     | Some v \<Rightarrow> if v < 2 ^ 128 then Inr (hyphenate (hex32 v))
                else raise ValueError ''int is out of range (need a 128-bit value)'')"

text \<open>
  \<open>uuid.UUID(str(x))\<close> for a JSON value: the printed form of None, a truth value, a float, a list
  or a dict is never 32 hexadecimal digits.
\<close>

definition uuid_of_json :: "json \<Rightarrow> string res" where
  "uuid_of_json j = (case j of
     JStr s \<Rightarrow> uuid_str s
   | JInt i \<Rightarrow> uuid_str (show_int i)
   | _ \<Rightarrow> raise ValueError ''badly formed hexadecimal UUID string'')"

definition is_uuid :: "string \<Rightarrow> bool" where
  "is_uuid s = (case uuid_str s of Inr _ \<Rightarrow> True | Inl _ \<Rightarrow> False)"

subsection \<open>The normal form\<close>

lemma str_replace_absent: "old \<noteq> [] \<Longrightarrow> hd old \<notin> set s \<Longrightarrow> str_replace old new 0 s = s"
  by (induction s) (auto simp: starts_with_def neq_Nil_conv)

lemma str_replace_hyphen: "str_replace ''-'' [] 0 s = filter (\<lambda>c. c \<noteq> CHR ''-'') s"
  by (induction s) (auto simp: starts_with_def)

lemma digit_char_hex: "d < 16 \<Longrightarrow> hex_val (digit_char d) = Some d"
  by (rule hex_val_digit)

definition hex_string :: "string \<Rightarrow> bool" where
  "hex_string s \<longleftrightarrow> list_all is_hex_lower s"

lemma hex_lower_code: "is_hex_lower c \<longleftrightarrow> code c \<in> {48..57} \<union> {97..102}"
  by (auto simp: is_hex_lower_def is_digit_def)

lemma is_hex_digit_char: "d < 16 \<Longrightarrow> is_hex_lower (digit_char d)"
  by (auto simp: hex_lower_code digit_char_def of_char_of)

lemma hex_val_lower: "is_hex_lower c \<Longrightarrow> hex_val c = Some (digit_val c)"
  by (auto simp: hex_lower_code hex_val_def digit_val_def Let_def)

lemma not_hex_lower:
  "\<not> is_hex_lower CHR ''-''" "\<not> is_hex_lower CHR ''u''" "\<not> is_hex_lower CHR ''{''" "\<not> is_hex_lower CHR ''}''"
  "\<not> is_hex_lower CHR ''+''" "\<not> is_hex_lower CHR ''_''" "\<not> is_hex_lower CHR ''x''" "\<not> is_hex_lower CHR ''X''"
  by (simp_all add: hex_lower_code)

lemma hex_not_space: "is_hex_lower c \<Longrightarrow> \<not> int_space c"
  by (auto simp: hex_lower_code int_space_def Let_def)

lemma show_base_16_hex: "hex_string (show_base 16 v)"
proof -
  have "b = 16 \<Longrightarrow> hex_string (show_base b v)" for b
  proof (induction b v rule: show_base.induct)
    case (1 b n)
    then show ?case
      by (cases "n < 16") (simp_all add: show_base.simps [of 16 n] hex_string_def is_hex_digit_char)
  qed
  then show ?thesis by simp
qed

lemma length_show_base: "2 \<le> b \<Longrightarrow> v < b ^ k \<Longrightarrow> 0 < k \<Longrightarrow> length (show_base b v) \<le> k"
proof (induction b v arbitrary: k rule: show_base.induct)
  case (1 b n)
  show ?case
  proof (cases "n < b")
    case True
    with 1 show ?thesis by (simp add: show_base.simps [of b n])
  next
    case False
    obtain j where k: "k = Suc j" using "1.prems"(3) by (cases k) auto
    with False "1.prems" have "0 < j" by (cases j) auto
    moreover have "n div b < b ^ j" using "1.prems" k by (simp add: less_mult_imp_div_less mult.commute)
    ultimately have "length (show_base b (n div b)) \<le> j" using 1 False by simp
    with False "1.prems" k show ?thesis by (simp add: show_base.simps [of b n])
  qed
qed

lemma hex32_length: "v < 2 ^ 128 \<Longrightarrow> length (hex32 v) = 32"
proof -
  assume "v < 2 ^ 128"
  then have "v < 16 ^ 32" by simp
  then have "length (show_base 16 v) \<le> 32" by (intro length_show_base) simp_all
  then show ?thesis by (simp add: hex32_def Let_def)
qed

lemma hex32_hex: "hex_string (hex32 v)"
  using show_base_16_hex [of v] is_hex_digit_char [of 0]
  by (auto simp: hex32_def hex_string_def Let_def list_all_iff is_hex_lower_def is_digit_def)

lemma hex32_value: "read_base 16 (hex32 v) = v"
proof -
  have "foldl (\<lambda>n c. n * 16 + digit_val c) 0 (replicate k CHR ''0'') = 0" for k :: nat
    by (induction k) (simp_all add: digit_val_def)
  then show ?thesis
    using read_show_base [of 16 v] by (simp add: hex32_def Let_def read_base_def)
qed

lemma hex_digits_lower:
  "hex_string s \<Longrightarrow> hex_digits False acc s = Some (foldl (\<lambda>n c. n * 16 + digit_val c) acc s)"
  by (induction s arbitrary: acc) (auto simp: hex_string_def hex_val_lower not_hex_lower)

lemma dropWhile_hex: "hex_string s \<Longrightarrow> dropWhile int_space s = s"
  by (cases s) (auto simp: hex_string_def hex_not_space)

lemma int16_hex:
  assumes "hex_string s" "s \<noteq> []"
  shows "int16 s = Some (read_base 16 s)"
proof -
  have r: "hex_string (rev s)" using assms(1) by (simp add: hex_string_def list_all_iff)
  obtain c u where s: "s = c # u" using assms(2) by (cases s) auto
  have "\<not> starts_with ''0x'' s" "\<not> starts_with ''0X'' s"
    using assms(1) by (auto simp: starts_with_iff hex_string_def not_hex_lower)
  moreover have "c \<noteq> CHR ''+''" "c \<noteq> CHR ''_''"
    using assms(1) s by (auto simp: hex_string_def not_hex_lower)
  moreover have "rev (dropWhile int_space (rev (dropWhile int_space s))) = s"
    by (simp add: dropWhile_hex [OF assms(1)] dropWhile_hex [OF r])
  ultimately have "int16 s = hex_digits False 0 s"
    unfolding int16_def Let_def by (simp add: s)
  then show ?thesis by (simp add: hex_digits_lower [OF assms(1)] read_base_def)
qed

lemma filter_hyphenate:
  assumes "hex_string h"
  shows "filter (\<lambda>c. c \<noteq> CHR ''-'') (hyphenate h) = h"
proof -
  have f: "filter (\<lambda>c. c \<noteq> CHR ''-'') x = x" if "set x \<subseteq> set h" for x
    using that assms not_hex_lower(1) by (intro filter_True) (auto simp: hex_string_def list_all_iff)
  have sub: "set (take i (drop j h)) \<subseteq> set h" "set (take i h) \<subseteq> set h" "set (drop j h) \<subseteq> set h" for i j
    by (meson order_trans set_drop_subset set_take_subset)+
  have "h = take 8 h @ drop 8 h" by simp
  also have "drop 8 h = take 4 (drop 8 h) @ drop 12 h"
    using append_take_drop_id [of 4 "drop 8 h"] by simp
  also have "drop 12 h = take 4 (drop 12 h) @ drop 16 h"
    using append_take_drop_id [of 4 "drop 12 h"] by simp
  also have "drop 16 h = take 4 (drop 16 h) @ drop 20 h"
    using append_take_drop_id [of 4 "drop 16 h"] by simp
  finally show ?thesis by (simp add: hyphenate_def f sub)
qed

lemma set_hyphenate: "set (hyphenate h) \<subseteq> insert CHR ''-'' (set h)"
  by (auto simp: hyphenate_def dest: in_set_takeD in_set_dropD)

lemma uuid_hex_hyphenate:
  assumes "hex_string h" "length h = 32"
  shows "uuid_hex (hyphenate h) = h"
proof -
  have no: "c \<notin> set (hyphenate h)" if "\<not> is_hex_lower c" "c \<noteq> CHR ''-''" for c
    using that assms(1) set_hyphenate [of h] by (auto simp: hex_string_def list_all_iff)
  have "strip_chars ''{}'' (hyphenate h) = hyphenate h"
  proof -
    have "dropWhile (\<lambda>c. c \<in> set ''{}'') x = x" if "set x = set (hyphenate h)" for x
      using that no [of "CHR ''{''"] no [of "CHR ''}''"] by (cases x) (auto simp: not_hex_lower)
    then show ?thesis by (simp add: strip_chars_def)
  qed
  then show ?thesis
    using no [of "CHR ''u''"]
    by (simp add: uuid_hex_def str_replace_absent str_replace_hyphen filter_hyphenate assms(1) not_hex_lower)
qed

lemma uuid_str_hex32: "v < 2 ^ 128 \<Longrightarrow> uuid_str (hyphenate (hex32 v)) = Inr (hyphenate (hex32 v))"
proof -
  assume v: "v < 2 ^ 128"
  then have "hex32 v \<noteq> []" using hex32_length by (metis list.size(3) zero_neq_numeral)
  then show ?thesis
    using uuid_hex_hyphenate [OF hex32_hex hex32_length [OF v]] v
    by (simp add: uuid_str_def Let_def hex32_length int16_hex hex32_hex hex32_value del: power_numeral)
qed

text \<open>The text a successful normalisation returns is its own normal form.\<close>

theorem uuid_str_idem: "uuid_str s = Inr t \<Longrightarrow> uuid_str t = Inr t"
  by (auto simp: uuid_str_def [of s] Let_def split: if_splits option.splits intro: uuid_str_hex32)

lemma uuid_of_json_idem: "uuid_of_json j = Inr t \<Longrightarrow> uuid_of_json (JStr t) = Inr t"
  by (auto simp: uuid_of_json_def split: json.splits intro: uuid_str_idem)

lemma uuid_str_length: "uuid_str s = Inr t \<Longrightarrow> length t = 36"
  by (auto simp: uuid_str_def Let_def hyphenate_def hex32_length split: if_splits option.splits)

end
