(* ===== verification/TaskStore.thy ===== *)
theory TaskStore
  imports Tables Uuid
begin

text \<open>
  The durable state of the control plane and its transactions: the PostgreSQL tables \<open>tasks\<close>,
  \<open>provider_attempts\<close>, \<open>cost_events\<close>, \<open>task_outbox\<close> and \<open>worker_heartbeats\<close>, and every transaction
  that \<open>orchestrator/worker.py\<close> and \<open>dashboard/app.py\<close> run on them. A transaction is a function of
  the tables; a raise inside it is an exception and leaves them as they were (psycopg rolls
  back). \<open>now\<close> is the transaction's time, in microseconds; fresh identifiers are arguments.
\<close>

type_synonym time = int
type_synonym dict = "(string \<times> json) list"

definition secs :: "int \<Rightarrow> time" where
  "secs n = 1000000 * n"

subsection \<open>Configuration\<close>

record config =
  poll_seconds :: int
  retry_attempts :: int
  task_lease_seconds :: int
  recovery_interval_seconds :: int
  orphaned_queued_seconds :: int
  outbox_dispatch_interval_seconds :: int
  outbox_claim_seconds :: int
  outbox_batch_size :: int
  outbox_retention_seconds :: int
  outbox_cleanup_interval_seconds :: int

text \<open>\<open>env\<close> gives the integer values of the environment variables that are set.\<close>

definition env_int :: "(string \<Rightarrow> int option) \<Rightarrow> string \<Rightarrow> int \<Rightarrow> int" where
  "env_int env k d = (case env k of None \<Rightarrow> d | Some v \<Rightarrow> v)"

definition load_config :: "(string \<Rightarrow> int option) \<Rightarrow> config" where
  "load_config env = \<lparr>
     poll_seconds = env_int env ''ORCHESTRATOR_POLL_SECONDS'' 3,
     retry_attempts = env_int env ''GIGACHAT_RETRY_ATTEMPTS'' 5,
     task_lease_seconds = max 180 (env_int env ''ORCHESTRATOR_TASK_LEASE_SECONDS'' 900),
     recovery_interval_seconds = max 15 (env_int env ''ORCHESTRATOR_RECOVERY_INTERVAL_SECONDS'' 60),
     orphaned_queued_seconds = max 300 (env_int env ''ORCHESTRATOR_ORPHANED_QUEUED_SECONDS'' 1800),
     outbox_dispatch_interval_seconds = max 1 (env_int env ''ORCHESTRATOR_OUTBOX_DISPATCH_INTERVAL_SECONDS'' 3),
     outbox_claim_seconds = max 30 (env_int env ''ORCHESTRATOR_OUTBOX_CLAIM_SECONDS'' 90),
     outbox_batch_size = max 1 (env_int env ''ORCHESTRATOR_OUTBOX_BATCH_SIZE'' 16),
     outbox_retention_seconds = max 3600 (env_int env ''ORCHESTRATOR_OUTBOX_RETENTION_SECONDS'' 604800),
     outbox_cleanup_interval_seconds = max 60 (env_int env ''ORCHESTRATOR_OUTBOX_CLEANUP_INTERVAL_SECONDS'' 3600)\<rparr>"

text \<open>
  What psycopg and PostgreSQL do with a parameter is not the repository's code: binding a JSON
  value to a TEXT, UUID, INTEGER, NUMERIC or JSONB column gives the stored value or an error.
\<close>

record ext =
  pg_text :: "json \<Rightarrow> string option res"
  pg_uuid :: "json \<Rightarrow> string res"
  pg_int :: "json \<Rightarrow> int option res"
  pg_num :: "json \<Rightarrow> rat option res"
  pg_jsonb :: "json \<Rightarrow> json res"

subsection \<open>Tables\<close>

datatype task_status = Queued | Running | Succeeded | Failed
datatype attempt_status = Inflight | Completed | AttemptFailed | OutcomeUnknown

record task_row =
  created_at :: time
  started_at :: "time option"
  completed_at :: "time option"
  status :: task_status
  provider :: "string option"
  model :: "string option"
  credential_lane :: "string option"
  request_ref :: "string option"
  result :: "json option"
  execution_id :: "string option"
  error_message :: "string option"

record attempt_row =
  a_provider :: string
  a_model :: "string option"
  a_lane :: "string option"
  a_status :: attempt_status
  a_started_at :: time
  a_concluded_at :: "time option"
  a_error :: "string option"

record cost_row =
  c_provider :: string
  c_model :: "string option"
  c_input_tokens :: "int option"
  c_output_tokens :: "int option"
  c_amount :: "rat option"
  c_raw_usage :: json
  c_recorded_at :: time

record outbox_row =
  o_payload :: json
  o_created_at :: time
  o_delivered_at :: "time option"
  o_claim_id :: "string option"
  o_claimed_at :: "time option"
  o_attempts :: nat
  o_last_error :: "string option"

record heartbeat_row =
  last_seen :: time
  hb_status :: string

record db =
  tasks :: "(string, task_row) table"
  provider_attempts :: "(string \<times> string, attempt_row) table"
  cost_events :: "(string \<times> string, cost_row) table"
  task_outbox :: "(string, outbox_row) table"
  worker_heartbeats :: "(string, heartbeat_row) table"

definition empty_db :: db where
  "empty_db = \<lparr>tasks = [], provider_attempts = [], cost_events = [], task_outbox = [], worker_heartbeats = []\<rparr>"

definition terminal :: "task_row \<Rightarrow> bool" where
  "terminal r \<longleftrightarrow> status r = Succeeded \<or> status r = Failed"

definition VALID_CREDENTIAL_LANES :: "string list" where
  "VALID_CREDENTIAL_LANES = [''primary'', ''freemium'']"

subsection \<open>Errors that are safe to store\<close>

text \<open>
  \<open>type(exc).__name__\<close>. The drivers raise subclasses of \<open>RedisError\<close> and \<open>psycopg.Error\<close>; the model keeps
  the class the code catches, so the stored name of such an error stands for that of its subclass.
\<close>

definition class_name :: "exn_class \<Rightarrow> string" where
  "class_name c = (case c of
     PsycopgError \<Rightarrow> ''Error'' | ValueError \<Rightarrow> ''ValueError'' | TypeError \<Rightarrow> ''TypeError''
   | KeyError \<Rightarrow> ''KeyError'' | AttributeError \<Rightarrow> ''AttributeError''
   | IndexError \<Rightarrow> ''IndexError'' | RuntimeError \<Rightarrow> ''RuntimeError''
   | JSONDecodeError \<Rightarrow> ''JSONDecodeError'' | UnicodeDecodeError \<Rightarrow> ''UnicodeDecodeError''
   | ZeroDivisionError \<Rightarrow> ''ZeroDivisionError'' | OverflowError \<Rightarrow> ''OverflowError''
   | OSError \<Rightarrow> ''OSError'' | HTTPError \<Rightarrow> ''HTTPError'' | URLError \<Rightarrow> ''URLError''
   | TimeoutError \<Rightarrow> ''TimeoutError'' | RedisError \<Rightarrow> ''RedisError''
   | ProviderError \<Rightarrow> ''ProviderError'' | AgentRolePolicyError \<Rightarrow> ''AgentRolePolicyError''
   | AgentTransitionPolicyError \<Rightarrow> ''AgentTransitionPolicyError''
   | AgentBudgetPolicyError \<Rightarrow> ''AgentBudgetPolicyError''
   | AgentReceiptPolicyError \<Rightarrow> ''AgentReceiptPolicyError''
   | EngineeringPolicyError \<Rightarrow> ''EngineeringPolicyError'' | McpPolicyError \<Rightarrow> ''McpPolicyError''
   | RunTracePolicyError \<Rightarrow> ''RunTracePolicyError''
   | ResearchEvidencePolicyError \<Rightarrow> ''ResearchEvidencePolicyError''
   | ItResearchError \<Rightarrow> ''ItResearchError'' | ItResearchStorageError \<Rightarrow> ''ItResearchStorageError''
   | ClaimReviewError \<Rightarrow> ''ClaimReviewError'' | DocumentCardError \<Rightarrow> ''DocumentCardError''
   | DiagramCardError \<Rightarrow> ''DiagramCardError'' | SolutionMemoryError \<Rightarrow> ''SolutionMemoryError''
   | EvaluatorEvolutionError \<Rightarrow> ''EvaluatorEvolutionError''
   | EvaluatorStorageError \<Rightarrow> ''EvaluatorStorageError'' | SemanticHoldoutError \<Rightarrow> ''SemanticHoldoutError''
   | ResponseReplayDiagnosticError \<Rightarrow> ''ResponseReplayDiagnosticError''
   | GigaChatResponseReplayError \<Rightarrow> ''GigaChatResponseReplayError''
   | FullTextVerificationError \<Rightarrow> ''FullTextVerificationError''
   | PublisherFullTextError \<Rightarrow> ''PublisherFullTextError''
   | PublisherEvidenceError \<Rightarrow> ''PublisherEvidenceError''
   | LicenseVerificationError \<Rightarrow> ''LicenseVerificationError''
   | ArtifactVerificationError \<Rightarrow> ''ArtifactVerificationError''
   | GigaChatRetryError \<Rightarrow> ''GigaChatRetryError'' | AssertionError \<Rightarrow> ''AssertionError''
   | SystemExit \<Rightarrow> ''SystemExit'' | HTTPException \<Rightarrow> ''HTTPException'')"

definition safe_error_message :: "exn \<Rightarrow> string" where
  "safe_error_message e =
     (if exn_class e = ProviderError then take 1000 (exn_msg e)
      else ''internal error: '' @ class_name (exn_class e))"

subsection \<open>Inserting a queued task\<close>

text \<open>
  The five parameters both \<open>INSERT INTO tasks\<close> statements bind, in their order, and the CHECK
  constraint on the lane.
\<close>

definition insert_queued_task ::
    "ext \<Rightarrow> time \<Rightarrow> json \<Rightarrow> dict \<Rightarrow> db \<Rightarrow> (string \<times> bool \<times> db) res" where
  "insert_queued_task X now tid payload d =
     bindR (pg_uuid X tid) (\<lambda>tk.
     bindR (pg_text X (jget payload ''provider'')) (\<lambda>prov.
     bindR (pg_text X (jget payload ''model'')) (\<lambda>mdl.
     bindR (pg_text X (jget payload ''credential_lane'')) (\<lambda>lane.
     bindR (pg_text X (jget payload ''request_ref'')) (\<lambda>ref.
     thenR (raise_if (case lane of None \<Rightarrow> False | Some l \<Rightarrow> l \<notin> set VALID_CREDENTIAL_LANES)
              PsycopgError ''check violation'')
       (Inr (tk, row (tasks d) tk = None,
          d\<lparr>tasks := insert_nothing tk
             \<lparr>created_at = now, started_at = None, completed_at = None, status = Queued,
              provider = prov, model = mdl, credential_lane = lane, request_ref = ref,
              result = None, execution_id = None, error_message = None\<rparr> (tasks d)\<rparr>)))))))"

subsection \<open>claim_task\<close>

text \<open>The most recently started attempt of a list, the first one among equals.\<close>

fun newest_attempt :: "((string \<times> string) \<times> attempt_row) list \<Rightarrow> string option" where
  "newest_attempt [] = None"
| "newest_attempt (((t, e), a) # xs) =
     (if list_all (\<lambda>(_, b). a_started_at b \<le> a_started_at a) xs then Some e else newest_attempt xs)"

definition inflight_attempt :: "db \<Rightarrow> string \<Rightarrow> string option" where
  "inflight_attempt d tk =
     newest_attempt (filter (\<lambda>((t, e), a). t = tk \<and> a_status a = Inflight) (provider_attempts d))"

definition mark_uncertain :: "time \<Rightarrow> string \<Rightarrow> string \<Rightarrow> db \<Rightarrow> db" where
  "mark_uncertain now tk e d = d\<lparr>
     tasks := update_where (\<lambda>k r. k = tk \<and> status r = Queued)
       (\<lambda>r. r\<lparr>status := Failed, completed_at := Some now,
              error_message := Some ''Provider outcome is uncertain; automatic retry is blocked''\<rparr>) (tasks d),
     provider_attempts := update_where (\<lambda>k a. k = (tk, e) \<and> a_status a = Inflight)
       (\<lambda>a. a\<lparr>a_status := OutcomeUnknown, a_concluded_at := Some now\<rparr>) (provider_attempts d)\<rparr>"

definition start_queued :: "time \<Rightarrow> string \<Rightarrow> string \<Rightarrow> db \<Rightarrow> db" where
  "start_queued now e tk d = d\<lparr>
     tasks := update_where (\<lambda>k r. k = tk \<and> status r = Queued)
       (\<lambda>r. r\<lparr>status := Running, started_at := Some now, completed_at := None,
              error_message := None, execution_id := Some e\<rparr>) (tasks d)\<rparr>"

definition is_queued :: "db \<Rightarrow> string \<Rightarrow> bool" where
  "is_queued d tk \<longleftrightarrow> (case row (tasks d) tk of None \<Rightarrow> False | Some r \<Rightarrow> status r = Queued)"

definition claim_task ::
    "ext \<Rightarrow> time \<Rightarrow> string \<Rightarrow> json \<Rightarrow> dict \<Rightarrow> db \<Rightarrow> (string option \<times> db) res" where
  "claim_task X now exec tid payload d =
     bindR (insert_queued_task X now tid payload d) (\<lambda>(tk, _, d1).
       case inflight_attempt d1 tk of
         Some e \<Rightarrow> Inr (None, mark_uncertain now tk e d1)
       | None \<Rightarrow> Inr (if is_queued d1 tk then Some exec else None, start_queued now exec tk d1))"

subsection \<open>Recording what a provider did\<close>

definition record_provider_attempt ::
    "ext \<Rightarrow> time \<Rightarrow> json \<Rightarrow> string \<Rightarrow> dict \<Rightarrow> db \<Rightarrow> db res" where
  "record_provider_attempt X now tid exec payload d =
     bindR (pg_uuid X tid) (\<lambda>tk.
     bindR (pg_text X (jget payload ''provider'')) (\<lambda>prov.
     bindR (pg_text X (jget payload ''model'')) (\<lambda>mdl.
     bindR (pg_text X (jget payload ''credential_lane'')) (\<lambda>lane.
       case prov of
         None \<Rightarrow> raise PsycopgError ''not-null violation''
       | Some p \<Rightarrow>
          if row (provider_attempts d) (tk, exec) = None \<and> row (tasks d) tk = None
          then raise PsycopgError ''foreign key violation''
          else Inr (d\<lparr>provider_attempts := insert_nothing (tk, exec)
             \<lparr>a_provider = p, a_model = mdl, a_lane = lane, a_status = Inflight,
              a_started_at = now, a_concluded_at = None, a_error = None\<rparr> (provider_attempts d)\<rparr>)))))"

text \<open>\<open>usage.get(k1, usage.get(k2, ...))\<close> with a default for a key that is absent throughout.\<close>

fun get_first :: "dict \<Rightarrow> string list \<Rightarrow> json \<Rightarrow> json" where
  "get_first u [] dflt = dflt"
| "get_first u (k # ks) dflt = (case map_of u k of Some v \<Rightarrow> v | None \<Rightarrow> get_first u ks dflt)"

definition check_nonneg :: "int option \<Rightarrow> unit res" where
  "check_nonneg i = raise_if (case i of None \<Rightarrow> False | Some n \<Rightarrow> n < 0) PsycopgError ''check violation''"

text \<open>The cost receipt both \<open>record_completion\<close> and \<open>record_cost\<close> insert.\<close>

definition insert_cost ::
    "ext \<Rightarrow> time \<Rightarrow> string \<Rightarrow> string \<Rightarrow> string \<Rightarrow> json \<Rightarrow> dict \<Rightarrow> json \<Rightarrow> json \<Rightarrow> db \<Rightarrow> db res" where
  "insert_cost X now tk exec prov mdl usage lane amount d =
     bindR (pg_text X mdl) (\<lambda>m.
     bindR (pg_int X (get_first usage [''prompt_tokens'', ''input_tokens'', ''total_tokens''] JNull)) (\<lambda>i.
     bindR (pg_int X (get_first usage [''completion_tokens'', ''output_tokens''] (JInt 0))) (\<lambda>ou.
     bindR (pg_num X amount) (\<lambda>am.
     bindR (pg_jsonb X (JObj [(''usage'', JObj usage), (''credential_lane'', lane)])) (\<lambda>raw.
     thenR (check_nonneg i) (thenR (check_nonneg ou)
     (thenR (raise_if (case am of None \<Rightarrow> False | Some q \<Rightarrow> q < 0) PsycopgError ''check violation'')
     (thenR (raise_if (row (cost_events d) (tk, exec) = None \<and> row (tasks d) tk = None)
         PsycopgError ''foreign key violation'')
       (Inr (d\<lparr>cost_events := insert_nothing (tk, exec)
          \<lparr>c_provider = prov, c_model = m, c_input_tokens = i, c_output_tokens = ou, c_amount = am,
           c_raw_usage = raw, c_recorded_at = now\<rparr> (cost_events d)\<rparr>))))))))))"

text \<open>The guard that fences a write: the row still runs under this execution lease.\<close>

definition holds_lease :: "string \<Rightarrow> string \<Rightarrow> string \<Rightarrow> task_row \<Rightarrow> bool" where
  "holds_lease tk exec k r \<longleftrightarrow> k = tk \<and> status r = Running \<and> execution_id r = Some exec"

definition finish_task :: "time \<Rightarrow> string option \<Rightarrow> json \<Rightarrow> task_row \<Rightarrow> task_row" where
  "finish_task now m res r = r\<lparr>status := Succeeded, completed_at := Some now,
     model := (case m of None \<Rightarrow> model r | Some x \<Rightarrow> Some x), result := Some res\<rparr>"

definition conclude_attempt ::
    "time \<Rightarrow> string \<Rightarrow> string \<Rightarrow> attempt_status \<Rightarrow> string option \<Rightarrow> db \<Rightarrow> db" where
  "conclude_attempt now tk exec st err d = d\<lparr>provider_attempts :=
     update_where (\<lambda>k a. k = (tk, exec) \<and> a_status a = Inflight)
       (\<lambda>a. a\<lparr>a_status := st, a_concluded_at := Some now,
             a_error := (case err of None \<Rightarrow> a_error a | Some m \<Rightarrow> Some m)\<rparr>) (provider_attempts d)\<rparr>"

definition record_completion ::
    "ext \<Rightarrow> time \<Rightarrow> json \<Rightarrow> string \<Rightarrow> string \<Rightarrow> dict \<Rightarrow> dict \<Rightarrow> json \<Rightarrow> json \<Rightarrow> db \<Rightarrow> (bool \<times> db) res" where
  "record_completion X now tid exec prov res usage lane amount d =
     bindR (pg_uuid X tid) (\<lambda>tk.
     bindR (insert_cost X now tk exec prov (jget res ''model'') usage lane amount d) (\<lambda>d1.
     bindR (pg_text X (jget res ''model'')) (\<lambda>m.
     bindR (pg_jsonb X (JObj res)) (\<lambda>rj.
       Inr (row_count (holds_lease tk exec) (tasks d1) = 1,
            conclude_attempt now tk exec Completed None
              (d1\<lparr>tasks := update_where (holds_lease tk exec) (finish_task now m rj) (tasks d1)\<rparr>))))))"

definition record_failed ::
    "ext \<Rightarrow> time \<Rightarrow> json \<Rightarrow> string \<Rightarrow> exn \<Rightarrow> db \<Rightarrow> (bool \<times> db) res" where
  "record_failed X now tid exec e d =
     bindR (pg_uuid X tid) (\<lambda>tk.
       Inr (row_count (holds_lease tk exec) (tasks d) = 1,
            conclude_attempt now tk exec AttemptFailed (Some (safe_error_message e))
              (d\<lparr>tasks := update_where (holds_lease tk exec)
                 (\<lambda>r. r\<lparr>status := Failed, completed_at := Some now,
                        error_message := Some (safe_error_message e)\<rparr>) (tasks d)\<rparr>)))"

definition record_succeeded ::
    "ext \<Rightarrow> time \<Rightarrow> json \<Rightarrow> string \<Rightarrow> dict \<Rightarrow> db \<Rightarrow> (bool \<times> db) res" where
  "record_succeeded X now tid exec res d =
     bindR (pg_uuid X tid) (\<lambda>tk.
     bindR (pg_text X (jget res ''model'')) (\<lambda>m.
     bindR (pg_jsonb X (JObj res)) (\<lambda>rj.
       Inr (row_count (holds_lease tk exec) (tasks d) = 1,
            d\<lparr>tasks := update_where (holds_lease tk exec) (finish_task now m rj) (tasks d)\<rparr>))))"

definition record_cost ::
    "ext \<Rightarrow> time \<Rightarrow> json \<Rightarrow> string \<Rightarrow> string \<Rightarrow> json \<Rightarrow> dict \<Rightarrow> json \<Rightarrow> json \<Rightarrow> db \<Rightarrow> db res" where
  "record_cost X now tid exec prov mdl usage lane amount d =
     bindR (pg_uuid X tid) (\<lambda>tk. insert_cost X now tk exec prov mdl usage lane amount d)"

subsection \<open>The dispatch outbox\<close>

text \<open>\<open>ORDER BY created_at LIMIT n\<close> on the rows a condition selects.\<close>

definition oldest_first :: "(string \<times> outbox_row) list \<Rightarrow> (string \<times> outbox_row) list" where
  "oldest_first rs = sort_key (\<lambda>(_, b). o_created_at b) rs"

definition outbox_due :: "config \<Rightarrow> time \<Rightarrow> db \<Rightarrow> string \<Rightarrow> outbox_row \<Rightarrow> bool" where
  "outbox_due C now d k b \<longleftrightarrow>
     o_delivered_at b = None \<and> is_queued d k \<and>
     (case o_claimed_at b of None \<Rightarrow> True | Some t \<Rightarrow> t < now - secs (outbox_claim_seconds C))"

text \<open>\<open>locked\<close> are the rows another transaction holds, which \<open>SKIP LOCKED\<close> passes over.\<close>

definition outbox_candidates :: "config \<Rightarrow> time \<Rightarrow> (string \<Rightarrow> bool) \<Rightarrow> db \<Rightarrow> string list" where
  "outbox_candidates C now locked d =
     map fst (take (nat (outbox_batch_size C))
       (oldest_first (filter (\<lambda>(k, b). outbox_due C now d k b \<and> \<not> locked k) (task_outbox d))))"

definition claim_pending_outbox ::
    "config \<Rightarrow> time \<Rightarrow> (string \<Rightarrow> bool) \<Rightarrow> string \<Rightarrow> db \<Rightarrow> (string \<times> json \<times> string) list \<times> db" where
  "claim_pending_outbox C now locked claim d =
     (let ks = outbox_candidates C now locked d;
          t = update_where (\<lambda>k _. k \<in> set ks)
            (\<lambda>b. b\<lparr>o_claim_id := Some claim, o_claimed_at := Some now,
                   o_attempts := o_attempts b + 1, o_last_error := None\<rparr>) (task_outbox d)
      in (map (\<lambda>(k, b). (k, o_payload b, claim)) (filter (\<lambda>(k, _). k \<in> set ks) t),
          d\<lparr>task_outbox := t\<rparr>))"

definition outbox_claimed_by :: "string \<Rightarrow> string \<Rightarrow> string \<Rightarrow> outbox_row \<Rightarrow> bool" where
  "outbox_claimed_by tk claim k b \<longleftrightarrow> k = tk \<and> o_delivered_at b = None \<and> o_claim_id b = Some claim"

definition mark_outbox_delivered :: "time \<Rightarrow> string \<Rightarrow> string \<Rightarrow> db \<Rightarrow> bool \<times> db" where
  "mark_outbox_delivered now tk claim d =
     (row_count (outbox_claimed_by tk claim) (task_outbox d) = 1,
      d\<lparr>task_outbox := update_where (outbox_claimed_by tk claim)
         (\<lambda>b. b\<lparr>o_delivered_at := Some now, o_claim_id := None, o_claimed_at := None,
                o_last_error := None\<rparr>) (task_outbox d)\<rparr>)"

definition record_outbox_delivery_error :: "string \<Rightarrow> string \<Rightarrow> exn \<Rightarrow> db \<Rightarrow> db" where
  "record_outbox_delivery_error tk claim e d =
     d\<lparr>task_outbox := update_where (outbox_claimed_by tk claim)
        (\<lambda>b. b\<lparr>o_last_error := Some (''delivery error: '' @ class_name (exn_class e))\<rparr>) (task_outbox d)\<rparr>"

definition outbox_expired :: "config \<Rightarrow> time \<Rightarrow> db \<Rightarrow> string \<Rightarrow> outbox_row \<Rightarrow> bool" where
  "outbox_expired C now d k b \<longleftrightarrow>
     (case row (tasks d) k of None \<Rightarrow> False | Some r \<Rightarrow> terminal r) \<and>
     (case o_delivered_at b of None \<Rightarrow> False | Some t \<Rightarrow> t < now - secs (outbox_retention_seconds C))"

definition cleanup_terminal_outbox :: "config \<Rightarrow> time \<Rightarrow> db \<Rightarrow> nat \<times> db" where
  "cleanup_terminal_outbox C now d =
     (row_count (outbox_expired C now d) (task_outbox d),
      d\<lparr>task_outbox := delete_where (outbox_expired C now d) (task_outbox d)\<rparr>)"

subsection \<open>The reaper of orphaned queued rows\<close>

definition orphan_age :: "config \<Rightarrow> time \<Rightarrow> task_row \<Rightarrow> bool" where
  "orphan_age C now r \<longleftrightarrow> status r = Queued \<and> created_at r < now - secs (orphaned_queued_seconds C)"

definition reap_one :: "config \<Rightarrow> time \<Rightarrow> string \<Rightarrow> db \<Rightarrow> db" where
  "reap_one C now tk d = d\<lparr>tasks := update_where (\<lambda>k r. k = tk \<and> orphan_age C now r)
     (\<lambda>r. r\<lparr>status := Failed, completed_at := Some now,
            error_message := Some ''Task delivery was not observed before queue timeout''\<rparr>) (tasks d)\<rparr>"

text \<open>The reaper's transaction, given the task identifiers it observed in the Redis lists.\<close>

fun reap_each :: "config \<Rightarrow> time \<Rightarrow> string list \<Rightarrow> string list \<Rightarrow> db \<Rightarrow> db" where
  "reap_each C now observed [] d = d"
| "reap_each C now observed (tk # ks) d =
     (if tk \<in> set observed then reap_each C now observed ks d
      else reap_each C now observed ks (reap_one C now tk d))"

definition reap_txn :: "config \<Rightarrow> time \<Rightarrow> string list \<Rightarrow> db \<Rightarrow> db" where
  "reap_txn C now observed d =
     reap_each C now observed (map fst (filter (\<lambda>(k, r). orphan_age C now r) (tasks d))) d"

subsection \<open>Recovery of one processing delivery\<close>

definition lease_expired :: "config \<Rightarrow> time \<Rightarrow> task_row \<Rightarrow> bool" where
  "lease_expired C now r \<longleftrightarrow> status r = Running \<and>
     (case started_at r of None \<Rightarrow> False | Some t \<Rightarrow> t < now - secs (task_lease_seconds C))"

definition recoverable :: "config \<Rightarrow> time \<Rightarrow> string \<Rightarrow> string \<Rightarrow> task_row \<Rightarrow> bool" where
  "recoverable C now tk k r \<longleftrightarrow> k = tk \<and> (status r = Queued \<or> lease_expired C now r)"

text \<open>
  The transaction of the loop body of \<open>recover_stale_deliveries\<close>: the flags \<open>recovered\<close> and
  \<open>terminal\<close>, and the tables.
\<close>

definition recover_txn ::
    "ext \<Rightarrow> config \<Rightarrow> time \<Rightarrow> string \<Rightarrow> dict \<Rightarrow> db \<Rightarrow> (bool \<times> bool \<times> db) res" where
  "recover_txn X C now tk payload d =
     bindR (insert_queued_task X now (JStr tk) payload d) (\<lambda>(k, inserted, d1).
       if inserted then Inr (True, False, d1)
       else if row_count (recoverable C now k) (tasks d1) \<noteq> 0
       then Inr (True, False, d1\<lparr>tasks := update_where (recoverable C now k)
              (\<lambda>r. r\<lparr>status := Queued, started_at := None, execution_id := None\<rparr>) (tasks d1)\<rparr>)
       else Inr (False, (case row (tasks d1) k of None \<Rightarrow> False | Some r \<Rightarrow> terminal r), d1))"

subsection \<open>Heartbeats\<close>

definition write_heartbeat :: "time \<Rightarrow> string \<Rightarrow> string \<Rightarrow> db \<Rightarrow> db" where
  "write_heartbeat now name st d = d\<lparr>worker_heartbeats :=
     upsert name \<lparr>last_seen = now, hb_status = st\<rparr>
       (\<lambda>_. \<lparr>last_seen = now, hb_status = st\<rparr>) (worker_heartbeats d)\<rparr>"

text \<open>
  \<open>heartbeat(status)\<close> with the module variable \<open>last_heartbeat_at\<close>: an idle worker writes at most
  every 30 seconds; \<open>ok\<close> tells whether the transaction went through (a failure is only logged).
\<close>

definition heartbeat :: "time \<Rightarrow> bool \<Rightarrow> string \<Rightarrow> string \<Rightarrow> time \<times> db \<Rightarrow> time \<times> db" where
  "heartbeat now ok name st s = (case s of (last_at, d) \<Rightarrow>
     if st = ''idle'' \<and> now - last_at < secs 30 then (last_at, d)
     else if ok then (now, write_heartbeat now name st d) else (last_at, d))"

subsection \<open>What the dashboard writes\<close>

definition daily_lane_task_count :: "time \<Rightarrow> string \<Rightarrow> db \<Rightarrow> nat" where
  "daily_lane_task_count now lane d =
     row_count (\<lambda>_ r. credential_lane r = Some lane \<and> now - secs 86400 < created_at r) (tasks d)"

definition record_queued_task ::
    "ext \<Rightarrow> time \<Rightarrow> string \<Rightarrow> dict \<Rightarrow> db \<Rightarrow> db res" where
  "record_queued_task X now tk payload d =
     thenR (forR (\<lambda>k. raise_if (map_of payload k = None) KeyError k)
              [''provider'', ''model'', ''credential_lane'', ''request_ref''])
     (bindR (insert_queued_task X now (JStr tk) payload d) (\<lambda>(k, _, d1).
      bindR (pg_jsonb X (JObj payload)) (\<lambda>pj.
        Inr (d1\<lparr>task_outbox := insert_nothing k
           \<lparr>o_payload = pj, o_created_at = now, o_delivered_at = None, o_claim_id = None,
            o_claimed_at = None, o_attempts = 0, o_last_error = None\<rparr> (task_outbox d1)\<rparr>))))"

end
