(* ===== verification/Queues.thy ===== *)
theory Queues
  imports Prelude "HOL-Library.Multiset"
begin

text \<open>
  The three Redis lists of the control plane (\<open>neuro-lab:tasks\<close>, its processing list and the
  dead-letter list) and the commands \<open>orchestrator/worker.py\<close> issues on them: \<open>RPUSH\<close>, \<open>BLMOVE\<close>
  from left to right, \<open>LREM 1\<close> and the two Lua scripts that move one exact delivery. The locale
  \<open>delivery_moves\<close> states what the worker relies on: a move neither loses nor duplicates a delivery.
\<close>

record queues =
  task_q :: "string list"
  processing_q :: "string list"
  dead_q :: "string list"

definition no_queues :: queues where
  "no_queues = \<lparr>task_q = [], processing_q = [], dead_q = []\<rparr>"

definition rpush_task :: "string \<Rightarrow> queues \<Rightarrow> queues" where
  "rpush_task raw q = q\<lparr>task_q := task_q q @ [raw]\<rparr>"

definition rpush_dead :: "string \<Rightarrow> queues \<Rightarrow> queues" where
  "rpush_dead raw q = q\<lparr>dead_q := dead_q q @ [raw]\<rparr>"

text \<open>\<open>BLMOVE tasks processing LEFT RIGHT\<close>; a time-out returns nothing.\<close>

definition blmove :: "queues \<Rightarrow> string option \<times> queues" where
  "blmove q = (case task_q q of
     [] \<Rightarrow> (None, q)
   | raw # rest \<Rightarrow> (Some raw, q\<lparr>task_q := rest, processing_q := processing_q q @ [raw]\<rparr>))"

text \<open>\<open>LREM processing 1 raw\<close>: the first equal element, and how many were removed.\<close>

definition lrem_processing :: "string \<Rightarrow> queues \<Rightarrow> nat \<times> queues" where
  "lrem_processing raw q =
     (if raw \<in> set (processing_q q) then 1 else 0, q\<lparr>processing_q := remove1 raw (processing_q q)\<rparr>)"

definition requeue_stale_delivery :: "string \<Rightarrow> queues \<Rightarrow> nat \<times> queues" where
  "requeue_stale_delivery raw q =
     (case lrem_processing raw q of (n, q1) \<Rightarrow>
        if n = 1 then (1, q1\<lparr>task_q := raw # task_q q1\<rparr>) else (0, q1))"

definition dead_letter_processing_delivery :: "string \<Rightarrow> queues \<Rightarrow> nat \<times> queues" where
  "dead_letter_processing_delivery raw q =
     (case lrem_processing raw q of (n, q1) \<Rightarrow>
        if n = 1 then (1, q1\<lparr>dead_q := dead_q q1 @ [raw]\<rparr>) else (0, q1))"

definition acknowledge_processing_delivery :: "string \<Rightarrow> queues \<Rightarrow> nat \<times> queues" where
  "acknowledge_processing_delivery raw q = lrem_processing raw q"

subsection \<open>What a move keeps\<close>

text \<open>All deliveries of the three lists, and the live ones that can still run.\<close>

definition deliveries :: "queues \<Rightarrow> string multiset" where
  "deliveries q = mset (task_q q) + mset (processing_q q) + mset (dead_q q)"

definition live :: "queues \<Rightarrow> string set" where
  "live q = set (task_q q) \<union> set (processing_q q)"

locale delivery_moves =
  fixes bag :: "'s \<Rightarrow> string multiset"
    and alive :: "'s \<Rightarrow> string set"
    and take_one :: "'s \<Rightarrow> string option \<times> 's"
    and give_back :: "string \<Rightarrow> 's \<Rightarrow> nat \<times> 's"
    and bury :: "string \<Rightarrow> 's \<Rightarrow> nat \<times> 's"
    and ack :: "string \<Rightarrow> 's \<Rightarrow> nat \<times> 's"
  assumes take_bag: "bag (snd (take_one s)) = bag s"
    and give_back_bag: "bag (snd (give_back raw s)) = bag s"
    and bury_bag: "bag (snd (bury raw s)) = bag s"
    and ack_bag: "bag s = bag (snd (ack raw s)) + (if fst (ack raw s) = 1 then {#raw#} else {#})"
    and take_live: "alive (snd (take_one s)) = alive s"
    and give_back_live: "alive (snd (give_back raw s)) = alive s"
    and bury_live: "alive s \<subseteq> insert raw (alive (snd (bury raw s)))"
    and ack_live: "alive s \<subseteq> insert raw (alive (snd (ack raw s)))"
begin

text \<open>One command on the lists.\<close>

inductive move :: "'s \<Rightarrow> 's \<Rightarrow> bool" where
  "move s (snd (take_one s))"
| "move s (snd (give_back raw s))"
| "move s (snd (bury raw s))"

lemma moves_bag: "move\<^sup>*\<^sup>* s s' \<Longrightarrow> bag s' = bag s"
  by (induction rule: rtranclp_induct) (auto elim!: move.cases simp: take_bag give_back_bag bury_bag)

lemma other_live: "x \<in> alive s \<Longrightarrow> x \<noteq> raw \<Longrightarrow> x \<in> alive (snd (ack raw s)) \<and> x \<in> alive (snd (bury raw s))"
  using ack_live bury_live by blast

end

text \<open>The bag before a removal is the bag after it and the delivery that was removed.\<close>

lemma lrem_bag: "mset (processing_q q) =
    mset (processing_q (snd (lrem_processing raw q))) + (if fst (lrem_processing raw q) = 1 then {#raw#} else {#})"
  by (auto simp: lrem_processing_def remove1_idem)

lemma lrem_lists [simp]:
  "task_q (snd (lrem_processing raw q)) = task_q q" "dead_q (snd (lrem_processing raw q)) = dead_q q"
  by (simp_all add: lrem_processing_def)

lemma lrem_set: "set (processing_q q) \<subseteq> insert raw (set (processing_q (snd (lrem_processing raw q))))"
  "set (processing_q (snd (lrem_processing raw q))) \<subseteq> set (processing_q q)"
  "fst (lrem_processing raw q) = 1 \<longleftrightarrow> raw \<in> set (processing_q q)"
  by (auto simp: lrem_processing_def dest: set_mp [OF set_remove1_subset]) (metis in_set_remove1)

lemmas queue_defs = deliveries_def live_def blmove_def requeue_stale_delivery_def
  dead_letter_processing_delivery_def acknowledge_processing_delivery_def

interpretation redis: delivery_moves deliveries live blmove requeue_stale_delivery
  dead_letter_processing_delivery acknowledge_processing_delivery
proof unfold_locales
  fix s :: queues and raw :: string
  note bag = lrem_bag [where q = s and raw = raw] and sets = lrem_set [where q = s and raw = raw]
  show "deliveries (snd (blmove s)) = deliveries s"
    by (simp add: queue_defs split: list.split)
  show "deliveries (snd (requeue_stale_delivery raw s)) = deliveries s"
    by (cases "fst (lrem_processing raw s) = 1") (simp_all add: queue_defs bag case_prod_beta)
  show "deliveries (snd (dead_letter_processing_delivery raw s)) = deliveries s"
    by (cases "fst (lrem_processing raw s) = 1") (simp_all add: queue_defs bag case_prod_beta)
  show "deliveries s = deliveries (snd (acknowledge_processing_delivery raw s)) +
          (if fst (acknowledge_processing_delivery raw s) = 1 then {#raw#} else {#})"
    by (cases "fst (lrem_processing raw s) = 1") (simp_all add: queue_defs bag)
  show "live (snd (blmove s)) = live s"
    by (auto simp: queue_defs split: list.split)
  show "live (snd (requeue_stale_delivery raw s)) = live s"
    using sets by (auto simp: queue_defs case_prod_beta)
  show "live s \<subseteq> insert raw (live (snd (dead_letter_processing_delivery raw s)))"
    using sets by (auto simp: queue_defs case_prod_beta)
  show "live s \<subseteq> insert raw (live (snd (acknowledge_processing_delivery raw s)))"
    using sets by (auto simp: queue_defs)
qed

end
