(* ===== verification/PyFloat.thy ===== *)
theory PyFloat
  imports Json
begin

text \<open>
  Python floats as the code uses them: \<open>float(x)\<close> of a text or a JSON value, comparisons, \<open>min\<close> and
  \<open>max\<close>. A finite float is the rational number it is written as (rounding to the nearest double is
  left out), a value beyond the largest double is an infinity, and NaN compares false with
  everything, as in IEEE 754.
\<close>

datatype fval = Fin rat | PInf | NInf | NaN

fun f_less :: "fval \<Rightarrow> fval \<Rightarrow> bool" where
  "f_less NaN y = False"
| "f_less x NaN = False"
| "f_less (Fin a) (Fin b) = (a < b)"
| "f_less NInf y = (y \<noteq> NInf)"
| "f_less x PInf = (x \<noteq> PInf)"
| "f_less PInf y = False"
| "f_less x NInf = False"

text \<open>\<open>max(a, b)\<close> and \<open>min(a, b)\<close> keep their first argument unless the second is strictly better.\<close>

definition py_max :: "fval \<Rightarrow> fval \<Rightarrow> fval" where
  "py_max a b = (if f_less a b then b else a)"

definition py_min :: "fval \<Rightarrow> fval \<Rightarrow> fval" where
  "py_min a b = (if f_less b a then b else a)"

lemma clamp_cases:
  "lo \<le> hi \<Longrightarrow> py_min (py_max x (Fin lo)) (Fin hi) = NaN \<and> x = NaN \<or>
     (\<exists>q. py_min (py_max x (Fin lo)) (Fin hi) = Fin q \<and> lo \<le> q \<and> q \<le> hi)"
  by (cases x) (auto simp: py_max_def py_min_def)

text \<open>The largest magnitude that still rounds to a double.\<close>

definition as_double :: "rat \<Rightarrow> fval" where
  "as_double q = (if 2 ^ 1024 - 2 ^ 970 \<le> q then PInf else if q \<le> - (2 ^ 1024 - 2 ^ 970) then NInf else Fin q)"

text \<open>Digits with single underscores between them, and what follows.\<close>

fun digit_part :: "string \<Rightarrow> string \<times> string" where
  "digit_part [] = ([], [])"
| "digit_part (c # s) =
     (if \<not> is_digit c then ([], c # s)
      else (case s of
         u # d # t \<Rightarrow> if u = CHR ''_'' \<and> is_digit d
             then (case digit_part (d # t) of (x, r) \<Rightarrow> (c # x, r))
             else (case digit_part s of (x, r) \<Rightarrow> (c # x, r))
       | _ \<Rightarrow> (case digit_part s of (x, r) \<Rightarrow> (c # x, r))))"

definition read_sign :: "string \<Rightarrow> rat \<times> string" where
  "read_sign s = (case s of
     c # t \<Rightarrow> if c = CHR ''-'' then (-1, t) else if c = CHR ''+'' then (1, t) else (1, s)
   | [] \<Rightarrow> (1, s))"

text \<open>An unsigned decimal number that fills the whole text.\<close>

definition read_decimal :: "string \<Rightarrow> rat option" where
  "read_decimal s =
     (case digit_part s of (ip, r) \<Rightarrow>
      case (case r of c # t \<Rightarrow> if c = CHR ''.'' then digit_part t else ([], r) | [] \<Rightarrow> ([], r)) of (fp, r2) \<Rightarrow>
        if ip = [] \<and> fp = [] then None
        else (let m = rat_of_nat (read_base 10 (ip @ fp)) / 10 ^ length fp in
          case r2 of
            [] \<Rightarrow> Some m
          | c # t \<Rightarrow>
              if c \<noteq> CHR ''e'' \<and> c \<noteq> CHR ''E'' then None
              else (case read_sign t of (sg, u) \<Rightarrow> case digit_part u of (ex, r3) \<Rightarrow>
                if ex = [] \<or> r3 \<noteq> [] then None
                else Some (if sg < 0 then m / 10 ^ read_base 10 ex else m * 10 ^ read_base 10 ex))))"

text \<open>\<open>float(s)\<close>; None stands for the ValueError.\<close>

definition py_float :: "string \<Rightarrow> fval option" where
  "py_float s = (case read_sign (strip s) of (sg, t) \<Rightarrow>
     if lower t \<in> {''inf'', ''infinity''} then Some (if sg < 0 then NInf else PInf)
     else if lower t = ''nan'' then Some NaN
     else map_option (\<lambda>q. as_double (sg * q)) (read_decimal t))"

text \<open>\<open>float(x)\<close> of a JSON value.\<close>

definition json_float :: "json \<Rightarrow> fval res" where
  "json_float j = (case j of
     JBool b \<Rightarrow> Inr (Fin (if b then 1 else 0))
   | JInt i \<Rightarrow> (case as_double (of_int i) of Fin q \<Rightarrow> Inr (Fin q) | _ \<Rightarrow> raise OverflowError ''int too large to convert to float'')
   | JFloat t \<Rightarrow> (case py_float t of Some v \<Rightarrow> Inr v | None \<Rightarrow> raise ValueError ''could not convert string to float'')
   | JStr s \<Rightarrow> (case py_float s of Some v \<Rightarrow> Inr v | None \<Rightarrow> raise ValueError ''could not convert string to float'')
   | _ \<Rightarrow> raise TypeError ''float() argument must be a string or a real number'')"

subsection \<open>Writing floats\<close>

text \<open>
  \<open>repr(x)\<close>: the decimal notation of the number, positional from 1e-4 up to 1e16 and scientific
  outside. Python prints the shortest text that reads back; here the digits stop after seventeen.
\<close>

fun frac_digits :: "nat \<Rightarrow> rat \<Rightarrow> string" where
  "frac_digits 0 r = []"
| "frac_digits (Suc n) r = (if r = 0 then [] else
     (let d = nat \<lfloor>10 * r\<rfloor> in digit_char d # frac_digits n (10 * r - of_nat d)))"

fun exp_up :: "nat \<Rightarrow> rat \<Rightarrow> nat" where
  "exp_up 0 q = 0"
| "exp_up (Suc n) q = (if q < 10 then 0 else Suc (exp_up n (q / 10)))"

fun exp_down :: "nat \<Rightarrow> rat \<Rightarrow> nat" where
  "exp_down 0 q = 0"
| "exp_down (Suc n) q = (if 1 \<le> q then 0 else Suc (exp_down n (q * 10)))"

definition two_digits :: "nat \<Rightarrow> string" where
  "two_digits n = (if n < 10 then CHR ''0'' # show_nat n else show_nat n)"

definition mantissa :: "rat \<Rightarrow> string" where
  "mantissa m = (let ip = nat \<lfloor>m\<rfloor>; f = frac_digits 16 (m - of_nat ip)
     in show_nat ip @ (if f = [] then [] else CHR ''.'' # f))"

definition pos_repr :: "rat \<Rightarrow> string" where
  "pos_repr q =
     (if 10 ^ 16 \<le> q then (let e = exp_up 400 q in mantissa (q / 10 ^ e) @ ''e+'' @ two_digits e)
      else if q < 1 / 10 ^ 4 then (let e = exp_down 400 q in mantissa (q * 10 ^ e) @ ''e-'' @ two_digits e)
      else (let ip = nat \<lfloor>q\<rfloor>; f = frac_digits 17 (q - of_nat ip)
            in show_nat ip @ CHR ''.'' # (if f = [] then ''0'' else f)))"

definition float_repr :: "fval \<Rightarrow> string" where
  "float_repr v = (case v of
     NaN \<Rightarrow> ''nan'' | PInf \<Rightarrow> ''inf'' | NInf \<Rightarrow> ''-inf''
   | Fin q \<Rightarrow> if q = 0 then ''0.0'' else if q < 0 then CHR ''-'' # pos_repr (- q) else pos_repr q)"

text \<open>The value of a finite float, and the test that it lies between 0 and 1.\<close>

definition in_unit :: "fval \<Rightarrow> bool" where
  "in_unit v = (case v of Fin q \<Rightarrow> 0 \<le> q \<and> q \<le> 1 | _ \<Rightarrow> False)"

definition rat_of :: "fval \<Rightarrow> rat" where
  "rat_of v = (case v of Fin q \<Rightarrow> q | _ \<Rightarrow> 0)"

lemma in_unit_Fin [simp]: "in_unit (Fin q) \<longleftrightarrow> 0 \<le> q \<and> q \<le> 1" "rat_of (Fin q) = q"
  by (simp_all add: in_unit_def rat_of_def)

lemma in_unitD: "in_unit v \<Longrightarrow> v = Fin (rat_of v) \<and> 0 \<le> rat_of v \<and> rat_of v \<le> 1"
  by (cases v) (simp_all add: in_unit_def)

subsection \<open>Conversions\<close>

text \<open>\<open>int(s)\<close>; None stands for the ValueError.\<close>

definition py_int :: "string \<Rightarrow> int option" where
  "py_int s = (case read_sign (strip s) of (sg, t) \<Rightarrow> case digit_part t of (ds, r) \<Rightarrow>
     if ds = [] \<or> r \<noteq> [] then None else Some ((if sg < 0 then - 1 else 1) * int (read_base 10 ds)))"

text \<open>\<open>int(x)\<close> of a JSON value; a float is cut towards zero.\<close>

definition json_int :: "json \<Rightarrow> int res" where
  "json_int j = (case j of
     JBool b \<Rightarrow> Inr (if b then 1 else 0)
   | JInt i \<Rightarrow> Inr i
   | JFloat t \<Rightarrow> (case py_float t of
       Some (Fin q) \<Rightarrow> Inr (if q < 0 then - \<lfloor>- q\<rfloor> else \<lfloor>q\<rfloor>)
     | Some NaN \<Rightarrow> raise ValueError ''cannot convert float NaN to integer''
     | Some _ \<Rightarrow> raise OverflowError ''cannot convert float infinity to integer''
     | None \<Rightarrow> raise ValueError [])
   | JStr s \<Rightarrow> (case py_int s of Some i \<Rightarrow> Inr i | None \<Rightarrow> raise ValueError ''invalid literal for int() with base 10'')
   | _ \<Rightarrow> raise TypeError ''int() argument must be a string or a real number'')"

text \<open>
  \<open>str(x)\<close> of a JSON value. The notation of lists and dicts is the JSON one; no text the code
  accepts from here begins with a bracket.
\<close>

definition py_str :: "json \<Rightarrow> string" where
  "py_str j = (case j of
     JStr s \<Rightarrow> s | JNull \<Rightarrow> ''None'' | JBool b \<Rightarrow> if b then ''True'' else ''False'' | JInt i \<Rightarrow> show_int i
   | JFloat t \<Rightarrow> (case py_float t of Some v \<Rightarrow> float_repr v | None \<Rightarrow> t)
   | _ \<Rightarrow> dumps default_opts j)"

end
