(* ===== verification/Worker.thy ===== *)
theory Worker
  imports TaskStore Queues PyFloat
begin

text \<open>
  The worker process of \<open>orchestrator/worker.py\<close> as a step function: \<open>run_worker\<close> with its
  maintenance activities, \<open>recover_stale_deliveries\<close>, \<open>reap_orphaned_queued_tasks\<close>,
  \<open>dispatch_pending_outbox\<close> and \<open>handle_delivery\<close>. Each step runs the code up to the next call
  that leaves the process (one transaction, one Redis command or one provider call), so that the
  steps of several workers can be interleaved. What the environment decides (time, fresh
  identifiers, failed connections, the provider's answer) is the argument \<open>env\<close>.
\<close>

subsection \<open>Payload validation\<close>

definition valid_lane :: "json \<Rightarrow> unit res" where
  "valid_lane j = (case j of
     JNull \<Rightarrow> Inr ()
   | JStr s \<Rightarrow> raise_if (s \<notin> set VALID_CREDENTIAL_LANES) ValueError ''task payload has an unsupported credential lane''
   | JList _ \<Rightarrow> raise TypeError ''unhashable type''
   | JObj _ \<Rightarrow> raise TypeError ''unhashable type''
   | _ \<Rightarrow> raise ValueError ''task payload has an unsupported credential lane'')"

definition validate_payload :: "bool \<Rightarrow> json \<Rightarrow> string option res" where
  "validate_payload require_task_id j = (case j of
     JObj p \<Rightarrow> thenR (valid_lane (jget p ''credential_lane''))
       (if \<not> require_task_id then Inr None
        else (case map_of p ''task_id'' of
                None \<Rightarrow> raise KeyError ''task_id''
              | Some t \<Rightarrow> bindR (uuid_of_json t) (\<lambda>s. Inr (Some s))))
   | _ \<Rightarrow> raise ValueError ''task payload must be an object'')"

text \<open>The payload and the task identifier of a raw delivery that recovery can act on.\<close>

definition parse_delivery :: "string \<Rightarrow> (dict \<times> string) res" where
  "parse_delivery raw =
     bindR (loads raw) (\<lambda>j.
     bindR (validate_payload True j) (\<lambda>t.
       case (j, t) of (JObj p, Some s) \<Rightarrow> Inr (p, s) | _ \<Rightarrow> raise ValueError ''task payload must be an object''))"

text \<open>\<open>delivery_task_ids\<close>: the two lists as they were when each was read.\<close>

definition list_task_ids :: "string list \<Rightarrow> string list" where
  "list_task_ids raws = concat (map (\<lambda>raw. case parse_delivery raw of Inr (_, s) \<Rightarrow> [s] | Inl _ \<Rightarrow> []) raws)"

definition delivery_task_ids :: "string list \<Rightarrow> string list \<Rightarrow> string list" where
  "delivery_task_ids ts ps = list_task_ids ts @ list_task_ids ps"

subsection \<open>Calls that may fail\<close>

text \<open>
  A transaction can fail before its commit, or commit while the connection breaks before the
  worker learns of it; a Redis command likewise.
\<close>

datatype outcome = Done | Refused | ReplyLost

definition db_call :: "outcome \<Rightarrow> ('s \<Rightarrow> ('a \<times> 's) res) \<Rightarrow> 's \<Rightarrow> 'a res \<times> 's" where
  "db_call out f d = (case out of
     Refused \<Rightarrow> (raise PsycopgError ''connection failed'', d)
   | Done \<Rightarrow> (case f d of Inl e \<Rightarrow> (Inl e, d) | Inr (x, d') \<Rightarrow> (Inr x, d'))
   | ReplyLost \<Rightarrow> (case f d of Inl e \<Rightarrow> (Inl e, d) | Inr (x, d') \<Rightarrow> (raise PsycopgError ''connection lost'', d')))"

definition redis_call :: "outcome \<Rightarrow> (queues \<Rightarrow> 'a \<times> queues) \<Rightarrow> queues \<Rightarrow> 'a res \<times> queues" where
  "redis_call out f q = (case out of
     Refused \<Rightarrow> (raise RedisError ''connection failed'', q)
   | Done \<Rightarrow> (case f q of (x, q') \<Rightarrow> (Inr x, q'))
   | ReplyLost \<Rightarrow> (case f q of (x, q') \<Rightarrow> (raise RedisError ''connection lost'', q')))"

record env =
  e_now :: time
  e_mono :: time
  e_uuid :: string
  e_db :: outcome
  e_beat :: bool
  e_redis :: outcome
  e_locked :: "string \<Rightarrow> bool"
  e_client :: "dict res"

subsection \<open>The state of a worker\<close>

text \<open>The program points of the worker between two calls that leave the process.\<close>

datatype pc =
    AtDispatch
  | Publishing "(string \<times> json \<times> string) list"
  | Published "string \<times> json \<times> string" "(string \<times> json \<times> string) list"
  | PublishFailed string string exn "(string \<times> json \<times> string) list"
  | AtCleanup
  | AtRecover
  | Recovering "string list"
  | Recovered string bool bool "string list"
  | AtReap
  | ReapProcessing "string list"
  | Reaping "string list"
  | AtPoll
  | Received string
  | Claiming string dict json
  | Attempting string dict json string
  | Calling string dict json string
  | Completing string json string string dict json json json
  | Failing string json "string option" exn
  | Leaving string bool
  | Acking string
  | Stopped

record worker =
  pc :: pc
  worker_name :: string
  last_heartbeat_at :: time
  last_outbox_dispatch_at :: time
  last_outbox_cleanup_at :: time
  last_recovery_at :: time

text \<open>
  What the workers share. \<open>wcalls\<close> records every call of the provider client with its task and
  execution, and \<open>wexpired\<close> every task whose execution lease recovery took away.
\<close>

record world =
  wdb :: db
  wq :: queues
  wcalls :: "(json \<times> string) list"
  wexpired :: "string list"

definition goto :: "worker \<Rightarrow> pc \<Rightarrow> world \<Rightarrow> worker \<times> world" where
  "goto w p W = (w\<lparr>pc := p\<rparr>, W)"

definition beat :: "env \<Rightarrow> string \<Rightarrow> worker \<times> world \<Rightarrow> worker \<times> world" where
  "beat e st s = (case s of (w, W) \<Rightarrow>
     case heartbeat (e_now e) (e_beat e) (worker_name w) st (last_heartbeat_at w, wdb W) of (l, d) \<Rightarrow>
       (w\<lparr>last_heartbeat_at := l\<rparr>, W\<lparr>wdb := d\<rparr>))"

subsection \<open>Outbox dispatch\<close>

definition end_dispatch :: "env \<Rightarrow> worker \<Rightarrow> world \<Rightarrow> worker \<times> world" where
  "end_dispatch e w W = goto (w\<lparr>last_outbox_dispatch_at := e_mono e\<rparr>) AtCleanup W"

definition step_dispatch :: "config \<Rightarrow> env \<Rightarrow> worker \<Rightarrow> world \<Rightarrow> worker \<times> world" where
  "step_dispatch C e w W =
     (if e_mono e - last_outbox_dispatch_at w < secs (outbox_dispatch_interval_seconds C) then goto w AtCleanup W
      else (case db_call (e_db e) (\<lambda>d. Inr (claim_pending_outbox C (e_now e) (e_locked e) (e_uuid e) d)) (wdb W) of
          (Inr claimed, d) \<Rightarrow> goto w (Publishing claimed) (W\<lparr>wdb := d\<rparr>)
        | (Inl x, d) \<Rightarrow> if is_a x PsycopgError then end_dispatch e w (W\<lparr>wdb := d\<rparr>)
                        else goto w Stopped (W\<lparr>wdb := d\<rparr>)))"

text \<open>The except clause of the dispatch loop, around publishing one claim.\<close>

definition dispatch_catches :: "exn \<Rightarrow> bool" where
  "dispatch_catches x \<longleftrightarrow> is_a x RedisError \<or> is_a x PsycopgError \<or> is_a x TypeError \<or> is_a x ValueError"

definition dispatch_raised ::
    "string \<Rightarrow> string \<Rightarrow> exn \<Rightarrow> (string \<times> json \<times> string) list \<Rightarrow> worker \<Rightarrow> world \<Rightarrow> worker \<times> world" where
  "dispatch_raised tk claim x rest w W =
     goto w (if dispatch_catches x then PublishFailed tk claim x rest else Stopped) W"

text \<open>\<open>publish_outbox_claim\<close> up to its RPUSH.\<close>

definition check_outbox_claim :: "string \<Rightarrow> json \<Rightarrow> unit res" where
  "check_outbox_claim tk payload =
     bindR (validate_payload True payload) (\<lambda>t.
       raise_if (t \<noteq> Some tk) ValueError ''outbox task ID does not match payload task ID'')"

definition step_publish ::
    "env \<Rightarrow> (string \<times> json \<times> string) list \<Rightarrow> worker \<Rightarrow> world \<Rightarrow> worker \<times> world" where
  "step_publish e claimed w W = (case claimed of
     [] \<Rightarrow> end_dispatch e w W
   | (tk, payload, claim) # rest \<Rightarrow>
       (case check_outbox_claim tk payload of
          Inl x \<Rightarrow> dispatch_raised tk claim x rest w W
        | Inr _ \<Rightarrow>
            (case redis_call (e_redis e) (\<lambda>q. ((), rpush_task (dumps unicode_opts payload) q)) (wq W) of
               (Inl x, q) \<Rightarrow> dispatch_raised tk claim x rest w (W\<lparr>wq := q\<rparr>)
             | (Inr _, q) \<Rightarrow> goto w (Published (tk, payload, claim) rest) (W\<lparr>wq := q\<rparr>))))"

definition step_published ::
    "env \<Rightarrow> string \<times> json \<times> string \<Rightarrow> (string \<times> json \<times> string) list \<Rightarrow> worker \<Rightarrow> world \<Rightarrow> worker \<times> world" where
  "step_published e c rest w W = (case c of (tk, payload, claim) \<Rightarrow>
     (case db_call (e_db e) (\<lambda>d. Inr (mark_outbox_delivered (e_now e) tk claim d)) (wdb W) of
        (Inl x, d) \<Rightarrow> dispatch_raised tk claim x rest w (W\<lparr>wdb := d\<rparr>)
      | (Inr _, d) \<Rightarrow> goto w (Publishing rest) (W\<lparr>wdb := d\<rparr>)))"

definition step_publish_failed ::
    "env \<Rightarrow> string \<Rightarrow> string \<Rightarrow> exn \<Rightarrow> (string \<times> json \<times> string) list \<Rightarrow> worker \<Rightarrow> world \<Rightarrow> worker \<times> world" where
  "step_publish_failed e tk claim x rest w W =
     (case db_call (e_db e) (\<lambda>d. Inr ((), record_outbox_delivery_error tk claim x d)) (wdb W) of
        (Inl y, d) \<Rightarrow> goto w (if is_a y PsycopgError then Publishing rest else Stopped) (W\<lparr>wdb := d\<rparr>)
      | (Inr _, d) \<Rightarrow> goto w (Publishing rest) (W\<lparr>wdb := d\<rparr>))"

definition step_cleanup :: "config \<Rightarrow> env \<Rightarrow> worker \<Rightarrow> world \<Rightarrow> worker \<times> world" where
  "step_cleanup C e w W =
     (if e_mono e - last_outbox_cleanup_at w < secs (outbox_cleanup_interval_seconds C) then goto w AtRecover W
      else (case db_call (e_db e) (\<lambda>d. Inr (cleanup_terminal_outbox C (e_now e) d)) (wdb W) of
          (Inl x, d) \<Rightarrow>
            if is_a x PsycopgError then goto (w\<lparr>last_outbox_cleanup_at := e_mono e\<rparr>) AtRecover (W\<lparr>wdb := d\<rparr>)
            else goto w Stopped (W\<lparr>wdb := d\<rparr>)
        | (Inr _, d) \<Rightarrow> goto (w\<lparr>last_outbox_cleanup_at := e_mono e\<rparr>) AtRecover (W\<lparr>wdb := d\<rparr>)))"

subsection \<open>Recovery of processing deliveries\<close>

text \<open>An exception that leaves \<open>recover_stale_deliveries\<close> is logged by \<open>run_worker\<close>.\<close>

definition step_recover :: "config \<Rightarrow> env \<Rightarrow> worker \<Rightarrow> world \<Rightarrow> worker \<times> world" where
  "step_recover C e w W =
     (if e_mono e - last_recovery_at w < secs (recovery_interval_seconds C) then goto w AtPoll W
      else (case redis_call (e_redis e) (\<lambda>q. (processing_q q, q)) (wq W) of
          (Inl _, q) \<Rightarrow> goto w AtReap W
        | (Inr raws, q) \<Rightarrow> goto w (Recovering raws) W))"

definition recovery_catches :: "exn \<Rightarrow> bool" where
  "recovery_catches x \<longleftrightarrow> is_a x TypeError \<or> is_a x KeyError \<or> is_a x ValueError"

text \<open>The key of a task row, and whether a transaction put a started row back to waiting.\<close>

definition task_key :: "ext \<Rightarrow> json \<Rightarrow> string" where
  "task_key X tid = (case pg_uuid X tid of Inr k \<Rightarrow> k | Inl _ \<Rightarrow> [])"

definition started :: "db \<Rightarrow> string \<Rightarrow> bool" where
  "started d k \<longleftrightarrow> row (tasks d) k \<noteq> None \<and> \<not> is_queued d k"

definition note_expiry :: "string \<Rightarrow> db \<Rightarrow> db \<Rightarrow> string list \<Rightarrow> string list" where
  "note_expiry k d d' ks = (if started d k \<and> \<not> started d' k then k # ks else ks)"

definition step_recovering ::
    "ext \<Rightarrow> config \<Rightarrow> env \<Rightarrow> string list \<Rightarrow> worker \<Rightarrow> world \<Rightarrow> worker \<times> world" where
  "step_recovering X C e raws w W = (case raws of
     [] \<Rightarrow> goto w AtReap W
   | raw # rest \<Rightarrow>
       (case parse_delivery raw of
          Inl x \<Rightarrow>
            if recovery_catches x
            then (case redis_call (e_redis e) (dead_letter_processing_delivery raw) (wq W) of
                    (Inl _, q) \<Rightarrow> goto w AtReap (W\<lparr>wq := q\<rparr>)
                  | (Inr _, q) \<Rightarrow> goto w (Recovering rest) (W\<lparr>wq := q\<rparr>))
            else goto w AtReap W
        | Inr (payload, tk) \<Rightarrow>
            (case db_call (e_db e) (\<lambda>d. bindR (recover_txn X C (e_now e) tk payload d)
                    (\<lambda>(recovered, fin, d'). Inr ((recovered, fin), d'))) (wdb W) of
               (r, d) \<Rightarrow>
                 (let W' = W\<lparr>wdb := d, wexpired := note_expiry (task_key X (JStr tk)) (wdb W) d (wexpired W)\<rparr>
                  in case r of
                       Inl x \<Rightarrow> goto w (if is_a x PsycopgError then Recovering rest else AtReap) W'
                     | Inr (recovered, fin) \<Rightarrow> goto w (Recovered raw recovered fin rest) W'))))"

definition step_recovered ::
    "env \<Rightarrow> string \<Rightarrow> bool \<Rightarrow> bool \<Rightarrow> string list \<Rightarrow> worker \<Rightarrow> world \<Rightarrow> worker \<times> world" where
  "step_recovered e raw recovered fin rest w W =
     (if recovered
      then goto w (Recovering rest) (W\<lparr>wq := snd (redis_call (e_redis e) (requeue_stale_delivery raw) (wq W))\<rparr>)
      else if fin
      then goto w (Recovering rest) (W\<lparr>wq := snd (redis_call (e_redis e) (acknowledge_processing_delivery raw) (wq W))\<rparr>)
      else goto w (Recovering rest) W)"

subsection \<open>The reaper\<close>

definition end_reap :: "env \<Rightarrow> worker \<Rightarrow> world \<Rightarrow> worker \<times> world" where
  "end_reap e w W = goto (w\<lparr>last_recovery_at := e_mono e\<rparr>) AtPoll W"

text \<open>\<open>delivery_task_ids\<close> reads the task list first and the processing list in a second command.\<close>

definition step_reap :: "env \<Rightarrow> worker \<Rightarrow> world \<Rightarrow> worker \<times> world" where
  "step_reap e w W = (case redis_call (e_redis e) (\<lambda>q. (task_q q, q)) (wq W) of
     (Inl _, _) \<Rightarrow> end_reap e w W
   | (Inr ts, _) \<Rightarrow> goto w (ReapProcessing ts) W)"

definition step_reap_processing :: "env \<Rightarrow> string list \<Rightarrow> worker \<Rightarrow> world \<Rightarrow> worker \<times> world" where
  "step_reap_processing e ts w W = (case redis_call (e_redis e) (\<lambda>q. (processing_q q, q)) (wq W) of
     (Inl _, _) \<Rightarrow> end_reap e w W
   | (Inr ps, _) \<Rightarrow> goto w (Reaping (delivery_task_ids ts ps)) W)"

definition step_reaping :: "config \<Rightarrow> env \<Rightarrow> string list \<Rightarrow> worker \<Rightarrow> world \<Rightarrow> worker \<times> world" where
  "step_reaping C e observed w W =
     end_reap e w (W\<lparr>wdb := snd (db_call (e_db e) (\<lambda>d. Inr ((), reap_txn C (e_now e) observed d)) (wdb W))\<rparr>)"

subsection \<open>One delivery\<close>

definition step_poll :: "env \<Rightarrow> worker \<Rightarrow> world \<Rightarrow> worker \<times> world" where
  "step_poll e w W = (case beat e ''idle'' (w, W) of (w1, W1) \<Rightarrow>
     (case redis_call (e_redis e) blmove (wq W1) of
        (Inl _, q) \<Rightarrow> goto w1 Stopped (W1\<lparr>wq := q\<rparr>)
      | (Inr None, q) \<Rightarrow> goto w1 AtDispatch (W1\<lparr>wq := q\<rparr>)
      | (Inr (Some raw), q) \<Rightarrow> goto w1 (Received raw) (W1\<lparr>wq := q\<rparr>)))"

text \<open>Parsing, the task identifier, and the first heartbeat; malformed payloads are set aside.\<close>

definition step_received :: "env \<Rightarrow> string \<Rightarrow> worker \<Rightarrow> world \<Rightarrow> worker \<times> world" where
  "step_received e raw w W =
     (case bindR (loads raw) (\<lambda>j. bindR (validate_payload False j) (\<lambda>_. Inr j)) of
        Inl x \<Rightarrow>
          if is_a x TypeError \<or> is_a x ValueError
          then (case redis_call (e_redis e) (\<lambda>q. ((), rpush_dead raw q)) (wq W) of
                  (Inl _, q) \<Rightarrow> goto w Stopped (W\<lparr>wq := q\<rparr>)
                | (Inr _, q) \<Rightarrow> goto w (Acking raw) (W\<lparr>wq := q\<rparr>))
          else goto w Stopped W
      | Inr (JObj p) \<Rightarrow>
          (let tid = (if truthy (jget p ''task_id'') then jget p ''task_id'' else JStr (e_uuid e))
           in case beat e ''running'' (w, W) of (w1, W1) \<Rightarrow> goto w1 (Claiming raw p tid) W1)
      | Inr _ \<Rightarrow> goto w Stopped W)"

definition step_claim ::
    "ext \<Rightarrow> env \<Rightarrow> string \<Rightarrow> dict \<Rightarrow> json \<Rightarrow> worker \<Rightarrow> world \<Rightarrow> worker \<times> world" where
  "step_claim X e raw p tid w W =
     (case db_call (e_db e) (claim_task X (e_now e) (e_uuid e) tid p) (wdb W) of
        (Inl x, d) \<Rightarrow> goto w (Failing raw tid None x) (W\<lparr>wdb := d\<rparr>)
      | (Inr None, d) \<Rightarrow> goto w (Leaving raw True) (W\<lparr>wdb := d\<rparr>)
      | (Inr (Some x), d) \<Rightarrow> goto w (Attempting raw p tid x) (W\<lparr>wdb := d\<rparr>))"

definition step_attempt ::
    "ext \<Rightarrow> env \<Rightarrow> string \<Rightarrow> dict \<Rightarrow> json \<Rightarrow> string \<Rightarrow> worker \<Rightarrow> world \<Rightarrow> worker \<times> world" where
  "step_attempt X e raw p tid x w W =
     (case db_call (e_db e) (\<lambda>d. bindR (record_provider_attempt X (e_now e) tid x p d) (\<lambda>d'. Inr ((), d'))) (wdb W) of
        (Inl y, d) \<Rightarrow> goto w (Failing raw tid (Some x) y) (W\<lparr>wdb := d\<rparr>)
      | (Inr _, d) \<Rightarrow> goto w (Calling raw p tid x) (W\<lparr>wdb := d\<rparr>))"

definition is_client_call :: "dict \<Rightarrow> bool" where
  "is_client_call p \<longleftrightarrow> jget p ''provider'' = JStr ''gigachat'' \<and>
     (case map_of p ''operation'' of None \<Rightarrow> True | Some v \<Rightarrow> v \<in> {JStr ''chat'', JStr ''embedding'', JStr ''embeddings''})"

definition item :: "dict \<Rightarrow> string \<Rightarrow> json res" where
  "item p k = (case map_of p k of None \<Rightarrow> raise KeyError k | Some v \<Rightarrow> Inr v)"

text \<open>
  The branches on the provider and the operation: the provider's name, the result, the usage,
  the lane and the amount that \<open>record_completion\<close> gets.
\<close>

definition run_provider :: "dict res \<Rightarrow> dict \<Rightarrow> (string \<times> dict \<times> json \<times> json \<times> json) res" where
  "run_provider client p =
     (if jget p ''provider'' = JStr ''gigachat'' then
        (if is_client_call p then
           bindR client (\<lambda>r. bindR (item r ''usage'') (\<lambda>u. bindR (item r ''credential_lane'') (\<lambda>l.
             Inr (''gigachat'', r, u, l, JNull))))
         else raise ProviderError (''unsupported GigaChat operation: '' @
           py_str (case map_of p ''operation'' of None \<Rightarrow> JStr ''chat'' | Some v \<Rightarrow> v)))
      else if jget p ''provider'' = JStr ''local-smoke-test'' then
        Inr (''local-smoke-test'',
             [(''model'', jget p ''model''), (''content'', JNull), (''credential_lane'', JStr ''local'')],
             (case map_of p ''usage'' of None \<Rightarrow> JObj [] | Some u \<Rightarrow> u), JStr ''local'',
             (case map_of p ''amount_usd'' of None \<Rightarrow> JInt 0 | Some a \<Rightarrow> a))
      else raise ProviderError (''unsupported provider: '' @ py_str (jget p ''provider'')))"

definition step_call ::
    "env \<Rightarrow> string \<Rightarrow> dict \<Rightarrow> json \<Rightarrow> string \<Rightarrow> worker \<Rightarrow> world \<Rightarrow> worker \<times> world" where
  "step_call e raw p tid x w W =
     (let W' = W\<lparr>wcalls := (if is_client_call p then (tid, x) # wcalls W else wcalls W)\<rparr>
      in case run_provider (e_client e) p of
           Inl y \<Rightarrow> goto w (Failing raw tid (Some x) y) W'
         | Inr (prov, r, u, l, a) \<Rightarrow> goto w (Completing raw tid x prov r u l a) W')"

definition step_complete ::
    "ext \<Rightarrow> env \<Rightarrow> string \<Rightarrow> json \<Rightarrow> string \<Rightarrow> string \<Rightarrow> dict \<Rightarrow> json \<Rightarrow> json \<Rightarrow> json \<Rightarrow> worker \<Rightarrow> world
       \<Rightarrow> worker \<times> world" where
  "step_complete X e raw tid x prov r u l a w W =
     (case db_call (e_db e) (\<lambda>d. case u of
               JObj us \<Rightarrow> record_completion X (e_now e) tid x prov r us l a d
             | _ \<Rightarrow> raise AttributeError ''get'') (wdb W) of
        (Inl y, d) \<Rightarrow> goto w (Failing raw tid (Some x) y) (W\<lparr>wdb := d\<rparr>)
      | (Inr _, d) \<Rightarrow> goto w (Leaving raw True) (W\<lparr>wdb := d\<rparr>))"

text \<open>The except clause of \<open>handle_delivery\<close>.\<close>

definition step_fail ::
    "ext \<Rightarrow> env \<Rightarrow> string \<Rightarrow> json \<Rightarrow> string option \<Rightarrow> exn \<Rightarrow> worker \<Rightarrow> world \<Rightarrow> worker \<times> world" where
  "step_fail X e raw tid lease x w W = (case lease of
     None \<Rightarrow> goto w (Leaving raw False) W
   | Some ex \<Rightarrow>
       (case db_call (e_db e) (record_failed X (e_now e) tid ex x) (wdb W) of
          (Inl _, d) \<Rightarrow> goto w (Leaving raw False) (W\<lparr>wdb := d\<rparr>)
        | (Inr _, d) \<Rightarrow> goto w (Leaving raw True) (W\<lparr>wdb := d\<rparr>)))"

text \<open>The finally clause, and what \<open>run_worker\<close> does with the answer.\<close>

definition step_leave :: "env \<Rightarrow> string \<Rightarrow> bool \<Rightarrow> worker \<Rightarrow> world \<Rightarrow> worker \<times> world" where
  "step_leave e raw ok w W = (case beat e ''idle'' (w, W) of (w1, W1) \<Rightarrow>
     goto w1 (if ok then Acking raw else AtDispatch) W1)"

definition step_ack :: "env \<Rightarrow> string \<Rightarrow> worker \<Rightarrow> world \<Rightarrow> worker \<times> world" where
  "step_ack e raw w W = (case redis_call (e_redis e) (lrem_processing raw) (wq W) of
     (Inl _, q) \<Rightarrow> goto w Stopped (W\<lparr>wq := q\<rparr>)
   | (Inr _, q) \<Rightarrow> goto w AtDispatch (W\<lparr>wq := q\<rparr>))"

text \<open>A stopped process is started again by its supervisor, with fresh module variables.\<close>

definition fresh_worker :: "string \<Rightarrow> worker" where
  "fresh_worker name = \<lparr>pc = AtDispatch, worker_name = name, last_heartbeat_at = 0,
     last_outbox_dispatch_at = 0, last_outbox_cleanup_at = 0, last_recovery_at = 0\<rparr>"

definition worker_step :: "ext \<Rightarrow> config \<Rightarrow> env \<Rightarrow> worker \<Rightarrow> world \<Rightarrow> worker \<times> world" where
  "worker_step X C e w W = (case pc w of
     AtDispatch \<Rightarrow> step_dispatch C e w W
   | Publishing cs \<Rightarrow> step_publish e cs w W
   | Published c rest \<Rightarrow> step_published e c rest w W
   | PublishFailed tk c x rest \<Rightarrow> step_publish_failed e tk c x rest w W
   | AtCleanup \<Rightarrow> step_cleanup C e w W
   | AtRecover \<Rightarrow> step_recover C e w W
   | Recovering raws \<Rightarrow> step_recovering X C e raws w W
   | Recovered raw r t rest \<Rightarrow> step_recovered e raw r t rest w W
   | AtReap \<Rightarrow> step_reap e w W
   | ReapProcessing ts \<Rightarrow> step_reap_processing e ts w W
   | Reaping obs \<Rightarrow> step_reaping C e obs w W
   | AtPoll \<Rightarrow> step_poll e w W
   | Received raw \<Rightarrow> step_received e raw w W
   | Claiming raw p tid \<Rightarrow> step_claim X e raw p tid w W
   | Attempting raw p tid x \<Rightarrow> step_attempt X e raw p tid x w W
   | Calling raw p tid x \<Rightarrow> step_call e raw p tid x w W
   | Completing raw tid x prov r u l a \<Rightarrow> step_complete X e raw tid x prov r u l a w W
   | Failing raw tid lease x \<Rightarrow> step_fail X e raw tid lease x w W
   | Leaving raw ok \<Rightarrow> step_leave e raw ok w W
   | Acking raw \<Rightarrow> step_ack e raw w W
   | Stopped \<Rightarrow> (fresh_worker (worker_name w), W))"

end
