(* ===== verification/TaskStoreProps.thy ===== *)
theory TaskStoreProps
  imports TaskStore
begin

text \<open>
  What every transaction of the control plane keeps: the tables stay well formed, a task row only
  moves along its life cycle (so a finished task never changes), attempts are concluded at most
  once, and a write under a lost lease leaves the task alone.
\<close>

interpretation task_rows: lifecycle row insert_nothing update_where terminal
  by unfold_locales

interpretation attempt_rows: lifecycle row insert_nothing update_where "\<lambda>a. a_status a \<noteq> Inflight"
  by unfold_locales

subsection \<open>The life cycle of a task row\<close>

text \<open>One write of one transaction to one row.\<close>

inductive life_step :: "task_row \<Rightarrow> task_row \<Rightarrow> bool" where
  keep: "life_step r r"
| start: "status r = Queued \<Longrightarrow>
    life_step r (r\<lparr>status := Running, started_at := Some t, completed_at := None,
                   error_message := None, execution_id := Some e\<rparr>)"
| drop: "status r = Queued \<Longrightarrow>
    life_step r (r\<lparr>status := Failed, completed_at := Some t, error_message := Some m\<rparr>)"
| requeue: "status r = Queued \<or> status r = Running \<Longrightarrow>
    life_step r (r\<lparr>status := Queued, started_at := None, execution_id := None\<rparr>)"
| finish: "status r = Running \<Longrightarrow> life_step r (finish_task t m j r)"
| fail: "status r = Running \<Longrightarrow>
    life_step r (r\<lparr>status := Failed, completed_at := Some t, error_message := Some m\<rparr>)"

inductive_cases life_stepE: "life_step r r'"

lemma life_step_terminal: "life_step r r' \<Longrightarrow> terminal r \<Longrightarrow> r' = r"
  by (auto elim!: life_stepE simp: terminal_def)

text \<open>An attempt is concluded at most once; its provider, model, lane and start never change.\<close>

definition attempt_step :: "attempt_row \<Rightarrow> attempt_row \<Rightarrow> bool" where
  "attempt_step a a' \<longleftrightarrow> a' = a \<or>
     (a_status a = Inflight \<and> a_status a' \<noteq> Inflight \<and> a_provider a' = a_provider a \<and>
      a_model a' = a_model a \<and> a_lane a' = a_lane a \<and> a_started_at a' = a_started_at a)"

definition attempts_advance :: "db \<Rightarrow> db \<Rightarrow> bool" where
  "attempts_advance d d' \<longleftrightarrow>
     (\<forall>k a. row (provider_attempts d) k = Some a \<longrightarrow>
        (\<exists>a'. row (provider_attempts d') k = Some a' \<and> attempt_step a a'))"

text \<open>A cost receipt is never changed or removed.\<close>

definition costs_kept :: "db \<Rightarrow> db \<Rightarrow> bool" where
  "costs_kept d d' \<longleftrightarrow> (\<forall>k c. row (cost_events d) k = Some c \<longrightarrow> row (cost_events d') k = Some c)"

text \<open>Every row of the first tables has moved along its life cycle in the second.\<close>

definition rows_advance :: "db \<Rightarrow> db \<Rightarrow> bool" where
  "rows_advance d d' \<longleftrightarrow>
     (\<forall>k r. row (tasks d) k = Some r \<longrightarrow> (\<exists>r'. row (tasks d') k = Some r' \<and> life_step\<^sup>*\<^sup>* r r'))"

lemma rows_advance_refl [intro, simp]: "rows_advance d d"
  by (auto simp: rows_advance_def)

lemma rows_advance_trans [trans]: "rows_advance a b \<Longrightarrow> rows_advance b c \<Longrightarrow> rows_advance a c"
  unfolding rows_advance_def by (meson rtranclp_trans)

lemma life_steps_terminal: "life_step\<^sup>*\<^sup>* r r' \<Longrightarrow> terminal r \<Longrightarrow> r' = r"
  by (induction rule: rtranclp_induct) (auto dest: life_step_terminal)

lemma rows_advance_terminal:
  "rows_advance d d' \<Longrightarrow> row (tasks d) k = Some r \<Longrightarrow> terminal r \<Longrightarrow> row (tasks d') k = Some r"
  unfolding rows_advance_def using life_steps_terminal by fastforce

lemma rows_advance_same: "tasks d' = tasks d \<Longrightarrow> rows_advance d d'"
  by (auto simp: rows_advance_def)

lemma rows_advance_insert:
  "tasks d' = insert_nothing k v (tasks d) \<Longrightarrow> rows_advance d d'"
  unfolding rows_advance_def by (metis rtranclp.rtrancl_refl tables.ins_keeps)

lemma rows_advance_update:
  assumes "tasks d' = update_where p f (tasks d)" "\<And>k r. p k r \<Longrightarrow> life_step r (f r)"
  shows "rows_advance d d'"
  using assms by (auto simp: rows_advance_def table_simps)

definition db_advance :: "db \<Rightarrow> db \<Rightarrow> bool" where
  "db_advance d d' \<longleftrightarrow> rows_advance d d' \<and> attempts_advance d d' \<and> costs_kept d d'"

lemma attempt_step_trans: "attempt_step a b \<Longrightarrow> attempt_step b c \<Longrightarrow> attempt_step a c"
  by (auto simp: attempt_step_def)

lemma attempts_advance_trans: "attempts_advance a b \<Longrightarrow> attempts_advance b c \<Longrightarrow> attempts_advance a c"
  unfolding attempts_advance_def by (meson attempt_step_trans)

lemma db_advance_trans [trans]: "db_advance a b \<Longrightarrow> db_advance b c \<Longrightarrow> db_advance a c"
  by (meson attempts_advance_trans costs_kept_def db_advance_def rows_advance_trans)

lemma db_advance_refl [intro, simp]: "db_advance d d"
  by (auto simp: db_advance_def attempts_advance_def costs_kept_def attempt_step_def)

lemma attempts_advance_same: "provider_attempts d' = provider_attempts d \<Longrightarrow> attempts_advance d d'"
  by (simp add: attempts_advance_def attempt_step_def)

lemma attempts_advance_insert:
  "provider_attempts d' = insert_nothing k v (provider_attempts d) \<Longrightarrow> attempts_advance d d'"
  by (auto simp: attempts_advance_def attempt_step_def table_simps)

lemma attempts_advance_update:
  assumes "provider_attempts d' = update_where p f (provider_attempts d)" "\<And>k a. p k a \<Longrightarrow> attempt_step a (f a)"
  shows "attempts_advance d d'"
  using assms by (auto simp: attempts_advance_def attempt_step_def table_simps)

lemma attempts_advance_conclude: "st \<noteq> Inflight \<Longrightarrow> attempts_advance d (conclude_attempt now k e st err d)"
  unfolding conclude_attempt_def
  by (rule attempts_advance_update, simp) (auto simp: attempt_step_def)

lemma costs_kept_same: "cost_events d' = cost_events d \<Longrightarrow> costs_kept d d'"
  by (simp add: costs_kept_def)

lemma costs_kept_insert: "cost_events d' = insert_nothing k v (cost_events d) \<Longrightarrow> costs_kept d d'"
  by (auto simp: costs_kept_def table_simps)

lemmas advance_intros = rows_advance_same rows_advance_insert attempts_advance_same attempts_advance_insert
  attempts_advance_conclude costs_kept_same costs_kept_insert

subsection \<open>Well-formed tables\<close>

definition wf_row :: "task_row \<Rightarrow> bool" where
  "wf_row r \<longleftrightarrow> (case status r of
     Queued \<Rightarrow> execution_id r = None \<and> started_at r = None
   | Running \<Rightarrow> execution_id r \<noteq> None \<and> started_at r \<noteq> None
   | _ \<Rightarrow> completed_at r \<noteq> None)
   \<and> (case credential_lane r of None \<Rightarrow> True | Some l \<Rightarrow> l \<in> set VALID_CREDENTIAL_LANES)"

definition wf_db :: "db \<Rightarrow> bool" where
  "wf_db d \<longleftrightarrow> keyed (tasks d) \<and> keyed (provider_attempts d) \<and> keyed (cost_events d)
     \<and> keyed (task_outbox d)
     \<and> (\<forall>k r. row (tasks d) k = Some r \<longrightarrow> wf_row r)
     \<and> (\<forall>k a. row (provider_attempts d) k = Some a \<longrightarrow> (a_status a = Inflight \<longleftrightarrow> a_concluded_at a = None))
     \<and> (\<forall>k e. row (provider_attempts d) (k, e) \<noteq> None \<longrightarrow> row (tasks d) k \<noteq> None)
     \<and> (\<forall>k e. row (cost_events d) (k, e) \<noteq> None \<longrightarrow> row (tasks d) k \<noteq> None)
     \<and> (\<forall>k. row (task_outbox d) k \<noteq> None \<longrightarrow> row (tasks d) k \<noteq> None)"

lemma wf_empty_db [simp]: "wf_db empty_db"
  by (simp add: wf_db_def empty_db_def)

lemma life_step_wf: "life_step r r' \<Longrightarrow> wf_row r \<Longrightarrow> wf_row r'"
  by (auto elim!: life_stepE simp: wf_row_def finish_task_def split: task_status.splits)

text \<open>Updating task rows along their life cycle keeps the tables well formed.\<close>

lemma wf_db_update_tasks:
  assumes "wf_db d" "\<And>k r. p k r \<Longrightarrow> life_step r (f r)"
  shows "wf_db (d\<lparr>tasks := update_where p f (tasks d)\<rparr>)"
proof -
  have "p k r \<Longrightarrow> wf_row r \<Longrightarrow> wf_row (f r)" for k r
    using assms(2) life_step_wf by blast
  with assms(1) show ?thesis by (auto simp: wf_db_def table_simps)
qed

lemma wf_db_conclude: "wf_db d \<Longrightarrow> st \<noteq> Inflight \<Longrightarrow> wf_db (conclude_attempt now k e st err d)"
  by (auto simp: wf_db_def conclude_attempt_def table_simps)

lemma wf_db_update_outbox:
  "wf_db d \<Longrightarrow> wf_db (d\<lparr>task_outbox := update_where p f (task_outbox d)\<rparr>)"
  by (auto simp: wf_db_def table_simps)

lemma wf_db_costs: "wf_db d \<Longrightarrow> row (cost_events d) (k, e) \<noteq> None \<or> row (tasks d) k \<noteq> None \<Longrightarrow>
    wf_db (d\<lparr>cost_events := insert_nothing (k, e) c (cost_events d)\<rparr>)"
  by (auto simp: wf_db_def table_simps split: if_splits) blast+

subsection \<open>Inserting a queued task\<close>

definition queued_row :: "ext \<Rightarrow> time \<Rightarrow> dict \<Rightarrow> task_row \<Rightarrow> bool" where
  "queued_row X now payload r \<longleftrightarrow> status r = Queued \<and> created_at r = now \<and> wf_row r
     \<and> execution_id r = None \<and> result r = None
     \<and> pg_text X (jget payload ''credential_lane'') = Inr (credential_lane r)"

lemma insert_queued_taskE:
  assumes "insert_queued_task X now tid payload d = Inr (k, fresh, d1)"
  obtains v where "pg_uuid X tid = Inr k" "fresh = (row (tasks d) k = None)"
    "queued_row X now payload v" "d1 = d\<lparr>tasks := insert_nothing k v (tasks d)\<rparr>"
proof -
  from assms obtain prov mdl lane ref where
    e: "pg_uuid X tid = Inr k" "fresh = (row (tasks d) k = None)"
      "pg_text X (jget payload ''credential_lane'') = Inr lane"
      "\<not> (case lane of None \<Rightarrow> False | Some l \<Rightarrow> l \<notin> set VALID_CREDENTIAL_LANES)"
    and d1: "d1 = d\<lparr>tasks := insert_nothing k
       \<lparr>created_at = now, started_at = None, completed_at = None, status = Queued,
        provider = prov, model = mdl, credential_lane = lane, request_ref = ref,
        result = None, execution_id = None, error_message = None\<rparr> (tasks d)\<rparr>"
    unfolding insert_queued_task_def by (simp add: res_simps) blast
  show ?thesis
    by (rule that [OF e(1,2) _ d1]) (use e(3,4) in \<open>auto simp: queued_row_def wf_row_def split: option.splits\<close>)
qed

lemma insert_queued_task_wf:
  assumes "insert_queued_task X now tid payload d = Inr (k, fresh, d1)" "wf_db d"
  shows "wf_db d1" "db_advance d d1" "row (tasks d1) k \<noteq> None"
    "provider_attempts d1 = provider_attempts d" "cost_events d1 = cost_events d"
    "task_outbox d1 = task_outbox d"
proof -
  from assms(1) obtain v where v: "queued_row X now payload v"
    "d1 = d\<lparr>tasks := insert_nothing k v (tasks d)\<rparr>" by (rule insert_queued_taskE)
  show "wf_db d1" using assms(2) v by (auto simp: wf_db_def table_simps queued_row_def)
  show "db_advance d d1"
    using v by (auto simp: db_advance_def intro: rows_advance_insert [of _ k v] attempts_advance_same costs_kept_same)
  show "row (tasks d1) k \<noteq> None" using v by (auto simp: table_simps)
qed (use assms(1) in \<open>auto elim!: insert_queued_taskE\<close>)

subsection \<open>claim_task\<close>

lemma mark_uncertain_tasks: "tasks (mark_uncertain now tk e d) =
    update_where (\<lambda>k r. k = tk \<and> status r = Queued)
      (\<lambda>r. r\<lparr>status := Failed, completed_at := Some now,
        error_message := Some ''Provider outcome is uncertain; automatic retry is blocked''\<rparr>) (tasks d)"
  by (simp add: mark_uncertain_def)

lemma start_queued_tasks: "tasks (start_queued now e tk d) =
    update_where (\<lambda>k r. k = tk \<and> status r = Queued)
      (\<lambda>r. r\<lparr>status := Running, started_at := Some now, completed_at := None,
             error_message := None, execution_id := Some e\<rparr>) (tasks d)"
  by (simp add: start_queued_def)

lemma mark_uncertain_wf: "wf_db d \<Longrightarrow> wf_db (mark_uncertain now k e d)"
  by (auto simp: mark_uncertain_def wf_db_def table_simps intro: life_step_wf [OF life_step.drop])

lemma start_queued_wf: "wf_db d \<Longrightarrow> wf_db (start_queued now e k d)"
  unfolding start_queued_def by (rule wf_db_update_tasks) (auto intro: life_step.start)

lemma mark_uncertain_attempts: "provider_attempts (mark_uncertain now tk e d) =
    update_where (\<lambda>k a. k = (tk, e) \<and> a_status a = Inflight)
       (\<lambda>a. a\<lparr>a_status := OutcomeUnknown, a_concluded_at := Some now\<rparr>) (provider_attempts d)"
  by (simp add: mark_uncertain_def)

lemma mark_uncertain_advance: "db_advance d (mark_uncertain now k e d)"
  unfolding db_advance_def
  by (intro conjI rows_advance_update [OF mark_uncertain_tasks]
        attempts_advance_update [OF mark_uncertain_attempts] costs_kept_same)
     (auto intro: life_step.drop simp: mark_uncertain_def attempt_step_def)

lemma start_queued_advance: "db_advance d (start_queued now e k d)"
  unfolding db_advance_def
  by (intro conjI rows_advance_update [OF start_queued_tasks] attempts_advance_same costs_kept_same)
     (auto intro: life_step.start simp: start_queued_def)

lemma claim_task_cases:
  assumes "claim_task X now e tid p d = Inr (res, d')"
  obtains (uncertain) k v d1 e' where "pg_uuid X tid = Inr k" "d1 = d\<lparr>tasks := insert_nothing k v (tasks d)\<rparr>"
      "queued_row X now p v" "inflight_attempt d k = Some e'" "res = None" "d' = mark_uncertain now k e' d1"
  | (queued) k v d1 where "pg_uuid X tid = Inr k" "d1 = d\<lparr>tasks := insert_nothing k v (tasks d)\<rparr>"
      "queued_row X now p v" "inflight_attempt d k = None" "is_queued d1 k" "res = Some e" "d' = start_queued now e k d1"
  | (other) k v d1 where "pg_uuid X tid = Inr k" "d1 = d\<lparr>tasks := insert_nothing k v (tasks d)\<rparr>"
      "queued_row X now p v" "inflight_attempt d k = None" "\<not> is_queued d1 k" "res = None" "d' = start_queued now e k d1"
proof -
  from assms obtain k fr d1 where ins: "insert_queued_task X now tid p d = Inr (k, fr, d1)"
    and c: "(case inflight_attempt d1 k of Some e' \<Rightarrow> Inr (None, mark_uncertain now k e' d1)
       | None \<Rightarrow> Inr (if is_queued d1 k then Some e else None, start_queued now e k d1)) = (Inr (res, d') :: (string option \<times> db) res)"
    unfolding claim_task_def by (auto simp: bindR_Inr_iff)
  from ins obtain v where v: "pg_uuid X tid = Inr k" "queued_row X now p v"
      "d1 = d\<lparr>tasks := insert_nothing k v (tasks d)\<rparr>"
    by (rule insert_queued_taskE)
  have same: "inflight_attempt d1 k = inflight_attempt d k" using v(3) by (simp add: inflight_attempt_def)
  show ?thesis
  proof (cases "inflight_attempt d k")
    case None
    with c same have cc: "res = (if is_queued d1 k then Some e else None)" "d' = start_queued now e k d1" by auto
    show ?thesis
    proof (cases "is_queued d1 k")
      case True
      with cc show ?thesis by (intro queued [OF v(1,3,2) None]) auto
    next
      case False
      with cc show ?thesis by (intro other [OF v(1,3,2) None]) auto
    qed
  next
    case (Some e')
    with c same show ?thesis by (intro uncertain [OF v(1,3,2)]) auto
  qed
qed

lemma claim_task_wf:
  assumes "claim_task X now e tid p d = Inr (res, d')" "wf_db d"
  shows "wf_db d'" "db_advance d d'"
proof -
  from assms(1) obtain k fr d1 where ins: "insert_queued_task X now tid p d = Inr (k, fr, d1)"
    and d': "d' = (case inflight_attempt d1 k of Some e' \<Rightarrow> mark_uncertain now k e' d1 | None \<Rightarrow> start_queued now e k d1)"
    by (auto simp: claim_task_def res_simps split: option.splits)
  note i = insert_queued_task_wf [OF ins assms(2)]
  show "wf_db d'" using i(1) d' by (auto split: option.splits intro: mark_uncertain_wf start_queued_wf)
  have "db_advance d1 d'"
    using d' by (auto split: option.splits intro: mark_uncertain_advance start_queued_advance)
  with i(2) show "db_advance d d'" by (rule db_advance_trans)
qed

text \<open>A worker that gets a lease holds the running row, and nothing was in flight for the task.\<close>

lemma claim_task_lease:
  assumes "claim_task X now e tid p d = Inr (Some e', d')"
  obtains k r where "pg_uuid X tid = Inr k" "e' = e" "inflight_attempt d k = None"
    "row (tasks d') k = Some r" "holds_lease k e k r" "started_at r = Some now"
    "provider_attempts d' = provider_attempts d" "row (tasks d) k = None \<or> is_queued d k"
  using assms
proof (cases rule: claim_task_cases)
  case (queued k v d1)
  from \<open>is_queued d1 k\<close> obtain r where r: "row (tasks d1) k = Some r" "status r = Queued"
    by (auto simp: is_queued_def split: option.splits)
  have "row (tasks d') k = Some (r\<lparr>status := Running, started_at := Some now, completed_at := None,
              error_message := None, execution_id := Some e\<rparr>)"
    using r queued(7) by (simp add: start_queued_def table_simps)
  moreover have "provider_attempts d' = provider_attempts d" using queued(2,7) by (simp add: start_queued_def)
  moreover have "row (tasks d) k = None \<or> is_queued d k"
    using r queued(2) by (auto simp: is_queued_def table_simps split: option.splits)
  ultimately show ?thesis using queued that by (simp add: holds_lease_def)
qed auto

text \<open>An acknowledged duplicate: the row exists and is not waiting any more.\<close>

lemma claim_task_none:
  assumes "claim_task X now e tid p d = Inr (None, d')"
  shows "\<exists>k. pg_uuid X tid = Inr k \<and> row (tasks d') k \<noteq> None \<and> \<not> is_queued d' k"
  using assms
proof (cases rule: claim_task_cases)
  case (uncertain k v d1 e')
  then have "row (tasks d') k \<noteq> None" by (auto simp: mark_uncertain_def table_simps split: if_splits)
  moreover have "\<not> is_queued d' k"
    using uncertain(6) by (auto simp: is_queued_def mark_uncertain_def table_simps split: option.splits if_splits)
  ultimately show ?thesis using uncertain(1) by blast
next
  case (other k v d1)
  then have "row (tasks d') k \<noteq> None" by (auto simp: start_queued_def table_simps split: if_splits)
  moreover have "\<not> is_queued d' k"
    using other(5,7) by (auto simp: is_queued_def start_queued_def table_simps split: option.splits if_splits)
  ultimately show ?thesis using other(1) by blast
qed auto

subsection \<open>Recording an attempt, its outcome and its cost\<close>

lemma record_provider_attempt_wf:
  assumes "record_provider_attempt X now tid e p d = Inr d'" "wf_db d"
  shows "wf_db d'" "db_advance d d'" "tasks d' = tasks d"
    "\<exists>k a. pg_uuid X tid = Inr k \<and> row (provider_attempts d') (k, e) = Some a"
proof -
  from assms(1) obtain k pr mdl lane where u: "pg_uuid X tid = Inr k"
    "\<not> (row (provider_attempts d) (k, e) = None \<and> row (tasks d) k = None)"
    "d' = d\<lparr>provider_attempts := insert_nothing (k, e)
       \<lparr>a_provider = pr, a_model = mdl, a_lane = lane, a_status = Inflight,
        a_started_at = now, a_concluded_at = None, a_error = None\<rparr> (provider_attempts d)\<rparr>"
    unfolding record_provider_attempt_def
    by (elim bindR_InrE) (auto elim!: bindR_InrE split: option.splits if_splits)
  obtain v where v: "pg_uuid X tid = Inr k"
    "row (provider_attempts d) (k, e) \<noteq> None \<or> row (tasks d) k \<noteq> None"
    "a_status v = Inflight" "a_concluded_at v = None"
    "d' = d\<lparr>provider_attempts := insert_nothing (k, e) v (provider_attempts d)\<rparr>"
    by (rule that [OF u(1) _ _ _ u(3)]) (use u(2) in simp_all)
  from v show "wf_db d'" using assms(2) by (auto simp: wf_db_def table_simps split: if_splits) blast+
  from v show "db_advance d d'" by (auto simp: db_advance_def intro: advance_intros)
  from v show "tasks d' = tasks d" by simp
  from v show "\<exists>k a. pg_uuid X tid = Inr k \<and> row (provider_attempts d') (k, e) = Some a"
    by (cases "row (provider_attempts d) (k, e)") (auto simp: table_simps)
qed

lemma insert_costE:
  assumes "insert_cost X now tk e prov mdl usage lane amount d = Inr d'"
  obtains c where "d' = d\<lparr>cost_events := insert_nothing (tk, e) c (cost_events d)\<rparr>"
    "c_provider c = prov" "\<forall>n. c_input_tokens c = Some n \<longrightarrow> 0 \<le> n" "\<forall>n. c_output_tokens c = Some n \<longrightarrow> 0 \<le> n"
    "\<forall>q. c_amount c = Some q \<longrightarrow> 0 \<le> q" "row (cost_events d) (tk, e) \<noteq> None \<or> row (tasks d) tk \<noteq> None"
proof -
  from assms obtain m i ou am raw where
    g: "check_nonneg i = Inr ()" "check_nonneg ou = Inr ()" "\<not> (case am of None \<Rightarrow> False | Some q \<Rightarrow> q < 0)"
      "\<not> (row (cost_events d) (tk, e) = None \<and> row (tasks d) tk = None)"
    and d': "d' = d\<lparr>cost_events := insert_nothing (tk, e)
          \<lparr>c_provider = prov, c_model = m, c_input_tokens = i, c_output_tokens = ou, c_amount = am,
           c_raw_usage = raw, c_recorded_at = now\<rparr> (cost_events d)\<rparr>"
    unfolding insert_cost_def by (simp add: res_simps) blast
  show ?thesis
    by (rule that [OF d']) (use g in \<open>auto simp: check_nonneg_def res_simps split: option.splits\<close>)
qed

lemma insert_cost_wf:
  assumes "insert_cost X now tk e prov mdl usage lane amount d = Inr d'" "wf_db d"
  shows "wf_db d'" "db_advance d d'"
  using assms(1)
  by (rule insert_costE, use assms(2) in \<open>auto intro: wf_db_costs simp: db_advance_def intro: advance_intros\<close>)+

lemma settle_wf:
  assumes "wf_db d" "st \<noteq> Inflight" "\<And>r. status r = Running \<Longrightarrow> life_step r (f r)"
    "d' = conclude_attempt now k e st err (d\<lparr>tasks := update_where (holds_lease k e) f (tasks d)\<rparr>)"
  shows "wf_db d'" "db_advance d d'"
proof -
  let ?d = "d\<lparr>tasks := update_where (holds_lease k e) f (tasks d)\<rparr>"
  have l: "holds_lease k e k' r \<Longrightarrow> life_step r (f r)" for k' r
    using assms(3) by (simp add: holds_lease_def)
  show "wf_db d'" unfolding assms(4) by (intro wf_db_conclude wf_db_update_tasks assms(1,2) l)
  have "rows_advance ?d d'" using assms(4) by (auto simp: conclude_attempt_def intro: rows_advance_same)
  moreover have "rows_advance d ?d" by (rule rows_advance_update [of _ "holds_lease k e" f]) (simp_all add: l)
  moreover have "attempts_advance ?d d'" unfolding assms(4) by (rule attempts_advance_conclude [OF assms(2)])
  ultimately show "db_advance d d'"
    using assms(4) by (auto simp: db_advance_def conclude_attempt_def attempts_advance_def costs_kept_def
      intro: rows_advance_trans)
qed

lemma record_completion_wf:
  assumes "record_completion X now tid e prov res usage lane amount d = Inr (ok, d')" "wf_db d"
  shows "wf_db d'" "db_advance d d'"
proof -
  from assms(1) obtain k d1 m rj where c: "insert_cost X now k e prov (jget res ''model'') usage lane amount d = Inr d1"
    and d': "d' = conclude_attempt now k e Completed None
              (d1\<lparr>tasks := update_where (holds_lease k e) (finish_task now m rj) (tasks d1)\<rparr>)"
    unfolding record_completion_def by (simp add: res_simps) blast
  note w = insert_cost_wf [OF c assms(2)]
  note s = settle_wf [OF w(1) _ life_step.finish d']
  show "wf_db d'" by (rule s) simp_all
  show "db_advance d d'" by (rule db_advance_trans [OF w(2)], rule s) simp_all
qed

lemma record_failed_wf:
  assumes "record_failed X now tid e x d = Inr (ok, d')" "wf_db d"
  shows "wf_db d'" "db_advance d d'"
proof -
  from assms(1) obtain k where d': "d' = conclude_attempt now k e AttemptFailed (Some (safe_error_message x))
      (d\<lparr>tasks := update_where (holds_lease k e)
         (\<lambda>r. r\<lparr>status := Failed, completed_at := Some now,
                error_message := Some (safe_error_message x)\<rparr>) (tasks d)\<rparr>)"
    by (auto simp: record_failed_def res_simps)
  note s = settle_wf [OF assms(2) _ life_step.fail d']
  show "wf_db d'" by (rule s) simp_all
  show "db_advance d d'" by (rule s) simp_all
qed

lemma record_succeeded_wf:
  assumes "record_succeeded X now tid e res d = Inr (ok, d')" "wf_db d"
  shows "wf_db d'" "db_advance d d'"
proof -
  from assms(1) obtain k m rj where d': "d' = d\<lparr>tasks := update_where (holds_lease k e) (finish_task now m rj) (tasks d)\<rparr>"
    by (auto simp: record_succeeded_def res_simps)
  have l: "holds_lease k e k' r \<Longrightarrow> life_step r (finish_task now m rj r)" for k' r
    by (auto simp: holds_lease_def intro: life_step.finish)
  show "wf_db d'" unfolding d' by (rule wf_db_update_tasks [OF assms(2) l])
  show "db_advance d d'" unfolding d' db_advance_def
    by (intro conjI rows_advance_update [of _ "holds_lease k e" "finish_task now m rj"] attempts_advance_same costs_kept_same l) simp_all
qed

lemma record_cost_wf:
  assumes "record_cost X now tid e prov mdl usage lane amount d = Inr d'" "wf_db d"
  shows "wf_db d'" "db_advance d d'"
  using assms insert_cost_wf by (auto simp: record_cost_def res_simps)

subsection \<open>Fencing\<close>

text \<open>A write under a lease the row does not carry any more leaves every task row alone.\<close>

lemma update_stale: "\<not> (\<exists>r. row t k = Some r \<and> holds_lease k e k r) \<Longrightarrow> keyed t \<Longrightarrow>
   update_where (holds_lease k e) f t = t"
  unfolding update_where_def keyed_def
  by (rule map_idI) (auto simp: holds_lease_def)

lemma stale_none: "\<not> (\<exists>r. row t k = Some r \<and> holds_lease k e k r) \<Longrightarrow> keyed t \<Longrightarrow> row_count (holds_lease k e) t = 0"
  by (subst row_count_key [of _ _ k]) (auto simp: holds_lease_def split: option.splits)

lemma current_one: "row t k = Some r \<Longrightarrow> holds_lease k e k r \<Longrightarrow> keyed t \<Longrightarrow> row_count (holds_lease k e) t = 1"
  by (subst row_count_key [of _ _ k]) (auto simp: holds_lease_def split: option.splits)

lemma tasks_conclude [simp]: "tasks (conclude_attempt now k e st err d) = tasks d"
  by (simp add: conclude_attempt_def)

lemma record_completion_fenced:
  assumes "record_completion X now tid e prov res usage lane amount d = Inr (ok, d')" "wf_db d" "pg_uuid X tid = Inr k"
  shows "ok \<longleftrightarrow> (\<exists>r. row (tasks d) k = Some r \<and> holds_lease k e k r)"
    and "\<not> ok \<Longrightarrow> tasks d' = tasks d"
    and "ok \<Longrightarrow> \<exists>r. row (tasks d') k = Some r \<and> status r = Succeeded"
    and "\<exists>c. row (cost_events d') (k, e) = Some c"
proof -
  from assms(1,3) obtain d1 m rj where c: "insert_cost X now k e prov (jget res ''model'') usage lane amount d = Inr d1"
    and ok: "ok = (row_count (holds_lease k e) (tasks d1) = 1)"
    and d': "d' = conclude_attempt now k e Completed None
              (d1\<lparr>tasks := update_where (holds_lease k e) (finish_task now m rj) (tasks d1)\<rparr>)"
    unfolding record_completion_def by (simp add: res_simps) blast
  from c obtain c' where d1: "d1 = d\<lparr>cost_events := insert_nothing (k, e) c' (cost_events d)\<rparr>"
    by (rule insert_costE)
  have key: "keyed (tasks d)" using assms(2) by (simp add: wf_db_def)
  show o: "ok \<longleftrightarrow> (\<exists>r. row (tasks d) k = Some r \<and> holds_lease k e k r)"
    using ok d1 stale_none [OF _ key] current_one [OF _ _ key] by fastforce
  show "tasks d' = tasks d" if "\<not> ok" using that o d' d1 update_stale [OF _ key] by auto
  show "\<exists>r. row (tasks d') k = Some r \<and> status r = Succeeded" if "ok"
    using that o d' d1 by (auto simp: table_simps finish_task_def)
  show "\<exists>c. row (cost_events d') (k, e) = Some c"
    using d' d1 by (cases "row (cost_events d) (k, e)") (auto simp: conclude_attempt_def table_simps)
qed

lemma record_failed_fenced:
  assumes "record_failed X now tid e x d = Inr (ok, d')" "wf_db d" "pg_uuid X tid = Inr k"
  shows "ok \<longleftrightarrow> (\<exists>r. row (tasks d) k = Some r \<and> holds_lease k e k r)"
    and "\<not> ok \<Longrightarrow> tasks d' = tasks d"
proof -
  have key: "keyed (tasks d)" using assms(2) by (simp add: wf_db_def)
  show o: "ok \<longleftrightarrow> (\<exists>r. row (tasks d) k = Some r \<and> holds_lease k e k r)"
    using assms(1,3) stale_none [OF _ key] current_one [OF _ _ key]
    by (fastforce simp: record_failed_def res_simps)
  show "tasks d' = tasks d" if "\<not> ok"
    using that o assms(1,3) update_stale [OF _ key] by (auto simp: record_failed_def res_simps)
qed

end
