(* ===== verification/Transactions.thy ===== *)
theory Transactions
  imports TaskStoreProps
begin

text \<open>
  The remaining transactions (outbox, reaper, recovery, heartbeat, dashboard), the relation
  \<open>db_txn\<close> of all transactions of the control plane with any arguments, and what every history
  of committed transactions keeps.
\<close>

lemma same_core_wf:
  "tasks d' = tasks d \<Longrightarrow> provider_attempts d' = provider_attempts d \<Longrightarrow> cost_events d' = cost_events d
   \<Longrightarrow> keyed (task_outbox d') \<Longrightarrow> (\<And>k. row (task_outbox d') k \<noteq> None \<Longrightarrow> row (task_outbox d) k \<noteq> None)
   \<Longrightarrow> wf_db d \<Longrightarrow> wf_db d' \<and> db_advance d d'"
  by (auto simp: wf_db_def db_advance_def intro: advance_intros)

lemma outbox_keyed: "wf_db d \<Longrightarrow> keyed (task_outbox d)"
  by (simp add: wf_db_def)

lemma claim_pending_outbox_wf:
  "wf_db d \<Longrightarrow> wf_db (snd (claim_pending_outbox C now locked c d)) \<and> db_advance d (snd (claim_pending_outbox C now locked c d))"
  by (rule same_core_wf) (auto simp: claim_pending_outbox_def Let_def table_simps outbox_keyed)

lemma mark_outbox_delivered_wf:
  "wf_db d \<Longrightarrow> wf_db (snd (mark_outbox_delivered now k c d)) \<and> db_advance d (snd (mark_outbox_delivered now k c d))"
  by (rule same_core_wf) (auto simp: mark_outbox_delivered_def table_simps outbox_keyed)

lemma record_outbox_delivery_error_wf:
  "wf_db d \<Longrightarrow> wf_db (record_outbox_delivery_error k c x d) \<and> db_advance d (record_outbox_delivery_error k c x d)"
  by (rule same_core_wf) (auto simp: record_outbox_delivery_error_def table_simps outbox_keyed)

lemma cleanup_terminal_outbox_wf:
  "wf_db d \<Longrightarrow> wf_db (snd (cleanup_terminal_outbox C now d)) \<and> db_advance d (snd (cleanup_terminal_outbox C now d))"
  by (rule same_core_wf)
     (auto simp: cleanup_terminal_outbox_def table_simps outbox_keyed split: option.splits if_splits)

lemma heartbeat_wf:
  "wf_db d \<Longrightarrow> wf_db (snd (heartbeat now ok n st (l, d))) \<and> db_advance d (snd (heartbeat now ok n st (l, d)))"
  by (rule same_core_wf) (auto simp: heartbeat_def write_heartbeat_def outbox_keyed split: if_splits)

lemma update_life:
  assumes "wf_db d" "\<And>k r. p k r \<Longrightarrow> life_step r (f r)"
  shows "wf_db (d\<lparr>tasks := update_where p f (tasks d)\<rparr>)" "db_advance d (d\<lparr>tasks := update_where p f (tasks d)\<rparr>)"
  using wf_db_update_tasks [OF assms] rows_advance_update [of "d\<lparr>tasks := update_where p f (tasks d)\<rparr>" p f d] assms(2)
  by (auto simp: db_advance_def intro: advance_intros)

lemma reap_one_wf: "wf_db d \<Longrightarrow> wf_db (reap_one C now k d) \<and> db_advance d (reap_one C now k d)"
  unfolding reap_one_def by (intro conjI update_life) (auto simp: orphan_age_def intro: life_step.drop)

lemma reap_each_wf: "wf_db d \<Longrightarrow> wf_db (reap_each C now obs ks d) \<and> db_advance d (reap_each C now obs ks d)"
  by (induction C now obs ks d rule: reap_each.induct) (simp, metis db_advance_trans reap_each.simps(2) reap_one_wf)

lemma reap_txn_wf: "wf_db d \<Longrightarrow> wf_db (reap_txn C now obs d) \<and> db_advance d (reap_txn C now obs d)"
  by (simp add: reap_txn_def reap_each_wf)

lemma recover_txn_wf:
  assumes "recover_txn X C now tk p d = Inr (rec, fin, d')" "wf_db d"
  shows "wf_db d' \<and> db_advance d d'"
proof -
  from assms(1) obtain k fr d1 where ins: "insert_queued_task X now (JStr tk) p d = Inr (k, fr, d1)"
    and d': "d' = d1 \<or> d' = d1\<lparr>tasks := update_where (recoverable C now k)
              (\<lambda>r. r\<lparr>status := Queued, started_at := None, execution_id := None\<rparr>) (tasks d1)\<rparr>"
    by (auto simp: recover_txn_def bindR_Inr_iff split: if_splits)
  note i = insert_queued_task_wf [OF ins assms(2)]
  have "wf_db d' \<and> db_advance d1 d'" using d'
  proof
    assume "d' = d1\<lparr>tasks := update_where (recoverable C now k)
              (\<lambda>r. r\<lparr>status := Queued, started_at := None, execution_id := None\<rparr>) (tasks d1)\<rparr>"
    then show ?thesis
      by (auto intro!: update_life [OF i(1)] life_step.requeue simp: recoverable_def lease_expired_def)
  qed (use i in auto)
  with i(2) show ?thesis by (blast intro: db_advance_trans)
qed

lemma record_queued_task_wf:
  assumes "record_queued_task X now tk p d = Inr d'" "wf_db d"
  shows "wf_db d' \<and> db_advance d d'"
proof -
  from assms(1) obtain k fr d1 v where ins: "insert_queued_task X now (JStr tk) p d = Inr (k, fr, d1)"
    and d': "d' = d1\<lparr>task_outbox := insert_nothing k v (task_outbox d1)\<rparr>"
    by (auto simp: record_queued_task_def bindR_Inr_iff)
  note i = insert_queued_task_wf [OF ins assms(2)]
  have "wf_db d'" using i(1,3) d' by (auto simp: wf_db_def table_simps)
  moreover have "db_advance d1 d'" using d' by (simp add: db_advance_def advance_intros)
  ultimately show ?thesis using i(2) by (blast intro: db_advance_trans)
qed

subsection \<open>All transactions of the control plane\<close>

inductive inner_txn :: "ext \<Rightarrow> config \<Rightarrow> db \<Rightarrow> db \<Rightarrow> bool" for X C where
  claim: "claim_task X now e tid p d = Inr (res, d') \<Longrightarrow> inner_txn X C d d'"
| attempt: "record_provider_attempt X now tid e p d = Inr d' \<Longrightarrow> inner_txn X C d d'"
| completion: "record_completion X now tid e prov res usage lane amount d = Inr (ok, d') \<Longrightarrow> inner_txn X C d d'"
| failed: "record_failed X now tid e x d = Inr (ok, d') \<Longrightarrow> inner_txn X C d d'"
| succeeded: "record_succeeded X now tid e res d = Inr (ok, d') \<Longrightarrow> inner_txn X C d d'"
| cost: "record_cost X now tid e prov mdl usage lane amount d = Inr d' \<Longrightarrow> inner_txn X C d d'"
| outbox_claim: "inner_txn X C d (snd (claim_pending_outbox C now locked c d))"
| outbox_error: "inner_txn X C d (record_outbox_delivery_error tk c x d)"
| outbox_cleanup: "inner_txn X C d (snd (cleanup_terminal_outbox C now d))"
| reap: "inner_txn X C d (reap_txn C now observed d)"
| beat: "inner_txn X C d (snd (heartbeat now ok name st (l, d)))"

text \<open>Submitting a task and marking its dispatch are the two that concern the outbox contract.\<close>

inductive forward_txn :: "ext \<Rightarrow> config \<Rightarrow> db \<Rightarrow> db \<Rightarrow> bool" for X C where
  inner: "inner_txn X C d d' \<Longrightarrow> forward_txn X C d d'"
| queue_task: "record_queued_task X now tk p d = Inr d' \<Longrightarrow> forward_txn X C d d'"
| outbox_delivered: "forward_txn X C d (snd (mark_outbox_delivered now tk c d))"

text \<open>Recovery is the one transaction that takes a task back to waiting.\<close>

inductive db_txn :: "ext \<Rightarrow> config \<Rightarrow> db \<Rightarrow> db \<Rightarrow> bool" for X C where
  forward: "forward_txn X C d d' \<Longrightarrow> db_txn X C d d'"
| recover: "recover_txn X C now tk p d = Inr (rec, fin, d') \<Longrightarrow> db_txn X C d d'"

inductive_cases inner_txnE: "inner_txn X C d d'"
inductive_cases forward_txnE: "forward_txn X C d d'"
inductive_cases db_txnE: "db_txn X C d d'"

lemmas txn_keeps = record_queued_task_wf claim_task_wf record_provider_attempt_wf(1,2) record_completion_wf
  record_failed_wf record_succeeded_wf record_cost_wf recover_txn_wf claim_pending_outbox_wf
  mark_outbox_delivered_wf record_outbox_delivery_error_wf cleanup_terminal_outbox_wf reap_txn_wf heartbeat_wf

lemma db_txn_keeps:
  assumes "db_txn X C d d'" "wf_db d"
  shows "wf_db d' \<and> db_advance d d'"
  using assms by cases (auto elim!: forward_txnE inner_txnE simp: txn_keeps dest: txn_keeps)

lemma db_txns_keep: "(db_txn X C)\<^sup>*\<^sup>* d d' \<Longrightarrow> wf_db d \<Longrightarrow> wf_db d' \<and> db_advance d d'"
  by (induction rule: rtranclp_induct) (auto dest: db_txn_keeps intro: db_advance_trans)

end
