(* ===== verification/Interleaving.thy ===== *)
theory Interleaving
  imports Prelude
begin

text \<open>
  Two ways to reason about workers that interleave their steps on shared state, each proved once:
  assertions that other workers' steps keep (rely and guarantee), and a potential that a step
  raises by no more than the bound it raises with it.
\<close>

text \<open>One worker of a list takes a step on the shared state.\<close>

definition one_step :: "('w \<Rightarrow> 's \<Rightarrow> 'w \<times> 's) \<Rightarrow> nat \<Rightarrow> 'w list \<times> 's \<Rightarrow> 'w list \<times> 's" where
  "one_step f i c = (case c of (ws, s) \<Rightarrow> (case f (ws ! i) s of (w', s') \<Rightarrow> (ws[i := w'], s')))"

text \<open>The invariant holds of the shared state, and every worker's assertion of it and the worker.\<close>

definition all_hold :: "('s \<Rightarrow> bool) \<Rightarrow> ('s \<Rightarrow> 'w \<Rightarrow> bool) \<Rightarrow> 'w list \<Rightarrow> 's \<Rightarrow> bool" where
  "all_hold I H ws s \<longleftrightarrow> I s \<and> (\<forall>w \<in> set ws. H s w)"

locale rely_guarantee =
  fixes step :: "'e \<Rightarrow> 'w \<Rightarrow> 's \<Rightarrow> 'w \<times> 's"
    and allowed :: "'s \<Rightarrow> 'e \<Rightarrow> bool"
    and inv :: "'s \<Rightarrow> bool"
    and holds :: "'s \<Rightarrow> 'w \<Rightarrow> bool"
    and rely :: "'s \<Rightarrow> 's \<Rightarrow> bool"
  assumes step_ok: "inv s \<Longrightarrow> holds s w \<Longrightarrow> allowed s e \<Longrightarrow> step e w s = (w', s') \<Longrightarrow>
      inv s' \<and> holds s' w' \<and> rely s s'"
    and holds_stable: "holds s w \<Longrightarrow> rely s s' \<Longrightarrow> holds s' w"
begin

lemma interleave:
  assumes "all_hold inv holds ws s" "i < length ws" "allowed s e" "step e (ws ! i) s = (w', s')"
  shows "all_hold inv holds (ws[i := w']) s'" "rely s s'"
proof -
  have "inv s" "holds s (ws ! i)" using assms by (auto simp: all_hold_def)
  from step_ok [OF this assms(3,4)] have ok: "inv s' \<and> holds s' w' \<and> rely s s'" .
  moreover have "holds s' w" if "w \<in> set (ws[i := w'])" for w
  proof -
    from set_update_subset_insert that have "w \<in> insert w' (set ws)" by (rule set_mp)
    then show ?thesis using ok assms(1) holds_stable by (auto simp: all_hold_def)
  qed
  ultimately show "all_hold inv holds (ws[i := w']) s'" "rely s s'"
    by (auto simp: all_hold_def)
qed

text \<open>A change of the shared state from outside keeps every assertion it is allowed to rely on.\<close>

lemma outside: "all_hold inv holds ws s \<Longrightarrow> inv s' \<Longrightarrow> rely s s' \<Longrightarrow> all_hold inv holds ws s'"
  using holds_stable by (auto simp: all_hold_def)

lemma replace_worker: "all_hold inv holds ws s \<Longrightarrow> holds s w \<Longrightarrow> all_hold inv holds (ws[i := w]) s"
  using set_update_subset_insert [of ws i w] by (auto simp: all_hold_def)

end

locale counting =
  fixes step :: "'e \<Rightarrow> 'w \<Rightarrow> 's \<Rightarrow> 'w \<times> 's"
    and held :: "'w \<Rightarrow> nat"
    and spent :: "'s \<Rightarrow> nat"
    and bound :: "'s \<Rightarrow> nat"
    and extra :: "'e \<Rightarrow> nat"
  assumes step_cost: "step e w s = (w', s') \<Longrightarrow> spent s' + held w' + bound s \<le> spent s + held w + bound s' + extra e"
begin

lemma total_cost:
  assumes "i < length ws" "one_step (step e) i (ws, s) = (ws', s')"
  shows "spent s' + sum_list (map held ws') + bound s \<le> spent s + sum_list (map held ws) + bound s' + extra e"
proof -
  obtain w' where st: "step e (ws ! i) s = (w', s')" and ws': "ws' = ws[i := w']"
    using assms(2) by (auto simp: one_step_def split: prod.splits)
  have "sum_list (map held ws') = sum_list (map held ws) + held w' - held (ws ! i)"
    using assms(1) ws' by (simp add: map_update sum_list_update)
  moreover have "held (ws ! i) \<le> sum_list (map held ws)"
    using assms(1) by (simp add: member_le_sum_list)
  ultimately show ?thesis using step_cost [OF st] by simp
qed

end

end
