(* ===== verification/WorkerProps.thy ===== *)
theory WorkerProps
  imports Worker Transactions Interleaving
begin

text \<open>
  What one step of a worker does to the shared state: the tables change by transactions only, a
  started task goes back to waiting only when recovery records it, and provider calls are counted.
\<close>

lemma db_callE:
  assumes "db_call out f d = (r, d')"
  obtains (same) e where "r = Inl e" "d' = d"
  | (committed) x where "f d = Inr (x, d')" "r = Inr x \<or> (\<exists>e. r = Inl e)"
  using assms unfolding db_call_def
  by (auto split: outcome.splits sum.splits)

lemma db_call_cases: "db_call out f d = (r, d') \<Longrightarrow> d' = d \<or> (\<exists>x. f d = Inr (x, d'))"
  by (auto elim: db_callE)

lemma db_call_Inr: "db_call out f d = (Inr x, d') \<Longrightarrow> f d = Inr (x, d')"
  by (auto simp: db_call_def split: outcome.splits sum.splits prod.splits)

lemma db_call_pure [simp]: "snd (db_call out (\<lambda>d. Inr (g d)) d) = (if out = Refused then d else snd (g d))"
  by (simp add: db_call_def split: outcome.splits prod.splits)

lemma redis_call_cases: "redis_call out f q = (r, q') \<Longrightarrow> q' = q \<or> q' = snd (f q)"
  by (auto simp: redis_call_def split: outcome.splits prod.splits)

lemma redis_call_Inr: "redis_call out f q = (Inr x, q') \<Longrightarrow> f q = (x, q')"
  by (auto simp: redis_call_def split: outcome.splits prod.splits)

subsection \<open>Started tasks stay started\<close>

definition started_kept :: "db \<Rightarrow> db \<Rightarrow> bool" where
  "started_kept d d' \<longleftrightarrow> (\<forall>k. started d k \<longrightarrow> started d' k)"

lemma started_iff: "started d k \<longleftrightarrow> (\<exists>r. row (tasks d) k = Some r \<and> status r \<noteq> Queued)"
  by (auto simp: started_def is_queued_def split: option.splits)

lemma started_kept_refl [simp]: "started_kept d d"
  by (simp add: started_kept_def)

lemma started_kept_trans: "started_kept a b \<Longrightarrow> started_kept b c \<Longrightarrow> started_kept a c"
  by (simp add: started_kept_def)

lemma started_kept_same: "tasks d' = tasks d \<Longrightarrow> started_kept d d'"
  by (simp add: started_kept_def started_iff)

lemma started_kept_update:
  "tasks d' = update_where p f (tasks d) \<Longrightarrow> (\<And>k r. p k r \<Longrightarrow> status (f r) \<noteq> Queued) \<Longrightarrow> started_kept d d'"
  unfolding started_kept_def started_iff by (simp add: row_update_where) metis

lemma started_kept_insert: "tasks d' = insert_nothing k v (tasks d) \<Longrightarrow> started_kept d d'"
  by (auto simp: started_kept_def started_iff table_simps)

lemma insert_queued_started: "insert_queued_task X now tid p d = Inr (k, fr, d1) \<Longrightarrow> started_kept d d1"
  by (erule insert_queued_taskE) (auto intro: started_kept_insert)

lemma mark_uncertain_started: "started_kept d (mark_uncertain now k e d)"
  by (rule started_kept_update [OF mark_uncertain_tasks]) simp

lemma start_queued_started: "started_kept d (start_queued now e k d)"
  by (rule started_kept_update [OF start_queued_tasks]) simp

lemma claim_task_started:
  assumes "claim_task X now e tid p d = Inr (res, d')" shows "started_kept d d'"
  using assms
  by (cases rule: claim_task_cases)
     (auto intro!: started_kept_trans [OF started_kept_insert mark_uncertain_started]
        started_kept_trans [OF started_kept_insert start_queued_started])

lemma record_completion_started:
  assumes "record_completion X now tid e prov res usage lane amount d = Inr (ok, d')" shows "started_kept d d'"
proof -
  from assms obtain k d1 m rj where c: "insert_cost X now k e prov (jget res ''model'') usage lane amount d = Inr d1"
    and d': "d' = conclude_attempt now k e Completed None
              (d1\<lparr>tasks := update_where (holds_lease k e) (finish_task now m rj) (tasks d1)\<rparr>)"
    unfolding record_completion_def by (simp add: res_simps) blast
  from c have "tasks d1 = tasks d" by (auto elim: insert_costE)
  then have "tasks d' = update_where (holds_lease k e) (finish_task now m rj) (tasks d)" using d' by simp
  then show ?thesis by (rule started_kept_update) (simp add: finish_task_def)
qed

lemma record_failed_started:
  assumes "record_failed X now tid e x d = Inr (ok, d')" shows "started_kept d d'"
proof -
  from assms obtain k where "tasks d' = update_where (holds_lease k e)
         (\<lambda>r. r\<lparr>status := Failed, completed_at := Some now,
                error_message := Some (safe_error_message x)\<rparr>) (tasks d)"
    by (auto simp: record_failed_def res_simps)
  then show ?thesis by (rule started_kept_update) simp
qed

lemma record_queued_task_tasks:
  assumes "record_queued_task X now tk p d = Inr d'"
  obtains k v o' where "pg_uuid X (JStr tk) = Inr k" "queued_row X now p v"
    "tasks d' = insert_nothing k v (tasks d)" "o_delivered_at o' = None"
    "pg_jsonb X (JObj p) = Inr (o_payload o')"
    "task_outbox d' = insert_nothing k o' (task_outbox d)" "provider_attempts d' = provider_attempts d"
    "cost_events d' = cost_events d"
proof -
  from assms obtain k fr d1 pj where i: "insert_queued_task X now (JStr tk) p d = Inr (k, fr, d1)"
    and j: "pg_jsonb X (JObj p) = Inr pj"
    and d': "d' = d1\<lparr>task_outbox := insert_nothing k
         \<lparr>o_payload = pj, o_created_at = now, o_delivered_at = None, o_claim_id = None,
          o_claimed_at = None, o_attempts = 0, o_last_error = None\<rparr> (task_outbox d1)\<rparr>"
    unfolding record_queued_task_def by (auto elim!: bindR_InrE)
  from i obtain v where "pg_uuid X (JStr tk) = Inr k" "queued_row X now p v"
    "d1 = d\<lparr>tasks := insert_nothing k v (tasks d)\<rparr>" by (rule insert_queued_taskE)
  then show ?thesis using j d' by (intro that) simp_all
qed

lemma reap_one_started: "started_kept d (reap_one C now k d)"
  unfolding reap_one_def by (rule started_kept_update, simp) simp

lemma reap_each_started: "started_kept d (reap_each C now obs ks d)"
  by (induction C now obs ks d rule: reap_each.induct)
     (simp_all, meson reap_one_started started_kept_trans)

lemma reap_txn_started: "started_kept d (reap_txn C now obs d)"
  by (simp add: reap_txn_def reap_each_started)

text \<open>Recovery changes one row, the one its delivery names.\<close>

lemma recover_txn_tasks:
  assumes "recover_txn X C now tk p d = Inr (rec, fin, d')"
  obtains v where "queued_row X now p v" "pg_uuid X (JStr tk) = Inr (task_key X (JStr tk))"
    "\<And>k. k \<noteq> task_key X (JStr tk) \<Longrightarrow> row (tasks d') k = row (tasks d) k"
    "row (tasks d') (task_key X (JStr tk)) \<noteq> None"
    "row (tasks d) (task_key X (JStr tk)) = None \<Longrightarrow> rec"
    "fin \<Longrightarrow> \<not> rec \<and> (\<exists>r. row (tasks d) (task_key X (JStr tk)) = Some r \<and> terminal r \<and>
        row (tasks d') (task_key X (JStr tk)) = Some r)"
    "task_outbox d' = task_outbox d" "provider_attempts d' = provider_attempts d"
proof -
  from assms obtain k fr d1 where ins: "insert_queued_task X now (JStr tk) p d = Inr (k, fr, d1)"
    and r: "(if fr then Inr (True, False, d1)
       else if row_count (recoverable C now k) (tasks d1) \<noteq> 0
       then Inr (True, False, d1\<lparr>tasks := update_where (recoverable C now k)
              (\<lambda>r. r\<lparr>status := Queued, started_at := None, execution_id := None\<rparr>) (tasks d1)\<rparr>)
       else Inr (False, (case row (tasks d1) k of None \<Rightarrow> False | Some r \<Rightarrow> terminal r), d1))
       = (Inr (rec, fin, d') :: (bool \<times> bool \<times> db) res)"
    by (auto simp: recover_txn_def bindR_Inr_iff)
  from ins obtain v where v: "pg_uuid X (JStr tk) = Inr k" "fr = (row (tasks d) k = None)"
    "queued_row X now p v" "d1 = d\<lparr>tasks := insert_nothing k v (tasks d)\<rparr>" by (rule insert_queued_taskE)
  have k: "task_key X (JStr tk) = k" using v(1) by (simp add: task_key_def)
  show ?thesis
    by (rule that [OF v(3)]; use r v k in
        \<open>auto simp: table_simps recoverable_def option.map_ident split: if_splits option.splits\<close>)
qed


subsection \<open>The tables change by transactions\<close>

definition step_db :: "ext \<Rightarrow> config \<Rightarrow> db \<Rightarrow> db \<Rightarrow> bool" where
  "step_db X C d d' \<longleftrightarrow> d' = d \<or> inner_txn X C d d'"

lemma step_db_refl [simp]: "step_db X C d d"
  by (simp add: step_db_def)

lemma step_db_call:
  assumes "db_call out f d = (r, d')" "\<And>x d'. f d = Inr (x, d') \<Longrightarrow> inner_txn X C d d'"
  shows "step_db X C d d'"
  using assms by (auto elim!: db_callE simp: step_db_def)

lemma goto_simps [simp]: "fst (goto w p W) = w\<lparr>pc := p\<rparr>" "snd (goto w p W) = W"
  by (simp_all add: goto_def)

lemma beat_simps [simp]:
  "pc (fst (beat e st (w, W))) = pc w" "wq (snd (beat e st (w, W))) = wq W"
  "wcalls (snd (beat e st (w, W))) = wcalls W" "wexpired (snd (beat e st (w, W))) = wexpired W"
  by (simp_all add: beat_def split: prod.splits)

lemma beat_db: "wdb (snd (beat e st (w, W))) =
    snd (heartbeat (e_now e) (e_beat e) (worker_name w) st (last_heartbeat_at w, wdb W))"
  by (simp add: beat_def split: prod.splits)

lemma heartbeat_simps [simp]:
  "tasks (snd (heartbeat now ok n st (l, d))) = tasks d"
  "provider_attempts (snd (heartbeat now ok n st (l, d))) = provider_attempts d"
  "task_outbox (snd (heartbeat now ok n st (l, d))) = task_outbox d"
  by (simp_all add: heartbeat_def write_heartbeat_def)

lemma beat_step_db [simp]: "step_db X C (wdb W) (wdb (snd (beat e st (w, W))))"
  by (simp add: beat_db step_db_def inner_txn.beat)

lemma beatD: "beat e st (w, W) = (w1, W1) \<Longrightarrow> step_db X C (wdb W) (wdb W1) \<and> pc w1 = pc w \<and> wq W1 = wq W
    \<and> wcalls W1 = wcalls W \<and> wexpired W1 = wexpired W \<and> tasks (wdb W1) = tasks (wdb W)
    \<and> provider_attempts (wdb W1) = provider_attempts (wdb W) \<and> task_outbox (wdb W1) = task_outbox (wdb W)"
  using beat_step_db [of X C W e st w] beat_simps [of e st w W] beat_db [of e st w W] by auto

lemmas step_simps = goto_def end_dispatch_def dispatch_raised_def end_reap_def

lemmas call_splits = prod.splits sum.splits option.splits list.splits if_splits

lemma pure_txns:
  "claim_pending_outbox C now locked c d = (x, d') \<Longrightarrow> inner_txn X C d d'"
  "cleanup_terminal_outbox C now d = (n, d') \<Longrightarrow> inner_txn X C d d'"
  by (metis inner_txn.outbox_claim inner_txn.outbox_cleanup snd_conv)+

lemmas txn_intros = pure_txns inner_txn.outbox_error inner_txn.reap inner_txn.claim inner_txn.attempt inner_txn.completion
  inner_txn.failed

text \<open>Every other step of a worker changes the tables by at most one inner transaction.\<close>

lemma worker_step_inner:
  assumes "worker_step X C e w W = (w', W')" "\<And>raws. pc w \<noteq> Recovering raws" "\<And>c rest. pc w \<noteq> Published c rest"
  shows "step_db X C (wdb W) (wdb W')"
proof -
  have "step_db X C (wdb W) (wdb (snd (worker_step X C e w W)))"
  proof (cases "pc w")
    case AtDispatch
    then show ?thesis
      by (auto simp: worker_step_def step_dispatch_def step_simps split: call_splits elim!: step_db_call intro: txn_intros)
  next
    case (PublishFailed tk c x rest)
    then show ?thesis
      by (auto simp: worker_step_def step_publish_failed_def step_simps split: call_splits elim!: step_db_call intro: txn_intros)
  next
    case AtCleanup
    then show ?thesis
      by (auto simp: worker_step_def step_cleanup_def step_simps split: call_splits elim!: step_db_call intro: txn_intros)
  next
    case (Reaping obs)
    then show ?thesis
      by (auto simp: worker_step_def step_reaping_def step_simps step_db_def intro: txn_intros)
  next
    case AtPoll
    then show ?thesis
      by (auto dest!: beatD [of _ _ _ _ _ _ X C] simp: worker_step_def step_poll_def step_simps split: call_splits)
  next
    case (Received raw)
    then show ?thesis
      by (auto dest!: beatD [of _ _ _ _ _ _ X C] simp: worker_step_def step_received_def step_simps Let_def split: call_splits json.splits)
  next
    case (Claiming raw p tid)
    then show ?thesis
      by (auto simp: worker_step_def step_claim_def step_simps split: call_splits elim!: step_db_call intro: txn_intros)
  next
    case (Attempting raw p tid x)
    then show ?thesis
      by (auto simp: worker_step_def step_attempt_def step_simps res_simps split: call_splits elim!: step_db_call intro: txn_intros)
  next
    case (Completing raw tid x prov r u l a)
    then show ?thesis
      by (auto simp: worker_step_def step_complete_def step_simps split: call_splits json.splits elim!: step_db_call intro: txn_intros)
  next
    case (Failing raw tid lease x)
    then show ?thesis
      by (auto simp: worker_step_def step_fail_def step_simps split: call_splits elim!: step_db_call intro: txn_intros)
  next
    case (Leaving raw ok)
    then show ?thesis
      by (auto dest!: beatD [of _ _ _ _ _ _ X C] simp: worker_step_def step_leave_def step_simps split: call_splits)
  qed (use assms(2,3) in \<open>auto simp: worker_step_def step_publish_def step_recover_def step_recovered_def step_reap_def
        step_reap_processing_def step_call_def step_ack_def step_simps Let_def split: call_splits\<close>)
  with assms(1) show ?thesis by simp
qed


lemma step_publishedE:
  assumes "step_published e (tk, payload, claim) rest w W = (w', W')"
  shows "wq W' = wq W" "wexpired W' = wexpired W" "wcalls W' = wcalls W"
    "wdb W' = wdb W \<or> wdb W' = snd (mark_outbox_delivered (e_now e) tk claim (wdb W))"
    "pc w' = Publishing rest \<or> pc w' = Stopped \<or> (\<exists>x. pc w' = PublishFailed tk claim x rest)"
  using assms
  by (auto simp: step_published_def step_simps db_call_def split: call_splits outcome.splits)

lemma worker_step_db:
  assumes "worker_step X C e w W = (w', W')" "\<And>raws. pc w \<noteq> Recovering raws"
  shows "wdb W' = wdb W \<or> forward_txn X C (wdb W) (wdb W')"
proof (cases "\<exists>c rest. pc w = Published c rest")
  case True
  then obtain tk p c rest where "pc w = Published (tk, p, c) rest" by fastforce
  with assms(1) have "step_published e (tk, p, c) rest w W = (w', W')" by (simp add: worker_step_def)
  from step_publishedE(4) [OF this] show ?thesis by (auto intro: forward_txn.outbox_delivered)
next
  case False
  then show ?thesis using worker_step_inner [OF assms] by (auto simp: step_db_def intro: forward_txn.inner)
qed

text \<open>A step of recovery runs its transaction for the delivery at hand.\<close>

lemma recovering_step:
  assumes "step_recovering X C e (raw # rest) w W = (w', W')"
  obtains (dead) "wdb W' = wdb W" "wexpired W' = wexpired W" "wcalls W' = wcalls W"
      "\<exists>x. parse_delivery raw = Inl x" "wq W' = wq W \<or> wq W' = snd (dead_letter_processing_delivery raw (wq W))"
      "pc w' = AtReap \<or> pc w' = Recovering rest"
  | (same) p tk where "parse_delivery raw = Inr (p, tk)" "W' = W" "pc w' = AtReap \<or> pc w' = Recovering rest"
  | (txn) p tk recd fin where "parse_delivery raw = Inr (p, tk)"
      "recover_txn X C (e_now e) tk p (wdb W) = Inr (recd, fin, wdb W')"
      "W' = W\<lparr>wdb := wdb W', wexpired := note_expiry (task_key X (JStr tk)) (wdb W) (wdb W') (wexpired W)\<rparr>"
      "pc w' = AtReap \<or> pc w' = Recovering rest \<or> pc w' = Recovered raw recd fin rest"
proof (cases "parse_delivery raw")
  case (Inl x)
  show ?thesis
    by (rule dead; use assms Inl in \<open>auto simp: step_recovering_def goto_def split: if_splits prod.splits sum.splits
        dest: redis_call_cases\<close>)
next
  case (Inr pt)
  obtain p tk where pt: "pt = (p, tk)" by (cases pt)
  let ?f = "\<lambda>d. bindR (recover_txn X C (e_now e) tk p d) (\<lambda>(recovered, fin, d'). Inr ((recovered, fin), d'))"
  obtain r d where call: "db_call (e_db e) ?f (wdb W) = (r, d)" by fastforce
  from assms Inr pt call have W': "W' = W\<lparr>wdb := d, wexpired := note_expiry (task_key X (JStr tk)) (wdb W) d (wexpired W)\<rparr>"
    and pc: "case r of Inl x \<Rightarrow> pc w' = AtReap \<or> pc w' = Recovering rest | Inr (a, b) \<Rightarrow> pc w' = Recovered raw a b rest"
    by (auto simp: step_recovering_def goto_def Let_def split: sum.splits prod.splits)
  from call show ?thesis
  proof (cases rule: db_callE)
    case (same x)
    then show ?thesis using that(2) [of p tk] W' pc Inr pt by (auto simp: note_expiry_def)
  next
    case (committed x)
    then obtain a b where x: "x = (a, b)" "recover_txn X C (e_now e) tk p (wdb W) = Inr (a, b, d)"
      by (auto simp: res_simps)
    then show ?thesis using txn [of p tk a b] W' pc Inr pt committed(2) by (auto split: sum.splits)
  qed
qed

lemma inner_txn_started: "inner_txn X C d d' \<Longrightarrow> started_kept d d'"
proof (erule inner_txnE, goal_cases)
  case (2 now tid e p)
  then show ?case unfolding record_provider_attempt_def
    by (elim bindR_InrE) (auto intro: started_kept_same split: option.splits if_splits)
next
  case (5 now tid e res ok)
  then obtain k m rj where "d' = d\<lparr>tasks := update_where (holds_lease k e) (finish_task now m rj) (tasks d)\<rparr>"
    by (auto simp: record_succeeded_def res_simps)
  then show ?case by (intro started_kept_update [of _ "holds_lease k e" "finish_task now m rj"]) (simp_all add: finish_task_def)
next
  case (6 now tid e prov mdl usage lane amount)
  then show ?case by (auto simp: record_cost_def res_simps elim!: insert_costE intro: started_kept_same)
qed (auto intro: claim_task_started record_completion_started record_failed_started reap_txn_started started_kept_same
      simp: claim_pending_outbox_def record_outbox_delivery_error_def cleanup_terminal_outbox_def Let_def)

lemma forward_txn_started: "forward_txn X C d d' \<Longrightarrow> started_kept d d'"
  by (erule forward_txnE)
     (auto intro: inner_txn_started started_kept_same started_kept_insert elim!: record_queued_task_tasks
        simp: mark_outbox_delivered_def)

subsection \<open>What a step leaves alone\<close>

lemmas step_defs = worker_step_def step_dispatch_def step_publish_def step_published_def step_publish_failed_def
  step_cleanup_def step_recover_def step_recovered_def step_reap_def step_reap_processing_def
  step_reaping_def step_poll_def step_received_def step_claim_def step_attempt_def step_call_def step_complete_def
  step_fail_def step_leave_def step_ack_def

fun at_provider :: "pc \<Rightarrow> (json \<times> string) option" where
  "at_provider (Attempting raw p tid x) = Some (tid, x)"
| "at_provider (Calling raw p tid x) = Some (tid, x)"
| "at_provider _ = None"

lemma step_log:
  assumes "worker_step X C e w W = (w', W')"
  shows "wcalls W' = wcalls W \<or> (\<exists>raw p tid x. pc w = Calling raw p tid x \<and> wcalls W' = (tid, x) # wcalls W)"
proof (cases "\<exists>raws. pc w = Recovering raws")
  case True
  then obtain raws where p: "pc w = Recovering raws" by blast
  show ?thesis
    using assms p by (cases raws)
      (auto simp: worker_step_def step_recovering_def step_simps elim!: recovering_step split: call_splits prod.splits simp: Let_def)
next
  case False
  with assms show ?thesis
    by (cases "pc w")
       (auto simp: step_defs step_simps Let_def split: call_splits json.splits dest!: beatD)
qed

lemma step_expired:
  assumes "worker_step X C e w W = (w', W')" "\<And>raws. pc w \<noteq> Recovering raws"
  shows "wexpired W' = wexpired W"
  using assms
  by (cases "pc w") (auto simp: step_defs step_simps Let_def split: call_splits json.splits dest!: beatD)

text \<open>How a worker comes to the provider call: by a claim, and then by the attempt receipt.\<close>

lemma step_at_provider:
  assumes "worker_step X C e w W = (w', W')" "at_provider (pc w') = Some (tid, x)"
  obtains (claim) raw p where "pc w = Claiming raw p tid" "pc w' = Attempting raw p tid x" "wcalls W' = wcalls W"
      "x = e_uuid e" "claim_task X (e_now e) (e_uuid e) tid p (wdb W) = Inr (Some x, wdb W')"
      "wq W' = wq W"
  | (attempt) raw p where "pc w = Attempting raw p tid x" "pc w' = Calling raw p tid x" "wcalls W' = wcalls W"
      "record_provider_attempt X (e_now e) tid x p (wdb W) = Inr (wdb W')" "wq W' = wq W"
proof (cases "\<exists>raws. pc w = Recovering raws")
  case True
  then obtain raws where "pc w = Recovering raws" by blast
  then have False
    using assms by (cases raws)
      (auto simp: worker_step_def step_simps step_recovering_def Let_def split: call_splits prod.splits)
  then show ?thesis ..
next
  case False
  show ?thesis
  proof (cases "pc w")
    case (Claiming raw p tid')
    obtain r d where call: "db_call (e_db e) (claim_task X (e_now e) (e_uuid e) tid' p) (wdb W) = (r, d)" by fastforce
    with assms Claiming obtain v where r: "r = Inr (Some v)" "v = x" "tid' = tid" "W' = W\<lparr>wdb := d\<rparr>"
        "pc w' = Attempting raw p tid x"
      by (auto simp: step_defs step_simps split: call_splits)
    have c: "claim_task X (e_now e) (e_uuid e) tid p (wdb W) = Inr (Some x, d)"
      using db_call_Inr [of "e_db e" "claim_task X (e_now e) (e_uuid e) tid' p" "wdb W" "Some x" d] call r by simp
    moreover have "x = e_uuid e" using c by (rule claim_task_lease)
    ultimately show ?thesis using r Claiming by (intro claim [of raw p]) simp_all
  next
    case (Attempting raw p tid' x')
    obtain r d where call: "db_call (e_db e) (\<lambda>d. bindR (record_provider_attempt X (e_now e) tid' x' p d) (\<lambda>d'. Inr ((), d'))) (wdb W) = (r, d)"
      by fastforce
    with assms Attempting have r: "r = Inr ()" "x' = x" "tid' = tid" "W' = W\<lparr>wdb := d\<rparr>" "pc w' = Calling raw p tid x"
      by (auto simp: step_defs step_simps split: call_splits)
    from db_call_Inr [OF call [unfolded r(1)]] have "record_provider_attempt X (e_now e) tid x p (wdb W) = Inr d"
      using r by (auto simp: res_simps)
    then show ?thesis using r Attempting by (intro attempt [of raw p]) simp_all
  qed (use False assms in \<open>auto simp: step_defs step_simps Let_def fresh_worker_def split: call_splits json.splits dest!: beatD\<close>)
qed

end
