(* ===== verification/ControlPlane.thy ===== *)
theory ControlPlane
  imports WorkerProps
begin

text \<open>
  The control plane as a whole: any number of workers on one database and one Redis, the
  dashboard that submits tasks, other producers, and processes that die at any point. Events are
  interleaved freely. Shown here: what every history keeps of the tables, that a provider is
  called only under a durable attempt receipt and once per lease, and how often one task can
  reach a provider.
\<close>

record sys =
  shared :: world
  crew :: "worker list"
  issued :: "string list"

datatype event =
    Turn nat env
  | Kill nat
  | Submit time outcome string dict
  | External string

definition start_world :: world where
  "start_world = \<lparr>wdb = empty_db, wq = no_queues, wcalls = [], wexpired = []\<rparr>"

definition start_sys :: "string list \<Rightarrow> sys" where
  "start_sys names = \<lparr>shared = start_world, crew = map fresh_worker names, issued = []\<rparr>"

text \<open>
  \<open>Turn\<close>: a worker runs to its next call, with a uuid4 that was never issued before. \<open>Submit\<close>: the
  dashboard records a task. \<open>External\<close>: another producer pushes a raw message.
\<close>

definition sys_step :: "ext \<Rightarrow> config \<Rightarrow> event \<Rightarrow> sys \<Rightarrow> sys option" where
  "sys_step X C ev S = (case ev of
     Turn i e \<Rightarrow>
       if i < length (crew S) \<and> e_uuid e \<notin> set (issued S) then
         (case one_step (worker_step X C e) i (crew S, shared S) of (ws, W) \<Rightarrow>
            Some (S\<lparr>shared := W, crew := ws, issued := e_uuid e # issued S\<rparr>))
       else None
   | Kill i \<Rightarrow>
       if i < length (crew S) then Some (S\<lparr>crew := (crew S)[i := (crew S ! i)\<lparr>pc := Stopped\<rparr>]\<rparr>) else None
   | Submit now out tk p \<Rightarrow>
       Some (S\<lparr>shared := (shared S)\<lparr>wdb :=
         snd (db_call out (\<lambda>d. bindR (record_queued_task X now tk p d) (\<lambda>d'. Inr ((), d'))) (wdb (shared S)))\<rparr>\<rparr>)
   | External raw \<Rightarrow> Some (S\<lparr>shared := (shared S)\<lparr>wq := rpush_task raw (wq (shared S))\<rparr>\<rparr>))"

fun run_events :: "ext \<Rightarrow> config \<Rightarrow> event list \<Rightarrow> sys \<Rightarrow> sys option" where
  "run_events X C [] S = Some S"
| "run_events X C (ev # evs) S = (case sys_step X C ev S of None \<Rightarrow> None | Some S' \<Rightarrow> run_events X C evs S')"

inductive reachable :: "ext \<Rightarrow> config \<Rightarrow> sys \<Rightarrow> bool" for X C where
  start: "reachable X C (start_sys names)"
| step: "reachable X C S \<Longrightarrow> sys_step X C ev S = Some S' \<Longrightarrow> reachable X C S'"

lemma run_events_reachable: "reachable X C S \<Longrightarrow> run_events X C evs S = Some S' \<Longrightarrow> reachable X C S'"
  by (induction evs arbitrary: S) (auto split: option.splits intro: reachable.step)

text \<open>The four kinds of events, as the proofs use them.\<close>

lemma sys_step_cases:
  assumes "sys_step X C ev S = Some S'"
  obtains (turn) i e w' W' where "ev = Turn i e" "i < length (crew S)" "e_uuid e \<notin> set (issued S)"
      "worker_step X C e (crew S ! i) (shared S) = (w', W')"
      "S' = S\<lparr>shared := W', crew := (crew S)[i := w'], issued := e_uuid e # issued S\<rparr>"
  | (kill) i where "ev = Kill i" "i < length (crew S)" "S' = S\<lparr>crew := (crew S)[i := (crew S ! i)\<lparr>pc := Stopped\<rparr>]\<rparr>"
  | (submit) now out tk p d' where "ev = Submit now out tk p"
      "d' = wdb (shared S) \<or> record_queued_task X now tk p (wdb (shared S)) = Inr d'"
      "S' = S\<lparr>shared := (shared S)\<lparr>wdb := d'\<rparr>\<rparr>"
  | (external) raw where "ev = External raw" "S' = S\<lparr>shared := (shared S)\<lparr>wq := rpush_task raw (wq (shared S))\<rparr>\<rparr>"
proof (cases ev)
  case (Turn i e)
  obtain w' W' where st: "worker_step X C e (crew S ! i) (shared S) = (w', W')" by fastforce
  with assms Turn show ?thesis
    by (intro turn [of i e w' W']) (auto simp: sys_step_def one_step_def split: if_splits)
next
  case (Kill i)
  with assms show ?thesis by (intro kill [of i]) (auto simp: sys_step_def split: if_splits)
next
  case (Submit now out tk p)
  obtain r d' where call: "db_call out (\<lambda>d. bindR (record_queued_task X now tk p d) (\<lambda>d'. Inr ((), d'))) (wdb (shared S)) = (r, d')"
    by fastforce
  from db_call_cases [OF call] have "d' = wdb (shared S) \<or> record_queued_task X now tk p (wdb (shared S)) = Inr d'"
    by (auto simp: res_simps)
  with assms Submit call show ?thesis by (intro submit [of now out tk p d']) (auto simp: sys_step_def)
next
  case (External raw)
  with assms show ?thesis by (intro external [of raw]) (auto simp: sys_step_def)
qed

subsection \<open>The tables\<close>

lemma worker_step_txn:
  assumes "worker_step X C e w W = (w', W')"
  shows "wdb W' = wdb W \<or> db_txn X C (wdb W) (wdb W')"
proof (cases "\<exists>raws. pc w = Recovering raws")
  case True
  then obtain raws where p: "pc w = Recovering raws" by blast
  show ?thesis
  proof (cases raws)
    case (Cons raw rest)
    with assms p have "step_recovering X C e (raw # rest) w W = (w', W')" by (simp add: worker_step_def)
    then show ?thesis by (cases rule: recovering_step) (auto intro: db_txn.recover)
  qed (use assms p in \<open>auto simp: worker_step_def step_recovering_def goto_def\<close>)
next
  case False
  with worker_step_db [OF assms] show ?thesis by (auto intro: db_txn.forward)
qed

lemma sys_step_txn:
  assumes "sys_step X C ev S = Some S'"
  shows "wdb (shared S') = wdb (shared S) \<or> db_txn X C (wdb (shared S)) (wdb (shared S'))"
  using assms
  by (cases rule: sys_step_cases) (auto dest: worker_step_txn intro: db_txn.forward forward_txn.queue_task)

lemma sys_step_keeps:
  assumes "sys_step X C ev S = Some S'" "wf_db (wdb (shared S))"
  shows "wf_db (wdb (shared S'))" "db_advance (wdb (shared S)) (wdb (shared S'))"
  using sys_step_txn [OF assms(1)] db_txn_keeps assms(2) by auto

lemma reachable_wf: "reachable X C S \<Longrightarrow> wf_db (wdb (shared S))"
  by (induction rule: reachable.induct) (auto simp: start_sys_def start_world_def dest: sys_step_keeps)

lemma run_events_keeps:
  "run_events X C evs S = Some S' \<Longrightarrow> wf_db (wdb (shared S)) \<Longrightarrow>
   wf_db (wdb (shared S')) \<and> db_advance (wdb (shared S)) (wdb (shared S'))"
proof (induction evs arbitrary: S)
  case (Cons ev evs)
  then obtain S1 where s: "sys_step X C ev S = Some S1" "run_events X C evs S1 = Some S'"
    by (auto split: option.splits)
  from sys_step_keeps [OF s(1) Cons.prems(2)] Cons.IH [OF s(2)] show ?case by (auto intro: db_advance_trans)
qed simp

subsection \<open>How often a task reaches a provider\<close>

definition held_task :: "ext \<Rightarrow> string \<Rightarrow> worker \<Rightarrow> nat" where
  "held_task X k w = (case at_provider (pc w) of None \<Rightarrow> 0 | Some (tid, x) \<Rightarrow> if task_key X tid = k then 1 else 0)"

text \<open>The calls of the provider client for one task, and how often a lease of it was taken away.\<close>

definition calls_of :: "ext \<Rightarrow> string \<Rightarrow> world \<Rightarrow> nat" where
  "calls_of X k W = length (filter (\<lambda>(tid, x). task_key X tid = k) (wcalls W))"

definition expiries_of :: "string \<Rightarrow> world \<Rightarrow> nat" where
  "expiries_of k W = count_list (wexpired W) k"

definition task_bound :: "string \<Rightarrow> world \<Rightarrow> nat" where
  "task_bound k W = expiries_of k W + (if started (wdb W) k then 1 else 0)"

lemma task_bound_mono:
  assumes "worker_step X C e w W = (w', W')"
  shows "task_bound k W \<le> task_bound k W'"
proof (cases "\<exists>raws. pc w = Recovering raws")
  case True
  then obtain raws where p: "pc w = Recovering raws" by blast
  show ?thesis
  proof (cases raws)
    case (Cons raw rest)
    with assms p have "step_recovering X C e (raw # rest) w W = (w', W')" by (simp add: worker_step_def)
    then show ?thesis
    proof (cases rule: recovering_step)
      case (txn p tk recd fin)
      have "started (wdb W') k" if "started (wdb W) k" "k \<noteq> task_key X (JStr tk)"
        using txn(2) that by (elim recover_txn_tasks) (auto simp: started_iff)
      moreover have "expiries_of k W' = (if k = task_key X (JStr tk) \<and> started (wdb W) k \<and> \<not> started (wdb W') k
          then 1 else 0) + expiries_of k W"
        using arg_cong [OF txn(3), of wexpired] by (auto simp: expiries_of_def note_expiry_def)
      ultimately show ?thesis by (auto simp: task_bound_def)
    qed (auto simp: task_bound_def expiries_of_def)
  qed (use assms p in \<open>auto simp: worker_step_def step_recovering_def goto_def\<close>)
next
  case False
  then have "started_kept (wdb W) (wdb W')"
    using worker_step_db [OF assms] forward_txn_started by auto
  moreover have "wexpired W' = wexpired W" using step_expired [OF assms] False by blast
  ultimately show ?thesis by (auto simp: task_bound_def expiries_of_def started_kept_def)
qed

lemma task_step_cost:
  assumes "worker_step X C e w W = (w', W')"
  shows "calls_of X k W' + held_task X k w' + task_bound k W \<le> calls_of X k W + held_task X k w + task_bound k W'"
proof (cases "at_provider (pc w')")
  case None
  then have "held_task X k w' = 0" by (simp add: held_task_def)
  moreover from step_log [OF assms] have "calls_of X k W' \<le> calls_of X k W + held_task X k w"
    by (auto simp: calls_of_def held_task_def)
  ultimately show ?thesis using task_bound_mono [OF assms, of k] by simp
next
  case (Some tx)
  obtain tid x where tx: "tx = (tid, x)" by (cases tx)
  from assms Some [unfolded tx] show ?thesis
  proof (cases rule: step_at_provider)
    case (attempt raw p)
    then show ?thesis using task_bound_mono [OF assms, of k] by (simp add: calls_of_def held_task_def)
  next
    case (claim raw p)
    from claim(5) obtain k' r where c: "pg_uuid X tid = Inr k'" "row (tasks (wdb W')) k' = Some r"
        "holds_lease k' x k' r" "row (tasks (wdb W)) k' = None \<or> is_queued (wdb W) k'"
      using claim(4) by (elim claim_task_lease) auto
    then have "started (wdb W') k'" "\<not> started (wdb W) k'" by (auto simp: started_iff holds_lease_def is_queued_def)
    moreover have "task_key X tid = k'" using c(1) by (simp add: task_key_def)
    moreover have "expiries_of k W' = expiries_of k W"
      using step_expired [OF assms] claim(1) by (simp add: expiries_of_def)
    ultimately show ?thesis using claim task_bound_mono [OF assms, of k]
      by (auto simp: calls_of_def held_task_def task_bound_def split: if_splits)
  qed
qed

interpretation task_calls: counting "worker_step X C" "held_task X k" "calls_of X k" "task_bound k" "\<lambda>_. 0" for X C k
  by unfold_locales (simp add: task_step_cost)

lemma kill_sum:
  assumes "i < length ws" "held (ws ! i) \<ge> held w"
  shows "sum_list (map held (ws[i := w])) \<le> (sum_list (map held ws) :: nat)"
  using assms by (simp add: map_update sum_list_update member_le_sum_list)

lemma calls_bounded:
  assumes "reachable X C S"
  shows "calls_of X k (shared S) + sum_list (map (held_task X k) (crew S)) \<le> task_bound k (shared S)"
  using assms
proof induction
  case (start names)
  show ?case
    by (simp add: held_task_def fresh_worker_def comp_def start_sys_def start_world_def calls_of_def)
next
  case (step S ev S')
  from step(2) show ?case
  proof (cases rule: sys_step_cases)
    case (turn i e w' W')
    then have "one_step (worker_step X C e) i (crew S, shared S) = ((crew S)[i := w'], W')"
      by (simp add: one_step_def)
    from task_calls.total_cost [OF turn(2) this, where k = k] step(3) turn(5) show ?thesis by simp
  next
    case (kill i)
    have "sum_list (map (held_task X k) ((crew S)[i := (crew S ! i)\<lparr>pc := Stopped\<rparr>])) \<le> sum_list (map (held_task X k) (crew S))"
      using kill(2) by (intro kill_sum) (auto simp: held_task_def)
    with step(3) kill(3) show ?thesis by simp
  next
    case (submit now out tk p d')
    then have "started_kept (wdb (shared S)) d'"
      using forward_txn_started [OF forward_txn.queue_task] by auto
    with step(3) submit(3) show ?thesis
      by (auto simp: calls_of_def task_bound_def expiries_of_def started_kept_def split: if_splits)
  next
    case (external raw)
    with step(3) show ?thesis by (simp add: calls_of_def task_bound_def expiries_of_def)
  qed
qed


subsection \<open>One call per execution lease\<close>

definition held_exec :: "string \<Rightarrow> worker \<Rightarrow> nat" where
  "held_exec x w = (case at_provider (pc w) of None \<Rightarrow> 0 | Some (tid, y) \<Rightarrow> if y = x then 1 else 0)"

definition calls_under :: "string \<Rightarrow> world \<Rightarrow> nat" where
  "calls_under x W = length (filter (\<lambda>(tid, y). y = x) (wcalls W))"

lemma exec_step_cost:
  assumes "worker_step X C e w W = (w', W')"
  shows "calls_under x W' + held_exec x w' \<le> calls_under x W + held_exec x w + (if e_uuid e = x then 1 else 0)"
proof (cases "at_provider (pc w')")
  case None
  then have "held_exec x w' = 0" by (simp add: held_exec_def)
  moreover from step_log [OF assms] have "calls_under x W' \<le> calls_under x W + held_exec x w"
    by (auto simp: calls_under_def held_exec_def)
  ultimately show ?thesis by simp
next
  case (Some tx)
  obtain tid y where tx: "tx = (tid, y)" by (cases tx)
  from assms Some [unfolded tx] show ?thesis
    by (cases rule: step_at_provider) (auto simp: calls_under_def held_exec_def)
qed

interpretation exec_calls: counting "worker_step X C" "held_exec x" "calls_under x" "\<lambda>_. 0"
    "\<lambda>e. if e_uuid e = x then 1 else 0" for X C x
  by unfold_locales (use exec_step_cost in simp)

lemma exec_once:
  assumes "reachable X C S"
  shows "calls_under x (shared S) + sum_list (map (held_exec x) (crew S)) \<le> (if x \<in> set (issued S) then 1 else 0)"
  using assms
proof induction
  case (start names)
  show ?case
    by (simp add: held_exec_def fresh_worker_def comp_def start_sys_def start_world_def calls_under_def)
next
  case (step S ev S')
  from step(2) show ?case
  proof (cases rule: sys_step_cases)
    case (turn i e w' W')
    then have "one_step (worker_step X C e) i (crew S, shared S) = ((crew S)[i := w'], W')"
      by (simp add: one_step_def)
    from exec_calls.total_cost [OF turn(2) this, where x = x] step(3) turn(3,5) show ?thesis
      by (auto simp del: sum_list_eq_0_iff split: if_splits)
  next
    case (kill i)
    have "sum_list (map (held_exec x) ((crew S)[i := (crew S ! i)\<lparr>pc := Stopped\<rparr>])) \<le> sum_list (map (held_exec x) (crew S))"
      using kill(2) by (intro kill_sum) (auto simp: held_exec_def)
    with step(3) kill(3) show ?thesis by simp
  next
    case (submit now out tk p d')
    with step(3) show ?thesis by (simp add: calls_under_def)
  next
    case (external raw)
    with step(3) show ?thesis by (simp add: calls_under_def)
  qed
qed

subsection \<open>A durable receipt before every call\<close>

definition has_attempt :: "ext \<Rightarrow> world \<Rightarrow> json \<times> string \<Rightarrow> bool" where
  "has_attempt X W c \<longleftrightarrow> row (provider_attempts (wdb W)) (task_key X (fst c), snd c) \<noteq> None"

definition log_receipted :: "ext \<Rightarrow> world \<Rightarrow> bool" where
  "log_receipted X W \<longleftrightarrow> wf_db (wdb W) \<and> (\<forall>c \<in> set (wcalls W). has_attempt X W c)"

definition calling_receipted :: "ext \<Rightarrow> world \<Rightarrow> worker \<Rightarrow> bool" where
  "calling_receipted X W w \<longleftrightarrow> (case pc w of Calling raw p tid x \<Rightarrow> has_attempt X W (tid, x) | _ \<Rightarrow> True)"

definition attempts_kept :: "world \<Rightarrow> world \<Rightarrow> bool" where
  "attempts_kept W W' \<longleftrightarrow> (\<forall>k. row (provider_attempts (wdb W)) k \<noteq> None \<longrightarrow> row (provider_attempts (wdb W')) k \<noteq> None)"

lemma has_attempt_kept: "has_attempt X W c \<Longrightarrow> attempts_kept W W' \<Longrightarrow> has_attempt X W' c"
  by (simp add: has_attempt_def attempts_kept_def)

lemma db_advance_attempts: "db_advance (wdb W) (wdb W') \<Longrightarrow> attempts_kept W W'"
  unfolding attempts_kept_def db_advance_def attempts_advance_def by fast

lemma receipt_step:
  assumes "log_receipted X W" "calling_receipted X W w" "worker_step X C e w W = (w', W')"
  shows "log_receipted X W' \<and> calling_receipted X W' w' \<and> attempts_kept W W'"
proof -
  have wf: "wf_db (wdb W')" and adv: "db_advance (wdb W) (wdb W')"
    using worker_step_txn [OF assms(3)] db_txn_keeps assms(1) by (auto simp: log_receipted_def)
  have kept: "attempts_kept W W'" by (rule db_advance_attempts [OF adv])
  have "\<forall>c \<in> set (wcalls W'). has_attempt X W' c"
    using step_log [OF assms(3)] assms(1,2) has_attempt_kept [OF _ kept]
    by (auto simp: log_receipted_def calling_receipted_def)
  moreover have "calling_receipted X W' w'"
  proof (cases "\<exists>raw p tid x. pc w' = Calling raw p tid x")
    case True
    then obtain raw p tid x where c: "pc w' = Calling raw p tid x" by blast
    then have "at_provider (pc w') = Some (tid, x)" by simp
    with assms(3) show ?thesis
    proof (cases rule: step_at_provider)
      case (attempt raw' p')
      from record_provider_attempt_wf(4) [OF attempt(4)] assms(1) obtain k a where
        "pg_uuid X tid = Inr k" "row (provider_attempts (wdb W')) (k, x) = Some a"
        by (auto simp: log_receipted_def)
      then show ?thesis using attempt by (simp add: calling_receipted_def has_attempt_def task_key_def)
    qed (use c in auto)
  qed (auto simp: calling_receipted_def split: pc.splits)
  ultimately show ?thesis using wf kept by (simp add: log_receipted_def)
qed

lemma calling_stable: "calling_receipted X W w \<Longrightarrow> attempts_kept W W' \<Longrightarrow> calling_receipted X W' w"
  by (cases "pc w") (simp_all add: calling_receipted_def has_attempt_def attempts_kept_def)

interpretation receipts: rely_guarantee "worker_step X C" "\<lambda>_ _. True" "log_receipted X" "calling_receipted X" attempts_kept for X C
  by unfold_locales (use receipt_step calling_stable in \<open>blast+\<close>)

lemma reachable_receipts:
  assumes "reachable X C S" shows "all_hold (log_receipted X) (calling_receipted X) (crew S) (shared S)"
  using assms
proof induction
  case (start names)
  then show ?case
    by (simp add: all_hold_def start_sys_def start_world_def log_receipted_def calling_receipted_def fresh_worker_def)
next
  case (step S ev S')
  from step(2) show ?case
  proof (cases rule: sys_step_cases)
    case (turn i e w' W')
    then show ?thesis using receipts.interleave(1) [OF step(3) turn(2) _ turn(4)] by simp
  next
    case (kill i)
    have "calling_receipted X (shared S) ((crew S ! i)\<lparr>pc := Stopped\<rparr>)" by (simp add: calling_receipted_def)
    from receipts.replace_worker [OF step(3) this] kill(3) show ?thesis by simp
  next
    case (submit now out tk p d')
    have "wf_db d'" "db_advance (wdb (shared S)) d'"
      using sys_step_keeps [OF step(2)] reachable_wf [OF step(1)] submit(3) by auto
    then have k: "attempts_kept (shared S) (shared S')" using submit(3) by (intro db_advance_attempts) simp
    then have "log_receipted X (shared S')"
      using step(3) \<open>wf_db d'\<close> submit(3)
      by (auto simp: all_hold_def log_receipted_def has_attempt_def attempts_kept_def)
    from receipts.outside [OF step(3) this k] submit(3) show ?thesis by simp
  next
    case (external raw)
    have "attempts_kept (shared S) (shared S')" "log_receipted X (shared S')"
      using step(3) external by (auto simp: attempts_kept_def all_hold_def log_receipted_def has_attempt_def)
    from receipts.outside [OF step(3) this(2,1)] external show ?thesis by simp
  qed
qed

end
