(* ===== verification/Deliveries.thy ===== *)
theory Deliveries
  imports ControlPlane
begin

text \<open>
  No queued task is forgotten: as long as no lease of it expires, a task that waits has a
  delivery in one of the two Redis lists or an outbox row still to be dispatched. The proof is a
  rely-guarantee argument over the steps of the workers.
\<close>

text \<open>
  What is relied on of PostgreSQL: a value it accepts as a UUID is the one Python's uuid module
  reads, and a JSONB column gives back a JSON value without floats for one without floats.
\<close>

definition pg_ok :: "ext \<Rightarrow> bool" where
  "pg_ok X \<longleftrightarrow> (\<forall>j k s. pg_uuid X j = Inr k \<longrightarrow> uuid_of_json j = Inr s \<longrightarrow> k = s) \<and>
     (\<forall>j j'. pg_jsonb X j = Inr j' \<longrightarrow> plain j \<longrightarrow> plain j')"

definition delivers :: "string \<Rightarrow> string \<Rightarrow> bool" where
  "delivers raw k \<longleftrightarrow> (\<exists>p. parse_delivery raw = Inr (p, k))"

definition settled :: "string \<Rightarrow> world \<Rightarrow> bool" where
  "settled k W \<longleftrightarrow> k \<in> set (wexpired W) \<or> started (wdb W) k"

definition covered :: "string \<Rightarrow> world \<Rightarrow> bool" where
  "covered k W \<longleftrightarrow> settled k W \<or> (\<exists>raw \<in> live (wq W). delivers raw k)"

definition to_dispatch :: "db \<Rightarrow> string \<Rightarrow> bool" where
  "to_dispatch d k \<longleftrightarrow> (\<exists>b. row (task_outbox d) k = Some b \<and> o_delivered_at b = None)"

definition none_lost :: "world \<Rightarrow> bool" where
  "none_lost W \<longleftrightarrow> (\<forall>k. is_queued (wdb W) k \<longrightarrow> covered k W \<or> to_dispatch (wdb W) k)"

definition plain_outbox :: "db \<Rightarrow> bool" where
  "plain_outbox d \<longleftrightarrow> (\<forall>(k, b) \<in> set (task_outbox d). plain (o_payload b))"

definition world_ok :: "world \<Rightarrow> bool" where
  "world_ok W \<longleftrightarrow> none_lost W \<and> plain_outbox (wdb W) \<and> keyed (task_outbox (wdb W))"

definition keeps :: "world \<Rightarrow> world \<Rightarrow> bool" where
  "keeps W W' \<longleftrightarrow> (\<forall>k. (settled k W \<longrightarrow> settled k W') \<and> (covered k W \<longrightarrow> covered k W'))"

subsection \<open>The identifier of a delivery\<close>

lemma parse_deliveryD:
  assumes "parse_delivery raw = Inr (p, k)"
  shows "loads raw = Inr (JObj p)" "validate_payload True (JObj p) = Inr (Some k)"
    "validate_payload False (JObj p) = Inr None" "uuid_of_json (jget p ''task_id'') = Inr k"
    "truthy (jget p ''task_id'')"
proof -
  show l: "loads raw = Inr (JObj p)" and v: "validate_payload True (JObj p) = Inr (Some k)"
    using assms unfolding parse_delivery_def
    by (auto elim!: bindR_InrE split: json.splits option.splits)
  then show "validate_payload False (JObj p) = Inr None"
    by (auto simp: validate_payload_def res_simps)
  from v show u: "uuid_of_json (jget p ''task_id'') = Inr k"
    by (auto simp: validate_payload_def res_simps jget_def split: option.splits)
  show "truthy (jget p ''task_id'')"
  proof (cases "jget p ''task_id''")
    case (JStr s)
    have "uuid_str '''' = raise ValueError ''badly formed hexadecimal UUID string''"
      by (simp add: uuid_str_def uuid_hex_def strip_chars_def)
    with JStr u show ?thesis by (cases s) (auto simp: uuid_of_json_def)
  next
    case (JInt i)
    have "uuid_str (show_int 0) = raise ValueError ''badly formed hexadecimal UUID string''"
      by code_simp
    with JInt u show ?thesis by (auto simp: uuid_of_json_def)
  qed (use u in \<open>auto simp: uuid_of_json_def\<close>)
qed

lemma delivers_idem: "delivers raw k \<Longrightarrow> uuid_of_json (JStr k) = Inr k"
  by (auto simp: delivers_def dest!: parse_deliveryD(4) intro: uuid_of_json_idem)

lemma delivers_key: "delivers raw k \<Longrightarrow> pg_ok X \<Longrightarrow> pg_uuid X (JStr k) = Inr k' \<Longrightarrow> k' = k"
  using delivers_idem by (auto simp: pg_ok_def)

text \<open>Publishing an outbox row puts a delivery of its task in the list.\<close>

lemma published_delivers:
  assumes "plain payload" "check_outbox_claim tk payload = Inr ()"
  shows "delivers (dumps unicode_opts payload) tk"
proof -
  have v: "validate_payload True payload = Inr (Some tk)"
    using assms(2) by (auto simp: check_outbox_claim_def res_simps)
  then obtain p where "payload = JObj p" by (cases payload) (auto simp: validate_payload_def)
  moreover have "loads (dumps unicode_opts payload) = Inr payload"
    using assms(1) by (intro loads_dumps) (auto simp: ok_opts_def unicode_opts_def is_ws_def)
  ultimately show ?thesis using v by (auto simp: delivers_def parse_delivery_def)
qed

subsection \<open>Transactions that cannot lose a task\<close>

definition quiet :: "db \<Rightarrow> db \<Rightarrow> bool" where
  "quiet d d' \<longleftrightarrow> started_kept d d' \<and> (\<forall>k. is_queued d' k \<longrightarrow> is_queued d k)
     \<and> (\<forall>k. to_dispatch d k \<longrightarrow> to_dispatch d' k) \<and> (plain_outbox d \<longrightarrow> plain_outbox d')
     \<and> (keyed (task_outbox d) \<longrightarrow> keyed (task_outbox d'))"

lemma quiet_refl [simp]: "quiet d d"
  by (simp add: quiet_def)

lemma quiet_tasks:
  "started_kept d d' \<Longrightarrow> (\<And>k. is_queued d' k \<Longrightarrow> is_queued d k) \<Longrightarrow> task_outbox d' = task_outbox d \<Longrightarrow> quiet d d'"
  by (simp add: quiet_def to_dispatch_def plain_outbox_def)

lemma is_queued_iff: "is_queued d k \<longleftrightarrow> (\<exists>r. row (tasks d) k = Some r \<and> status r = Queued)"
  by (auto simp: is_queued_def split: option.splits)

lemma is_queued_same: "tasks d' = tasks d \<Longrightarrow> is_queued d' k = is_queued d k"
  by (simp add: is_queued_def)

lemma is_queued_update:
  assumes "tasks d' = update_where p f (tasks d)" "\<And>k r. p k r \<Longrightarrow> status (f r) \<noteq> Queued" "is_queued d' k"
  shows "is_queued d k"
  using assms by (auto simp: is_queued_iff table_simps split: if_splits)


lemma is_queued_upd:
  "tasks d' = update_where p f t \<Longrightarrow>
   is_queued d' k \<longleftrightarrow> (\<exists>r. row t k = Some r \<and> status (if p k r then f r else r) = Queued)"
  by (cases "row t k") (simp_all add: is_queued_def row_update_where)

text \<open>Claiming takes exactly its own task out of the waiting ones.\<close>

lemma claim_queued:
  "is_queued (mark_uncertain now k e d) k' \<longleftrightarrow> k' \<noteq> k \<and> is_queued d k'"
  "is_queued (start_queued now e k d) k' \<longleftrightarrow> k' \<noteq> k \<and> is_queued d k'"
  unfolding is_queued_upd [OF mark_uncertain_tasks] is_queued_upd [OF start_queued_tasks]
  by (auto simp: is_queued_iff)

lemma claim_outbox:
  "task_outbox (mark_uncertain now k e d) = task_outbox d"
  "task_outbox (start_queued now e k d) = task_outbox d"
  by (simp_all add: mark_uncertain_def start_queued_def)

lemma insert_queued: "k' \<noteq> k \<Longrightarrow> is_queued (d\<lparr>tasks := insert_nothing k v (tasks d)\<rparr>) k' = is_queued d k'"
  by (simp add: is_queued_def row_insert_nothing)

lemma claim_task_quiet:
  assumes "claim_task X now e tid p d = Inr (res, d')" shows "quiet d d'"
proof (rule quiet_tasks [OF claim_task_started [OF assms]])
  show "is_queued d' k' \<Longrightarrow> is_queued d k'" for k'
    using assms by (cases rule: claim_task_cases) (auto simp: claim_queued insert_queued)
  show "task_outbox d' = task_outbox d"
    using assms by (cases rule: claim_task_cases) (simp_all add: claim_outbox)
qed

lemma settle_quiet:
  assumes "tasks d' = update_where p f (tasks d)" "\<And>k r. p k r \<Longrightarrow> status (f r) \<noteq> Queued"
    "task_outbox d' = task_outbox d"
  shows "quiet d d'"
proof (rule quiet_tasks [OF _ _ assms(3)])
  show "started_kept d d'" by (rule started_kept_update [OF assms(1,2)])
  show "is_queued d' k \<Longrightarrow> is_queued d k" for k by (rule is_queued_update [OF assms(1,2)])
qed

lemma same_tasks_quiet: "tasks d' = tasks d \<Longrightarrow> task_outbox d' = task_outbox d \<Longrightarrow> quiet d d'"
  using started_kept_same [of d' d] is_queued_same [of d' d] by (simp add: quiet_def to_dispatch_def plain_outbox_def)

lemma record_completion_quiet:
  assumes "record_completion X now tid e prov res usage lane amount d = Inr (ok, d')" shows "quiet d d'"
proof -
  from assms obtain k d1 m rj where c: "insert_cost X now k e prov (jget res ''model'') usage lane amount d = Inr d1"
    and d': "d' = conclude_attempt now k e Completed None
              (d1\<lparr>tasks := update_where (holds_lease k e) (finish_task now m rj) (tasks d1)\<rparr>)"
    unfolding record_completion_def by (simp add: res_simps) blast
  from c have "tasks d1 = tasks d" "task_outbox d1 = task_outbox d" by (auto elim: insert_costE)
  with d' show ?thesis
    by (intro settle_quiet [of _ "holds_lease k e" "finish_task now m rj"])
       (simp_all add: finish_task_def conclude_attempt_def)
qed

lemma record_failed_quiet:
  assumes "record_failed X now tid e x d = Inr (ok, d')" shows "quiet d d'"
proof -
  from assms obtain k where d': "d' = conclude_attempt now k e AttemptFailed (Some (safe_error_message x))
      (d\<lparr>tasks := update_where (holds_lease k e)
         (\<lambda>r. r\<lparr>status := Failed, completed_at := Some now,
                error_message := Some (safe_error_message x)\<rparr>) (tasks d)\<rparr>)"
    by (auto simp: record_failed_def res_simps)
  show ?thesis unfolding d' by (rule settle_quiet, simp) (simp_all add: conclude_attempt_def)
qed

lemma record_succeeded_quiet:
  assumes "record_succeeded X now tid e res d = Inr (ok, d')" shows "quiet d d'"
proof -
  from assms obtain k m rj where "d' = d\<lparr>tasks := update_where (holds_lease k e) (finish_task now m rj) (tasks d)\<rparr>"
    by (auto simp: record_succeeded_def res_simps)
  then show ?thesis
    by (intro settle_quiet [of _ "holds_lease k e" "finish_task now m rj"]) (simp_all add: finish_task_def)
qed

lemma reap_one_quiet: "quiet d (reap_one C now k d)"
  unfolding reap_one_def by (rule settle_quiet, simp) simp_all

lemma quiet_trans: "quiet a b \<Longrightarrow> quiet b c \<Longrightarrow> quiet a c"
  by (auto simp: quiet_def intro: started_kept_trans)

lemma reap_txn_quiet: "quiet d (reap_txn C now obs d)"
proof -
  have "quiet d (reap_each C now obs ks d)" for ks
    by (induction C now obs ks d rule: reap_each.induct) (simp_all, meson reap_one_quiet quiet_trans)
  then show ?thesis by (simp add: reap_txn_def)
qed

lemma outbox_update_quiet:
  assumes "tasks d' = tasks d" "task_outbox d' = update_where p f (task_outbox d)"
    "\<And>k b. p k b \<Longrightarrow> o_delivered_at (f b) = o_delivered_at b" "\<And>b. o_payload (f b) = o_payload b"
  shows "quiet d d'"
proof -
  have r: "row (task_outbox d') k = Some b \<longleftrightarrow>
      (\<exists>b'. row (task_outbox d) k = Some b' \<and> b = (if p k b' then f b' else b'))" for k b
    by (cases "row (task_outbox d) k") (auto simp: assms(2) row_update_where)
  have "to_dispatch d k \<Longrightarrow> to_dispatch d' k" for k
    unfolding to_dispatch_def r using assms(3) by metis
  moreover have "plain_outbox d \<Longrightarrow> plain_outbox d'"
    using assms(2,4) by (auto simp: plain_outbox_def update_where_def split: if_splits)
  ultimately show ?thesis
    using started_kept_same [OF assms(1)] is_queued_same [OF assms(1)] assms(2) by (simp add: quiet_def)
qed

lemma cleanup_quiet:
  assumes "keyed (task_outbox d)" shows "quiet d (snd (cleanup_terminal_outbox C now d))"
proof -
  let ?d = "snd (cleanup_terminal_outbox C now d)"
  have t: "tasks ?d = tasks d" and o: "task_outbox ?d = delete_where (outbox_expired C now d) (task_outbox d)"
    by (simp_all add: cleanup_terminal_outbox_def)
  have "to_dispatch d k \<Longrightarrow> to_dispatch ?d k" for k
    unfolding to_dispatch_def o row_delete_where [OF assms] by (auto simp: outbox_expired_def)
  moreover have "plain_outbox d \<Longrightarrow> plain_outbox ?d"
    unfolding plain_outbox_def o delete_where_def by auto
  ultimately show ?thesis
    using started_kept_same [OF t] is_queued_same [OF t] assms o by (simp add: quiet_def)
qed

lemma inner_txn_quiet: "inner_txn X C d d' \<Longrightarrow> keyed (task_outbox d) \<Longrightarrow> quiet d d'"
proof (erule inner_txnE, goal_cases)
  case (2 now tid e p)
  from 2(2) have "tasks d' = tasks d \<and> task_outbox d' = task_outbox d" unfolding record_provider_attempt_def
    by (elim bindR_InrE) (auto split: option.splits if_splits)
  then show ?case by (simp add: same_tasks_quiet)
next
  case (6 now tid e prov mdl usage lane amount)
  from 6(2) obtain k where "insert_cost X now k e prov mdl usage lane amount d = Inr d'"
    unfolding record_cost_def by (rule bindR_InrE)
  then have "tasks d' = tasks d \<and> task_outbox d' = task_outbox d" by (auto elim: insert_costE)
  then show ?case by (simp add: same_tasks_quiet)
next
  case (7 now locked c)
  show ?case unfolding 7(2) claim_pending_outbox_def Let_def
    by (rule outbox_update_quiet, simp, simp) simp_all
next
  case (8 tk c x)
  show ?case unfolding 8(2) record_outbox_delivery_error_def by (rule outbox_update_quiet, simp, simp) simp_all
qed (rule claim_task_quiet record_completion_quiet record_failed_quiet record_succeeded_quiet, assumption
     | simp add: reap_txn_quiet cleanup_quiet same_tasks_quiet)+


subsection \<open>What each worker may assume\<close>

definition raw_settled :: "string \<Rightarrow> world \<Rightarrow> bool" where
  "raw_settled raw W \<longleftrightarrow> (\<forall>k. delivers raw k \<longrightarrow> settled k W)"

definition raws_covered :: "string list \<Rightarrow> world \<Rightarrow> bool" where
  "raws_covered raws W \<longleftrightarrow> (\<forall>raw \<in> set raws. \<forall>k. delivers raw k \<longrightarrow> covered k W)"

definition plain_claims :: "(string \<times> json \<times> string) list \<Rightarrow> bool" where
  "plain_claims cs \<longleftrightarrow> (\<forall>(tk, payload, claim) \<in> set cs. plain payload)"

text \<open>The assertion of a worker at each program point.\<close>

fun sound_at :: "world \<Rightarrow> pc \<Rightarrow> bool" where
  "sound_at W (Publishing cs) = plain_claims cs"
| "sound_at W (Published c rest) = (covered (fst c) W \<and> plain_claims rest)"
| "sound_at W (PublishFailed tk c x rest) = plain_claims rest"
| "sound_at W (Recovering raws) = raws_covered raws W"
| "sound_at W (Recovered raw r fin rest) = (raws_covered rest W \<and> (fin \<longrightarrow> raw_settled raw W))"
| "sound_at W (Claiming raw p tid) = (\<forall>k. delivers raw k \<longrightarrow> uuid_of_json tid = Inr k)"
| "sound_at W (Attempting raw p tid x) = raw_settled raw W"
| "sound_at W (Calling raw p tid x) = raw_settled raw W"
| "sound_at W (Completing raw tid x prov r u l a) = raw_settled raw W"
| "sound_at W (Failing raw tid lease x) = (lease \<noteq> None \<longrightarrow> raw_settled raw W)"
| "sound_at W (Leaving raw ok) = (ok \<longrightarrow> raw_settled raw W)"
| "sound_at W (Acking raw) = raw_settled raw W"
| "sound_at W _ = True"

definition sound :: "world \<Rightarrow> worker \<Rightarrow> bool" where
  "sound W w = sound_at W (pc w)"

lemma keeps_refl [simp]: "keeps W W"
  by (simp add: keeps_def)

lemma raw_settled_keeps: "raw_settled raw W \<Longrightarrow> keeps W W' \<Longrightarrow> raw_settled raw W'"
  by (simp add: raw_settled_def keeps_def)

lemma raws_covered_keeps: "raws_covered raws W \<Longrightarrow> keeps W W' \<Longrightarrow> raws_covered raws W'"
  by (simp add: raws_covered_def keeps_def)

lemma sound_at_stable: "sound_at W p \<Longrightarrow> keeps W W' \<Longrightarrow> sound_at W' p"
  by (cases p) (auto intro: raw_settled_keeps raws_covered_keeps simp: keeps_def)

lemma sound_stable: "sound W w \<Longrightarrow> keeps W W' \<Longrightarrow> sound W' w"
  unfolding sound_def by (rule sound_at_stable)

text \<open>A quiet transaction, and queue commands that remove settled deliveries only.\<close>

lemma world_step:
  assumes "world_ok W" "quiet (wdb W) (wdb W')" "set (wexpired W) \<subseteq> set (wexpired W')"
    "\<And>raw. raw \<in> live (wq W) \<Longrightarrow> raw \<in> live (wq W') \<or> raw_settled raw W"
  shows "world_ok W' \<and> keeps W W'"
proof -
  have s: "settled k W \<Longrightarrow> settled k W'" for k
    using assms(2,3) by (auto simp: settled_def quiet_def started_kept_def)
  have c: "covered k W \<Longrightarrow> covered k W'" for k
    using assms(4) s by (auto simp: covered_def raw_settled_def)
  have "none_lost W'"
    using assms(1,2) c by (auto simp: none_lost_def world_ok_def quiet_def)
  with assms(1,2) s c show ?thesis by (auto simp: world_ok_def quiet_def keeps_def)
qed

lemma claimed_plain:
  assumes "plain_outbox d" "claim_pending_outbox C now locked c d = (cs, d')"
  shows "plain_claims cs"
  using assms
  by (fastforce simp: claim_pending_outbox_def Let_def plain_claims_def plain_outbox_def update_where_def split: if_splits)

text \<open>The delivery a worker has claimed is settled: its row exists and does not wait.\<close>

lemma claim_settles:
  assumes "claim_task X now e tid p (wdb W) = Inr (res, wdb W')" "pg_ok X"
    "\<And>k. delivers raw k \<Longrightarrow> uuid_of_json tid = Inr k"
  shows "raw_settled raw W'"
proof -
  have "\<exists>k. pg_uuid X tid = Inr k \<and> started (wdb W') k"
  proof (cases res)
    case None
    with claim_task_none assms(1) show ?thesis by (fastforce simp: started_def)
  next
    case (Some e')
    with assms(1) show ?thesis by (auto elim!: claim_task_lease simp: started_iff holds_lease_def)
  qed
  then show ?thesis using assms(2,3) by (auto simp: raw_settled_def settled_def pg_ok_def)
qed

lemma redis_call_lrem_live:
  "redis_call out (lrem_processing raw) q = (r, q') \<Longrightarrow> x \<in> live q \<Longrightarrow> x \<in> live q' \<or> x = raw"
  using redis.ack_live [of q raw]
  by (auto simp: redis_call_def acknowledge_processing_delivery_def split: outcome.splits prod.splits)


lemma redis_same_live:
  "redis_call out blmove q = (r, q') \<Longrightarrow> live q' = live q"
  "redis_call out (\<lambda>q. (y, rpush_dead raw q)) q = (z, q') \<Longrightarrow> live q' = live q"
  by (drule redis_call_cases, auto simp: redis.take_live rpush_dead_def live_def [of "q\<lparr>dead_q := x\<rparr>" for x] live_def [of q])+

text \<open>The steps that leave the deliveries, or all of them but a settled one, where they are.\<close>

lemma live_step:
  assumes "worker_step X C e w W = (w', W')" "sound W w"
    "\<And>raws. pc w \<noteq> Recovering raws" "x \<in> live (wq W)"
  shows "x \<in> live (wq W') \<or> raw_settled x W"
proof (cases "pc w")
  case (Publishing cs)
  with assms show ?thesis
    by (auto simp: step_defs step_simps redis_call_def rpush_task_def live_def split: call_splits outcome.splits)
next
  case (Recovered raw r fin rest)
  then have "wq W' = wq W \<or> wq W' = snd (requeue_stale_delivery raw (wq W)) \<or>
      (fin \<and> wq W' = snd (acknowledge_processing_delivery raw (wq W)))"
    using assms(1) by (auto simp: step_defs step_simps redis_call_def split: call_splits outcome.splits)
  then show ?thesis
    using assms(2,4) Recovered redis.give_back_live redis.ack_live [of "wq W" raw] by (auto simp: sound_def)
next
  case AtPoll
  with assms(1,4) show ?thesis
    by (auto simp: step_defs step_simps redis_same_live split: call_splits dest!: beatD)
next
  case (Received raw)
  with assms(1,4) show ?thesis
    by (auto simp: step_defs step_simps redis_same_live Let_def split: call_splits json.splits dest!: beatD)
next
  case (Acking raw)
  with assms(1,2,4) show ?thesis
    by (auto simp: step_defs step_simps sound_def split: call_splits dest!: redis_call_lrem_live)
qed (use assms in \<open>auto simp: step_defs step_simps Let_def split: call_splits json.splits dest!: beatD\<close>)


text \<open>The assertion at the next program point, for a step whose effect keeps the earlier ones.\<close>

lemma malformed_settled:
  assumes "bindR (loads raw) (\<lambda>j. bindR (validate_payload False j) (\<lambda>_. Inr j)) = Inl x"
  shows "raw_settled raw W"
proof -
  have "\<not> delivers raw k" for k
    using assms parse_deliveryD(1,3) [of raw _ k] by (auto simp: delivers_def)
  then show ?thesis by (simp add: raw_settled_def)
qed

lemma claiming_id:
  assumes "bindR (loads raw) (\<lambda>j. bindR (validate_payload False j) (\<lambda>_. Inr j)) = Inr (JObj p)" "delivers raw k"
  shows "truthy (jget p ''task_id'')" "uuid_of_json (jget p ''task_id'') = Inr k"
proof -
  from assms(2) obtain p' where d: "parse_delivery raw = Inr (p', k)" by (auto simp: delivers_def)
  from assms(1) parse_deliveryD(1) [OF d] have "p' = p" by (auto simp: res_simps)
  with parse_deliveryD(4,5) [OF d] show "truthy (jget p ''task_id'')" "uuid_of_json (jget p ''task_id'') = Inr k"
    by auto
qed

lemma raws_covered_live: "set raws \<subseteq> live (wq W) \<Longrightarrow> raws_covered raws W"
  by (auto simp: raws_covered_def covered_def)

lemma publish_covers:
  assumes "step_publish e cs w W = (w', W')" "plain_claims cs"
  shows "sound_at W' (pc w')"
proof (cases cs)
  case (Cons c rest)
  obtain tk payload claim where c: "c = (tk, payload, claim)" by (cases c)
  have pl: "plain payload" "plain_claims rest" using assms(2) Cons c by (auto simp: plain_claims_def)
  show ?thesis
  proof (cases "check_outbox_claim tk payload")
    case (Inl x)
    with assms(1) Cons c pl show ?thesis by (auto simp: step_publish_def step_simps)
  next
    case (Inr u)
    then have del: "delivers (dumps unicode_opts payload) tk" using pl(1) by (intro published_delivers) auto
    show ?thesis
    proof (cases "e_redis e")
      case Done
      then have "W' = W\<lparr>wq := rpush_task (dumps unicode_opts payload) (wq W)\<rparr>" "pc w' = Published c rest"
        using assms(1) Cons c Inr by (auto simp: step_publish_def step_simps redis_call_def)
      then show ?thesis using del pl(2) c by (auto simp: covered_def live_def rpush_task_def)
    qed (use assms(1) Cons c Inr pl in \<open>auto simp: step_publish_def step_simps redis_call_def\<close>)
  qed
qed (use assms in \<open>auto simp: step_publish_def step_simps\<close>)

lemma next_sound:
  assumes st: "worker_step X C e w W = (w', W')" and s: "sound W w" and k: "keeps W W'"
    and other: "\<And>raws. pc w \<noteq> Recovering raws" "\<And>c rest. pc w \<noteq> Published c rest"
    and ok: "plain_outbox (wdb W)" "pg_ok X"
  shows "sound W' w'"
proof (cases "pc w")
  case AtDispatch
  with st ok show ?thesis
    by (auto simp: step_defs step_simps sound_def split: call_splits dest!: db_call_Inr intro: claimed_plain)
next
  case (Publishing cs)
  with st s publish_covers [of e cs w W w' W'] show ?thesis by (simp add: worker_step_def sound_def)
next
  case AtRecover
  with st show ?thesis
    by (auto simp: step_defs step_simps sound_def live_def split: call_splits dest!: redis_call_Inr intro!: raws_covered_live)
next
  case (Recovered raw r fin rest)
  with st s have "pc w' = Recovering rest" by (auto simp: step_defs step_simps split: if_splits)
  with s Recovered k show ?thesis by (auto simp: sound_def intro: raws_covered_keeps)
next
  case (Received raw)
  with st show ?thesis
    by (auto simp: step_defs step_simps sound_def Let_def split: call_splits json.splits dest!: beatD
        intro: malformed_settled claiming_id(2) dest: claiming_id(1))
next
  case (Claiming raw p tid)
  then have id: "delivers raw k \<Longrightarrow> uuid_of_json tid = Inr k" for k using s by (simp add: sound_def)
  obtain r d where call: "db_call (e_db e) (claim_task X (e_now e) (e_uuid e) tid p) (wdb W) = (r, d)" by fastforce
  have W': "wdb W' = d" and p': "pc w' = (case r of Inl x \<Rightarrow> Failing raw tid None x | Inr None \<Rightarrow> Leaving raw True
      | Inr (Some x) \<Rightarrow> Attempting raw p tid x)"
    using st Claiming call by (auto simp: step_defs step_simps split: call_splits)
  show ?thesis
  proof (cases r)
    case (Inr res)
    from db_call_Inr [OF call [unfolded Inr]] W' have "claim_task X (e_now e) (e_uuid e) tid p (wdb W) = Inr (res, wdb W')"
      by simp
    from claim_settles [OF this ok(2) id] p' Inr show ?thesis by (auto simp: sound_def split: option.splits)
  qed (use p' in \<open>simp add: sound_def\<close>)
next
  case (Attempting raw p tid x)
  with st s have "pc w' = Calling raw p tid x \<or> (\<exists>y. pc w' = Failing raw tid (Some x) y)"
    by (auto simp: step_defs step_simps split: call_splits)
  with s Attempting raw_settled_keeps [OF _ k] show ?thesis by (auto simp: sound_def)
next
  case (Calling raw p tid x)
  with st s have "(\<exists>prov r u l a. pc w' = Completing raw tid x prov r u l a) \<or> (\<exists>y. pc w' = Failing raw tid (Some x) y)"
    by (auto simp: step_defs step_simps Let_def split: call_splits)
  with s Calling raw_settled_keeps [OF _ k] show ?thesis by (auto simp: sound_def)
next
  case (Completing raw tid x prov r u l a)
  with st s have "pc w' = Leaving raw True \<or> (\<exists>y. pc w' = Failing raw tid (Some x) y)"
    by (auto simp: step_defs step_simps split: call_splits json.splits)
  with s Completing raw_settled_keeps [OF _ k] show ?thesis by (auto simp: sound_def)
next
  case (Failing raw tid lease x)
  with st s have "pc w' = Leaving raw False \<or> (lease \<noteq> None \<and> pc w' = Leaving raw True)"
    by (auto simp: step_defs step_simps split: call_splits)
  with s Failing raw_settled_keeps [OF _ k] show ?thesis by (auto simp: sound_def)
next
  case (Leaving raw b)
  with st s have "pc w' = (if b then Acking raw else AtDispatch)"
    by (auto simp: step_defs step_simps split: call_splits)
  with s Leaving raw_settled_keeps [OF _ k] show ?thesis by (auto simp: sound_def)
next
  case (PublishFailed tk c x rest)
  with st s have "pc w' = Publishing rest \<or> pc w' = Stopped"
    by (auto simp: step_defs step_simps split: call_splits)
  with s PublishFailed show ?thesis by (auto simp: sound_def)
next
  case (Published c rest) with other show ?thesis by blast
next
  case (Recovering raws) with other show ?thesis by blast
next
  case AtPoll
  with st have "pc w' = Stopped \<or> pc w' = AtDispatch \<or> (\<exists>raw. pc w' = Received raw)"
    by (auto simp: step_defs step_simps split: call_splits)
  then show ?thesis by (auto simp: sound_def)
qed (use st in \<open>auto simp: step_defs step_simps sound_def fresh_worker_def Let_def split: call_splits\<close>)


lemma recovering_sound:
  assumes "step_recovering X C e (raw # rest) w W = (w', W')" "world_ok W" "raws_covered (raw # rest) W" "pg_ok X"
  shows "world_ok W' \<and> sound W' w' \<and> keeps W W'"
  using assms(1)
proof (cases rule: recovering_step)
  case dead
  then have "raw_settled raw W" by (auto simp: raw_settled_def delivers_def)
  moreover have "x \<in> live (wq W') \<or> x = raw" if "x \<in> live (wq W)" for x
    using that dead(5) redis.bury_live [of "wq W" raw] by auto
  ultimately have "world_ok W' \<and> keeps W W'"
    using dead by (intro world_step [OF assms(2)]) auto
  moreover from this have "raws_covered rest W'"
    using assms(3) by (auto intro: raws_covered_keeps simp: raws_covered_def keeps_def)
  ultimately show ?thesis using dead(6) by (auto simp: sound_def)
next
  case (same p tk)
  with assms(2,3) show ?thesis by (auto simp: sound_def raws_covered_def)
next
  case (txn p tk recd fin)
  let ?key = "task_key X (JStr tk)"
  have del: "delivers raw tk" using txn(1) by (auto simp: delivers_def)
  from txn(2) obtain v where pu: "pg_uuid X (JStr tk) = Inr ?key"
    and other: "\<And>k. k \<noteq> ?key \<Longrightarrow> row (tasks (wdb W')) k = row (tasks (wdb W)) k"
    and fin: "fin \<Longrightarrow> \<exists>r. row (tasks (wdb W')) ?key = Some r \<and> terminal r"
    and outbox: "task_outbox (wdb W') = task_outbox (wdb W)"
    by (elim recover_txn_tasks) blast
  have key: "?key = tk" using delivers_key [OF del assms(4) pu] .
  have exp: "wexpired W' = note_expiry tk (wdb W) (wdb W') (wexpired W)" and wq: "wq W' = wq W"
    using arg_cong [OF txn(3), of wexpired] arg_cong [OF txn(3), of wq] key by simp_all
  have s: "settled k W'" if "settled k W" for k
  proof (cases "k = tk")
    case True
    with that exp show ?thesis by (auto simp: settled_def note_expiry_def)
  next
    case False
    with that exp other [of k] key show ?thesis by (auto simp: settled_def note_expiry_def started_iff)
  qed
  then have c: "covered k W \<Longrightarrow> covered k W'" for k by (auto simp: covered_def wq)
  have "covered tk W" using assms(3) del by (auto simp: raws_covered_def)
  have "none_lost W'"
    unfolding none_lost_def
  proof (intro allI impI)
    fix k assume q: "is_queued (wdb W') k"
    show "covered k W' \<or> to_dispatch (wdb W') k"
    proof (cases "k = tk")
      case False
      then have "is_queued (wdb W) k" using q other [of k] key by (simp add: is_queued_def)
      with assms(2) c outbox show ?thesis by (auto simp: world_ok_def none_lost_def to_dispatch_def)
    qed (use c \<open>covered tk W\<close> in auto)
  qed
  then have ok: "world_ok W'" using assms(2) outbox by (simp add: world_ok_def plain_outbox_def)
  have k: "keeps W W'" using s c by (simp add: keeps_def)
  have "raws_covered rest W'" using assms(3) k by (auto simp: raws_covered_def keeps_def)
  moreover have "fin \<Longrightarrow> raw_settled raw W'"
    using fin key txn(1) by (auto simp: raw_settled_def delivers_def settled_def started_iff terminal_def)
  ultimately show ?thesis using ok k txn(4) by (auto simp: sound_def)
qed

lemma published_sound:
  assumes st: "step_published e (tk, payload, claim) rest w W = (w', W')" and ok: "world_ok W"
    and cov: "covered tk W" and pl: "plain_claims rest"
  shows "world_ok W' \<and> sound W' w' \<and> keeps W W'"
proof -
  note p = step_publishedE [OF st]
  have t: "tasks (wdb W') = tasks (wdb W)"
    using p(4) by (auto simp: mark_outbox_delivered_def)
  have k: "keeps W W'" using p(1,2) t by (simp add: keeps_def covered_def settled_def started_iff)
  have d: "to_dispatch (wdb W) k \<Longrightarrow> k \<noteq> tk \<Longrightarrow> to_dispatch (wdb W') k" for k
    using p(4) by (auto simp: to_dispatch_def mark_outbox_delivered_def outbox_claimed_by_def table_simps)
  have "none_lost W'"
    unfolding none_lost_def
  proof (intro allI impI)
    fix k assume "is_queued (wdb W') k"
    with t have "is_queued (wdb W) k" by (simp add: is_queued_def)
    with ok cov k d show "covered k W' \<or> to_dispatch (wdb W') k"
      by (cases "k = tk") (auto simp: world_ok_def none_lost_def keeps_def)
  qed
  moreover have "plain_outbox (wdb W')" "keyed (task_outbox (wdb W'))"
    using ok p(4) by (auto simp: world_ok_def plain_outbox_def mark_outbox_delivered_def update_where_def keyed_def
        split: if_splits) (auto simp: case_prod_beta comp_def)
  ultimately show ?thesis using k p(5) pl by (auto simp: world_ok_def sound_def)
qed

lemma worker_sound:
  assumes "worker_step X C e w W = (w', W')" "world_ok W" "sound W w" "pg_ok X"
  shows "world_ok W' \<and> sound W' w' \<and> keeps W W'"
proof (cases "\<exists>raws. pc w = Recovering raws")
  case True
  then obtain raws where p: "pc w = Recovering raws" by blast
  show ?thesis
  proof (cases raws)
    case (Cons raw rest)
    then show ?thesis using recovering_sound [of X C e raw rest w W w' W'] assms p by (simp add: worker_step_def sound_def)
  qed (use assms p in \<open>auto simp: worker_step_def step_recovering_def goto_def sound_def\<close>)
next
  case nr: False
  show ?thesis
  proof (cases "\<exists>c rest. pc w = Published c rest")
    case True
    then obtain tk payload claim rest where "pc w = Published (tk, payload, claim) rest" by fastforce
    then show ?thesis using published_sound [of e tk payload claim rest w W w' W'] assms by (simp add: worker_step_def sound_def)
  next
    case np: False
    have q: "quiet (wdb W) (wdb W')"
      using worker_step_inner [OF assms(1)] nr np inner_txn_quiet assms(2) by (auto simp: step_db_def world_ok_def)
    have "world_ok W' \<and> keeps W W'"
      using step_expired [OF assms(1)] nr live_step [OF assms(1,3)] by (intro world_step [OF assms(2) q]) auto
    with next_sound [OF assms(1,3)] nr np assms(2,4) show ?thesis by (auto simp: world_ok_def)
  qed
qed

interpretation deliveries: rely_guarantee "worker_step X C" "\<lambda>_ _. pg_ok X" world_ok sound keeps for X C
  by unfold_locales (use worker_sound sound_stable in \<open>blast+\<close>)


subsection \<open>Every history\<close>

text \<open>The dashboard submits payloads without floats.\<close>

definition plain_submit :: "event \<Rightarrow> bool" where
  "plain_submit ev = (case ev of Submit now out tk p \<Rightarrow> plain (JObj p) | _ \<Rightarrow> True)"

lemma submit_sound:
  assumes "record_queued_task X now tk p (wdb W) = Inr d'" "plain (JObj p)" "world_ok W" "wf_db (wdb W)" "pg_ok X"
  shows "world_ok (W\<lparr>wdb := d'\<rparr>) \<and> keeps W (W\<lparr>wdb := d'\<rparr>)"
proof -
  from assms(1) obtain k v b where r: "queued_row X now p v" "tasks d' = insert_nothing k v (tasks (wdb W))"
    "o_delivered_at b = None" "pg_jsonb X (JObj p) = Inr (o_payload b)"
    "task_outbox d' = insert_nothing k b (task_outbox (wdb W))" by (rule record_queued_task_tasks)
  have st: "started_kept (wdb W) d'" using r(2) by (rule started_kept_insert)
  then have k: "keeps W (W\<lparr>wdb := d'\<rparr>)" by (auto simp: keeps_def covered_def settled_def started_kept_def)
  have td: "to_dispatch (wdb W) k' \<Longrightarrow> to_dispatch d' k'" for k'
    by (auto simp: to_dispatch_def r(5) table_simps)
  have "none_lost (W\<lparr>wdb := d'\<rparr>)"
    unfolding none_lost_def
  proof (intro allI impI)
    fix k' assume q: "is_queued (wdb (W\<lparr>wdb := d'\<rparr>)) k'"
    show "covered k' (W\<lparr>wdb := d'\<rparr>) \<or> to_dispatch (wdb (W\<lparr>wdb := d'\<rparr>)) k'"
    proof (cases "row (tasks (wdb W)) k'")
      case None
      then have kk: "k' = k" using q r(2) by (auto simp: is_queued_iff table_simps split: if_splits)
      have "row (task_outbox (wdb W)) k = None" using None kk assms(4) by (auto simp: wf_db_def)
      then show ?thesis using kk r(3,5) by (simp add: to_dispatch_def table_simps)
    next
      case (Some r')
      then have "is_queued (wdb W) k'" using q r(2) by (auto simp: is_queued_iff table_simps split: if_splits)
      with assms(3) k td show ?thesis by (auto simp: world_ok_def none_lost_def keeps_def)
    qed
  qed
  moreover have "plain_outbox d'"
    using assms(2,3,5) r(4,5) by (auto simp: world_ok_def plain_outbox_def insert_nothing_def pg_ok_def split: option.splits)
  moreover have "keyed (task_outbox d')" using assms(3) r(5) by (simp add: world_ok_def)
  ultimately show ?thesis using k by (simp add: world_ok_def)
qed

lemma sys_step_sound:
  assumes "sys_step X C ev S = Some S'" "plain_submit ev" "pg_ok X" "wf_db (wdb (shared S))"
    "all_hold world_ok sound (crew S) (shared S)"
  shows "all_hold world_ok sound (crew S') (shared S')"
  using assms(1)
proof (cases rule: sys_step_cases)
  case (turn i e w' W')
  from deliveries.interleave(1) [OF assms(5) turn(2) assms(3) turn(4)] turn(5) show ?thesis by simp
next
  case (kill i)
  have "sound (shared S) ((crew S ! i)\<lparr>pc := Stopped\<rparr>)" by (simp add: sound_def)
  from deliveries.replace_worker [OF assms(5) this] kill(3) show ?thesis by simp
next
  case (submit now out tk p d')
  have "world_ok ((shared S)\<lparr>wdb := d'\<rparr>) \<and> keeps (shared S) ((shared S)\<lparr>wdb := d'\<rparr>)"
    using submit(1,2) assms(2-5) submit_sound [of X now tk p "shared S" d']
    by (auto simp: plain_submit_def all_hold_def)
  with deliveries.outside [OF assms(5)] submit(3) show ?thesis by simp
next
  case (external raw)
  have "live (wq (shared S)) \<subseteq> live (rpush_task raw (wq (shared S)))" by (auto simp: live_def rpush_task_def)
  then have "world_ok (shared S') \<and> keeps (shared S) (shared S')"
    using assms(5) external by (intro world_step) (auto simp: all_hold_def)
  with deliveries.outside [OF assms(5)] external show ?thesis by simp
qed

lemma run_events_sound:
  "run_events X C evs S = Some S' \<Longrightarrow> list_all plain_submit evs \<Longrightarrow> pg_ok X \<Longrightarrow> wf_db (wdb (shared S)) \<Longrightarrow>
   all_hold world_ok sound (crew S) (shared S) \<Longrightarrow> all_hold world_ok sound (crew S') (shared S')"
proof (induction evs arbitrary: S)
  case (Cons ev evs)
  then obtain S1 where s: "sys_step X C ev S = Some S1" "run_events X C evs S1 = Some S'"
    by (auto split: option.splits)
  with Cons.prems have "all_hold world_ok sound (crew S1) (shared S1)"
    by (intro sys_step_sound [OF s(1)]) auto
  with Cons.IH [OF s(2)] Cons.prems sys_step_keeps [OF s(1)] show ?case by simp
qed simp

lemma start_sound: "all_hold world_ok sound (crew (start_sys names)) (shared (start_sys names))"
  by (auto simp: start_sys_def start_world_def all_hold_def world_ok_def none_lost_def plain_outbox_def
      is_queued_def empty_db_def sound_def fresh_worker_def)

lemma history_none_lost:
  assumes "run_events X C evs (start_sys names) = Some S" "list_all plain_submit evs" "pg_ok X"
  shows "none_lost (shared S)"
proof -
  have "wf_db (wdb (shared (start_sys names)))" by (rule reachable_wf [OF reachable.start])
  from run_events_sound [OF assms this start_sound] show ?thesis by (simp add: all_hold_def world_ok_def)
qed

end
