(* ===== verification/Scenarios.thy ===== *)
theory Scenarios
  imports Deliveries "HOL-Library.Code_Target_Nat"
begin

text \<open>
  Concrete histories of the control plane, evaluated on a model of PostgreSQL's conversions:
  what the general theorems are applied to, and three histories that show behaviour the code's
  comments rule out (a second provider call, an attempt marked unknown under a live worker, a
  waiting task without a delivery).
\<close>

definition pg_model :: ext where
  "pg_model = \<lparr>
     pg_text = (\<lambda>j. case j of JNull \<Rightarrow> Inr None | JStr s \<Rightarrow> Inr (Some s) | _ \<Rightarrow> raise PsycopgError ''cannot adapt''),
     pg_uuid = (\<lambda>j. case j of JStr s \<Rightarrow> (case uuid_str s of Inr k \<Rightarrow> Inr k | Inl _ \<Rightarrow> raise PsycopgError ''invalid uuid'')
                   | _ \<Rightarrow> raise PsycopgError ''invalid uuid''),
     pg_int = (\<lambda>j. case j of JNull \<Rightarrow> Inr None
        | JInt i \<Rightarrow> if - (2 ^ 31) \<le> i \<and> i < 2 ^ 31 then Inr (Some i) else raise PsycopgError ''integer out of range''
        | _ \<Rightarrow> raise PsycopgError ''invalid integer''),
     pg_num = (\<lambda>j. case j of JNull \<Rightarrow> Inr None | JInt i \<Rightarrow> Inr (Some (of_int i)) | _ \<Rightarrow> raise PsycopgError ''invalid number''),
     pg_jsonb = (\<lambda>j. Inr j)\<rparr>"

lemma pg_model_ok [simp]: "pg_ok pg_model"
  by (auto simp: pg_ok_def pg_model_def uuid_of_json_def split: json.splits sum.splits)

definition default_config :: config where
  "default_config = load_config (\<lambda>_. None)"

definition task1 :: string where
  "task1 = ''00000000-0000-4000-8000-000000000001''"

definition payload1 :: dict where
  "payload1 = [(''task_id'', JStr task1), (''provider'', JStr ''gigachat''), (''model'', JStr ''GigaChat-2''),
     (''credential_lane'', JStr ''primary''), (''request_ref'', JStr ''r'')]"

definition raw1 :: string where
  "raw1 = dumps unicode_opts (JObj payload1)"

text \<open>One turn of worker \<open>i\<close>, at second \<open>t\<close>, with the fresh identifier \<open>u\<close>.\<close>

definition turn :: "nat \<Rightarrow> int \<Rightarrow> string \<Rightarrow> event" where
  "turn i t u = Turn i \<lparr>e_now = secs (10000 + t), e_mono = secs t, e_uuid = u, e_db = Done, e_beat = True, e_redis = Done,
     e_locked = (\<lambda>_. False),
     e_client = Inr [(''model'', JStr ''GigaChat-2''), (''usage'', JObj []), (''credential_lane'', JStr ''primary'')]\<rparr>"

definition turns :: "nat \<Rightarrow> int \<Rightarrow> string list \<Rightarrow> event list" where
  "turns i t us = map (turn i t) us"

subsection \<open>Evaluation\<close>

lemma task1_uuid: "uuid_str task1 = Inr task1"
  by code_simp

lemma payload1_plain: "plain (JObj payload1)"
  by (simp add: payload1_def)

lemma load_raw1: "loads raw1 = Inr (JObj payload1)"
  unfolding raw1_def by (rule loads_dumps) (simp_all add: payload1_plain del: plain.simps)

lemma payload1_items:
  "jget payload1 ''task_id'' = JStr task1" "jget payload1 ''provider'' = JStr ''gigachat''"
  "jget payload1 ''model'' = JStr ''GigaChat-2''" "jget payload1 ''credential_lane'' = JStr ''primary''"
  "jget payload1 ''request_ref'' = JStr ''r''"
  "map_of payload1 ''operation'' = None" "map_of payload1 ''task_id'' = Some (JStr task1)" "task1 \<noteq> []"
  "map_of payload1 ''provider'' \<noteq> None" "map_of payload1 ''model'' \<noteq> None"
  "map_of payload1 ''credential_lane'' \<noteq> None" "map_of payload1 ''request_ref'' \<noteq> None"
  by (simp_all add: payload1_def jget_def task1_def)

lemma jget_list: "jget [] k = JNull" "jget ((a, v) # xs) k = (if a = k then v else jget xs k)"
  by (simp_all add: jget_def)

lemmas run_simps = pg_model_def default_config_def load_config_def env_int_def secs_def turns_def turn_def
  sys_step_def one_step_def step_defs step_recovering_def step_simps start_sys_def start_world_def fresh_worker_def
  no_queues_def empty_db_def db_call_def redis_call_def beat_def heartbeat_def write_heartbeat_def upsert_def
  insert_nothing_def update_where_def row_count_def blmove_def lrem_processing_def rpush_task_def rpush_dead_def
  requeue_stale_delivery_def
  validate_payload_def valid_lane_def parse_delivery_def uuid_of_json_def VALID_CREDENTIAL_LANES_def
  claim_task_def insert_queued_task_def inflight_attempt_def is_queued_def start_queued_def mark_uncertain_def
  record_provider_attempt_def run_provider_def is_client_call_def item_def record_completion_def insert_cost_def
  check_nonneg_def conclude_attempt_def finish_task_def holds_lease_def claim_pending_outbox_def outbox_candidates_def
  oldest_first_def recover_txn_def recoverable_def lease_expired_def note_expiry_def started_def task_key_def terminal_def
  delivery_task_ids_def list_task_ids_def reap_txn_def orphan_age_def record_queued_task_def
  load_raw1 task1_uuid payload1_items jget_list Let_def

text \<open>A delivery pushed twice; the first worker runs it to its end.\<close>

definition plain_run :: "event list" where
  "plain_run = External raw1 # turns 0 0 [''a'', ''b'', ''c'', ''d'', ''e'', ''f'', ''g'', ''h'', ''i'', ''j'', ''k'']"

lemma plain_run_result:
  "\<exists>S. run_events pg_model default_config plain_run (start_sys [''w0'']) = Some S \<and>
     wcalls (shared S) = [(JStr task1, ''f'')] \<and> live (wq (shared S)) = {} \<and>
     map_option status (row (tasks (wdb (shared S))) task1) = Some Succeeded \<and>
     map_option a_status (row (provider_attempts (wdb (shared S))) (task1, ''f'')) = Some Completed"
  by (simp add: plain_run_def run_simps live_def)

text \<open>
  A worker dies between the provider call and its record, while a duplicate delivery of the same
  task is handled by another worker, which marks the open attempt as unknown. When the lease has
  expired, recovery returns the task to the queue, no attempt is in flight any more, and the
  provider is called a second time.
\<close>

definition second_call_run :: "event list" where
  "second_call_run = External raw1 # External raw1
     # turns 0 0 [''a'', ''b'', ''c'', ''d'', ''e'', ''f'', ''g'', ''h''] @ Kill 0
     # turns 1 0 [''i'', ''j'', ''k'', ''l'', ''m'', ''n'', ''o'', ''p'']
     @ turns 1 1000 [''q'', ''r'', ''s'', ''t'', ''u'', ''v'', ''w'', ''x'', ''y'', ''z'', ''A'', ''B'', ''C'', ''D'', ''E'']"


lemma second_call_result:
  "\<exists>S. run_events pg_model default_config second_call_run (start_sys [''w0'', ''w1'']) = Some S \<and>
     wcalls (shared S) = [(JStr task1, ''C''), (JStr task1, ''f'')] \<and> wexpired (shared S) = [task1] \<and>
     map_option a_status (row (provider_attempts (wdb (shared S))) (task1, ''f'')) = Some OutcomeUnknown"
  by (simp add: second_call_run_def run_simps)

text \<open>
  A worker is delayed between its claim and its attempt receipt until the lease expires.
  \<open>record_provider_attempt\<close> does not look at the lease, so both workers call the provider.
\<close>

definition stall_run :: "event list" where
  "stall_run = External raw1 # turns 0 0 [''a'', ''b'', ''c'', ''d'', ''e'', ''f'']
     @ turns 1 1000 [''i'', ''j'', ''k'', ''l'', ''m'', ''n'', ''o'', ''p'', ''q'', ''r'', ''s'', ''t'', ''u'', ''v'', ''w'']
     @ turns 0 1001 [''x'', ''y'']"

lemma stall_result:
  "\<exists>S. run_events pg_model default_config stall_run (start_sys [''w0'', ''w1'']) = Some S \<and>
     wcalls (shared S) = [(JStr task1, ''f''), (JStr task1, ''u'')] \<and>
     map_option a_status (row (provider_attempts (wdb (shared S))) (task1, ''f'')) = Some Inflight \<and>
     map_option a_status (row (provider_attempts (wdb (shared S))) (task1, ''u'')) = Some Inflight"
  by (simp add: stall_run_def run_simps)

text \<open>
  Recovery takes an expired lease away; before its script moves the delivery, the slow worker
  finishes and acknowledges it. The task waits, and nothing will deliver it.
\<close>

definition lost_run :: "event list" where
  "lost_run = External raw1 # turns 0 0 [''a'', ''b'', ''c'', ''d'', ''e'', ''f'', ''g'', ''h'']
     @ turns 1 1000 [''i'', ''j'', ''k'', ''l'', ''m''] @ turns 0 1001 [''x'', ''y'', ''z''] @ turns 1 1002 [''A'', ''B'']"

lemma lost_result:
  "\<exists>S. run_events pg_model default_config lost_run (start_sys [''w0'', ''w1'']) = Some S \<and>
     is_queued (wdb (shared S)) task1 \<and> live (wq (shared S)) = {} \<and> \<not> to_dispatch (wdb (shared S)) task1"
  by (simp add: lost_run_def run_simps live_def to_dispatch_def)

end
