(* ===== verification/OutboxClaims.thy ===== *)
theory OutboxClaims
  imports Deliveries
begin

text \<open>
  What a dispatch claim is worth: from the claim of an outbox row on, through any history of
  transactions, the row stays claimed since then, is delivered, or belongs to a finished task.
\<close>

definition claim_held :: "time \<Rightarrow> string \<Rightarrow> db \<Rightarrow> bool" where
  "claim_held now k d \<longleftrightarrow> (\<exists>r. row (tasks d) k = Some r \<and> terminal r) \<or>
     (\<exists>b. row (task_outbox d) k = Some b \<and> (o_delivered_at b \<noteq> None \<or> (\<exists>t. o_claimed_at b = Some t \<and> now \<le> t)))"

lemma held_advance:
  assumes "db_advance d d'" "claim_held now k d"
    and "\<And>b. row (task_outbox d) k = Some b \<Longrightarrow> o_delivered_at b \<noteq> None \<or> (\<exists>t. o_claimed_at b = Some t \<and> now \<le> t) \<Longrightarrow> claim_held now k d'"
  shows "claim_held now k d'"
proof -
  have "\<exists>r. row (tasks d) k = Some r \<and> terminal r \<Longrightarrow> claim_held now k d'"
    using assms(1) by (auto simp: claim_held_def db_advance_def dest: rows_advance_terminal)
  then show ?thesis using assms(2,3) by (auto simp: claim_held_def)
qed

lemma held_same: "db_advance d d' \<Longrightarrow> task_outbox d' = task_outbox d \<Longrightarrow> claim_held now k d \<Longrightarrow> claim_held now k d'"
  by (erule held_advance) (auto simp: claim_held_def)

text \<open>The transactions that leave the outbox alone.\<close>

lemma attempt_outbox: "record_provider_attempt X now tid e p d = Inr d' \<Longrightarrow> task_outbox d' = task_outbox d"
  unfolding record_provider_attempt_def by (elim bindR_InrE) (auto split: option.splits if_splits)

lemma settle_outbox:
  "claim_task X now e tid p d = Inr (res, d') \<Longrightarrow> task_outbox d' = task_outbox d"
  "record_completion X now tid e prov rs usage lane amount d = Inr (ok, d') \<Longrightarrow> task_outbox d' = task_outbox d"
  "record_failed X now tid e x d = Inr (ok, d') \<Longrightarrow> task_outbox d' = task_outbox d"
  "record_succeeded X now tid e rs d = Inr (ok, d') \<Longrightarrow> task_outbox d' = task_outbox d"
  "record_cost X now tid e prov mdl usage lane amount d = Inr d' \<Longrightarrow> task_outbox d' = task_outbox d"
proof -
  show "claim_task X now e tid p d = Inr (res, d') \<Longrightarrow> task_outbox d' = task_outbox d"
    by (cases rule: claim_task_cases, assumption) (simp_all add: claim_outbox)
  show "record_completion X now tid e prov rs usage lane amount d = Inr (ok, d') \<Longrightarrow> task_outbox d' = task_outbox d"
    by (auto simp: record_completion_def res_simps conclude_attempt_def elim!: insert_costE)
  show "record_failed X now tid e x d = Inr (ok, d') \<Longrightarrow> task_outbox d' = task_outbox d"
    by (auto simp: record_failed_def res_simps conclude_attempt_def)
  show "record_succeeded X now tid e rs d = Inr (ok, d') \<Longrightarrow> task_outbox d' = task_outbox d"
    by (auto simp: record_succeeded_def res_simps)
  show "record_cost X now tid e prov mdl usage lane amount d = Inr d' \<Longrightarrow> task_outbox d' = task_outbox d"
    unfolding record_cost_def by (elim bindR_InrE) (auto elim: insert_costE)
qed

lemma reap_outbox: "task_outbox (reap_txn C now obs d) = task_outbox d"
proof -
  have "task_outbox (reap_each C now obs ks d) = task_outbox d" for ks
    by (induction C now obs ks d rule: reap_each.induct) (simp_all add: reap_one_def)
  then show ?thesis by (simp add: reap_txn_def)
qed

lemma candidate_due:
  assumes "k \<in> set (outbox_candidates C t locked d)" "wf_db d"
  obtains b where "row (task_outbox d) k = Some b" "outbox_due C t d k b"
  using assms outbox_keyed [OF assms(2)] by (auto simp: outbox_candidates_def oldest_first_def keyed_def dest!: in_set_takeD)

text \<open>The transactions that change it.\<close>

lemma held_claim:
  assumes "wf_db d" "0 \<le> outbox_claim_seconds C" "claim_held now k d"
  shows "claim_held now k (snd (claim_pending_outbox C t locked c d))"
proof (rule held_advance [OF conjunct2 [OF claim_pending_outbox_wf [OF assms(1)]] assms(3)])
  fix b
  assume b: "row (task_outbox d) k = Some b" "o_delivered_at b \<noteq> None \<or> (\<exists>t. o_claimed_at b = Some t \<and> now \<le> t)"
  have "outbox_due C t d k b" if "k \<in> set (outbox_candidates C t locked d)"
    using that assms(1) by (rule candidate_due) (use b(1) in simp)
  moreover have "outbox_due C t d k b \<Longrightarrow> now \<le> t"
    using b(2) assms(2) by (auto simp: outbox_due_def secs_def)
  ultimately show "claim_held now k (snd (claim_pending_outbox C t locked c d))"
    using b by (auto simp: claim_held_def claim_pending_outbox_def Let_def table_simps)
qed

lemma held_inner:
  assumes "inner_txn X C d d'" "wf_db d" "0 \<le> outbox_claim_seconds C" "claim_held now k d"
  shows "claim_held now k d'"
proof -
  have adv: "db_advance d d'" using db_txn_keeps [OF db_txn.forward [OF forward_txn.inner [OF assms(1)]] assms(2)] by blast
  note same = held_same [OF adv _ assms(4)]
  note step = held_advance [OF adv assms(4)]
  from assms(1) show ?thesis
  proof cases
    case (outbox_claim t locked c)
    then show ?thesis using held_claim [OF assms(2-4)] by simp
  next
    case (outbox_error tk c x)
    show ?thesis by (rule step) (auto simp: outbox_error claim_held_def record_outbox_delivery_error_def table_simps)
  next
    case (outbox_cleanup t)
    show ?thesis
    proof (rule step)
      fix b
      assume b: "row (task_outbox d) k = Some b" "o_delivered_at b \<noteq> None \<or> (\<exists>t. o_claimed_at b = Some t \<and> now \<le> t)"
      have "outbox_expired C t d k b \<Longrightarrow> \<exists>r. row (tasks d) k = Some r \<and> terminal r"
        by (auto simp: outbox_expired_def split: option.splits)
      then show "claim_held now k d'" using b outbox_keyed [OF assms(2)]
        by (auto simp: outbox_cleanup claim_held_def cleanup_terminal_outbox_def table_simps)
    qed
  next
    case (beat t ok name st l)
    then show ?thesis by (intro same) (simp add: heartbeat_def write_heartbeat_def split: if_splits)
  qed (intro same; auto dest: settle_outbox attempt_outbox simp: reap_outbox)+
qed

lemma held_txn:
  assumes "db_txn X C d d'" "wf_db d" "0 \<le> outbox_claim_seconds C" "claim_held now k d"
  shows "claim_held now k d'"
proof -
  have adv: "db_advance d d'" using db_txn_keeps [OF assms(1,2)] by blast
  note step = held_advance [OF adv assms(4)]
  from assms(1) show ?thesis
  proof cases
    case forward
    then show ?thesis
    proof cases
      case inner
      then show ?thesis by (rule held_inner [OF _ assms(2-4)])
    next
      case (queue_task t tk p)
      show ?thesis
      proof (rule step)
        fix b
        assume b: "row (task_outbox d) k = Some b" "o_delivered_at b \<noteq> None \<or> (\<exists>t. o_claimed_at b = Some t \<and> now \<le> t)"
        from queue_task obtain k' o' where "task_outbox d' = insert_nothing k' o' (task_outbox d)" by (rule record_queued_task_tasks)
        then have "row (task_outbox d') k = Some b" using b(1) by (auto simp: table_simps)
        then show "claim_held now k d'" using b(2) by (auto simp: claim_held_def)
      qed
    next
      case (outbox_delivered t tk c)
      show ?thesis by (rule step) (auto simp: outbox_delivered claim_held_def mark_outbox_delivered_def table_simps)
    qed
  next
    case (recover t tk p rec last)
    then have "task_outbox d' = task_outbox d" by (elim recover_txn_tasks) simp
    then show ?thesis by (rule held_same [OF adv _ assms(4)])
  qed
qed

lemma held_history:
  "(db_txn X C)\<^sup>*\<^sup>* d d' \<Longrightarrow> wf_db d \<Longrightarrow> 0 \<le> outbox_claim_seconds C \<Longrightarrow> claim_held now k d \<Longrightarrow> claim_held now k d'"
proof (induction rule: rtranclp_induct)
  case (step d1 d2)
  then show ?case using held_txn [OF step.hyps(2)] db_txns_keep [OF step.hyps(1)] by blast
qed

text \<open>A held row is no candidate until the claim period is over.\<close>

lemma held_not_candidate:
  assumes "claim_held now k d" "wf_db d" "later \<le> now + secs (outbox_claim_seconds C)"
  shows "k \<notin> set (outbox_candidates C later locked d)"
proof
  assume "k \<in> set (outbox_candidates C later locked d)"
  then obtain b where "row (task_outbox d) k = Some b" "outbox_due C later d k b"
    using assms(2) by (rule candidate_due)
  then show False using assms(1,3) by (auto simp: claim_held_def outbox_due_def is_queued_def terminal_def split: option.splits)
qed

end
