(* ===== verification/ControlPlaneProps.thy ===== *)
theory ControlPlaneProps
  imports Scenarios OutboxClaims
begin

text \<open>
  The properties of the task control plane: how often a provider is called, what is durable
  before a call, that a waiting task is not forgotten, that a finished task is final, what the
  claim, the completion, the recovery, the reaper and the outbox do on every branch.
\<close>

lemma start_reachable: "run_events X C evs (start_sys names) = Some S \<Longrightarrow> reachable X C S"
  using run_events_reachable [OF reachable.start] .

text \<open>
  C1: in every interleaving of workers, submissions, foreign producers, failed connections and
  killed processes, the provider client is called for a task at most once more than recovery took
  an expired execution lease of that task away.
\<close>

theorem provider_calls_bounded:
  assumes "reachable X C S"
  shows "calls_of X k (shared S) \<le> 1 + expiries_of k (shared S)"
  using calls_bounded [OF assms, of k] by (simp add: task_bound_def split: if_splits)

theorem provider_calls_bounded_witness:
  "\<exists>S. reachable pg_model default_config S \<and> calls_of pg_model task1 (shared S) = 2 \<and>
     calls_of pg_model task1 (shared S) \<le> 1 + expiries_of task1 (shared S)"
proof -
  obtain S where S: "run_events pg_model default_config second_call_run (start_sys [''w0'', ''w1'']) = Some S"
    "wcalls (shared S) = [(JStr task1, ''C''), (JStr task1, ''f'')]"
    using second_call_result by blast
  have r: "reachable pg_model default_config S" by (rule start_reachable [OF S(1)])
  from S(2) have "calls_of pg_model task1 (shared S) = 2"
    by (simp add: calls_of_def task_key_def pg_model_def task1_uuid)
  with r provider_calls_bounded [OF r, of task1] show ?thesis by blast
qed

text \<open>
  C2: every call of the provider client is made under a receipt in \<open>provider_attempts\<close> for its
  task and execution, and no execution lease is used for two calls.
\<close>

theorem provider_call_receipted:
  assumes "reachable X C S" "(tid, x) \<in> set (wcalls (shared S))"
  shows "row (provider_attempts (wdb (shared S))) (task_key X tid, x) \<noteq> None \<and> calls_under x (shared S) = 1"
proof
  show "row (provider_attempts (wdb (shared S))) (task_key X tid, x) \<noteq> None"
    using reachable_receipts [OF assms(1)] assms(2) by (fastforce simp: all_hold_def log_receipted_def has_attempt_def)
  have "calls_under x (shared S) \<le> 1" using exec_once [OF assms(1), of x] by (simp split: if_splits)
  moreover have "calls_under x (shared S) \<noteq> 0" using assms(2) by (auto simp: calls_under_def filter_empty_conv)
  ultimately show "calls_under x (shared S) = 1" by simp
qed

theorem provider_call_receipted_witness:
  "\<exists>S. reachable pg_model default_config S \<and> (JStr task1, ''f'') \<in> set (wcalls (shared S)) \<and>
     row (provider_attempts (wdb (shared S))) (task_key pg_model (JStr task1), ''f'') \<noteq> None"
proof -
  obtain S where S: "run_events pg_model default_config plain_run (start_sys [''w0'']) = Some S"
    "wcalls (shared S) = [(JStr task1, ''f'')]"
    using plain_run_result by blast
  have r: "reachable pg_model default_config S" by (rule start_reachable [OF S(1)])
  with provider_call_receipted [OF r, of "JStr task1" "''f''"] S(2) show ?thesis by auto
qed

text \<open>
  C3: a task that waits, and of which no execution lease ever expired, has a delivery in one of
  the two Redis lists or an outbox row that is still to be dispatched, whatever crashes and
  connection failures happened.
\<close>

theorem queued_task_not_lost:
  assumes "run_events X C evs (start_sys names) = Some S" "list_all plain_submit evs" "pg_ok X"
    "is_queued (wdb (shared S)) k" "expiries_of k (shared S) = 0"
  shows "(\<exists>raw \<in> live (wq (shared S)). delivers raw k) \<or> to_dispatch (wdb (shared S)) k"
proof -
  have "covered k (shared S) \<or> to_dispatch (wdb (shared S)) k"
    using history_none_lost [OF assms(1-3)] assms(4) by (simp add: none_lost_def)
  moreover have "\<not> settled k (shared S)"
    using assms(4,5) by (simp add: settled_def started_def expiries_of_def count_list_0_iff)
  ultimately show ?thesis by (auto simp: covered_def)
qed

definition submit_run :: "event list" where
  "submit_run = [Submit (secs 10000) ReplyLost task1 payload1]"

lemma submit_run_result:
  "\<exists>S. run_events pg_model default_config submit_run (start_sys []) = Some S \<and>
     is_queued (wdb (shared S)) task1 \<and> expiries_of task1 (shared S) = 0"
  by (simp add: submit_run_def run_simps expiries_of_def)

theorem queued_task_not_lost_witness:
  "\<exists>S. run_events pg_model default_config submit_run (start_sys []) = Some S \<and>
     ((\<exists>raw \<in> live (wq (shared S)). delivers raw task1) \<or> to_dispatch (wdb (shared S)) task1)"
proof -
  obtain S where S: "run_events pg_model default_config submit_run (start_sys []) = Some S"
    "is_queued (wdb (shared S)) task1" "expiries_of task1 (shared S) = 0"
    using submit_run_result by blast
  have "list_all plain_submit submit_run"
    using payload1_plain by (simp add: submit_run_def plain_submit_def del: plain.simps)
  from queued_task_not_lost [OF S(1) this pg_model_ok S(2,3)] S(1) show ?thesis by blast
qed

text \<open>
  C4: a task row that is succeeded or failed is never changed again, by any later history.
\<close>

theorem finished_task_final:
  assumes "reachable X C S" "run_events X C evs S = Some S'"
    "row (tasks (wdb (shared S))) k = Some r" "terminal r"
  shows "row (tasks (wdb (shared S'))) k = Some r"
proof -
  have "rows_advance (wdb (shared S)) (wdb (shared S'))"
    using run_events_keeps [OF assms(2) reachable_wf [OF assms(1)]] by (simp add: db_advance_def)
  then show ?thesis by (rule rows_advance_terminal [OF _ assms(3,4)])
qed

lemma second_external: "run_events X C [External raw1] S = Some (S\<lparr>shared := (shared S)\<lparr>wq := rpush_task raw1 (wq (shared S))\<rparr>\<rparr>)"
  by (simp add: sys_step_def)

theorem finished_task_final_witness:
  "\<exists>S S' r. run_events pg_model default_config [External raw1] S = Some S' \<and> terminal r \<and>
     row (tasks (wdb (shared S'))) task1 = Some r"
proof -
  obtain S where S: "run_events pg_model default_config plain_run (start_sys [''w0'']) = Some S"
    "map_option status (row (tasks (wdb (shared S))) task1) = Some Succeeded"
    using plain_run_result by blast
  then obtain r where r: "row (tasks (wdb (shared S))) task1 = Some r" "terminal r" by (auto simp: terminal_def)
  from finished_task_final [OF start_reachable [OF S(1)] second_external r] second_external r(2) show ?thesis by blast
qed

text \<open>
  C5: when an attempt of a task is still in flight, \<open>claim_task\<close> gives no lease; a waiting task is
  failed with the uncertainty message and the attempt is concluded as unknown.
\<close>

theorem uncertain_attempt_blocks_claim:
  assumes "claim_task X now e tid p d = Inr (res, d')" "pg_uuid X tid = Inr k" "inflight_attempt d k = Some x"
    "row (provider_attempts d) (k, x) = Some a" "a_status a = Inflight" "row (tasks d) k = Some r" "status r = Queued"
  shows "res = None \<and>
    row (tasks d') k = Some (r\<lparr>status := Failed, completed_at := Some now,
      error_message := Some ''Provider outcome is uncertain; automatic retry is blocked''\<rparr>) \<and>
    row (provider_attempts d') (k, x) = Some (a\<lparr>a_status := OutcomeUnknown, a_concluded_at := Some now\<rparr>)"
  using assms(1)
proof (cases rule: claim_task_cases)
  case (uncertain k' v d1 e')
  with assms show ?thesis by (simp add: mark_uncertain_def table_simps)
qed (use assms in auto)

text \<open>A waiting task whose first attempt was left in flight.\<close>

definition stranded_db :: db where
  "stranded_db = \<lparr>tasks = [(task1, \<lparr>created_at = 0, started_at = None, completed_at = None, status = Queued,
       provider = None, model = None, credential_lane = None, request_ref = None, result = None,
       execution_id = None, error_message = None\<rparr>)],
     provider_attempts = [((task1, ''x''), \<lparr>a_provider = ''gigachat'', a_model = None, a_lane = None,
       a_status = Inflight, a_started_at = 0, a_concluded_at = None, a_error = None\<rparr>)],
     cost_events = [], task_outbox = [], worker_heartbeats = []\<rparr>"

theorem uncertain_attempt_blocks_claim_witness:
  "\<exists>res d'. claim_task pg_model 5 ''e'' (JStr task1) payload1 stranded_db = Inr (res, d') \<and> res = None"
proof -
  obtain res d' where c: "claim_task pg_model 5 ''e'' (JStr task1) payload1 stranded_db = Inr (res, d')"
    by (simp add: claim_task_def stranded_db_def run_simps)
  have u: "pg_uuid pg_model (JStr task1) = Inr task1" by (simp add: pg_model_def task1_uuid)
  from uncertain_attempt_blocks_claim [OF c u, of "''x''"] have "res = None"
    by (simp add: stranded_db_def inflight_attempt_def)
  with c show ?thesis by blast
qed

text \<open>
  C6: \<open>record_completion\<close> writes the task only under the lease the row still carries: it reports
  true exactly then and the row succeeds, it changes no task row otherwise, and in both cases the
  cost receipt of the execution is in place.
\<close>

theorem completion_is_fenced:
  assumes "record_completion X now tid e prov res usage lane amount d = Inr (ok, d')" "wf_db d" "pg_uuid X tid = Inr k"
  shows "ok = (\<exists>r. row (tasks d) k = Some r \<and> status r = Running \<and> execution_id r = Some e) \<and>
    (if ok then \<exists>r. row (tasks d') k = Some r \<and> status r = Succeeded else tasks d' = tasks d) \<and>
    row (cost_events d') (k, e) \<noteq> None"
  using record_completion_fenced [OF assms] by (auto simp: holds_lease_def)

theorem completion_is_fenced_witness:
  "\<exists>ok d'. record_completion pg_model 9 (JStr task1) ''e'' ''gigachat'' [] [] JNull JNull stranded_db = Inr (ok, d') \<and>
     \<not> ok \<and> tasks d' = tasks stranded_db"
proof -
  obtain ok d' where c: "record_completion pg_model 9 (JStr task1) ''e'' ''gigachat'' [] [] JNull JNull stranded_db = Inr (ok, d')"
    by (auto simp: stranded_db_def run_simps)
  have u: "pg_uuid pg_model (JStr task1) = Inr task1" by (simp add: pg_model_def task1_uuid)
  have w: "wf_db stranded_db" by (simp add: stranded_db_def wf_db_def keyed_def wf_row_def)
  from completion_is_fenced [OF c w u] have "\<not> ok" "tasks d' = tasks stranded_db"
    by (auto simp: stranded_db_def)
  with c show ?thesis by blast
qed


text \<open>
  with no attempt in flight, \<open>claim_task\<close> gives its own lease exactly when the task waits and
  then starts the row under it; a running or finished row is left as it is.
\<close>

theorem claim_by_status:
  assumes "claim_task X now e tid p d = Inr (res, d')" "pg_uuid X tid = Inr k" "inflight_attempt d k = None"
    "row (tasks d) k = Some r"
  shows "if status r = Queued
     then res = Some e \<and> row (tasks d') k = Some (r\<lparr>status := Running, started_at := Some now,
            completed_at := None, error_message := None, execution_id := Some e\<rparr>)
     else res = None \<and> row (tasks d') k = Some r"
  using assms(1)
proof (cases rule: claim_task_cases)
  case (uncertain k' v d1 e')
  with assms show ?thesis by simp
next
  case (queued k' v d1)
  then have "status r = Queued" using assms by (auto simp: is_queued_iff table_simps)
  with queued assms show ?thesis by (simp add: start_queued_def table_simps)
next
  case (other k' v d1)
  then have "status r \<noteq> Queued" using assms by (auto simp: is_queued_iff table_simps)
  with other assms show ?thesis by (simp add: start_queued_def table_simps)
qed

definition waiting_db :: db where
  "waiting_db = stranded_db\<lparr>provider_attempts := []\<rparr>"

theorem claim_by_status_witness:
  "\<exists>d'. claim_task pg_model 5 ''e'' (JStr task1) payload1 waiting_db = Inr (Some ''e'', d')"
proof -
  obtain res d' where c: "claim_task pg_model 5 ''e'' (JStr task1) payload1 waiting_db = Inr (res, d')"
    by (auto simp: claim_task_def waiting_db_def stranded_db_def run_simps)
  have u: "pg_uuid pg_model (JStr task1) = Inr task1" by (simp add: pg_model_def task1_uuid)
  obtain r where r: "row (tasks waiting_db) task1 = Some r" "status r = Queued"
    by (simp add: waiting_db_def stranded_db_def)
  from claim_by_status [OF c u _ r(1)] r(2) c show ?thesis
    by (simp add: waiting_db_def inflight_attempt_def)
qed

subsection \<open>The reaper\<close>

lemma reap_each_row:
  "row (tasks (reap_each C now obs ks d)) k =
     map_option (\<lambda>r. if k \<in> set ks \<and> k \<notin> set obs \<and> orphan_age C now r
       then r\<lparr>status := Failed, completed_at := Some now,
              error_message := Some ''Task delivery was not observed before queue timeout''\<rparr> else r) (row (tasks d) k)"
proof (induction C now obs ks d rule: reap_each.induct)
  case (1 C now obs d)
  then show ?case by (simp add: option.map_ident)
next
  case (2 C now obs tk ks d)
  show ?case
  proof (cases "tk \<in> set obs")
    case True
    with 2(1) show ?thesis by (auto intro!: map_option_cong)
  next
    case False
    with 2(2) show ?thesis
      by (cases "row (tasks d) k") (auto simp: reap_one_def table_simps orphan_age_def)
  qed
qed

text \<open>
  the reaper fails exactly the tasks that have waited longer than the limit and whose
  identifier was not observed in the lists; it keeps every other row.
\<close>

theorem reaper_fails_unobserved:
  assumes "row (tasks d) k = Some r"
  shows "row (tasks (reap_txn C now observed d)) k = Some
     (if status r = Queued \<and> created_at r < now - secs (orphaned_queued_seconds C) \<and> k \<notin> set observed
      then r\<lparr>status := Failed, completed_at := Some now,
             error_message := Some ''Task delivery was not observed before queue timeout''\<rparr>
      else r)"
proof -
  have "orphan_age C now r \<Longrightarrow> k \<in> set (map fst (filter (\<lambda>(k, r). orphan_age C now r) (tasks d)))"
    using map_of_SomeD [OF assms] by force
  then show ?thesis using assms by (auto simp: reap_txn_def reap_each_row orphan_age_def)
qed

theorem reaper_fails_unobserved_witness:
  "map_option status (row (tasks (reap_txn default_config (secs 10000) [] waiting_db)) task1) = Some Failed"
proof -
  obtain r where r: "row (tasks waiting_db) task1 = Some r" "status r = Queued" "created_at r = 0"
    by (simp add: waiting_db_def stranded_db_def)
  from reaper_fails_unobserved [OF r(1), of default_config "secs 10000" "[]"] r(2,3) show ?thesis
    by (simp add: default_config_def load_config_def env_int_def secs_def)
qed

subsection \<open>Recovery\<close>

text \<open>
  C7: recovery of a processing delivery of a stored task keeps or takes it back to waiting when it waits or
  its lease expired, and reports a finished row as final; a row whose lease is still valid is left alone.
\<close>

theorem recovery_by_status:
  assumes "recover_txn X C now tk p d = Inr (recovered, fin, d')" "wf_db d" "pg_uuid X (JStr tk) = Inr k"
    "row (tasks d) k = Some r"
  shows "recovered = (status r = Queued \<or> lease_expired C now r) \<and> fin = terminal r \<and>
    row (tasks d') k = Some (if recovered then r\<lparr>status := Queued, started_at := None, execution_id := None\<rparr> else r)"
proof -
  from assms(1) obtain k' fr d1 where ins: "insert_queued_task X now (JStr tk) p d = Inr (k', fr, d1)"
    and res: "(if fr then Inr (True, False, d1)
       else if row_count (recoverable C now k') (tasks d1) \<noteq> 0
       then Inr (True, False, d1\<lparr>tasks := update_where (recoverable C now k')
              (\<lambda>r. r\<lparr>status := Queued, started_at := None, execution_id := None\<rparr>) (tasks d1)\<rparr>)
       else Inr (False, (case row (tasks d1) k' of None \<Rightarrow> False | Some r \<Rightarrow> terminal r), d1))
       = (Inr (recovered, fin, d') :: (bool \<times> bool \<times> db) res)"
    by (auto simp: recover_txn_def bindR_Inr_iff)
  from ins assms(3,4) have k: "k' = k" "\<not> fr" "tasks d1 = tasks d"
    by (auto elim!: insert_queued_taskE simp: insert_nothing_def)
  have "row_count (recoverable C now k) (tasks d) = (if status r = Queued \<or> lease_expired C now r then 1 else 0)"
    using assms(2,4) by (subst row_count_key [of _ _ k]) (auto simp: wf_db_def recoverable_def)
  with res k assms(4) show ?thesis
    by (auto simp: table_simps recoverable_def lease_expired_def terminal_def split: if_splits)
qed

theorem recovery_by_status_witness:
  "\<exists>d'. recover_txn pg_model default_config 5 task1 payload1 waiting_db = Inr (True, False, d')"
proof -
  obtain a b d' where c: "recover_txn pg_model default_config 5 task1 payload1 waiting_db = Inr (a, b, d')"
    by (auto simp: waiting_db_def stranded_db_def run_simps)
  have u: "pg_uuid pg_model (JStr task1) = Inr task1" by (simp add: pg_model_def task1_uuid)
  have w: "wf_db waiting_db" by (simp add: waiting_db_def stranded_db_def wf_db_def keyed_def wf_row_def)
  obtain r where r: "row (tasks waiting_db) task1 = Some r" "status r = Queued"
    by (simp add: waiting_db_def stranded_db_def)
  from recovery_by_status [OF c w u r(1)] r(2) c show ?thesis by (simp add: terminal_def)
qed

subsection \<open>The dispatch outbox\<close>

lemma keys_of_selected:
  "map fst (filter (\<lambda>(k, _). P k) (update_where p f t)) = filter P (map fst t)"
  by (induction t) (auto simp: update_where_def)

lemma distinct_selected: "distinct xs \<Longrightarrow> length (filter (\<lambda>k. k \<in> set ks) xs) \<le> length ks"
proof -
  assume "distinct xs"
  then have "length (filter (\<lambda>k. k \<in> set ks) xs) = card (set (filter (\<lambda>k. k \<in> set ks) xs))"
    using distinct_card [of "filter (\<lambda>k. k \<in> set ks) xs"] by simp
  also have "\<dots> \<le> card (set ks)" by (intro card_mono) auto
  finally show ?thesis using card_length [of ks] by simp
qed

text \<open>
  C8: one dispatch round takes at most a batch of outbox rows, each undelivered, of a waiting
  task, and not claimed within the claim period; and whatever transactions are committed after it, in
  any number and with any arguments (failed deliveries, other rounds, recoveries, submissions), no
  dispatch round within that period takes one of these rows again.
\<close>

theorem outbox_claim_is_exclusive:
  assumes "claim_pending_outbox C now locked c d = (claims, d')" "wf_db d" "0 < outbox_claim_seconds C"
    "(k, payload, c') \<in> set claims" "(db_txn X C)\<^sup>*\<^sup>* d' d''"
  shows "length claims \<le> nat (outbox_batch_size C) \<and>
    (\<exists>b. row (task_outbox d) k = Some b \<and> payload = o_payload b \<and> outbox_due C now d k b) \<and>
    (later < now + secs (outbox_claim_seconds C) \<longrightarrow>
       k \<notin> fst ` set (fst (claim_pending_outbox C later locked' c'' d'')))"
proof (intro conjI impI)
  let ?ks = "outbox_candidates C now locked d"
  let ?t = "update_where (\<lambda>k _. k \<in> set ?ks)
            (\<lambda>b. b\<lparr>o_claim_id := Some c, o_claimed_at := Some now,
                   o_attempts := o_attempts b + 1, o_last_error := None\<rparr>) (task_outbox d)"
  have cl: "claims = map (\<lambda>(k, b). (k, o_payload b, c)) (filter (\<lambda>(k, _). k \<in> set ?ks) ?t)"
    and d': "d' = d\<lparr>task_outbox := ?t\<rparr>"
    using assms(1) by (auto simp: claim_pending_outbox_def Let_def)
  have key: "keyed (task_outbox d)" using assms(2) by (simp add: wf_db_def)
  have ks: "length ?ks \<le> nat (outbox_batch_size C)" by (simp add: outbox_candidates_def)
  have "length (filter (\<lambda>(k, _). k \<in> set ?ks) ?t) = length (filter (\<lambda>k. k \<in> set ?ks) (map fst (task_outbox d)))"
    using arg_cong [OF keys_of_selected [of "\<lambda>k. k \<in> set ?ks"], of length] by (simp only: length_map)
  also have "\<dots> \<le> length ?ks" by (rule distinct_selected) (use key in \<open>simp add: keyed_def\<close>)
  finally have "length (filter (\<lambda>(k, _). k \<in> set ?ks) ?t) \<le> length ?ks" .
  with ks cl show "length claims \<le> nat (outbox_batch_size C)" by simp
  from assms(4) cl obtain b0 where b0: "k \<in> set ?ks" "(k, b0) \<in> set ?t" "payload = o_payload b0" by auto
  obtain b where b: "row (task_outbox d) k = Some b" "outbox_due C now d k b" using candidate_due [OF b0(1) assms(2)] .
  have "row ?t k = Some b0" using b0(2) key by (simp add: keyed_def)
  then have "payload = o_payload b" using b(1) b0(1,3) by (auto simp: table_simps)
  with b show "\<exists>b. row (task_outbox d) k = Some b \<and> payload = o_payload b \<and> outbox_due C now d k b" by blast
  have wf: "wf_db d'" using claim_pending_outbox_wf [OF assms(2), of C now locked c] assms(1) by simp
  have "claim_held now k d'" using b(1) b0(1) by (auto simp: claim_held_def d' table_simps)
  then have held: "claim_held now k d''" using held_history [OF assms(5) wf] assms(3) by simp
  assume "later < now + secs (outbox_claim_seconds C)"
  then have "k \<notin> set (outbox_candidates C later locked' d'')"
    using held_not_candidate [OF held] db_txns_keep [OF assms(5) wf] by simp
  then show "k \<notin> fst ` set (fst (claim_pending_outbox C later locked' c'' d''))"
    by (auto simp: claim_pending_outbox_def Let_def)
qed

text \<open>The delivery of the claimed row fails, and the next round a second later passes it over.\<close>

theorem outbox_claim_is_exclusive_witness:
  "\<exists>S claims d'. run_events pg_model default_config submit_run (start_sys []) = Some S \<and>
     claim_pending_outbox default_config (secs 10001) (\<lambda>_. False) ''c'' (wdb (shared S)) = (claims, d') \<and>
     task1 \<in> fst ` set claims \<and>
     task1 \<notin> fst ` set (fst (claim_pending_outbox default_config (secs 10002) (\<lambda>_. False) ''e''
        (record_outbox_delivery_error task1 ''c'' (Exn RedisError ''connection lost'') d')))"
proof -
  obtain S where S: "run_events pg_model default_config submit_run (start_sys []) = Some S"
    and c: "claim_pending_outbox default_config (secs 10001) (\<lambda>_. False) ''c'' (wdb (shared S)) =
       ([(task1, JObj payload1, ''c'')], snd (claim_pending_outbox default_config (secs 10001) (\<lambda>_. False) ''c'' (wdb (shared S))))"
    by (simp add: submit_run_def run_simps outbox_due_def)
  let ?d' = "snd (claim_pending_outbox default_config (secs 10001) (\<lambda>_. False) ''c'' (wdb (shared S)))"
  have w: "wf_db (wdb (shared S))" by (rule reachable_wf [OF start_reachable [OF S]])
  have "db_txn pg_model default_config ?d' (record_outbox_delivery_error task1 ''c'' (Exn RedisError ''connection lost'') ?d')"
    by (intro db_txn.forward forward_txn.inner inner_txn.outbox_error)
  then have "task1 \<notin> fst ` set (fst (claim_pending_outbox default_config (secs 10002) (\<lambda>_. False) ''e''
      (record_outbox_delivery_error task1 ''c'' (Exn RedisError ''connection lost'') ?d')))"
    using outbox_claim_is_exclusive [OF c w _ _ r_into_rtranclp, of task1 "JObj payload1" "''c''" pg_model _ "secs 10002" "\<lambda>_. False" "''e''"]
    by (simp add: default_config_def load_config_def env_int_def secs_def)
  moreover have "task1 \<in> fst ` set [(task1, JObj payload1, ''c'')]" by simp
  ultimately show ?thesis using S c by blast
qed

text \<open>
  the commands on the Redis lists neither lose nor duplicate a delivery: a move keeps the
  bag of all deliveries, and a removal takes away exactly the one it reports.
\<close>

theorem redis_commands_conserve:
  "deliveries (snd (blmove q)) = deliveries q \<and>
   deliveries (snd (requeue_stale_delivery raw q)) = deliveries q \<and>
   deliveries (snd (dead_letter_processing_delivery raw q)) = deliveries q \<and>
   deliveries q = deliveries (snd (acknowledge_processing_delivery raw q)) +
     (if fst (acknowledge_processing_delivery raw q) = 1 then {#raw#} else {#})"
  using redis.take_bag redis.give_back_bag redis.bury_bag redis.ack_bag by blast

text \<open>
  C9: every reachable state of the control plane has well-formed tables: unique keys, a waiting
  row without execution or start time, a running row with both, a finished row with its end time,
  a concluded attempt with its conclusion time, and attempts and outbox rows of existing tasks.
\<close>

theorem reachable_tables_wf:
  assumes "reachable X C S"
  shows "wf_db (wdb (shared S))"
  using assms by (rule reachable_wf)

text \<open>
  A history of two workers, an expired lease and two provider calls: its state has a task, an attempt
  concluded as unknown and its conclusion time.
\<close>

theorem reachable_tables_wf_witness:
  "\<exists>S. run_events pg_model default_config second_call_run (start_sys [''w0'', ''w1'']) = Some S \<and>
     (\<exists>a. row (provider_attempts (wdb (shared S))) (task1, ''f'') = Some a \<and> a_status a = OutcomeUnknown \<and>
        a_concluded_at a \<noteq> None \<and> row (tasks (wdb (shared S))) task1 \<noteq> None)"
proof -
  obtain S where S: "run_events pg_model default_config second_call_run (start_sys [''w0'', ''w1'']) = Some S"
    "map_option a_status (row (provider_attempts (wdb (shared S))) (task1, ''f'')) = Some OutcomeUnknown"
    using second_call_result by blast
  then obtain a where a: "row (provider_attempts (wdb (shared S))) (task1, ''f'') = Some a" "a_status a = OutcomeUnknown" by auto
  have "wf_db (wdb (shared S))" by (rule reachable_tables_wf [OF start_reachable [OF S(1)]])
  then have "a_status a = Inflight \<longleftrightarrow> a_concluded_at a = None" "row (tasks (wdb (shared S))) task1 \<noteq> None"
    using a(1) unfolding wf_db_def by blast+
  with S(1) a show ?thesis by auto
qed

subsection \<open>Histories the comments rule out\<close>

text \<open>
  a second provider call is reachable although the outcome of the first is unknown: a
  duplicate delivery concludes the attempt of a running task as unknown, and after the lease
  expired nothing blocks the next claim.
\<close>

theorem duplicate_unblocks_second_call:
  "\<exists>S. reachable pg_model default_config S \<and> calls_of pg_model task1 (shared S) = 2 \<and>
     map_option a_status (row (provider_attempts (wdb (shared S))) (task1, ''f'')) = Some OutcomeUnknown"
proof -
  obtain S where S: "run_events pg_model default_config second_call_run (start_sys [''w0'', ''w1'']) = Some S"
    "wcalls (shared S) = [(JStr task1, ''C''), (JStr task1, ''f'')]"
    "map_option a_status (row (provider_attempts (wdb (shared S))) (task1, ''f'')) = Some OutcomeUnknown"
    using second_call_result by blast
  from S(2) have "calls_of pg_model task1 (shared S) = 2"
    by (simp add: calls_of_def task_key_def pg_model_def task1_uuid)
  with S(3) start_reachable [OF S(1)] show ?thesis by blast
qed

text \<open>
  two provider calls of one task can be open at the same time: a worker that is delayed beyond
  its lease between the claim and the attempt receipt goes on to call.
\<close>

theorem stalled_worker_still_calls:
  "\<exists>S. reachable pg_model default_config S \<and> calls_of pg_model task1 (shared S) = 2 \<and>
     map_option a_status (row (provider_attempts (wdb (shared S))) (task1, ''f'')) = Some Inflight \<and>
     map_option a_status (row (provider_attempts (wdb (shared S))) (task1, ''u'')) = Some Inflight"
proof -
  obtain S where S: "run_events pg_model default_config stall_run (start_sys [''w0'', ''w1'']) = Some S"
    "wcalls (shared S) = [(JStr task1, ''f''), (JStr task1, ''u'')]"
    "map_option a_status (row (provider_attempts (wdb (shared S))) (task1, ''f'')) = Some Inflight"
    "map_option a_status (row (provider_attempts (wdb (shared S))) (task1, ''u'')) = Some Inflight"
    using stall_result by blast
  from S(2) have "calls_of pg_model task1 (shared S) = 2"
    by (simp add: calls_of_def task_key_def pg_model_def task1_uuid)
  with S(3,4) start_reachable [OF S(1)] show ?thesis by blast
qed

text \<open>
  once a lease has expired, a waiting task can be left without any delivery and without an
  outbox row: recovery commits the row before it moves the delivery, which the slow worker
  acknowledges in between.
\<close>

theorem expired_lease_can_lose_delivery:
  "\<exists>S. reachable pg_model default_config S \<and> is_queued (wdb (shared S)) task1 \<and>
     live (wq (shared S)) = {} \<and> \<not> to_dispatch (wdb (shared S)) task1"
  using lost_result start_reachable by blast

end
