(* ===== verification/GigaChatClient.thy ===== *)
theory GigaChatClient
  imports TaskStore PyFloat
begin

text \<open>
  The provider client of \<open>orchestrator/worker.py\<close>: the bounded HTTP retry loop, the OAuth token
  cache, the single refresh after a rejected token, and the two operations. What the network
  answers is an argument: the n-th request sent gets \<open>net n\<close>, at time \<open>clock n\<close>. Every request is
  recorded, and every wait.
\<close>

datatype http_result =
    Body json
  | HttpStatus int "string option"
  | NoAnswer exn_class
  | BadBody exn

datatype http_request =
    OAuth json string
  | Api json string json string

record client_env =
  net :: "nat \<Rightarrow> http_result"
  clock :: "nat \<Rightarrow> rat"
  getenv :: "string \<Rightarrow> string option"
  attempts :: int
  default_model :: string
  default_embedding_model :: string

record token_entry =
  token :: json
  expires_at :: fval

record client =
  tokens :: "(json \<times> token_entry) list"
  sent :: "http_request list"
  slept :: "rat list"

text \<open>A result of the client: the value or the exception, with \<open>status_code\<close> for a ProviderError.\<close>

type_synonym 'a reply = "('a res \<times> int option) \<times> client"

abbreviation fail_with :: "exn_class \<Rightarrow> string \<Rightarrow> client \<Rightarrow> 'a reply" where
  "fail_with c m st \<equiv> ((raise c m, None), st)"

definition bindC :: "'a reply \<Rightarrow> ('a \<Rightarrow> client \<Rightarrow> 'b reply) \<Rightarrow> 'b reply" where
  "bindC r f = (case r of ((Inl e, c), st) \<Rightarrow> ((Inl e, c), st) | ((Inr x, c), st) \<Rightarrow> f x st)"

definition liftC :: "'a res \<Rightarrow> client \<Rightarrow> 'a reply" where
  "liftC r st = ((r, None), st)"

definition now_of :: "client_env \<Rightarrow> client \<Rightarrow> rat" where
  "now_of E st = clock E (length (sent st))"

subsection \<open>request_json\<close>

definition retryable :: "int \<Rightarrow> bool" where
  "retryable sc \<longleftrightarrow> sc = 429 \<or> (500 \<le> sc \<and> sc < 600)"

text \<open>The wait before the next attempt: the header when it is a number, else a power of two.\<close>

definition retry_delay :: "string option \<Rightarrow> nat \<Rightarrow> fval" where
  "retry_delay header attempt =
     (let delay = (case header of
          Some h \<Rightarrow> if h = [] then Fin (2 ^ attempt)
                   else (case py_float h of Some v \<Rightarrow> v | None \<Rightarrow> Fin (2 ^ attempt))
        | None \<Rightarrow> Fin (2 ^ attempt))
      in py_min (py_max delay (Fin 1)) (Fin 30))"

text \<open>\<open>time.sleep\<close> refuses NaN.\<close>

definition do_sleep :: "fval \<Rightarrow> client \<Rightarrow> unit reply" where
  "do_sleep d st = (case d of
     Fin q \<Rightarrow> ((Inr (), None), st\<lparr>slept := slept st @ [q]\<rparr>)
   | _ \<Rightarrow> fail_with ValueError ''Invalid value NaN (not a number)'' st)"

fun retry_loop :: "client_env \<Rightarrow> http_request \<Rightarrow> string \<Rightarrow> nat list \<Rightarrow> client \<Rightarrow> json reply" where
  "retry_loop E req label [] st = fail_with ProviderError (label @ '' failed after retries'') st"
| "retry_loop E req label (attempt # rest) st =
     (let answer = net E (length (sent st)); st1 = st\<lparr>sent := sent st @ [req]\<rparr> in
      case answer of
        Body j \<Rightarrow> ((Inr j, None), st1)
      | HttpStatus sc header \<Rightarrow>
          if retryable sc \<and> int attempt + 1 < attempts E
          then bindC (do_sleep (retry_delay header attempt) st1) (\<lambda>_. retry_loop E req label rest)
          else ((raise ProviderError (label @ '' failed: '' @ show_int sc), Some sc), st1)
      | NoAnswer c \<Rightarrow>
          if int attempt + 1 < attempts E
          then bindC (do_sleep (py_min (Fin (2 ^ attempt)) (Fin 30)) st1) (\<lambda>_. retry_loop E req label rest)
          else fail_with ProviderError (label @ '' failed: '' @ class_name c) st1
      | BadBody e \<Rightarrow> ((Inl e, None), st1))"

definition request_json :: "client_env \<Rightarrow> http_request \<Rightarrow> string \<Rightarrow> client \<Rightarrow> json reply" where
  "request_json E req label = retry_loop E req label [0..<nat (attempts E)]"

subsection \<open>Credentials and tokens\<close>

definition lane_text :: "json \<Rightarrow> string" where
  "lane_text j = (case j of JStr s \<Rightarrow> s | JNull \<Rightarrow> ''None'' | _ \<Rightarrow> dumps default_opts j)"

definition hashable :: "json \<Rightarrow> unit res" where
  "hashable j = (case j of JList _ \<Rightarrow> raise TypeError ''unhashable type'' | JObj _ \<Rightarrow> raise TypeError ''unhashable type''
     | _ \<Rightarrow> Inr ())"

definition env_or :: "client_env \<Rightarrow> string \<Rightarrow> string \<Rightarrow> string" where
  "env_or E k d = (case getenv E k of None \<Rightarrow> d | Some v \<Rightarrow> v)"

definition credential_for :: "client_env \<Rightarrow> json \<Rightarrow> string res" where
  "credential_for E lane = thenR (hashable lane)
     (let key_env = (if lane = JStr ''primary'' then env_or E ''GIGACHAT_PRIMARY_KEY_ENV'' ''GIGACHAT_KEY_A1''
                     else if lane = JStr ''freemium'' then env_or E ''GIGACHAT_FREEMIUM_KEY_ENV'' ''GIGACHAT_KEY_L1''
                     else [])
      in if key_env = [] then raise ProviderError (''unsupported GigaChat lane: '' @ lane_text lane)
         else (case getenv E key_env of
                 Some c \<Rightarrow> if c = [] then raise ProviderError (''GigaChat credential is not configured for lane: '' @ lane_text lane)
                          else Inr c
               | None \<Rightarrow> raise ProviderError (''GigaChat credential is not configured for lane: '' @ lane_text lane)))"

definition normalize_expiry_timestamp :: "json \<Rightarrow> fval res" where
  "normalize_expiry_timestamp value = (case json_float value of
     Inl e \<Rightarrow> if is_a e TypeError \<or> is_a e ValueError then Inr (Fin 0) else Inl e
   | Inr t \<Rightarrow> Inr (if f_less (Fin 100000000000) t
                  then (case t of Fin q \<Rightarrow> Fin (q / 1000) | v \<Rightarrow> v) else t))"

definition as_dict :: "json \<Rightarrow> dict res" where
  "as_dict j = (case j of JObj kvs \<Rightarrow> Inr kvs | _ \<Rightarrow> raise AttributeError ''get'')"

definition or_json :: "json \<Rightarrow> json \<Rightarrow> json" where
  "or_json a b = (if truthy a then a else b)"

definition fresh_token :: "client_env \<Rightarrow> json \<Rightarrow> client \<Rightarrow> json option" where
  "fresh_token E lane st = (case map_of (tokens st) lane of
     Some e \<Rightarrow> if f_less (Fin (now_of E st + 60)) (expires_at e) then Some (token e) else None
   | None \<Rightarrow> None)"

definition drop_token :: "json \<Rightarrow> (json \<times> token_entry) list \<Rightarrow> (json \<times> token_entry) list" where
  "drop_token lane ts = filter (\<lambda>(l, _). l \<noteq> lane) ts"

text \<open>What \<open>access_token\<close> does with the OAuth answer.\<close>

definition accept_token :: "client_env \<Rightarrow> json \<Rightarrow> json \<Rightarrow> client \<Rightarrow> json reply" where
  "accept_token E lane data st =
     bindC (liftC (as_dict data) st) (\<lambda>td st.
     if \<not> truthy (jget td ''access_token'')
     then fail_with ProviderError ''GigaChat OAuth response has no access token'' st
     else bindC (liftC (normalize_expiry_timestamp (or_json (jget td ''expires_at'') (jget td ''exp''))) st) (\<lambda>ex st.
       if f_less ex (Fin (now_of E st + 60)) \<or> ex = Fin (now_of E st + 60)
       then fail_with ProviderError ''GigaChat OAuth response has expired or invalid expiration'' st
       else ((Inr (jget td ''access_token''), None),
             st\<lparr>tokens := (lane, \<lparr>token = jget td ''access_token'', expires_at = ex\<rparr>) # drop_token lane (tokens st)\<rparr>)))"

definition access_token :: "client_env \<Rightarrow> json \<Rightarrow> client \<Rightarrow> json reply" where
  "access_token E lane st =
     bindC (liftC (hashable lane) st) (\<lambda>_ st.
     case fresh_token E lane st of
       Some t \<Rightarrow> ((Inr t, None), st)
     | None \<Rightarrow>
         bindC (liftC (credential_for E lane) st) (\<lambda>cred st.
         bindC (request_json E (OAuth lane cred) ''GigaChat OAuth'' st) (accept_token E lane)))"

text \<open>At most one refresh: the second rejection is raised.\<close>

fun authorized_loop ::
    "client_env \<Rightarrow> json \<Rightarrow> (json \<Rightarrow> http_request) \<Rightarrow> string \<Rightarrow> nat list \<Rightarrow> client \<Rightarrow> json reply" where
  "authorized_loop E lane factory label [] st = fail_with ProviderError (label @ '' failed after token refresh'') st"
| "authorized_loop E lane factory label (attempt # rest) st =
     bindC (access_token E lane st) (\<lambda>t st1.
       case request_json E (factory t) label st1 of
         ((Inl e, sc), st2) \<Rightarrow>
           if is_a e ProviderError \<and> sc = Some 401 \<and> attempt = 0
           then authorized_loop E lane factory label rest (st2\<lparr>tokens := drop_token lane (tokens st2)\<rparr>)
           else ((Inl e, sc), st2)
       | r \<Rightarrow> r)"

definition authorized_request_json ::
    "client_env \<Rightarrow> json \<Rightarrow> (json \<Rightarrow> http_request) \<Rightarrow> string \<Rightarrow> client \<Rightarrow> json reply" where
  "authorized_request_json E lane factory label = authorized_loop E lane factory label [0..<2]"

subsection \<open>The operations\<close>

definition get_or :: "dict \<Rightarrow> string \<Rightarrow> json \<Rightarrow> json" where
  "get_or d k dflt = (case map_of d k of None \<Rightarrow> dflt | Some v \<Rightarrow> v)"

text \<open>\<open>xs[0]\<close> of a value that is true.\<close>

definition first_of :: "json \<Rightarrow> json res" where
  "first_of j = (case j of
     JList (x # _) \<Rightarrow> Inr x
   | JList [] \<Rightarrow> raise IndexError ''list index out of range''
   | JStr (c # _) \<Rightarrow> Inr (JStr [c])
   | JStr [] \<Rightarrow> raise IndexError ''string index out of range''
   | JObj _ \<Rightarrow> raise KeyError ''0''
   | _ \<Rightarrow> raise TypeError ''object is not subscriptable'')"

definition complete_body :: "client_env \<Rightarrow> dict \<Rightarrow> json \<Rightarrow> dict" where
  "complete_body E task messages =
     [(''model'', get_or task ''model'' (JStr (default_model E))), (''messages'', messages), (''stream'', JBool False)]
     @ concat (map (\<lambda>f. case map_of task f of None \<Rightarrow> [] | Some v \<Rightarrow> [(f, v)]) [''temperature'', ''max_tokens'', ''top_p''])"

text \<open>What \<open>complete\<close> makes of the answer.\<close>

definition chat_result :: "json \<Rightarrow> dict \<Rightarrow> json \<Rightarrow> client \<Rightarrow> dict reply" where
  "chat_result lane body j st =
     bindC (liftC (as_dict j) st) (\<lambda>payload st.
     (let choices = or_json (jget payload ''choices'') (JList []) in
      if \<not> truthy choices then fail_with ProviderError ''GigaChat response has no choices'' st
      else liftC (bindR (first_of choices) (\<lambda>c.
        bindR (as_dict c) (\<lambda>cd.
        bindR (as_dict (get_or cd ''message'' (JObj []))) (\<lambda>msg.
          Inr [(''model'', get_or payload ''model'' (get_or body ''model'' JNull)), (''operation'', JStr ''chat''),
               (''content'', jget msg ''content''), (''finish_reason'', jget cd ''finish_reason''),
               (''usage'', get_or payload ''usage'' (JObj [])), (''credential_lane'', lane)])))) st))"

definition complete :: "client_env \<Rightarrow> dict \<Rightarrow> client \<Rightarrow> dict reply" where
  "complete E task st =
     (let lane = get_or task ''credential_lane'' (JStr ''primary''); messages = jget task ''messages'' in
      if \<not> (case messages of JList xs \<Rightarrow> xs \<noteq> [] | _ \<Rightarrow> False)
      then fail_with ProviderError ''GigaChat task requires a non-empty messages array'' st
      else (let body = complete_body E task messages in
        bindC (authorized_request_json E lane
                 (\<lambda>t. Api lane ''/v1/chat/completions'' t (dumps unicode_opts (JObj body))) ''GigaChat completion'' st)
          (chat_result lane body)))"

text \<open>What a comprehension over the value yields, and its length.\<close>

definition iter_json :: "json \<Rightarrow> json list res" where
  "iter_json j = (case j of
     JList xs \<Rightarrow> Inr xs
   | JObj kvs \<Rightarrow> Inr (map (\<lambda>(k, _). JStr k) kvs)
   | JStr s \<Rightarrow> Inr (map (\<lambda>c. JStr [c]) s)
   | _ \<Rightarrow> raise TypeError ''object is not iterable'')"

definition len_json :: "json \<Rightarrow> int res" where
  "len_json j = (case j of
     JList xs \<Rightarrow> Inr (int (length xs)) | JObj kvs \<Rightarrow> Inr (int (length kvs)) | JStr s \<Rightarrow> Inr (int (length s))
   | _ \<Rightarrow> raise TypeError ''object has no len()'')"

definition valid_input :: "json \<Rightarrow> bool" where
  "valid_input j = (case j of
     JStr s \<Rightarrow> s \<noteq> []
   | JList xs \<Rightarrow> xs \<noteq> [] \<and> list_all (\<lambda>x. case x of JStr s \<Rightarrow> s \<noteq> [] | _ \<Rightarrow> False) xs
   | _ \<Rightarrow> False)"

text \<open>What \<open>embed\<close> makes of the answer.\<close>

definition embed_result :: "json \<Rightarrow> dict \<Rightarrow> json \<Rightarrow> client \<Rightarrow> dict reply" where
  "embed_result lane body j st =
     bindC (liftC (as_dict j) st) (\<lambda>payload st.
     (let embeddings = or_json (jget payload ''data'') (JList []) in
      if \<not> truthy embeddings then fail_with ProviderError ''GigaChat embeddings response has no data'' st
      else liftC (bindR (iter_json embeddings) (\<lambda>items.
        bindR (mapR as_dict items) (\<lambda>ds.
        bindR (mapR (\<lambda>d. len_json (get_or d ''embedding'' (JList []))) ds) (\<lambda>dims.
          Inr [(''model'', get_or payload ''model'' (get_or body ''model'' JNull)), (''operation'', JStr ''embeddings''),
               (''embeddings'', JList (map (\<lambda>d. JObj [(''index'', jget d ''index''),
                   (''embedding'', get_or d ''embedding'' (JList []))]) ds)),
               (''dimensions'', JList (map JInt dims)),
               (''usage'', get_or payload ''usage'' (JObj [])), (''credential_lane'', lane)])))) st))"

definition embed :: "client_env \<Rightarrow> dict \<Rightarrow> client \<Rightarrow> dict reply" where
  "embed E task st =
     (let lane = get_or task ''credential_lane'' (JStr ''primary''); input = jget task ''input'' in
      if \<not> valid_input input
      then fail_with ProviderError ''GigaChat embeddings task requires non-empty string input or string array'' st
      else (let body = [(''model'', get_or task ''model'' (JStr (default_embedding_model E))), (''input'', input)] in
        bindC (authorized_request_json E lane
                 (\<lambda>t. Api lane ''/v1/embeddings'' t (dumps unicode_opts (JObj body))) ''GigaChat embeddings'' st)
          (embed_result lane body)))"

text \<open>The branch of \<open>handle_delivery\<close> on the operation of a task for this provider.\<close>

definition perform :: "client_env \<Rightarrow> dict \<Rightarrow> client \<Rightarrow> dict reply" where
  "perform E task st =
     (let operation = get_or task ''operation'' (JStr ''chat'') in
      if operation = JStr ''chat'' then complete E task st
      else if operation \<in> {JStr ''embedding'', JStr ''embeddings''} then embed E task st
      else fail_with ProviderError (''unsupported GigaChat operation: '' @ py_str operation) st)"

end
