(* ===== verification/GigaChatProps.thy ===== *)
theory GigaChatProps
  imports GigaChatClient
begin

text \<open>
  Properties of the provider client: the number of requests and the waits are bounded, a result
  of the loop is an answer that was received, a cached token is used only while it is valid, and
  a rejected token is refreshed once.
\<close>

lemma bindC_simps [simp]:
  "bindC ((Inl e, c), st) f = ((Inl e, c), st)"
  "bindC ((Inr x, c), st) f = f x st"
  by (simp_all add: bindC_def)

lemma liftC_simps [simp]: "bindC (liftC (Inr x) st) f = f x st" "bindC (liftC (Inl e) st) f = ((Inl e, None), st)"
  by (simp_all add: liftC_def)

text \<open>A step of the client: it appends requests and waits, and every wait is between 1 and 30 seconds.\<close>

definition extends :: "nat \<Rightarrow> client \<Rightarrow> client \<Rightarrow> bool" where
  "extends n st st' \<longleftrightarrow> (\<exists>rs ws. sent st' = sent st @ rs \<and> slept st' = slept st @ ws \<and> length rs \<le> n \<and>
     length ws \<le> length rs \<and> list_all (\<lambda>w. 1 \<le> w \<and> w \<le> 30) ws)"

lemma extends_refl [simp]: "extends n st st"
  by (simp add: extends_def)

lemma extends_trans: "extends m a b \<Longrightarrow> extends n b c \<Longrightarrow> extends (m + n) a c"
  unfolding extends_def
proof (elim exE conjE)
  fix rs ws rs' ws'
  assume "sent b = sent a @ rs" "slept b = slept a @ ws" "length rs \<le> m" "length ws \<le> length rs"
    "list_all (\<lambda>w. 1 \<le> w \<and> w \<le> 30) ws" "sent c = sent b @ rs'" "slept c = slept b @ ws'" "length rs' \<le> n"
    "length ws' \<le> length rs'" "list_all (\<lambda>w. 1 \<le> w \<and> w \<le> 30) ws'"
  then show "\<exists>rs ws. sent c = sent a @ rs \<and> slept c = slept a @ ws \<and> length rs \<le> m + n \<and>
      length ws \<le> length rs \<and> list_all (\<lambda>w. 1 \<le> w \<and> w \<le> 30) ws"
    by (intro exI [of _ "rs @ rs'"] exI [of _ "ws @ ws'"]) simp
qed

lemma extends_mono: "extends m a b \<Longrightarrow> m \<le> n \<Longrightarrow> extends n a b"
  unfolding extends_def by fastforce

lemma extends_tokens [simp]: "extends n st (st'\<lparr>tokens := ts\<rparr>) = extends n st st'"
  by (simp add: extends_def)

lemma bindC_extends:
  assumes "extends m a (snd r)" "\<And>x c st. r = ((Inr x, c), st) \<Longrightarrow> extends n st (snd (f x st))"
  shows "extends (m + n) a (snd (bindC r f))"
proof (cases "fst (fst r)")
  case (Inl e)
  then have "snd (bindC r f) = snd r" by (cases r) (auto simp: bindC_def split: prod.splits sum.splits)
  then show ?thesis using assms(1) extends_mono by simp
next
  case (Inr x)
  then obtain c st where r: "r = ((Inr x, c), st)" by (metis prod.collapse)
  then show ?thesis using assms(1) assms(2) [OF r] by (auto intro: extends_trans)
qed

lemma liftC_extends [simp]: "snd (liftC r st) = st"
  by (simp add: liftC_def)

lemma retry_delay_bounds: "retry_delay h n = Fin q \<Longrightarrow> 1 \<le> q \<and> q \<le> 30"
  using clamp_cases [of 1 30 "(case h of Some h \<Rightarrow> if h = [] then Fin (2 ^ n)
      else (case py_float h of Some v \<Rightarrow> v | None \<Rightarrow> Fin (2 ^ n)) | None \<Rightarrow> Fin (2 ^ n))"]
  by (auto simp: retry_delay_def)

lemma backoff_bounds: "py_min (Fin (2 ^ n)) (Fin 30) = Fin q \<Longrightarrow> 1 \<le> q \<and> q \<le> 30"
  by (auto simp: py_min_def split: if_splits)

text \<open>One attempt of the loop: a request, and perhaps a wait before the rest.\<close>

lemma retry_loop_extends: "extends (length ns) st (snd (retry_loop E req label ns st))"
proof (induction ns arbitrary: st)
  case (Cons attempt rest)
  let ?st1 = "st\<lparr>sent := sent st @ [req]\<rparr>"
  have wait: "extends (Suc (length rest)) st (snd (bindC (do_sleep d ?st1) (\<lambda>_. retry_loop E req label rest)))"
    if d: "\<And>q. d = Fin q \<Longrightarrow> 1 \<le> q \<and> q \<le> 30" for d
  proof (cases d)
    case (Fin q)
    have "extends 1 st (?st1\<lparr>slept := slept st @ [q]\<rparr>)"
      using d [OF Fin] by (simp add: extends_def)
    from extends_trans [OF this Cons.IH] Fin show ?thesis by (simp add: do_sleep_def)
  qed (simp_all add: do_sleep_def extends_def)
  have one: "extends (Suc (length rest)) st ?st1" by (simp add: extends_def)
  show ?case
    by (cases "net E (length (sent st))")
       (auto simp: Let_def one intro!: wait dest: retry_delay_bounds backoff_bounds)
qed simp

lemma request_json_extends: "extends (nat (attempts E)) st (snd (request_json E req label st))"
  using retry_loop_extends [where ns = "[0..<nat (attempts E)]"] by (simp add: request_json_def)

lemma accept_token_client [simp]:
  "sent (snd (accept_token E lane data st)) = sent st" "slept (snd (accept_token E lane data st)) = slept st"
  by (cases "as_dict data"; simp add: accept_token_def bindC_def liftC_def split: sum.splits)+

lemma extends_same: "sent b = sent c \<Longrightarrow> slept b = slept c \<Longrightarrow> extends n a b = extends n a c"
  by (simp add: extends_def)

lemma bindC_accept: "extends n a (snd (bindC r (accept_token E lane))) = extends n a (snd r)"
  by (cases r) (auto simp: bindC_def intro!: extends_same split: sum.splits prod.splits)

lemma access_token_extends: "extends (nat (attempts E)) st (snd (access_token E lane st))"
  by (cases "hashable lane"; cases "credential_for E lane")
     (auto simp: access_token_def liftC_def bindC_accept request_json_extends split: option.splits)

lemma authorized_loop_extends:
  "extends (length ns * (2 * nat (attempts E))) st (snd (authorized_loop E lane factory label ns st))"
proof (induction ns arbitrary: st)
  case (Cons attempt rest)
  let ?n = "nat (attempts E)"
  have "extends (?n + (?n + length rest * (2 * ?n))) st (snd (authorized_loop E lane factory label (attempt # rest) st))"
    unfolding authorized_loop.simps
  proof (intro bindC_extends access_token_extends)
    fix t c st1
    obtain r sc st2 where r: "request_json E (factory t) label st1 = ((r, sc), st2)" by (metis prod.collapse)
    have e: "extends ?n st1 st2" using request_json_extends [of E st1 "factory t" label] r by simp
    have "extends (?n + length rest * (2 * ?n)) st1 (snd (authorized_loop E lane factory label rest (st2\<lparr>tokens := drop_token lane (tokens st2)\<rparr>)))"
      using e Cons.IH by (intro extends_trans [of ?n st1 "st2\<lparr>tokens := drop_token lane (tokens st2)\<rparr>"]) simp_all
    then show "extends (?n + length rest * (2 * ?n)) st1
        (snd (case request_json E (factory t) label st1 of
           ((Inl e, sc), st2) \<Rightarrow>
             if is_a e ProviderError \<and> sc = Some 401 \<and> attempt = 0
             then authorized_loop E lane factory label rest (st2\<lparr>tokens := drop_token lane (tokens st2)\<rparr>)
             else ((Inl e, sc), st2)
         | r \<Rightarrow> r))"
      using r e by (auto intro: extends_mono split: sum.splits)
  qed
  then show ?case by (simp add: algebra_simps)
qed simp

lemma authorized_extends: "extends (4 * nat (attempts E)) st (snd (authorized_request_json E lane factory label st))"
  using authorized_loop_extends [of "[0..<2]" E st lane factory label] by (simp add: authorized_request_json_def)


lemma chat_result_state [simp]: "snd (chat_result lane body j st) = st"
  by (cases "as_dict j") (simp_all add: chat_result_def bindC_def liftC_def Let_def)

lemma embed_result_state [simp]: "snd (embed_result lane body j st) = st"
  by (cases "as_dict j") (simp_all add: embed_result_def bindC_def liftC_def Let_def)

lemma bindC_state: "(\<And>x st. snd (f x st) = st) \<Longrightarrow> snd (bindC r f) = snd r"
  by (cases r) (auto simp: bindC_def split: sum.splits prod.splits)

lemma complete_extends: "extends (4 * nat (attempts E)) st (snd (complete E task st))"
  by (simp add: complete_def Let_def bindC_state authorized_extends del: dumps.simps)

lemma embed_extends: "extends (4 * nat (attempts E)) st (snd (embed E task st))"
  by (simp add: embed_def Let_def bindC_state authorized_extends del: dumps.simps)

lemma perform_extends: "extends (4 * nat (attempts E)) st (snd (perform E task st))"
  by (simp add: perform_def Let_def complete_extends embed_extends)

text \<open>
  C10: one task, whichever operation it asks for, makes at most four requests per configured retry
  attempt (two rounds of a token request and an operation), never waits more often than it sends, and
  each wait is between one and thirty seconds.
\<close>

theorem provider_requests_bounded:
  "\<exists>rs ws. sent (snd (perform E task st)) = sent st @ rs \<and> slept (snd (perform E task st)) = slept st @ ws \<and>
     length rs \<le> 4 * nat (attempts E) \<and> length ws \<le> length rs \<and> list_all (\<lambda>w. 1 \<le> w \<and> w \<le> 30) ws"
  using perform_extends by (simp add: extends_def)

subsection \<open>What the loop returns\<close>

text \<open>A transient failure after which the loop goes on.\<close>

definition transient :: "http_result \<Rightarrow> nat \<Rightarrow> bool" where
  "transient a n = (case a of
     NoAnswer c \<Rightarrow> True
   | HttpStatus sc h \<Rightarrow> retryable sc \<and> retry_delay h n \<noteq> NaN
   | _ \<Rightarrow> False)"

lemma retry_delay_cases: "retry_delay h n = NaN \<or> (\<exists>q. retry_delay h n = Fin q)"
  using clamp_cases [of 1 30] by (fastforce simp: retry_delay_def Let_def)

lemma transient_goes_on:
  assumes "transient (net E (length (sent st))) n" "int n + 1 < attempts E"
  obtains q where "retry_loop E req label (n # ns) st =
    retry_loop E req label ns (st\<lparr>sent := sent st @ [req], slept := slept st @ [q]\<rparr>)"
proof (cases "net E (length (sent st))")
  case (HttpStatus sc h)
  with assms obtain q where "retry_delay h n = Fin q" using retry_delay_cases [of h n] by (auto simp: transient_def)
  with HttpStatus assms show ?thesis by (intro that [of q]) (simp add: transient_def do_sleep_def)
next
  case (NoAnswer c)
  obtain q where "py_min (Fin (2 ^ n)) (Fin 30) = Fin q" by (cases "(30::rat) < 2 ^ n") (auto simp: py_min_def)
  with NoAnswer assms show ?thesis by (intro that [of q]) (simp add: do_sleep_def)
qed (use assms in \<open>simp_all add: transient_def\<close>)

lemma retry_loop_first:
  "k < length ns \<Longrightarrow> ns = [m..<nat (attempts E)] \<Longrightarrow> net E (length (sent st) + k) = Body j \<Longrightarrow>
   (\<And>i. i < k \<Longrightarrow> transient (net E (length (sent st) + i)) (m + i)) \<Longrightarrow>
   \<exists>st'. retry_loop E req label ns st = ((Inr j, None), st') \<and> sent st' = sent st @ replicate (Suc k) req \<and> tokens st' = tokens st"
proof (induction k arbitrary: ns m st)
  case 0
  then obtain rest where "ns = m # rest" by (cases ns) (auto simp: upt_eq_Cons_conv)
  with 0(3) show ?case by simp
next
  case (Suc k)
  then have m: "m < nat (attempts E)" by simp
  then have ns: "ns = m # [Suc m..<nat (attempts E)]" using Suc.prems(2) by (simp add: upt_conv_Cons)
  have "int m + 1 < attempts E" using Suc.prems(1) ns by (simp add: Suc.prems(2))
  moreover have "transient (net E (length (sent st))) m" using Suc.prems(4) [of 0] by simp
  ultimately obtain q where step: "retry_loop E req label (m # [Suc m..<nat (attempts E)]) st =
      retry_loop E req label [Suc m..<nat (attempts E)] (st\<lparr>sent := sent st @ [req], slept := slept st @ [q]\<rparr>)"
    by (metis transient_goes_on)
  have later: "transient (net E (Suc (length (sent st) + i))) (Suc (m + i))" if "i < k" for i
    using Suc.prems(4) [of "Suc i"] that by simp
  have "\<exists>st'. retry_loop E req label [Suc m..<nat (attempts E)] (st\<lparr>sent := sent st @ [req], slept := slept st @ [q]\<rparr>) =
      ((Inr j, None), st') \<and> sent st' = sent (st\<lparr>sent := sent st @ [req], slept := slept st @ [q]\<rparr>) @ replicate (Suc k) req
      \<and> tokens st' = tokens (st\<lparr>sent := sent st @ [req], slept := slept st @ [q]\<rparr>)"
    using Suc.prems ns by (intro Suc.IH [OF _ refl]) (auto simp: later)
  then show ?case by (simp add: ns step replicate_app_Cons_same del: retry_loop.simps)
qed

lemma request_first:
  assumes "k < nat (attempts E)" "net E (length (sent st) + k) = Body j"
    "\<And>i. i < k \<Longrightarrow> transient (net E (length (sent st) + i)) i"
  shows "\<exists>st'. request_json E req label st = ((Inr j, None), st') \<and> sent st' = sent st @ replicate (Suc k) req"
  using retry_loop_first [of k "[0..<nat (attempts E)]" 0 E st j req label] assms
  by (auto simp add: request_json_def)

text \<open>
  C11: the retry loop returns the first answer that is received within the attempts when everything
  before it was a transient failure, and has then sent the request once more than it failed.
\<close>

theorem first_answer_is_returned:
  assumes "k < nat (attempts E)" "net E (length (sent st) + k) = Body j"
    "\<And>i. i < k \<Longrightarrow> transient (net E (length (sent st) + i)) i"
  shows "\<exists>st'. request_json E req label st = ((Inr j, None), st') \<and> sent st' = sent st @ replicate (Suc k) req"
  using request_first [OF assms] by blast

definition flaky_env :: client_env where
  "flaky_env = \<lparr>net = (\<lambda>n. if n = 0 then NoAnswer TimeoutError else Body (JObj [(''choices'', JList [JObj []])])),
     clock = (\<lambda>_. 0), getenv = (\<lambda>_. None), attempts = 5, default_model = ''m'', default_embedding_model = ''e''\<rparr>"

definition cached_client :: client where
  "cached_client = \<lparr>tokens = [(JStr ''primary'', \<lparr>token = JStr ''t'', expires_at = Fin 1000\<rparr>)], sent = [], slept = []\<rparr>"

theorem first_answer_is_returned_witness:
  "\<exists>st'. request_json flaky_env (OAuth JNull []) [] cached_client =
     ((Inr (JObj [(''choices'', JList [JObj []])]), None), st') \<and> length (sent st') = 2"
proof -
  have "\<exists>st'. request_json flaky_env (OAuth JNull []) [] cached_client =
     ((Inr (JObj [(''choices'', JList [JObj []])]), None), st') \<and> sent st' = sent cached_client @ replicate (Suc 1) (OAuth JNull [])"
    by (rule first_answer_is_returned) (auto simp: flaky_env_def cached_client_def transient_def)
  then show ?thesis by (auto simp: cached_client_def)
qed

text \<open>
  a chat completion whose first request timed out is sent again, although the first request
  may have been executed and charged: one call of \<open>complete\<close> posts the same completion twice.
\<close>

theorem timed_out_completion_is_replayed:
  "\<exists>r st' req. complete flaky_env [(''messages'', JList [JObj []])] cached_client = ((Inr r, None), st') \<and>
     sent st' = [req, req] \<and> (\<exists>t b. req = Api (JStr ''primary'') ''/v1/chat/completions'' t b)"
proof -
  let ?f = "\<lambda>t. Api (JStr ''primary'') ''/v1/chat/completions'' t
      (dumps unicode_opts (JObj (complete_body flaky_env [(''messages'', JList [JObj []])] (JList [JObj []]))))"
  have "\<exists>st'. request_json flaky_env (?f (JStr ''t'')) ''GigaChat completion'' cached_client =
      ((Inr (JObj [(''choices'', JList [JObj []])]), None), st') \<and> sent st' = sent cached_client @ replicate (Suc 1) (?f (JStr ''t''))"
    by (rule request_first) (auto simp: flaky_env_def cached_client_def transient_def)
  then obtain st' where st': "request_json flaky_env (?f (JStr ''t'')) ''GigaChat completion'' cached_client =
      ((Inr (JObj [(''choices'', JList [JObj []])]), None), st')" "sent st' = [?f (JStr ''t''), ?f (JStr ''t'')]"
    by (auto simp: cached_client_def)
  have tok: "access_token flaky_env (JStr ''primary'') cached_client = ((Inr (JStr ''t''), None), cached_client)"
    by (simp add: access_token_def hashable_def fresh_token_def cached_client_def flaky_env_def now_of_def)
  have "authorized_request_json flaky_env (JStr ''primary'') ?f ''GigaChat completion'' cached_client =
      ((Inr (JObj [(''choices'', JList [JObj []])]), None), st')"
    by (simp add: authorized_request_json_def upt_rec tok st'(1) del: dumps.simps)
  then have "complete flaky_env [(''messages'', JList [JObj []])] cached_client =
      chat_result (JStr ''primary'') (complete_body flaky_env [(''messages'', JList [JObj []])] (JList [JObj []]))
        (JObj [(''choices'', JList [JObj []])]) st'"
    by (simp add: complete_def Let_def get_or_def jget_def del: dumps.simps)
  moreover have "\<exists>r. chat_result (JStr ''primary'') body (JObj [(''choices'', JList [JObj []])]) st' = ((Inr r, None), st')" for body
    by (simp add: chat_result_def as_dict_def jget_def or_json_def first_of_def get_or_def liftC_def Let_def)
  ultimately show ?thesis using st'(2) by (metis (no_types, lifting))
qed

subsection \<open>Tokens\<close>

lemma accept_token_entry:
  assumes "accept_token E lane data st = ((Inr t, c), st')"
  shows "\<exists>e. map_of (tokens st') lane = Some e \<and> token e = t \<and> truthy t \<and>
    (expires_at e = NaN \<or> f_less (Fin (now_of E st' + 60)) (expires_at e))"
proof -
  obtain td where td: "as_dict data = Inr td" using assms
    by (cases "as_dict data") (simp_all add: accept_token_def bindC_def liftC_def)
  obtain ex where ex: "normalize_expiry_timestamp (or_json (jget td ''expires_at'') (jget td ''exp'')) = Inr ex"
    using assms td by (cases "normalize_expiry_timestamp (or_json (jget td ''expires_at'') (jget td ''exp''))")
      (simp_all add: accept_token_def bindC_def liftC_def split: if_splits)
  have now: "now_of E st' = now_of E st" using assms by (metis accept_token_client(1) now_of_def snd_conv)
  show ?thesis using assms td ex now
    by (cases ex) (auto simp: accept_token_def bindC_def liftC_def split: if_splits)
qed

text \<open>
  a token that \<open>access_token\<close> hands out is the one cached for its lane, is a true value, and
  expires more than a minute after the clock, except when the provider's expiry is not a number;
  then it is handed out once and asked for again at the next call.
\<close>

theorem handed_out_token_is_valid:
  assumes "access_token E lane st = ((Inr t, c), st')"
  shows "\<exists>e. map_of (tokens st') lane = Some e \<and> token e = t \<and>
    (f_less (Fin (now_of E st' + 60)) (expires_at e) \<or> expires_at e = NaN \<and> fresh_token E lane st' = None)"
proof (cases "fresh_token E lane st")
  case (Some t')
  then show ?thesis using assms
    by (cases "hashable lane") (auto simp: access_token_def fresh_token_def split: option.splits if_splits)
next
  case None
  obtain u where "hashable lane = Inr u" using assms
    by (cases "hashable lane") (simp_all add: access_token_def liftC_def)
  moreover obtain cred where "credential_for E lane = Inr cred" using assms None calculation
    by (cases "credential_for E lane") (simp_all add: access_token_def liftC_def)
  ultimately obtain r where "bindC r (accept_token E lane) = ((Inr t, c), st')" using assms None
    by (simp add: access_token_def)
  then obtain data st1 where "accept_token E lane data st1 = ((Inr t, c), st')"
    by (auto simp: bindC_def split: sum.splits prod.splits)
  from accept_token_entry [OF this] show ?thesis by (auto simp: fresh_token_def)
qed

theorem handed_out_token_is_valid_witness:
  "\<exists>e. map_of (tokens cached_client) (JStr ''primary'') = Some e \<and> token e = JStr ''t'' \<and>
    (f_less (Fin (now_of flaky_env cached_client + 60)) (expires_at e) \<or>
     expires_at e = NaN \<and> fresh_token flaky_env (JStr ''primary'') cached_client = None)"
  by (rule handed_out_token_is_valid [where st = cached_client and c = None])
     (simp add: access_token_def hashable_def fresh_token_def cached_client_def flaky_env_def now_of_def)

end
