(* ===== verification/PyRegex.thy ===== *)
theory PyRegex
  imports PyStrings
begin

text \<open>
  The regular expressions of the program and \<open>pattern.fullmatch\<close>. A pattern is a term: a character
  class, sequence, alternative and a repetition with bounds. Matching is by derivatives, so it is
  executable, and \<open>fullmatch_iff\<close> proves it equal to membership in the language of the pattern.
  The lemmas at the end describe the shapes the code uses (a first class and a bounded tail).
\<close>

datatype rx =
    RNone | REps | RSet "char \<Rightarrow> bool" | RSeq rx rx | RAlt rx rx | RRep rx nat "nat option"

subsection \<open>The language\<close>

fun power_lang :: "string set \<Rightarrow> nat \<Rightarrow> string set" where
  "power_lang L 0 = {[]}"
| "power_lang L (Suc n) = {u @ v | u v. u \<in> L \<and> v \<in> power_lang L n}"

definition in_bounds :: "nat \<Rightarrow> nat \<Rightarrow> nat option \<Rightarrow> bool" where
  "in_bounds k m n \<longleftrightarrow> m \<le> k \<and> (case n of None \<Rightarrow> True | Some n \<Rightarrow> k \<le> n)"

fun lang :: "rx \<Rightarrow> string set" where
  "lang RNone = {}"
| "lang REps = {[]}"
| "lang (RSet p) = {[c] | c. p c}"
| "lang (RSeq r s) = {u @ v | u v. u \<in> lang r \<and> v \<in> lang s}"
| "lang (RAlt r s) = lang r \<union> lang s"
| "lang (RRep r m n) = (\<Union>k \<in> {k. in_bounds k m n}. power_lang (lang r) k)"

subsection \<open>Matching\<close>

fun nullable :: "rx \<Rightarrow> bool" where
  "nullable RNone = False"
| "nullable REps = True"
| "nullable (RSet p) = False"
| "nullable (RSeq r s) = (nullable r \<and> nullable s)"
| "nullable (RAlt r s) = (nullable r \<or> nullable s)"
| "nullable (RRep r m n) = ((m = 0 \<or> nullable r) \<and> (case n of None \<Rightarrow> True | Some n \<Rightarrow> m \<le> n))"

fun deriv :: "char \<Rightarrow> rx \<Rightarrow> rx" where
  "deriv c RNone = RNone"
| "deriv c REps = RNone"
| "deriv c (RSet p) = (if p c then REps else RNone)"
| "deriv c (RSeq r s) = (if nullable r then RAlt (RSeq (deriv c r) s) (deriv c s) else RSeq (deriv c r) s)"
| "deriv c (RAlt r s) = RAlt (deriv c r) (deriv c s)"
| "deriv c (RRep r m None) = RSeq (deriv c r) (RRep r (m - 1) None)"
| "deriv c (RRep r m (Some 0)) = RNone"
| "deriv c (RRep r m (Some (Suc n))) = (if Suc n < m then RNone else RSeq (deriv c r) (RRep r (m - 1) (Some n)))"

fun fullmatch :: "rx \<Rightarrow> string \<Rightarrow> bool" where
  "fullmatch r [] = nullable r"
| "fullmatch r (c # s) = fullmatch (deriv c r) s"

lemma nullable_power: "[] \<in> power_lang L k \<longleftrightarrow> k = 0 \<or> [] \<in> L"
  by (induction k) auto

lemma nullable_iff: "nullable r \<longleftrightarrow> [] \<in> lang r"
proof (induction r)
  case (RRep r m n)
  show ?case
  proof (cases "m = 0")
    case True
    then show ?thesis by (auto simp: in_bounds_def nullable_power split: option.splits)
  next
    case False
    then have "[] \<in> lang (RRep r m n) \<longleftrightarrow> [] \<in> lang r \<and> (\<exists>k. in_bounds k m n)"
      by (auto simp: nullable_power in_bounds_def)
    moreover have "(\<exists>k. in_bounds k m n) \<longleftrightarrow> (case n of None \<Rightarrow> True | Some n \<Rightarrow> m \<le> n)"
      by (cases n) (auto simp: in_bounds_def intro: order_trans)
    ultimately show ?thesis using False RRep by auto
  qed
qed auto

text \<open>A word of a power that is not empty has a first factor that is not empty.\<close>

lemma power_pad: "[] \<in> L \<Longrightarrow> w \<in> power_lang L j \<Longrightarrow> j \<le> k \<Longrightarrow> w \<in> power_lang L k"
proof (induction k)
  case (Suc k)
  show ?case
  proof (cases "j = Suc k")
    case False
    with Suc have "w \<in> power_lang L k" by simp
    then have "[] @ w \<in> power_lang L (Suc k)" using Suc.prems(1) unfolding power_lang.simps by blast
    then show ?thesis by simp
  qed (use Suc in simp)
qed simp

lemma power_Cons:
  "c # w \<in> power_lang L k \<longleftrightarrow> (\<exists>j u v. k = Suc j \<and> w = u @ v \<and> c # u \<in> L \<and> v \<in> power_lang L j)"
proof (induction k arbitrary: w)
  case (Suc k)
  show ?case
  proof
    assume "c # w \<in> power_lang L (Suc k)"
    then obtain x y where xy: "c # w = x @ y" "x \<in> L" "y \<in> power_lang L k" by auto
    show "\<exists>j u v. Suc k = Suc j \<and> w = u @ v \<and> c # u \<in> L \<and> v \<in> power_lang L j"
    proof (cases x)
      case Nil
      with xy Suc obtain j u v where "k = Suc j" "w = u @ v" "c # u \<in> L" "v \<in> power_lang L j" by auto
      with Nil xy(2) show ?thesis using power_pad [of L v j k] by auto
    qed (use xy in auto)
  next
    assume "\<exists>j u v. Suc k = Suc j \<and> w = u @ v \<and> c # u \<in> L \<and> v \<in> power_lang L j"
    then obtain u v where "w = u @ v" "c # u \<in> L" "v \<in> power_lang L k" by auto
    then have "(c # u) @ v \<in> power_lang L (Suc k)" unfolding power_lang.simps by blast
    with \<open>w = u @ v\<close> show "c # w \<in> power_lang L (Suc k)" by simp
  qed
qed simp

lemma in_bounds_Suc: "in_bounds (Suc j) m None = in_bounds j (m - 1) None"
  "in_bounds (Suc j) m (Some (Suc n)) = (m \<le> Suc n \<and> in_bounds j (m - 1) (Some n))"
  "\<not> in_bounds (Suc j) m (Some 0)"
  by (auto simp: in_bounds_def)

lemma rep_Cons:
  "c # w \<in> lang (RRep r m n) \<longleftrightarrow>
     (\<exists>u v j. w = u @ v \<and> c # u \<in> lang r \<and> v \<in> power_lang (lang r) j \<and> in_bounds (Suc j) m n)"
  by (simp add: power_Cons) blast

lemma seq_rep:
  "w \<in> lang (RSeq d (RRep r m n)) \<longleftrightarrow>
     (\<exists>u v j. w = u @ v \<and> u \<in> lang d \<and> v \<in> power_lang (lang r) j \<and> in_bounds j m n)"
  by simp blast

lemma deriv_iff: "w \<in> lang (deriv c r) \<longleftrightarrow> c # w \<in> lang r"
proof (induction c r arbitrary: w rule: deriv.induct)
  case (4 c r s)
  show ?case using 4 by (auto simp: nullable_iff Cons_eq_append_conv)
next
  case (6 c r m)
  show ?case unfolding deriv.simps seq_rep rep_Cons in_bounds_Suc 6 ..
next
  case (7 c r m)
  show ?case by (simp add: rep_Cons in_bounds_Suc del: lang.simps(6))
next
  case (8 c r m n)
  show ?case
  proof (cases "Suc n < m")
    case True
    then show ?thesis by (auto simp: in_bounds_def)
  next
    case False
    then have "deriv c (RRep r m (Some (Suc n))) = RSeq (deriv c r) (RRep r (m - 1) (Some n))" by simp
    then show ?thesis unfolding rep_Cons in_bounds_Suc using False by (simp only: seq_rep 8 [OF False]) auto
  qed
qed auto

theorem fullmatch_iff: "fullmatch r s \<longleftrightarrow> s \<in> lang r"
  by (induction s arbitrary: r) (simp_all add: nullable_iff deriv_iff)

subsection \<open>The shapes the program uses\<close>

abbreviation opt_rx :: "rx \<Rightarrow> rx" where
  "opt_rx r \<equiv> RRep r 0 (Some 1)"

definition lit :: "string \<Rightarrow> rx" where
  "lit s = foldr (\<lambda>c. RSeq (RSet (\<lambda>x. x = c))) s REps"

lemma lang_lit [simp]: "lang (lit s) = {s}"
  by (induction s) (simp_all add: lit_def)

lemma power_set: "s \<in> power_lang {[c] | c. p c} k \<longleftrightarrow> length s = k \<and> list_all p s"
proof (induction k arbitrary: s)
  case (Suc k)
  show ?case
  proof (cases s)
    case (Cons c t)
    have "c # t \<in> power_lang {[c] | c. p c} (Suc k) \<longleftrightarrow> p c \<and> t \<in> power_lang {[c] | c. p c} k"
      by (simp only: power_Cons) auto
    then show ?thesis using Suc Cons by auto
  qed auto
qed auto

lemma rep_set [simp]: "s \<in> lang (RRep (RSet p) m n) \<longleftrightarrow> list_all p s \<and> in_bounds (length s) m n"
  by (simp only: lang.simps UN_iff mem_Collect_eq bex_simps power_set) auto

lemma match_class: "fullmatch (RRep (RSet p) m n) s \<longleftrightarrow> list_all p s \<and> in_bounds (length s) m n"
  by (simp only: fullmatch_iff rep_set)

lemma match_name:
  "fullmatch (RSeq (RSet p) (RRep (RSet q) m n)) s \<longleftrightarrow>
     (\<exists>c t. s = c # t \<and> p c \<and> list_all q t \<and> in_bounds (length t) m n)"
proof -
  have "fullmatch (RSeq (RSet p) (RRep (RSet q) m n)) s \<longleftrightarrow>
      (\<exists>u v. s = u @ v \<and> (\<exists>c. u = [c] \<and> p c) \<and> list_all q v \<and> in_bounds (length v) m n)"
    by (simp add: fullmatch_iff del: lang.simps(6))
  then show ?thesis by (metis append_Cons append_Nil)
qed

lemma match_name_eval:
  "fullmatch (RSeq (RSet p) (RRep (RSet q) m (Some n))) s \<longleftrightarrow>
     (case s of [] \<Rightarrow> False | c # t \<Rightarrow> p c \<and> list_all q t \<and> m \<le> length t \<and> length t \<le> n)"
  by (auto simp: match_name in_bounds_def split: list.splits)

lemma match_seq: "fullmatch (RSeq r t) s \<longleftrightarrow> (\<exists>u v. s = u @ v \<and> fullmatch r u \<and> fullmatch t v)"
  by (auto simp: fullmatch_iff)

lemma match_lit [simp]: "fullmatch (lit w) s \<longleftrightarrow> s = w"
  by (simp add: fullmatch_iff)

lemma match_alt: "fullmatch (RAlt r t) s \<longleftrightarrow> fullmatch r s \<or> fullmatch t s"
  by (simp add: fullmatch_iff)

subsection \<open>Character classes and common patterns\<close>

definition in_range :: "char \<Rightarrow> char \<Rightarrow> char \<Rightarrow> bool" where
  "in_range a b c \<longleftrightarrow> code a \<le> code c \<and> code c \<le> code b"

abbreviation lower_letter :: "char \<Rightarrow> bool" where
  "lower_letter \<equiv> in_range CHR ''a'' CHR ''z''"

abbreviation upper_letter :: "char \<Rightarrow> bool" where
  "upper_letter \<equiv> in_range CHR ''A'' CHR ''Z''"

text \<open>\<open>[0-9a-f]{64}\<close>, the form of a SHA-256 digest.\<close>

definition hex64_rx :: rx where
  "hex64_rx = RRep (RSet is_hex_lower) 64 (Some 64)"

lemma match_hex64: "fullmatch hex64_rx s \<longleftrightarrow> list_all is_hex_lower s \<and> length s = 64"
  by (auto simp: hex64_rx_def match_class in_bounds_def)

text \<open>\<open>[^\r\n]{m,n}\<close>, one line of bounded length.\<close>

definition line_rx :: "nat \<Rightarrow> nat \<Rightarrow> rx" where
  "line_rx m n = RRep (RSet (\<lambda>c. code c \<noteq> 13 \<and> code c \<noteq> 10)) m (Some n)"

lemma match_line:
  "fullmatch (line_rx m n) s \<longleftrightarrow> list_all (\<lambda>c. code c \<noteq> 13 \<and> code c \<noteq> 10) s \<and> m \<le> length s \<and> length s \<le> n"
  by (auto simp: line_rx_def match_class in_bounds_def)

end
