(* ===== verification/Digest.thy ===== *)
theory Digest
  imports Uuid "HOL-Library.Word"
begin

text \<open>
  The digests of the standard library the code relies on: UTF-8 encoding of the texts, SHA-256,
  SHA-1, HMAC with SHA-256, and the name-based UUID of version 5, on 32-bit words as their
  standards define them. The rest of the development uses only that the definitions are functions
  and the form of their results.
\<close>

unbundle bit_operations_syntax

type_synonym w32 = "32 word"

subsection \<open>Bytes\<close>

text \<open>\<open>s.encode("utf-8")\<close> on code points below 256.\<close>

definition utf8_char :: "char \<Rightarrow> string" where
  "utf8_char c = (let n = code c in if n < 128 then [c] else [char_of (192 + n div 64), char_of (128 + n mod 64)])"

definition utf8 :: "string \<Rightarrow> string" where
  "utf8 s = concat (map utf8_char s)"

fun be_bytes :: "nat \<Rightarrow> nat \<Rightarrow> string" where
  "be_bytes 0 n = []"
| "be_bytes (Suc k) n = be_bytes k (n div 256) @ [char_of (n mod 256)]"

fun be_words :: "string \<Rightarrow> w32 list" where
  "be_words (a # b # c # d # s) = word_of_nat (((code a * 256 + code b) * 256 + code c) * 256 + code d) # be_words s"
| "be_words _ = []"

text \<open>The message, a one bit, zeros up to 56 modulo 64 bytes, and its length in bits.\<close>

definition pad :: "string \<Rightarrow> string" where
  "pad m = m @ char_of (128 :: nat) # replicate ((119 - length m mod 64) mod 64) (char_of (0 :: nat)) @ be_bytes 8 (8 * length m)"

text \<open>The 16-word blocks of a padded message.\<close>

fun blocks :: "nat \<Rightarrow> w32 list \<Rightarrow> w32 list list" where
  "blocks 0 ws = []"
| "blocks (Suc k) ws = take 16 ws # blocks k (drop 16 ws)"

definition message_blocks :: "string \<Rightarrow> w32 list list" where
  "message_blocks m = (let p = pad m in blocks (length p div 64) (be_words p))"

definition hex_byte :: "char \<Rightarrow> string" where
  "hex_byte c = [digit_char (code c div 16), digit_char (code c mod 16)]"

definition hex_word :: "w32 \<Rightarrow> string" where
  "hex_word w = concat (map hex_byte (be_bytes 4 (unat w)))"

subsection \<open>SHA-256\<close>

text \<open>
  The constants are the first 32 bits of the fractional parts of the cube roots of the first 64
  primes and of the square roots of the first 8, computed bit by bit.
\<close>

definition primes_below :: "nat \<Rightarrow> nat list" where
  "primes_below n = filter (\<lambda>p. list_all (\<lambda>d. p mod d \<noteq> 0) [2..<p]) [2..<n]"

fun root_bits :: "nat \<Rightarrow> nat \<Rightarrow> nat \<Rightarrow> nat \<Rightarrow> nat" where
  "root_bits k n 0 r = r"
| "root_bits k n (Suc b) r = root_bits k n b (if (r + 2 ^ b) ^ k \<le> n then r + 2 ^ b else r)"

definition root_fraction :: "nat \<Rightarrow> nat \<Rightarrow> w32" where
  "root_fraction k p = word_of_nat (root_bits k (p * 2 ^ (32 * k)) 40 0)"

definition k256 :: "w32 list" where
  "k256 = map (root_fraction 3) (primes_below 312)"

definition h256 :: "w32 list" where
  "h256 = map (root_fraction 2) (primes_below 20)"

lemma h256_length: "length h256 = 8"
proof -
  have "length (primes_below 20) = 8" by code_simp
  then show ?thesis by (simp add: h256_def)
qed

text \<open>The message schedule, newest word first.\<close>

fun schedule256 :: "nat \<Rightarrow> w32 list \<Rightarrow> w32 list" where
  "schedule256 0 ws = ws"
| "schedule256 (Suc k) ws =
     (let x = ws ! 1; y = ws ! 14;
          s1 = word_rotr 17 x XOR word_rotr 19 x XOR drop_bit 10 x;
          s0 = word_rotr 7 y XOR word_rotr 18 y XOR drop_bit 3 y
      in schedule256 k ((s1 + ws ! 6 + s0 + ws ! 15) # ws))"

definition round256 :: "w32 \<Rightarrow> w32 \<Rightarrow> w32 list \<Rightarrow> w32 list" where
  "round256 k w st = (case st of
     [a, b, c, d, e, f, g, h] \<Rightarrow>
       (let t1 = h + (word_rotr 6 e XOR word_rotr 11 e XOR word_rotr 25 e) + ((e AND f) XOR (NOT e AND g)) + k + w;
            t2 = (word_rotr 2 a XOR word_rotr 13 a XOR word_rotr 22 a) + ((a AND b) XOR (a AND c) XOR (b AND c))
        in [t1 + t2, a, b, c, d + t1, e, f, g])
   | _ \<Rightarrow> st)"

primrec rounds256 :: "(w32 \<times> w32) list \<Rightarrow> w32 list \<Rightarrow> w32 list" where
  "rounds256 [] st = st"
| "rounds256 (kw # kws) st = rounds256 kws (round256 (fst kw) (snd kw) st)"

definition block256 :: "w32 list \<Rightarrow> w32 list \<Rightarrow> w32 list" where
  "block256 st b = map2 (+) st (rounds256 (zip k256 (rev (schedule256 48 (rev b)))) st)"

definition sha256_words :: "string \<Rightarrow> w32 list" where
  "sha256_words m = foldl block256 h256 (message_blocks m)"

text \<open>\<open>sha256(data).hexdigest()\<close>, and the digest of a text encoded as UTF-8.\<close>

definition sha256_bytes :: "string \<Rightarrow> string" where
  "sha256_bytes m = concat (map hex_word (sha256_words m))"

definition sha256 :: "string \<Rightarrow> string" where
  "sha256 s = sha256_bytes (utf8 s)"

subsection \<open>HMAC\<close>

definition sha256_raw :: "string \<Rightarrow> string" where
  "sha256_raw m = concat (map (\<lambda>w. be_bytes 4 (unat w)) (sha256_words m))"

definition xor_byte :: "nat \<Rightarrow> char \<Rightarrow> char" where
  "xor_byte k c = char_of (code c XOR k)"

definition hmac_sha256 :: "string \<Rightarrow> string \<Rightarrow> string" where
  "hmac_sha256 key m =
     (let k0 = (if 64 < length key then sha256_raw key else key);
          k = k0 @ replicate (64 - length k0) (char_of (0 :: nat))
      in sha256_bytes (map (xor_byte 92) k @ sha256_raw (map (xor_byte 54) k @ m)))"

subsection \<open>SHA-1 and UUID version 5\<close>

definition h1 :: "w32 list" where
  "h1 = [0x67452301, 0xefcdab89, 0x98badcfe, 0x10325476, 0xc3d2e1f0]"

fun schedule1 :: "nat \<Rightarrow> w32 list \<Rightarrow> w32 list" where
  "schedule1 0 ws = ws"
| "schedule1 (Suc k) ws = schedule1 k (word_rotl 1 (ws ! 2 XOR ws ! 7 XOR ws ! 13 XOR ws ! 15) # ws)"

definition f1 :: "nat \<Rightarrow> w32 \<Rightarrow> w32 \<Rightarrow> w32 \<Rightarrow> w32 \<times> w32" where
  "f1 t b c d =
     (if t < 20 then ((b AND c) OR (NOT b AND d), 0x5a827999)
      else if t < 40 then (b XOR c XOR d, 0x6ed9eba1)
      else if t < 60 then ((b AND c) OR (b AND d) OR (c AND d), 0x8f1bbcdc)
      else (b XOR c XOR d, 0xca62c1d6))"

definition round1 :: "nat \<Rightarrow> w32 \<Rightarrow> w32 list \<Rightarrow> w32 list" where
  "round1 t w st = (case st of
     [a, b, c, d, e] \<Rightarrow>
       (case f1 t b c d of (f, k) \<Rightarrow> [word_rotl 5 a + f + e + k + w, a, word_rotl 30 b, c, d])
   | _ \<Rightarrow> st)"

primrec rounds1 :: "(nat \<times> w32) list \<Rightarrow> w32 list \<Rightarrow> w32 list" where
  "rounds1 [] st = st"
| "rounds1 (tw # tws) st = rounds1 tws (round1 (fst tw) (snd tw) st)"

definition block1 :: "w32 list \<Rightarrow> w32 list \<Rightarrow> w32 list" where
  "block1 st b = map2 (+) st (rounds1 (zip [0..<80] (rev (schedule1 64 (rev b)))) st)"

definition sha1_raw :: "string \<Rightarrow> string" where
  "sha1_raw m = concat (map (\<lambda>w. be_bytes 4 (unat w)) (foldl block1 h1 (message_blocks m)))"

definition namespace_url :: string where
  "namespace_url = map char_of [0x6b, 0xa7, 0xb8, 0x11, 0x9d, 0xad, 0x11, 0xd1, 0x80, 0xb4, 0x00, 0xc0, 0x4f, 0xd4, 0x30, 0xc8 :: nat]"

text \<open>The 16 bytes read as a number, with the version and variant bits replaced.\<close>

definition uuid_version :: "nat \<Rightarrow> nat \<Rightarrow> nat" where
  "uuid_version v n =
     (let hi = n div 2 ^ 80; mid = n div 2 ^ 64 mod 2 ^ 16; low = n mod 2 ^ 64
      in (hi * 2 ^ 16 + (v * 2 ^ 12 + mid mod 2 ^ 12)) * 2 ^ 64 + (2 ^ 63 + low mod 2 ^ 62))"

text \<open>\<open>str(uuid5(NAMESPACE_URL, name))\<close>.\<close>

definition uuid5_url :: "string \<Rightarrow> string" where
  "uuid5_url name = hyphenate (hex32 (uuid_version 5
     (foldl (\<lambda>n c. n * 256 + code c) 0 (take 16 (sha1_raw (namespace_url @ utf8 name))))))"

subsection \<open>The form of the results\<close>

lemma be_bytes_length [simp]: "length (be_bytes k n) = k"
  by (induction k n rule: be_bytes.induct) auto

lemma hex_byte_form: "length (hex_byte c) = 2" "list_all is_hex_lower (hex_byte c)"
proof -
  have "code c < 256" by simp
  then have "code c div 16 < 16" by linarith
  then show "list_all is_hex_lower (hex_byte c)" by (simp add: hex_byte_def is_hex_digit_char)
qed (simp add: hex_byte_def)

lemma concat_hex_bytes: "length (concat (map hex_byte bs)) = 2 * length bs \<and> list_all is_hex_lower (concat (map hex_byte bs))"
  by (induction bs) (auto simp: hex_byte_form)

lemma concat_hex_words: "length (concat (map hex_word ws)) = 8 * length ws \<and> list_all is_hex_lower (concat (map hex_word ws))"
  by (induction ws) (simp_all add: hex_word_def concat_hex_bytes)

lemma round256_length: "length (round256 k w st) = length st"
  by (simp add: round256_def Let_def split: list.split)

lemma rounds256_length: "length (rounds256 kws st) = length st"
  by (induction kws arbitrary: st) (simp_all add: round256_length)

lemma foldl_block256_length: "length (foldl block256 st bs) = length st"
  by (induction bs arbitrary: st) (simp_all add: block256_def rounds256_length)

lemma sha256_bytes_form: "length (sha256_bytes m) = 64" "list_all is_hex_lower (sha256_bytes m)"
  using concat_hex_words [of "sha256_words m"]
  by (simp_all add: sha256_bytes_def sha256_words_def foldl_block256_length h256_length)

lemma sha256_form [simp]: "length (sha256 s) = 64" "list_all is_hex_lower (sha256 s)"
  by (simp_all add: sha256_def sha256_bytes_form)

lemma hmac_form: "length (hmac_sha256 k m) = 64" "list_all is_hex_lower (hmac_sha256 k m)"
  by (simp_all add: hmac_sha256_def Let_def sha256_bytes_form)

lemma bytes_bound: "foldl (\<lambda>n c. n * 256 + code c) a s < (a + 1) * 256 ^ length s"
proof (induction s arbitrary: a)
  case (Cons c s)
  have "foldl (\<lambda>n c. n * 256 + code c) (a * 256 + code c) s < (a * 256 + code c + 1) * 256 ^ length s" by (rule Cons)
  also have "\<dots> \<le> ((a + 1) * 256) * 256 ^ length s"
  proof (intro mult_right_mono)
    have "code c + 1 \<le> 256" using code_lt [of c] by (simp only: Suc_le_eq Suc_eq_plus1 [symmetric])
    then show "a * 256 + code c + 1 \<le> (a + 1) * 256" by (simp only: add_mult_distrib mult_1 add.assoc add_le_cancel_left)
  qed simp
  finally show ?case by (simp add: algebra_simps)
qed simp

lemma uuid_version_bound:
  assumes "n < 2 ^ 128" "v < 16"
  shows "uuid_version v n < 2 ^ 128"
proof -
  have "n div 2 ^ 80 < 2 ^ 48" using assms(1) by (simp add: less_mult_imp_div_less)
  moreover have "v * 2 ^ 12 + (n div 2 ^ 64 mod 2 ^ 16) mod 2 ^ 12 < 2 ^ 16"
  proof -
    have "(n div 2 ^ 64 mod 2 ^ 16) mod 2 ^ 12 < (2 ^ 12 :: nat)" by (rule mod_less_divisor) simp
    then show ?thesis using assms(2) by simp
  qed
  moreover have "2 ^ 63 + n mod 2 ^ 64 mod 2 ^ 62 < (2 ^ 64 :: nat)"
  proof -
    have "n mod 2 ^ 64 mod 2 ^ 62 < (2 ^ 62 :: nat)" by (rule mod_less_divisor) simp
    then show ?thesis by simp
  qed
  ultimately show ?thesis unfolding uuid_version_def Let_def by simp
qed

text \<open>A name-based identifier is a UUID in canonical form.\<close>

lemma uuid5_is_uuid: "uuid_str (uuid5_url name) = Inr (uuid5_url name)"
proof -
  have "foldl (\<lambda>n c. n * 256 + code c) 0 (take 16 m) < 2 ^ 128" for m
  proof -
    have "foldl (\<lambda>n c. n * 256 + code c) 0 (take 16 m) < 256 ^ length (take 16 m)"
      using bytes_bound [of 0 "take 16 m"] by simp
    also have "\<dots> \<le> 256 ^ 16" by (rule power_increasing) simp_all
    finally show ?thesis by simp
  qed
  then show ?thesis unfolding uuid5_url_def by (intro uuid_str_hex32 uuid_version_bound) simp_all
qed

end
