(* ===== verification/AgentPolicy.thy ===== *)
theory AgentPolicy
  imports PyRegex Digest
begin

text \<open>
  The default-deny policies of the synthetic agent graph: the role allowlist (\<open>agent_roles.py\<close>),
  the transitions of the graph (\<open>agent_transitions.py\<close>), the run budget (\<open>agent_budget.py\<close>), the
  chained receipts (\<open>agent_receipts.py\<close>) and the acceptance gate of a change
  (\<open>engineering_policy.py\<close>). A value whose type the code checks is a \<open>json\<close> value.
\<close>

definition is_str :: "json \<Rightarrow> bool" where
  "is_str j = (case j of JStr _ \<Rightarrow> True | _ \<Rightarrow> False)"

definition str_of :: "json \<Rightarrow> string" where
  "str_of j = (case j of JStr s \<Rightarrow> s | _ \<Rightarrow> [])"

lemma is_str_simps [simp]: "is_str (JStr s)" "str_of (JStr s) = s"
  by (simp_all add: is_str_def str_of_def)

lemma is_strD: "is_str j \<Longrightarrow> j = JStr (str_of j)"
  by (cases j) (simp_all add: is_str_def)

subsection \<open>Roles\<close>

definition action_rx :: rx where
  "action_rx = RSeq (RSet lower_letter) (RRep (RSet (\<lambda>c. lower_letter c \<or> is_digit c \<or> c \<in> set ''_.-'')) 2 (Some 127))"

definition role_actions :: "(string \<times> string list) list" where
  "role_actions =
     [(''supervisor'', [''workflow.plan'', ''workflow.route'', ''workflow.cancel'', ''workflow.report'']),
      (''researcher'', [''research.evidence.inspect'']),
      (''developer'', [''engineering.worktree.edit'']),
      (''tester'', [''engineering.worktree.test'', ''policy.validate'']),
      (''reviewer'', [''engineering.diff.review'']),
      (''synthesizer'', [''report.compose''])]"

definition allowed_actions :: "json \<Rightarrow> string list res" where
  "allowed_actions role = (case role of
     JStr r \<Rightarrow> (case map_of role_actions r of
         Some acts \<Rightarrow> Inr acts
       | None \<Rightarrow> raise AgentRolePolicyError ''unknown agent role'')
   | _ \<Rightarrow> raise AgentRolePolicyError ''unknown agent role'')"

definition require_allowed_action :: "json \<Rightarrow> json \<Rightarrow> unit res" where
  "require_allowed_action role action =
     thenR (raise_if (\<not> is_str action \<or> \<not> fullmatch action_rx (str_of action)) AgentRolePolicyError ''action name is malformed'')
     (bindR (allowed_actions role) (\<lambda>acts.
        raise_if (str_of action \<notin> set acts) AgentRolePolicyError ''action is outside the role allowlist''))"

definition required_role_actions :: "(string \<times> string) list" where
  "required_role_actions =
     [(''supervisor'', ''workflow.route''),
      (''developer'', ''engineering.worktree.edit''),
      (''tester'', ''engineering.worktree.test''),
      (''reviewer'', ''engineering.diff.review''),
      (''synthesizer'', ''report.compose'')]"

subsection \<open>Transitions\<close>

record role_transition =
  from_state :: string
  to_state :: string
  role :: string
  action :: string

definition minimal_transitions :: "role_transition list" where
  "minimal_transitions =
     [\<lparr>from_state = ''planned'', to_state = ''routed'', role = ''supervisor'', action = ''workflow.route''\<rparr>,
      \<lparr>from_state = ''routed'', to_state = ''worktree_edited'', role = ''developer'', action = ''engineering.worktree.edit''\<rparr>,
      \<lparr>from_state = ''worktree_edited'', to_state = ''tested'', role = ''tester'', action = ''engineering.worktree.test''\<rparr>,
      \<lparr>from_state = ''tested'', to_state = ''reviewed'', role = ''reviewer'', action = ''engineering.diff.review''\<rparr>,
      \<lparr>from_state = ''reviewed'', to_state = ''reported'', role = ''synthesizer'', action = ''report.compose''\<rparr>]"

definition require_allowed_transition :: "role_transition \<Rightarrow> unit res" where
  "require_allowed_transition t =
     thenR (reraise AgentRolePolicyError AgentTransitionPolicyError ''role action is not allowed''
              (require_allowed_action (JStr (role t)) (JStr (action t))))
     (raise_if (t \<notin> set minimal_transitions) AgentTransitionPolicyError ''state transition is outside the approved graph'')"

subsection \<open>Budget\<close>

record run_budget =
  max_transitions :: json
  max_elapsed_ms :: json
  max_external_calls :: json
  max_cost_units :: json

definition synthetic_architecture_budget :: run_budget where
  "synthetic_architecture_budget =
     \<lparr>max_transitions = JInt 5, max_elapsed_ms = JInt 5000, max_external_calls = JInt 0, max_cost_units = JInt 0\<rparr>"

text \<open>An \<open>int\<close> that is not a \<open>bool\<close> and not negative.\<close>

definition budget_int :: "json \<Rightarrow> bool" where
  "budget_int j = (case j of JInt i \<Rightarrow> 0 \<le> i | _ \<Rightarrow> False)"

definition int_of :: "json \<Rightarrow> int" where
  "int_of j = (case j of JInt i \<Rightarrow> i | _ \<Rightarrow> 0)"

definition require_within_budget :: "json \<Rightarrow> json \<Rightarrow> json \<Rightarrow> json \<Rightarrow> run_budget \<Rightarrow> unit res" where
  "require_within_budget transitions elapsed_ms external_calls cost_units budget =
     (let observed = [transitions, elapsed_ms, external_calls, cost_units];
          limits = [max_transitions budget, max_elapsed_ms budget, max_external_calls budget, max_cost_units budget] in
      thenR (raise_if (\<not> list_all budget_int observed) AgentBudgetPolicyError ''budget metadata must be non-negative integers'')
      (thenR (raise_if (\<not> list_all budget_int limits) AgentBudgetPolicyError ''budget limits must be non-negative integers'')
      (raise_if (\<exists>(o1, l1) \<in> set (zip observed limits). int_of l1 < int_of o1)
         AgentBudgetPolicyError ''synthetic run exceeded its declared budget'')))"

subsection \<open>Receipts\<close>

record transition_receipt =
  state :: string
  transitions :: "role_transition list"
  integrity :: string

definition transition_json :: "role_transition \<Rightarrow> json" where
  "transition_json t = JObj [(''from_state'', JStr (from_state t)), (''to_state'', JStr (to_state t)),
     (''role'', JStr (role t)), (''action'', JStr (action t))]"

definition integrity_of :: "string \<Rightarrow> role_transition list \<Rightarrow> string" where
  "integrity_of st ts = sha256 (dumps compact_opts (sort_keys
     (JObj [(''state'', JStr st), (''transitions'', JList (map transition_json ts))])))"

definition new_transition_receipt :: transition_receipt where
  "new_transition_receipt = \<lparr>state = ''planned'', transitions = [], integrity = integrity_of ''planned'' []\<rparr>"

text \<open>The loop of \<open>verify_transition_receipt\<close>: the state after the transitions.\<close>

fun chain_state :: "string \<Rightarrow> role_transition list \<Rightarrow> string res" where
  "chain_state current [] = Inr current"
| "chain_state current (t # ts) =
     thenR (raise_if (from_state t \<noteq> current) AgentReceiptPolicyError ''receipt transition continuity failed'')
     (thenR (reraise AgentTransitionPolicyError AgentReceiptPolicyError ''receipt contains an unapproved transition''
               (require_allowed_transition t))
     (chain_state (to_state t) ts))"

definition verify_transition_receipt :: "transition_receipt \<Rightarrow> unit res" where
  "verify_transition_receipt r =
     thenR (raise_if (integrity r \<noteq> integrity_of (state r) (transitions r)) AgentReceiptPolicyError ''receipt integrity check failed'')
     (bindR (chain_state ''planned'' (transitions r)) (\<lambda>current.
        raise_if (state r \<noteq> current) AgentReceiptPolicyError ''receipt terminal state does not match transitions''))"

definition require_completed_transition_receipt :: "transition_receipt \<Rightarrow> unit res" where
  "require_completed_transition_receipt r =
     thenR (verify_transition_receipt r)
     (raise_if (state r \<noteq> ''reported'') AgentReceiptPolicyError ''receipt has not reached the terminal state'')"

definition append_transition :: "transition_receipt \<Rightarrow> role_transition \<Rightarrow> transition_receipt res" where
  "append_transition r t =
     thenR (verify_transition_receipt r)
     (thenR (raise_if (from_state t \<noteq> state r) AgentReceiptPolicyError ''transition does not start at receipt state'')
     (thenR (reraise AgentTransitionPolicyError AgentReceiptPolicyError ''transition is outside the approved graph''
               (require_allowed_transition t))
     (Inr \<lparr>state = to_state t, transitions = transitions r @ [t],
           integrity = integrity_of (to_state t) (transitions r @ [t])\<rparr>)))"

subsection \<open>The acceptance gate of a change\<close>

definition safe_path_rx :: rx where
  "safe_path_rx = RSeq (RSet (\<lambda>c. lower_letter c \<or> is_digit c))
     (RRep (RSet (\<lambda>c. lower_letter c \<or> is_digit c \<or> c \<in> set ''_./-'')) 0 (Some 255))"

record review_receipt =
  changed_paths :: "string list"
  test_command :: string
  decision :: string

text \<open>A value that cannot be a member of a set.\<close>

definition unhashable :: "json \<Rightarrow> bool" where
  "unhashable j = (case j of JList _ \<Rightarrow> True | JObj _ \<Rightarrow> True | _ \<Rightarrow> False)"

definition require_reviewable_change :: "json list \<Rightarrow> json list \<Rightarrow> json \<Rightarrow> int \<Rightarrow> review_receipt res" where
  "require_reviewable_change changes allowed cmd exit_code =
     thenR (raise_if (list_ex unhashable allowed) TypeError ''unhashable type'')
     (thenR (raise_if (changes = []) EngineeringPolicyError ''a reviewable change must contain a diff'')
     (thenR (raise_if (list_ex unhashable changes) TypeError ''unhashable type'')
     (thenR (raise_if (\<not> distinct changes) EngineeringPolicyError ''duplicate changed paths are forbidden'')
     (thenR (raise_if (\<not> list_all (\<lambda>p. is_str p \<and> fullmatch safe_path_rx (str_of p)) changes)
              EngineeringPolicyError ''changed path is malformed'')
     (thenR (raise_if (list_ex (\<lambda>p. p \<notin> set allowed) changes)
              EngineeringPolicyError ''changed path is outside the approved worktree scope'')
     (thenR (raise_if (\<not> is_str cmd \<or> strip (str_of cmd) = []) EngineeringPolicyError ''a concrete test command is required'')
     (thenR (raise_if (exit_code \<noteq> 0) EngineeringPolicyError ''tests must pass before human review'')
     (Inr \<lparr>changed_paths = map str_of changes, test_command = strip (str_of cmd), decision = ''review_required''\<rparr>))))))))"

subsection \<open>The allowlists\<close>

lemma match_action:
  "fullmatch action_rx s \<longleftrightarrow> (case s of [] \<Rightarrow> False
     | c # t \<Rightarrow> lower_letter c \<and> list_all (\<lambda>c. lower_letter c \<or> is_digit c \<or> c \<in> set ''_.-'') t \<and> 2 \<le> length t \<and> length t \<le> 127)"
  unfolding action_rx_def by (rule match_name_eval)

lemma match_safe_path:
  "fullmatch safe_path_rx s \<longleftrightarrow> (case s of [] \<Rightarrow> False
     | c # t \<Rightarrow> (lower_letter c \<or> is_digit c) \<and> list_all (\<lambda>c. lower_letter c \<or> is_digit c \<or> c \<in> set ''_./-'') t \<and> 0 \<le> length t \<and> length t \<le> 255)"
  unfolding safe_path_rx_def by (rule match_name_eval)

lemma allowed_action_iff:
  "require_allowed_action (JStr r) (JStr a) = Inr () \<longleftrightarrow> (\<exists>acts. map_of role_actions r = Some acts \<and> a \<in> set acts)"
proof
  assume "\<exists>acts. map_of role_actions r = Some acts \<and> a \<in> set acts"
  then obtain acts where acts: "map_of role_actions r = Some acts" "a \<in> set acts" by blast
  have "list_all (\<lambda>(r, acts). list_all (\<lambda>a. fullmatch action_rx a) acts) role_actions" unfolding match_action by code_simp
  then have "list_all (fullmatch action_rx) acts" using map_of_SomeD [OF acts(1)] by (auto simp: list_all_iff)
  then have "fullmatch action_rx a" using acts(2) by (simp add: list_all_iff)
  then show "require_allowed_action (JStr r) (JStr a) = Inr ()"
    using acts by (simp add: require_allowed_action_def allowed_actions_def)
qed (auto simp: require_allowed_action_def allowed_actions_def res_simps split: option.splits)

lemma action_error: "require_allowed_action r a = Inl e \<Longrightarrow> exn_class e = AgentRolePolicyError"
  by (auto simp: require_allowed_action_def allowed_actions_def res_simps split: json.splits option.splits)

text \<open>Every transition of the graph is an allowed action of its role.\<close>

lemma minimal_actions: "t \<in> set minimal_transitions \<Longrightarrow> require_allowed_action (JStr (role t)) (JStr (action t)) = Inr ()"
  unfolding allowed_action_iff by (auto simp: minimal_transitions_def role_actions_def)

lemma allowed_transition_iff: "require_allowed_transition t = Inr () \<longleftrightarrow> t \<in> set minimal_transitions"
  by (auto simp: require_allowed_transition_def res_simps minimal_actions)

lemma transition_error: "require_allowed_transition t = Inl e \<Longrightarrow> exn_class e = AgentTransitionPolicyError"
  by (auto simp: require_allowed_transition_def res_simps reraise_def is_a_def dest: action_error split: sum.splits if_splits)

lemma chain_step:
  "chain_state s (t # ts) = Inr u \<longleftrightarrow> from_state t = s \<and> t \<in> set minimal_transitions \<and> chain_state (to_state t) ts = Inr u"
  by (auto simp: res_simps allowed_transition_iff)

lemma chain_append:
  "chain_state s (ts @ us) = Inr u \<longleftrightarrow> (\<exists>v. chain_state s ts = Inr v \<and> chain_state v us = Inr u)"
  by (induction ts arbitrary: s) (auto simp: chain_step simp del: chain_state.simps(2))

lemma verify_iff:
  "verify_transition_receipt r = Inr () \<longleftrightarrow>
     integrity r = integrity_of (state r) (transitions r) \<and> chain_state ''planned'' (transitions r) = Inr (state r)"
  by (auto simp: verify_transition_receipt_def res_simps)

lemma append_iff:
  "append_transition r t = Inr r' \<longleftrightarrow>
     verify_transition_receipt r = Inr () \<and> from_state t = state r \<and> t \<in> set minimal_transitions \<and>
     r' = \<lparr>state = to_state t, transitions = transitions r @ [t], integrity = integrity_of (to_state t) (transitions r @ [t])\<rparr>"
  by (auto simp: append_transition_def res_simps allowed_transition_iff)

lemma append_verified:
  "append_transition r t = Inr r' \<Longrightarrow> verify_transition_receipt r' = Inr ()"
  by (auto simp: append_iff verify_iff chain_append chain_step simp del: chain_state.simps(2))

end
