(* ===== verification/SmokeProps.thy ===== *)
theory SmokeProps
  imports SmokeGraph
begin

text \<open>
  Properties of the agent policies and of the synthetic graphs: which receipts verify, which states
  the workflow ends in, what the tool gate lets through, and what an accepted architecture
  scenario implies. The last part runs graphs, to show that the assumption about the library holds.
\<close>

subsection \<open>Receipts\<close>

lemmas chain_defs = chain_step minimal_transitions_def

text \<open>The state a transition starts at determines it.\<close>

lemma minimal_by_state:
  assumes "k < 5"
  shows "t \<in> set minimal_transitions \<and> from_state t = from_state (minimal_transitions ! k) \<longleftrightarrow> t = minimal_transitions ! k"
proof -
  have "list_all (\<lambda>k. list_all (\<lambda>t. (from_state t = from_state (minimal_transitions ! k)) = (t = minimal_transitions ! k))
      minimal_transitions) [0..<5]" by code_simp
  then have "\<forall>t \<in> set minimal_transitions. (from_state t = from_state (minimal_transitions ! k)) = (t = minimal_transitions ! k)"
    using assms by (simp only: list_all_iff) auto
  moreover have "minimal_transitions ! k \<in> set minimal_transitions"
    using assms by (intro nth_mem) (simp add: minimal_transitions_def)
  ultimately show ?thesis by blast
qed

lemma chain_one:
  assumes "k < 5" "from_state (minimal_transitions ! k) = s" "to_state (minimal_transitions ! k) = s'"
  shows "chain_state s ts = Inr u \<longleftrightarrow> ts = [] \<and> u = s \<or> (\<exists>r. ts = minimal_transitions ! k # r \<and> chain_state s' r = Inr u)"
proof (cases ts)
  case (Cons t r)
  show ?thesis using minimal_by_state [OF assms(1), of t] assms(2,3)
    by (simp only: Cons chain_step) auto
qed auto

lemma minimal_states:
  "from_state (minimal_transitions ! 0) = ''planned''" "to_state (minimal_transitions ! 0) = ''routed''"
  "from_state (minimal_transitions ! 1) = ''routed''" "to_state (minimal_transitions ! 1) = ''worktree_edited''"
  "from_state (minimal_transitions ! 2) = ''worktree_edited''" "to_state (minimal_transitions ! 2) = ''tested''"
  "from_state (minimal_transitions ! 3) = ''tested''" "to_state (minimal_transitions ! 3) = ''reviewed''"
  "from_state (minimal_transitions ! 4) = ''reviewed''" "to_state (minimal_transitions ! 4) = ''reported''"
  by (simp_all add: minimal_transitions_def)

lemma chain_end: "chain_state ''reported'' ts = Inr u \<longleftrightarrow> ts = [] \<and> u = ''reported''"
proof (cases ts)
  case (Cons t r)
  have "\<not> (t \<in> set minimal_transitions \<and> from_state t = ''reported'')" by (auto simp: minimal_transitions_def)
  then show ?thesis by (simp only: Cons chain_step) auto
qed auto

lemmas chain_from =
  chain_end
  chain_one [of 4, OF _ minimal_states(9,10), simplified]
  chain_one [of 3, OF _ minimal_states(7,8), simplified]
  chain_one [of 2, OF _ minimal_states(5,6), simplified]
  chain_one [of 1, OF _ minimal_states(3,4), simplified]
  chain_one [of 0, OF _ minimal_states(1,2), simplified]

lemma chain_to_reported: "chain_state ''planned'' ts = Inr ''reported'' \<longleftrightarrow> ts = minimal_transitions"
  by (simp add: chain_from) (simp add: minimal_transitions_def)

lemma verified_fields:
  "verify_transition_receipt r = Inr () \<longleftrightarrow>
     (\<exists>ts u. chain_state ''planned'' ts = Inr u \<and> r = \<lparr>state = u, transitions = ts, integrity = integrity_of u ts\<rparr>)"
  by (cases r) (auto simp: verify_iff)

lemma append_all_snoc:
  "append_all r (ts @ [t]) = Inr r' \<longleftrightarrow>
     (\<exists>r1. append_all r ts = Inr r1 \<and> append_transition r1 t = Inr r')"
  by (induction ts arbitrary: r) (auto simp: res_simps append_iff allowed_transition_iff)

lemma append_all_chain:
  "append_all new_transition_receipt ts = Inr r \<longleftrightarrow>
     (\<exists>u. chain_state ''planned'' ts = Inr u \<and> r = \<lparr>state = u, transitions = ts, integrity = integrity_of u ts\<rparr>)"
proof (induction ts arbitrary: r rule: rev_induct)
  case (snoc t ts)
  have v: "verify_transition_receipt \<lparr>state = u, transitions = ts, integrity = integrity_of u ts\<rparr> = Inr ()"
    if "chain_state ''planned'' ts = Inr u" for u using that by (simp add: verify_iff)
  show ?case
    by (auto simp: append_all_snoc snoc append_iff chain_append chain_step v simp del: chain_state.simps(2) append_all.simps)
qed (auto simp: new_transition_receipt_def)

text \<open>
  C12: a receipt verifies exactly when it is what appending approved transitions to the empty
  receipt produces: no forged or reordered chain, and no state that its transitions do not reach,
  passes verification.
\<close>

theorem verified_iff_appended:
  "verify_transition_receipt r = Inr () \<longleftrightarrow> (\<exists>ts. append_all new_transition_receipt ts = Inr r)"
  unfolding append_all_chain verified_fields ..

text \<open>
  the completed receipts are exactly one: the five transitions of the graph in their order,
  under their digest.
\<close>

theorem completed_receipt_unique:
  "require_completed_transition_receipt r = Inr () \<longleftrightarrow>
     r = \<lparr>state = ''reported'', transitions = minimal_transitions, integrity = integrity_of ''reported'' minimal_transitions\<rparr>"
  by (cases r) (auto simp: require_completed_transition_receipt_def res_simps verify_iff chain_to_reported)

subsection \<open>The workflow\<close>

lemma invoke_run: "runs_graphs invoke \<Longrightarrow> map_of (nodes g) ''__end__'' = None \<Longrightarrow> graph_run g (start_of g) s r \<Longrightarrow> invoke g s = r"
  by (simp add: runs_graphs_def)

lemma audit_plusI: "map_of s ''audit'' = Some (JList xs) \<Longrightarrow> audit_plus s x = Inr (xs @ [JStr x])"
  by (simp add: audit_plus_def item_of_def)

lemma smoke_nodes:
  "map_of (nodes (build_smoke_graph arrow)) ''cancel'' = Some wf_cancel"
  "map_of (nodes (build_smoke_graph arrow)) ''block'' = Some wf_block"
  "map_of (nodes (build_smoke_graph arrow)) ''validate'' = Some wf_validate"
  "map_of (nodes (build_smoke_graph arrow)) ''execute'' = Some wf_execute"
  by (simp_all add: build_smoke_graph_def)

lemma smoke_edges:
  "map_of (edges (build_smoke_graph arrow)) ''cancel'' = Some (To ''report'')"
  "map_of (edges (build_smoke_graph arrow)) ''block'' = Some (To ''report'')"
  "map_of (edges (build_smoke_graph arrow)) ''validate'' = Some (To ''report'')"
  "map_of (edges (build_smoke_graph arrow)) ''execute'' = Some (To ''validate'')"
  by (simp_all add: build_smoke_graph_def)

text \<open>The nodes after the decision, from any state with a status and an audit list.\<close>

lemma wf_from_report:
  assumes "map_of s ''status'' = Some st" "map_of s ''audit'' = Some (JList a)"
  obtains s' where "graph_run (build_smoke_graph arrow) ''report'' s (Inr s')" "map_of s' ''status'' = Some st"
    "map_of s' ''audit'' = Some (JList (a @ [JStr ''report'']))"
proof
  let ?u = "[(''report'', JStr (report_text arrow st a)), (''audit'', JList (a @ [JStr ''report'']))]"
  have "graph_run (build_smoke_graph arrow) ''__end__'' (dict_update s ?u) (Inr (dict_update s ?u))"
    by (rule graph_run.finished) simp
  then show "graph_run (build_smoke_graph arrow) ''report'' s (Inr (dict_update s ?u))"
    by (rule graph_run.node_step [where f = "wf_report arrow" and u = ?u and ed = "To ''__end__''", rotated 4])
       (simp_all add: build_smoke_graph_def wf_report_def item_of_def assms audit_plusI next_node_def)
qed (simp_all add: assms)

lemma wf_stop:
  assumes "map_of (nodes (build_smoke_graph arrow)) n = Some f" "map_of (edges (build_smoke_graph arrow)) n = Some (To ''report'')"
    and "f s = Inr [(''status'', JStr st), (''audit'', JList a)]"
  obtains s' where "graph_run (build_smoke_graph arrow) n s (Inr s')" "map_of s' ''status'' = Some (JStr st)"
    "map_of s' ''audit'' = Some (JList (a @ [JStr ''report'']))"
proof -
  let ?s = "dict_update s [(''status'', JStr st), (''audit'', JList a)]"
  have "map_of ?s ''status'' = Some (JStr st)" "map_of ?s ''audit'' = Some (JList a)" by simp_all
  then obtain s' where s': "graph_run (build_smoke_graph arrow) ''report'' ?s (Inr s')"
      "map_of s' ''status'' = Some (JStr st)" "map_of s' ''audit'' = Some (JList (a @ [JStr ''report'']))"
    by (rule wf_from_report)
  have "next_node (To ''report'') ?s = Inr ''report''" by (simp add: next_node_def)
  from that [OF graph_run.node_step [OF assms(1,3,2) this s'(1)] s'(2,3)] show ?thesis .
qed

text \<open>The label and the status a run ends with.\<close>

definition wf_expected :: "string \<Rightarrow> bool \<Rightarrow> bool \<Rightarrow> int \<Rightarrow> string \<times> string list" where
  "wf_expected kind ev canc mx =
     (if canc then (''cancelled'', [''plan'', ''cancel'', ''report''])
      else if mx \<le> 1 \<or> kind = ''research'' \<and> \<not> ev then (''blocked'', [''plan'', ''blocked:no-evidence-trace'', ''report''])
      else (''validated'', [''plan'', ''execute'', ''validate'', ''report'']))"

lemma wf_run:
  obtains s' where "graph_run (build_smoke_graph arrow) ''plan''
      [(''task'', JStr task), (''kind'', JStr kind), (''evidence_trace'', JBool ev), (''cancelled'', JBool canc), (''max_steps'', JInt mx)]
      (Inr s')"
    "map_of s' ''status'' = Some (JStr (fst (wf_expected kind ev canc mx)))"
    "map_of s' ''audit'' = Some (JList (map JStr (snd (wf_expected kind ev canc mx))))"
proof -
  let ?g = "build_smoke_graph arrow"
  let ?s0 = "[(''task'', JStr task), (''kind'', JStr kind), (''evidence_trace'', JBool ev), (''cancelled'', JBool canc), (''max_steps'', JInt mx)]"
  let ?u = "[(''steps'', JInt 1), (''status'', JStr ''planned''), (''audit'', JList [JStr ''plan''])]"
  let ?s1 = "dict_update ?s0 ?u"
  have a1: "map_of ?s1 ''audit'' = Some (JList [JStr ''plan''])" by simp
  define target where "target = (if canc then ''cancel'' else if mx \<le> 1 \<or> kind = ''research'' \<and> \<not> ev then ''block'' else ''execute'')"
  have route: "next_node (Branch wf_after_plan [(''cancel'', ''cancel''), (''limit'', ''block''),
                  (''missing_evidence'', ''block''), (''execute'', ''execute'')]) ?s1 = Inr target"
    by (simp add: next_node_def wf_after_plan_def jget_def get_or_def item_of_def json_ge_def target_def)
  have step: "graph_run ?g ''plan'' ?s0 r" if "graph_run ?g target ?s1 r" for r
    by (rule graph_run.node_step [where f = wf_plan, OF _ _ _ route that]) (simp_all add: build_smoke_graph_def wf_plan_def)
  consider (cancel) "canc" | (block) "\<not> canc" "mx \<le> 1 \<or> kind = ''research'' \<and> \<not> ev"
    | (go) "\<not> canc" "\<not> (mx \<le> 1 \<or> kind = ''research'' \<and> \<not> ev)" by blast
  then show ?thesis
  proof cases
    case cancel
    have f: "wf_cancel ?s1 = Inr [(''status'', JStr ''cancelled''), (''audit'', JList [JStr ''plan'', JStr ''cancel''])]"
      by (simp add: wf_cancel_def audit_plusI [OF a1])
    obtain s' where "graph_run ?g ''cancel'' ?s1 (Inr s')" "map_of s' ''status'' = Some (JStr ''cancelled'')"
        "map_of s' ''audit'' = Some (JList ([JStr ''plan'', JStr ''cancel''] @ [JStr ''report'']))"
      by (rule wf_stop [OF smoke_nodes(1) smoke_edges(1) f])
    then show ?thesis using step cancel by (intro that [of s']) (simp_all add: wf_expected_def target_def)
  next
    case block
    have f: "wf_block ?s1 = Inr [(''status'', JStr ''blocked''), (''audit'', JList [JStr ''plan'', JStr ''blocked:no-evidence-trace''])]"
      by (simp add: wf_block_def audit_plusI [OF a1])
    obtain s' where "graph_run ?g ''block'' ?s1 (Inr s')" "map_of s' ''status'' = Some (JStr ''blocked'')"
        "map_of s' ''audit'' = Some (JList ([JStr ''plan'', JStr ''blocked:no-evidence-trace''] @ [JStr ''report'']))"
      by (rule wf_stop [OF smoke_nodes(2) smoke_edges(2) f])
    then show ?thesis using step block by (intro that [of s']) (simp_all add: wf_expected_def target_def)
  next
    case go
    let ?w = "[(''steps'', JInt 2), (''audit'', JList [JStr ''plan'', JStr ''execute''])]"
    let ?s2 = "dict_update ?s1 ?w"
    have a2: "map_of ?s2 ''audit'' = Some (JList [JStr ''plan'', JStr ''execute''])" by simp
    have f: "wf_validate ?s2 = Inr [(''status'', JStr ''validated''), (''audit'', JList [JStr ''plan'', JStr ''execute'', JStr ''validate''])]"
      by (simp add: wf_validate_def audit_plusI [OF a2])
    obtain s' where s': "graph_run ?g ''validate'' ?s2 (Inr s')" "map_of s' ''status'' = Some (JStr ''validated'')"
        "map_of s' ''audit'' = Some (JList ([JStr ''plan'', JStr ''execute'', JStr ''validate''] @ [JStr ''report'']))"
      by (rule wf_stop [OF smoke_nodes(3) smoke_edges(3) f])
    have n: "map_of ?s1 ''steps'' = Some (JInt 1)" by simp
    have "graph_run ?g ''execute'' ?s1 (Inr s')"
      by (rule graph_run.node_step [where f = wf_execute and u = ?w and ed = "To ''validate''", OF _ _ _ _ s'(1)])
         (simp_all add: smoke_nodes smoke_edges wf_execute_def item_of_def n audit_plusI [OF a1] int_of_def next_node_def
            del: map_of_dict_update)
    moreover have "target = ''execute''" using go by (auto simp: target_def)
    ultimately show ?thesis using s'(2,3) go step by (intro that [of s']) (auto simp: wf_expected_def)
  qed
qed

lemma wf_result:
  assumes "runs_graphs invoke"
  obtains s where "run_smoke_task invoke arrow task kind ev canc mx = Inr s"
    "map_of s ''status'' = Some (JStr (fst (wf_expected kind ev canc mx)))"
    "map_of s ''audit'' = Some (JList (map JStr (snd (wf_expected kind ev canc mx))))"
proof -
  obtain s' where s': "graph_run (build_smoke_graph arrow) ''plan''
      [(''task'', JStr task), (''kind'', JStr kind), (''evidence_trace'', JBool ev), (''cancelled'', JBool canc), (''max_steps'', JInt mx)]
      (Inr s')"
    "map_of s' ''status'' = Some (JStr (fst (wf_expected kind ev canc mx)))"
    "map_of s' ''audit'' = Some (JList (map JStr (snd (wf_expected kind ev canc mx))))"
    by (rule wf_run)
  have "start_of (build_smoke_graph arrow) = ''plan''" "map_of (nodes (build_smoke_graph arrow)) ''__end__'' = None"
    by (simp_all add: start_of_def build_smoke_graph_def)
  with s' invoke_run [OF assms] show ?thesis by (intro that [of s']) (simp_all add: run_smoke_task_def)
qed

text \<open>
  the smoke workflow, for every input, ends in the status and with the audit labels of its
  decision table; in particular a research task without an evidence trace is never validated, nor
  is a cancelled one.
\<close>

theorem smoke_task_decided:
  assumes "runs_graphs invoke"
  shows "\<exists>s. run_smoke_task invoke arrow task kind ev canc mx = Inr s \<and>
    map_of s ''status'' = Some (JStr (if canc then ''cancelled''
      else if mx \<le> 1 \<or> kind = ''research'' \<and> \<not> ev then ''blocked'' else ''validated'')) \<and>
    map_of s ''audit'' = Some (JList (map JStr (if canc then [''plan'', ''cancel'', ''report'']
      else if mx \<le> 1 \<or> kind = ''research'' \<and> \<not> ev then [''plan'', ''blocked:no-evidence-trace'', ''report'']
      else [''plan'', ''execute'', ''validate'', ''report''])))"
proof -
  obtain s where "run_smoke_task invoke arrow task kind ev canc mx = Inr s"
    "map_of s ''status'' = Some (JStr (fst (wf_expected kind ev canc mx)))"
    "map_of s ''audit'' = Some (JList (map JStr (snd (wf_expected kind ev canc mx))))"
    using wf_result [OF assms] by blast
  then show ?thesis by (intro exI [of _ s]) (simp add: wf_expected_def)
qed

subsection \<open>The tool gate\<close>

lemma mcp_from_report:
  assumes "map_of s ''status'' = Some st" "map_of s ''audit'' = Some (JList a)"
  obtains s' where "graph_run (build_synthetic_mcp_trace_graph arrow) ''report'' s (Inr s')" "map_of s' ''status'' = Some st"
proof
  let ?a = "a @ [JStr ''report'']"
  let ?u = "[(''audit'', JList ?a), (''report'', JStr (report_text arrow st ?a))]"
  have "graph_run (build_synthetic_mcp_trace_graph arrow) ''__end__'' (dict_update s ?u) (Inr (dict_update s ?u))"
    by (rule graph_run.finished) simp
  then show "graph_run (build_synthetic_mcp_trace_graph arrow) ''report'' s (Inr (dict_update s ?u))"
    by (rule graph_run.node_step [where f = "mcp_report arrow" and u = ?u and ed = "To ''__end__''", rotated 4])
       (simp_all add: build_synthetic_mcp_trace_graph_def mcp_report_def item_of_def assms audit_plusI next_node_def)
qed (simp_all add: assms)

lemma mcp_to_report:
  assumes "map_of (nodes (build_synthetic_mcp_trace_graph arrow)) n = Some f"
    and "map_of (edges (build_synthetic_mcp_trace_graph arrow)) n = Some (To ''report'')"
    and "f s = Inr [(''status'', JStr st), (''audit'', JList a)]"
  obtains s' where "graph_run (build_synthetic_mcp_trace_graph arrow) n s (Inr s')" "map_of s' ''status'' = Some (JStr st)"
proof -
  let ?s = "dict_update s [(''status'', JStr st), (''audit'', JList a)]"
  have "map_of ?s ''status'' = Some (JStr st)" "map_of ?s ''audit'' = Some (JList a)" by simp_all
  then obtain s' where s': "graph_run (build_synthetic_mcp_trace_graph arrow) ''report'' ?s (Inr s')"
      "map_of s' ''status'' = Some (JStr st)" by (rule mcp_from_report)
  have "next_node (To ''report'') ?s = Inr ''report''" by (simp add: next_node_def)
  from that [OF graph_run.node_step [OF assms(1,3,2) this s'(1)] s'(2)] show ?thesis .
qed

lemma mcp_nodes:
  "map_of (nodes (build_synthetic_mcp_trace_graph arrow)) ''block'' = Some mcp_block"
  "map_of (nodes (build_synthetic_mcp_trace_graph arrow)) ''validate'' = Some mcp_validate"
  by (simp_all add: build_synthetic_mcp_trace_graph_def)

lemma mcp_edges:
  "map_of (edges (build_synthetic_mcp_trace_graph arrow)) ''block'' = Some (To ''report'')"
  "map_of (edges (build_synthetic_mcp_trace_graph arrow)) ''validate'' = Some (To ''report'')"
  by (simp_all add: build_synthetic_mcp_trace_graph_def)

text \<open>The names of events that are objects, and which exceptions the gate turns into a block.\<close>

abbreviation event_names :: "dict list \<Rightarrow> json list" where
  "event_names events \<equiv> map (\<lambda>ev. jget ev ''name'') events"

lemma validate_error: "validate_tool_call n a = Inl e \<Longrightarrow> gate_catches e"
  by (auto simp: validate_tool_call_def gate_catches_def is_a_def res_simps Let_def
      split: if_splits option.splits json.splits)

lemma check_event_error: "check_event ev = Inl e \<Longrightarrow> gate_catches e"
  by (auto simp: check_event_def item_of_def as_dict_def res_simps gate_catches_def is_a_def
      split: option.splits json.splits dest: validate_error [unfolded gate_catches_def is_a_def])

lemma forR_Inl: "forR f xs = Inl e \<Longrightarrow> \<exists>x \<in> set xs. f x = Inl e"
  by (induction xs) (auto simp: bindR_Inl_iff)

lemma check_events_error: "check_events names events = Inl e \<Longrightarrow> gate_catches e"
  by (auto simp: check_events_def res_simps gate_catches_def is_a_def
      dest!: forR_Inl check_event_error [unfolded gate_catches_def is_a_def])

lemma mcp_run:
  assumes "mapR as_dict evs = Inr events"
  obtains s where "graph_run (build_synthetic_mcp_trace_graph arrow) ''plan''
      [(''task'', JStr task), (''tool_events'', JList evs)] (Inr s)"
    "map_of s ''status'' = Some (JStr (if check_events (event_names events) events = Inr () then ''validated'' else ''blocked''))"
proof -
  let ?g = "build_synthetic_mcp_trace_graph arrow"
  let ?s0 = "[(''task'', JStr task), (''tool_events'', JList evs)]"
  let ?s1 = "dict_update ?s0 [(''status'', JStr ''planned''), (''audit'', JList [JStr ''plan''])]"
  have a1: "map_of ?s1 ''audit'' = Some (JList [JStr ''plan''])" and t1: "map_of ?s1 ''tool_events'' = Some (JList evs)"
    and g1: "map_of ?s1 ''gate_error'' = None" by simp_all
  have plan: "graph_run ?g ''plan'' ?s0 r" if "graph_run ?g ''gate_events'' ?s1 r" for r
    by (rule graph_run.node_step [where f = mcp_plan and ed = "To ''gate_events''", OF _ _ _ _ that])
       (simp_all add: build_synthetic_mcp_trace_graph_def mcp_plan_def next_node_def)
  show ?thesis
  proof (cases "check_events (event_names events) events")
    case (Inl e)
    let ?u = "[(''gate_error'', JStr ''blocked:mcp-policy''), (''audit'', JList [JStr ''plan'', JStr ''mcp-policy:blocked''])]"
    let ?s2 = "dict_update ?s1 ?u"
    have a2: "map_of ?s2 ''audit'' = Some (JList [JStr ''plan'', JStr ''mcp-policy:blocked''])" by simp
    have f: "mcp_block ?s2 = Inr [(''status'', JStr ''blocked''), (''audit'', JList [JStr ''plan'', JStr ''mcp-policy:blocked'', JStr ''block''])]"
      by (simp add: mcp_block_def audit_plusI [OF a2])
    obtain s where s: "graph_run ?g ''block'' ?s2 (Inr s)" "map_of s ''status'' = Some (JStr ''blocked'')"
      by (rule mcp_to_report [OF mcp_nodes(1) mcp_edges(1) f])
    have "gate_events ?s1 = Inr ?u" using check_events_error [OF Inl] Inl assms
      by (simp add: gate_events_def get_or_def t1 iter_json_def audit_plusI [OF a1] del: map_of_dict_update)
    then have "graph_run ?g ''gate_events'' ?s1 (Inr s)"
      by (rule graph_run.node_step [where f = gate_events and ed = "Branch after_gate [(''block'', ''block''), (''execute'', ''execute'')]",
            OF _ _ _ _ s(1), rotated])
         (simp_all add: build_synthetic_mcp_trace_graph_def next_node_def after_gate_def jget_def)
    with plan s(2) Inl show ?thesis by (intro that [of s]) simp_all
  next
    case (Inr u)
    let ?u = "[(''audit'', JList [JStr ''plan'', JStr ''mcp-policy:accepted-untrusted-data''])]"
    let ?s2 = "dict_update ?s1 ?u"
    let ?w = "[(''audit'', JList [JStr ''plan'', JStr ''mcp-policy:accepted-untrusted-data'', JStr ''execute:synthetic-only''])]"
    let ?s3 = "dict_update ?s2 ?w"
    have a2: "map_of ?s2 ''audit'' = Some (JList [JStr ''plan'', JStr ''mcp-policy:accepted-untrusted-data''])" by simp
    have a3: "map_of ?s3 ''audit'' = Some (JList [JStr ''plan'', JStr ''mcp-policy:accepted-untrusted-data'', JStr ''execute:synthetic-only''])" by simp
    have f: "mcp_validate ?s3 = Inr [(''status'', JStr ''validated''), (''audit'', JList [JStr ''plan'', JStr ''mcp-policy:accepted-untrusted-data'', JStr ''execute:synthetic-only'', JStr ''validate''])]"
      by (simp add: mcp_validate_def audit_plusI [OF a3])
    obtain s where s: "graph_run ?g ''validate'' ?s3 (Inr s)" "map_of s ''status'' = Some (JStr ''validated'')"
      by (rule mcp_to_report [OF mcp_nodes(2) mcp_edges(2) f])
    have ex: "graph_run ?g ''execute'' ?s2 (Inr s)"
      by (rule graph_run.node_step [where f = mcp_execute and ed = "To ''validate''", OF _ _ _ _ s(1)])
         (simp_all add: build_synthetic_mcp_trace_graph_def mcp_execute_def audit_plusI [OF a2] next_node_def del: map_of_dict_update)
    have "gate_events ?s1 = Inr ?u" using Inr assms
      by (simp add: gate_events_def get_or_def t1 iter_json_def audit_plusI [OF a1] del: map_of_dict_update)
    then have "graph_run ?g ''gate_events'' ?s1 (Inr s)"
      by (rule graph_run.node_step [where f = gate_events and ed = "Branch after_gate [(''block'', ''block''), (''execute'', ''execute'')]",
            OF _ _ _ _ ex, rotated])
         (simp_all add: build_synthetic_mcp_trace_graph_def next_node_def after_gate_def jget_def)
    with plan s(2) Inr show ?thesis by (intro that [of s]) simp_all
  qed
qed

lemma mcp_result:
  assumes "runs_graphs invoke" "mapR as_dict evs = Inr events"
  obtains s where "run_synthetic_mcp_trace invoke arrow task (Some evs) = Inr s"
    "map_of s ''status'' = Some (JStr (if check_events (event_names events) events = Inr () then ''validated'' else ''blocked''))"
proof -
  have "start_of (build_synthetic_mcp_trace_graph arrow) = ''plan''"
      "map_of (nodes (build_synthetic_mcp_trace_graph arrow)) ''__end__'' = None"
    by (simp_all add: start_of_def build_synthetic_mcp_trace_graph_def)
  with mcp_run [OF assms(2)] invoke_run [OF assms(1)] show ?thesis
    by (metis (no_types, lifting) option.simps(5) run_synthetic_mcp_trace_def that)
qed

text \<open>What the gate requires of one event.\<close>

lemma check_event_iff:
  "check_event ev = Inr () \<longleftrightarrow> (\<exists>n args call r. map_of ev ''name'' = Some n \<and> map_of ev ''arguments'' = Some args \<and>
     validate_tool_call n args = Inr call \<and> get_or ev ''result'' (JObj []) = JObj r \<and>
     jget r ''trusted'' = JBool False \<and> jget r ''origin'' = JStr ''test-mcp'')"
  by (auto simp: check_event_def item_of_def res_simps as_dict_def split: option.splits json.splits)

lemma check_events_iff:
  "check_events names events = Inr () \<longleftrightarrow>
     length events = 3 \<and> set names = JStr ` set required_tools \<and> (\<forall>ev \<in> set events. check_event ev = Inr ())"
proof -
  have "\<not> list_ex unhashable names" if "set names = JStr ` set required_tools"
    using that by (auto simp: list_ex_iff unhashable_def)
  then show ?thesis by (auto simp: check_events_def res_simps required_tools_def)
qed

text \<open>
  C13: a trace is validated exactly when its events are the three approved tools, every call passes
  its contract and every result is marked as untrusted data of the test origin.
\<close>

theorem trace_validated_iff_untrusted:
  assumes "runs_graphs invoke" "mapR as_dict evs = Inr events"
  shows "\<exists>s. run_synthetic_mcp_trace invoke arrow task (Some evs) = Inr s \<and>
    (map_of s ''status'' = Some (JStr ''validated'') \<longleftrightarrow>
       length events = 3 \<and> set (event_names events) = JStr ` set required_tools \<and>
       (\<forall>ev \<in> set events. \<exists>n args call r. map_of ev ''name'' = Some n \<and> map_of ev ''arguments'' = Some args \<and>
          validate_tool_call n args = Inr call \<and> get_or ev ''result'' (JObj []) = JObj r \<and>
          jget r ''trusted'' = JBool False \<and> jget r ''origin'' = JStr ''test-mcp''))"
proof -
  obtain s where "run_synthetic_mcp_trace invoke arrow task (Some evs) = Inr s"
    "map_of s ''status'' = Some (JStr (if check_events (event_names events) events = Inr () then ''validated'' else ''blocked''))"
    using mcp_result [OF assms] by blast
  then show ?thesis by (intro exI [of _ s]) (auto simp: check_events_iff check_event_iff)
qed

subsection \<open>The architecture scenario\<close>

lemma smoke_receipt_ok: "\<exists>r. smoke_receipt = Inr r \<and> length (transitions r) = 5"
proof -
  let ?r = "\<lparr>state = ''reported'', transitions = minimal_transitions, integrity = integrity_of ''reported'' minimal_transitions\<rparr>"
  have "append_all new_transition_receipt minimal_transitions = Inr ?r"
    by (simp add: append_all_chain chain_to_reported)
  moreover have "verify_transition_receipt ?r = Inr ()" by (simp add: verify_iff chain_to_reported)
  moreover have "require_completed_transition_receipt ?r = Inr ()"
    by (simp add: require_completed_transition_receipt_def calculation(2))
  moreover have "forR (\<lambda>(r, a). require_allowed_action (JStr r) (JStr a)) required_role_actions = Inr ()"
  proof -
    have "\<forall>(r, a) \<in> set required_role_actions. require_allowed_action (JStr r) (JStr a) = Inr ()"
      unfolding allowed_action_iff by (simp add: required_role_actions_def role_actions_def)
    then show ?thesis by (auto simp: forR_Inr)
  qed
  ultimately show ?thesis by (simp add: smoke_receipt_def) (simp add: minimal_transitions_def)
qed

lemma synthetic_events_pass:
  "\<exists>events. mapR as_dict synthetic_tool_events = Inr events \<and> check_events (event_names events) events = Inr ()"
proof -
  have "case mapR as_dict synthetic_tool_events of Inr events \<Rightarrow> check_events (event_names events) events = Inr () | _ \<Rightarrow> False"
    by code_simp
  then show ?thesis by (auto split: sum.splits)
qed

lemma mcp_default:
  assumes "runs_graphs invoke"
  obtains s where "run_synthetic_mcp_trace invoke arrow task None = Inr s" "map_of s ''status'' = Some (JStr ''validated'')"
proof -
  obtain events where ev: "mapR as_dict synthetic_tool_events = Inr events" "check_events (event_names events) events = Inr ()"
    using synthetic_events_pass by blast
  obtain s where "run_synthetic_mcp_trace invoke arrow task (Some synthetic_tool_events) = Inr s" "map_of s ''status'' = Some (JStr ''validated'')"
    using mcp_result [OF assms ev(1)] ev(2) by auto
  then show ?thesis using that by (simp add: run_synthetic_mcp_trace_def)
qed

lemma trace_ok:
  "(\<exists>t. build_synthetic_run_trace (JStr tid) ''review_required'' (JInt ms) (base_audit ''review_required'') = Inr t) \<longleftrightarrow>
     strip tid \<noteq> [] \<and> length tid \<le> 256 \<and> 0 \<le> ms"
proof -
  have "fullmatch version_rx ''v1''" by code_simp
  moreover have "\<not> list_ex (\<lambda>l. \<not> fullmatch label_rx l) (base_audit ''review_required'')"
    unfolding label_rx_def match_name_eval by code_simp
  moreover have "\<not> unsafe_ref ''docs/integrations/ARCHITECTURE_SMOKE.md''"
    unfolding unsafe_ref_def artifact_rx_def Let_def match_name_eval by code_simp
  moreover have "base_audit ''review_required'' \<noteq> []" by (simp add: base_audit_def)
  ultimately show ?thesis
    by (auto simp: build_synthetic_run_trace_def deterministic_run_id_def require_safe_run_trace_def res_simps match_hex64 budget_int_def Let_def
        simp del: fullmatch.simps)
qed

lemma reviewable_iff:
  "require_reviewable_change changes scope cmd ec = Inr rr \<longleftrightarrow>
     \<not> list_ex unhashable scope \<and> changes \<noteq> [] \<and> distinct changes \<and>
     (\<forall>p \<in> set changes. is_str p \<and> fullmatch safe_path_rx (str_of p) \<and> p \<in> set scope) \<and>
     is_str cmd \<and> strip (str_of cmd) \<noteq> [] \<and> ec = 0 \<and>
     rr = \<lparr>changed_paths = map str_of changes, test_command = strip (str_of cmd), decision = ''review_required''\<rparr>"
proof -
  have "\<not> list_ex unhashable changes" if "\<forall>p \<in> set changes. is_str p"
    using that by (auto simp: list_ex_iff is_str_def unhashable_def split: json.splits)
  then show ?thesis by (auto simp: require_reviewable_change_def res_simps list_ex_iff list_all_iff)
qed

lemma budget_ok:
  "require_within_budget (JInt 5) (JInt ms) (JInt 0) (JInt 0) synthetic_architecture_budget = Inr () \<longleftrightarrow> 0 \<le> ms \<and> ms \<le> 5000"
  by (auto simp: require_within_budget_def synthetic_architecture_budget_def budget_int_def int_of_def res_simps Let_def)

text \<open>
  the architecture scenario succeeds exactly when the run stayed within five seconds, the thread
  identifier is valid, the tests passed and every changed path is distinct, well formed and among
  the allowed ones; its decision is always that a review is required.
\<close>

theorem scenario_accepts_iff:
  assumes "runs_graphs invoke"
  shows "(\<exists>rep. run_architecture_smoke invoke arrow ms task tid changes scope cmd ec = Inr rep \<and> smoke_decision rep = dec) \<longleftrightarrow>
    0 \<le> ms \<and> ms \<le> 5000 \<and> strip tid \<noteq> [] \<and> length tid \<le> 256 \<and>
    \<not> list_ex unhashable scope \<and> changes \<noteq> [] \<and> distinct changes \<and>
    (\<forall>p \<in> set changes. is_str p \<and> fullmatch safe_path_rx (str_of p) \<and> p \<in> set scope) \<and>
    is_str cmd \<and> strip (str_of cmd) \<noteq> [] \<and> ec = 0 \<and> dec = ''review_required''"
proof -
  obtain s where s: "run_smoke_task invoke arrow task ''engineering'' False False 3 = Inr s" "map_of s ''status'' = Some (JStr ''validated'')"
    using wf_result [OF assms, of arrow task "''engineering''" False False 3] by (auto simp: wf_expected_def)
  obtain r where r: "smoke_receipt = Inr r" "length (transitions r) = 5" using smoke_receipt_ok by blast
  obtain m where m: "run_synthetic_mcp_trace invoke arrow task None = Inr m" "map_of m ''status'' = Some (JStr ''validated'')"
    using mcp_default [OF assms] by blast
  have "run_architecture_smoke invoke arrow ms task tid changes scope cmd ec =
      thenR (require_within_budget (JInt 5) (JInt ms) (JInt 0) (JInt 0) synthetic_architecture_budget)
      (bindR (require_reviewable_change changes scope cmd ec) (\<lambda>rr.
         thenR (bindR (build_synthetic_run_trace (JStr tid) (decision rr) (JInt ms) (base_audit (decision rr))) (\<lambda>_. Inr ()))
         (let a = base_audit (decision rr) @ [''trace:metadata-validated''] in
          Inr \<lparr>smoke_decision = decision rr, smoke_audit = a, smoke_text = decision rr @ '': '' @ join arrow a\<rparr>)))"
    by (simp add: run_architecture_smoke_def s m r item_of_def)
  then show ?thesis
    using trace_ok [of tid ms] by (auto simp: res_simps budget_ok reviewable_iff Let_def)
qed

subsection \<open>A library that runs graphs\<close>

text \<open>The run as a function, which need not return on a graph with a cycle.\<close>

partial_function (option) follow :: "graph \<Rightarrow> string \<Rightarrow> dict \<Rightarrow> dict res option" where
  "follow g n s =
     (if n = ''__end__'' then Some (Inr s)
      else case map_of (nodes g) n of None \<Rightarrow> None
      | Some f \<Rightarrow> (case f s of Inl e \<Rightarrow> Some (Inl e)
        | Inr u \<Rightarrow> (case map_of (edges g) n of None \<Rightarrow> None
          | Some ed \<Rightarrow> (case next_node ed (dict_update s u) of Inl e \<Rightarrow> Some (Inl e)
            | Inr n' \<Rightarrow> follow g n' (dict_update s u)))))"

definition follow_invoke :: "graph \<Rightarrow> dict \<Rightarrow> dict res" where
  "follow_invoke g s = (case follow g (start_of g) s of Some r \<Rightarrow> r | None \<Rightarrow> raise RuntimeError [])"

lemma follow_run: "graph_run g n s r \<Longrightarrow> map_of (nodes g) ''__end__'' = None \<Longrightarrow> follow g n s = Some r"
proof (induction rule: graph_run.induct)
  case (finished n s)
  then show ?case by (subst follow.simps) simp
next
  case (node_raises n f s e)
  then show ?case by (subst follow.simps) auto
next
  case (edge_raises n f s u ed e)
  then show ?case by (subst follow.simps) auto
next
  case (node_step n f s u ed n' r)
  then show ?case by (subst follow.simps) auto
qed

lemma follow_runs_graphs: "runs_graphs follow_invoke"
  by (simp add: runs_graphs_def follow_invoke_def follow_run)

theorem smoke_task_decided_witness:
  "\<exists>s. run_smoke_task follow_invoke ''>'' ''t'' ''research'' False False 3 = Inr s \<and>
    map_of s ''status'' = Some (JStr ''blocked'')"
  using smoke_task_decided [OF follow_runs_graphs, of "''>''" "''t''" "''research''" False False 3] by auto

theorem trace_validated_iff_untrusted_witness:
  "\<exists>s. run_synthetic_mcp_trace follow_invoke ''>'' ''t'' (Some []) = Inr s \<and> map_of s ''status'' \<noteq> Some (JStr ''validated'')"
  using trace_validated_iff_untrusted [OF follow_runs_graphs, of "[]" "[]" "''>''" "''t''"] by auto

theorem scenario_accepts_iff_witness:
  "\<exists>rep. run_architecture_smoke follow_invoke ''>'' 12 ''t'' ''thread'' [JStr ''src/a.py''] [JStr ''src/a.py''] (JStr ''pytest'') 0 = Inr rep \<and>
     smoke_decision rep = ''review_required''"
proof -
  have "fullmatch safe_path_rx ''src/a.py''" unfolding match_safe_path by code_simp
  moreover have "strip ''thread'' \<noteq> []" "strip ''pytest'' \<noteq> []" by code_simp+
  ultimately show ?thesis
    using scenario_accepts_iff [OF follow_runs_graphs, of "''>''" 12 "''t''" "''thread''" "[JStr ''src/a.py'']" "[JStr ''src/a.py'']"
        "JStr ''pytest''" 0 "''review_required''"]
    by (simp add: unhashable_def del: fullmatch.simps)
qed

end
