(* ===== verification/Evaluators.thy ===== *)
theory Evaluators
  imports PyFloat PyRegex Digest
begin

text \<open>
  The evolution of evaluators (\<open>evaluator_evolution.py\<close>) and the memory of reusable solutions
  (\<open>solution_memory.py\<close>): the records with the checks of their constructors, the transition gate
  of a candidate evaluator and the state of an asset after its outcomes. Quality values are
  checked to lie between 0 and 1 when a record is built, and kept as rational numbers.
\<close>

definition ident_rx :: rx where
  "ident_rx = RSeq (RSet lower_letter) (RRep (RSet (\<lambda>c. lower_letter c \<or> is_digit c \<or> c \<in> set ''_-'')) 2 (Some 63))"

lemma match_ident:
  "fullmatch ident_rx s \<longleftrightarrow> (case s of [] \<Rightarrow> False
     | c # t \<Rightarrow> lower_letter c \<and> list_all (\<lambda>c. lower_letter c \<or> is_digit c \<or> c \<in> set ''_-'') t \<and> 2 \<le> length t \<and> length t \<le> 63)"
  unfolding ident_rx_def by (rule match_name_eval)

definition is_uuid_text :: "string \<Rightarrow> bool" where
  "is_uuid_text s = (case uuid_str s of Inr _ \<Rightarrow> True | Inl _ \<Rightarrow> False)"

subsection \<open>Evaluator versions\<close>

record evaluator_version =
  evaluator_id :: string
  ev_kind :: string
  ev_version :: string
  proposed_by :: string
  definition_sha256 :: string
  frozen_case_ids :: "string list"
  active_case_ids :: "string list"
  ev_state :: string
  parent_evaluator_id :: "string option"

definition make_version :: "evaluator_version \<Rightarrow> evaluator_version res" where
  "make_version v =
     thenR (raise_if (\<not> is_uuid_text (evaluator_id v) \<or>
              (case parent_evaluator_id v of Some p \<Rightarrow> \<not> is_uuid_text p | None \<Rightarrow> False))
              EvaluatorEvolutionError ''evaluator identifier is malformed'')
     (thenR (raise_if (ev_kind v \<notin> {''article_scoring'', ''response_quality''} \<or>
              ev_state v \<notin> {''proposed'', ''shadow'', ''promoted'', ''reverted''})
              EvaluatorEvolutionError ''evaluator kind or state is malformed'')
     (thenR (raise_if (\<not> fullmatch ident_rx (ev_version v) \<or> \<not> fullmatch ident_rx (proposed_by v) \<or>
              \<not> fullmatch hex64_rx (definition_sha256 v))
              EvaluatorEvolutionError ''evaluator metadata is malformed'')
     (thenR (raise_if (frozen_case_ids v = [] \<or> \<not> distinct (frozen_case_ids v) \<or> \<not> distinct (active_case_ids v))
              EvaluatorEvolutionError ''evaluator case IDs are malformed'')
     (thenR (raise_if (list_ex (\<lambda>c. \<not> fullmatch ident_rx c) (frozen_case_ids v @ active_case_ids v))
              EvaluatorEvolutionError ''evaluator case ID is malformed'')
     (thenR (raise_if (\<not> list_all (\<lambda>c. c \<in> set (active_case_ids v)) (frozen_case_ids v))
              EvaluatorEvolutionError ''frozen cases cannot be removed'')
     (Inr v))))))"

text \<open>The digest of a set of case identifiers: sorted, one per line.\<close>

definition case_set_sha256 :: "string list \<Rightarrow> string" where
  "case_set_sha256 ids = sha256 (join [char_of (10 :: nat)] (sort ids))"

definition frozen_case_set_sha256 :: "evaluator_version \<Rightarrow> string" where
  "frozen_case_set_sha256 v = case_set_sha256 (frozen_case_ids v)"

definition active_case_set_sha256 :: "evaluator_version \<Rightarrow> string" where
  "active_case_set_sha256 v = case_set_sha256 (active_case_ids v)"

subsection \<open>Evaluation runs\<close>

record metrics =
  primary_quality :: rat
  safety_quality :: rat
  calibration_quality :: rat
  cost_efficiency :: rat
  evaluated_case_count :: int

definition make_metrics :: "fval \<Rightarrow> fval \<Rightarrow> fval \<Rightarrow> fval \<Rightarrow> int \<Rightarrow> metrics res" where
  "make_metrics p s c e n =
     thenR (raise_if (n < 1 \<or> \<not> list_all in_unit [p, s, c, e]) EvaluatorEvolutionError ''evaluation metrics are malformed'')
     (Inr \<lparr>primary_quality = rat_of p, safety_quality = rat_of s, calibration_quality = rat_of c,
           cost_efficiency = rat_of e, evaluated_case_count = n\<rparr>)"

definition metrics_json :: "metrics \<Rightarrow> string" where
  "metrics_json m = dumps compact_opts (sort_keys (JObj
     [(''primary_quality'', JFloat (float_repr (Fin (primary_quality m)))),
      (''safety_quality'', JFloat (float_repr (Fin (safety_quality m)))),
      (''calibration_quality'', JFloat (float_repr (Fin (calibration_quality m)))),
      (''cost_efficiency'', JFloat (float_repr (Fin (cost_efficiency m)))),
      (''evaluated_case_count'', JInt (evaluated_case_count m))]))"

record evaluation_run =
  run_id :: string
  run_evaluator_id :: string
  cohort_sha256 :: string
  assessor :: string
  assessor_role :: string
  run_metrics :: metrics

definition make_run :: "evaluation_run \<Rightarrow> evaluation_run res" where
  "make_run r =
     thenR (raise_if (\<not> is_uuid_text (run_id r) \<or> \<not> is_uuid_text (run_evaluator_id r) \<or> \<not> fullmatch hex64_rx (cohort_sha256 r))
              EvaluatorEvolutionError ''evaluation run identity is malformed'')
     (thenR (raise_if (\<not> fullmatch ident_rx (assessor r) \<or> assessor_role r \<notin> {''author'', ''independent_evaluator''})
              EvaluatorEvolutionError ''evaluation assessor is malformed'')
     (Inr r))"

subsection \<open>The transition gate\<close>

record evaluator_decision =
  decision_id :: string
  baseline_evaluator_id :: string
  candidate_evaluator_id :: string
  baseline_run_id :: string
  candidate_run_id :: string
  ev_decision :: string
  reason_codes :: "string list"
  policy_version :: string

definition make_decision :: "evaluator_decision \<Rightarrow> evaluator_decision res" where
  "make_decision d =
     thenR (raise_if (list_ex (\<lambda>i. \<not> is_uuid_text i) [decision_id d, baseline_evaluator_id d, candidate_evaluator_id d,
              baseline_run_id d, candidate_run_id d])
              EvaluatorEvolutionError ''decision identity is malformed'')
     (thenR (raise_if (ev_decision d \<notin> {''shadow'', ''promoted'', ''reverted''} \<or> reason_codes d = [] \<or>
              list_ex (\<lambda>c. \<not> fullmatch ident_rx c) (reason_codes d))
              EvaluatorEvolutionError ''decision metadata is malformed'')
     (Inr d))"

text \<open>The identifier is what \<open>uuid4\<close> returns.\<close>

definition decision_of ::
    "string \<Rightarrow> evaluator_version \<Rightarrow> evaluator_version \<Rightarrow> evaluation_run \<Rightarrow> evaluation_run \<Rightarrow> string \<Rightarrow> string \<Rightarrow> evaluator_decision res" where
  "decision_of fresh b c br cr dec reason = make_decision
     \<lparr>decision_id = fresh, baseline_evaluator_id = evaluator_id b, candidate_evaluator_id = evaluator_id c,
      baseline_run_id = run_id br, candidate_run_id = run_id cr, ev_decision = dec, reason_codes = [reason],
      policy_version = ''evaluator-evolution-v1''\<rparr>"

definition minimum_holdout_cases :: int where
  "minimum_holdout_cases = 20"

definition primary_improvement :: rat where
  "primary_improvement = 2 / 100"

definition decide_evaluator_transition ::
    "string \<Rightarrow> evaluator_version \<Rightarrow> evaluator_version \<Rightarrow> evaluation_run \<Rightarrow> evaluation_run \<Rightarrow> evaluator_decision res" where
  "decide_evaluator_transition fresh b c br cr =
     (let out = decision_of fresh b c br cr; bm = run_metrics br; cm = run_metrics cr in
      thenR (raise_if (ev_state b \<noteq> ''promoted'' \<or> parent_evaluator_id c \<noteq> Some (evaluator_id b) \<or> ev_kind c \<noteq> ev_kind b)
               EvaluatorEvolutionError ''candidate must extend one promoted evaluator of the same kind'')
      (thenR (raise_if (run_evaluator_id br \<noteq> evaluator_id b \<or> run_evaluator_id cr \<noteq> evaluator_id c)
               EvaluatorEvolutionError ''evaluation run is not linked to its evaluator'')
      (if cohort_sha256 br \<noteq> cohort_sha256 cr then out ''shadow'' ''cohort_not_comparable''
       else if \<not> list_all (\<lambda>i. i \<in> set (active_case_ids c)) (frozen_case_ids b) then out ''reverted'' ''frozen_cases_missing''
       else if assessor_role cr \<noteq> ''independent_evaluator'' \<or> assessor cr = proposed_by c
         then out ''shadow'' ''independent_evaluation_required''
       else if min (evaluated_case_count bm) (evaluated_case_count cm) < minimum_holdout_cases then out ''shadow'' ''holdout_too_small''
       else if safety_quality cm < safety_quality bm then out ''reverted'' ''safety_regression''
       else if primary_quality cm < primary_quality bm then out ''reverted'' ''primary_regression''
       else if primary_quality cm < primary_quality bm + primary_improvement then out ''shadow'' ''improvement_not_yet_material''
       else if calibration_quality cm < calibration_quality bm then out ''shadow'' ''calibration_not_improved''
       else out ''promoted'' ''independent_holdout_improvement'')))"

subsection \<open>Solution assets\<close>

record solution_asset =
  asset_id :: string
  asset_kind :: string
  asset_label :: string
  content_sha256 :: string
  asset_state :: string

definition make_asset :: "solution_asset \<Rightarrow> solution_asset res" where
  "make_asset a =
     thenR (raise_if (\<not> is_uuid_text (asset_id a) \<or>
              asset_kind a \<notin> {''architecture_pattern'', ''workflow_scheme'', ''code_component'', ''test_suite'', ''evaluator'', ''prompt_template''} \<or>
              asset_state a \<notin> {''candidate'', ''promoted'', ''watchlist'', ''retired''})
              SolutionMemoryError ''solution asset metadata is malformed'')
     (thenR (raise_if (\<not> fullmatch (line_rx 3 160) (asset_label a) \<or> \<not> fullmatch hex64_rx (content_sha256 a))
              SolutionMemoryError ''solution asset receipt is malformed'')
     (Inr a))"

record solution_outcome =
  outcome_asset_id :: string
  synthetic_run_sha256 :: string
  evaluator_run_id :: string
  outcome_kind :: string
  outcome_primary :: rat
  outcome_safety :: rat

definition make_outcome :: "string \<Rightarrow> string \<Rightarrow> string \<Rightarrow> string \<Rightarrow> fval \<Rightarrow> fval \<Rightarrow> solution_outcome res" where
  "make_outcome aid digest rid kind p s =
     thenR (raise_if (\<not> is_uuid_text aid \<or> \<not> is_uuid_text rid \<or> \<not> fullmatch hex64_rx digest)
              SolutionMemoryError ''solution outcome identity is malformed'')
     (thenR (raise_if (kind \<notin> {''success'', ''failure'', ''regression''} \<or> \<not> in_unit p \<or> \<not> in_unit s)
              SolutionMemoryError ''solution outcome is malformed'')
     (Inr \<lparr>outcome_asset_id = aid, synthetic_run_sha256 = digest, evaluator_run_id = rid, outcome_kind = kind,
           outcome_primary = rat_of p, outcome_safety = rat_of s\<rparr>))"

definition of_kind :: "string \<Rightarrow> solution_outcome list \<Rightarrow> solution_outcome list" where
  "of_kind k os = filter (\<lambda>i. outcome_kind i = k) os"

definition next_asset_state :: "solution_asset \<Rightarrow> solution_outcome list \<Rightarrow> string res" where
  "next_asset_state a outcomes =
     (let relevant = filter (\<lambda>i. outcome_asset_id i = asset_id a) outcomes in
      thenR (raise_if (length relevant \<noteq> length outcomes \<or> relevant = []) SolutionMemoryError ''outcomes must belong to exactly one asset'')
      (if 2 \<le> length (of_kind ''regression'' relevant) then Inr ''retired''
       else (let successful = of_kind ''success'' relevant in
         if 3 \<le> length successful \<and> list_all (\<lambda>i. 90 / 100 \<le> outcome_safety i) successful \<and>
            80 / 100 \<le> sum_list (map outcome_primary successful) / of_nat (length successful)
         then Inr ''promoted''
         else if list_ex (\<lambda>i. outcome_kind i \<in> {''failure'', ''regression''}) relevant then Inr ''watchlist''
         else Inr ''candidate'')))"

subsection \<open>The gate\<close>

lemma make_version_Inr: "make_version v = Inr w \<Longrightarrow> w = v"
  by (auto simp: make_version_def res_simps)

lemma make_decision_Inr: "make_decision d = Inr e \<Longrightarrow> e = d"
  by (auto simp: make_decision_def res_simps)

lemma decision_of_Inr: "decision_of f b c br cr dec reason = Inr d \<Longrightarrow> ev_decision d = dec \<and> reason_codes d = [reason]"
  by (auto simp: decision_of_def dest: make_decision_Inr)

lemma make_metrics_Inr:
  "make_metrics p s c e n = Inr m \<Longrightarrow> 0 \<le> primary_quality m \<and> primary_quality m \<le> 1 \<and> 0 \<le> safety_quality m \<and> safety_quality m \<le> 1
     \<and> 0 \<le> calibration_quality m \<and> calibration_quality m \<le> 1 \<and> 1 \<le> evaluated_case_count m"
  using in_unitD by (auto simp: make_metrics_def res_simps)

text \<open>What a promotion requires; the order of the gates decides only the reason.\<close>

definition promotable :: "evaluator_version \<Rightarrow> evaluator_version \<Rightarrow> evaluation_run \<Rightarrow> evaluation_run \<Rightarrow> bool" where
  "promotable b c br cr \<longleftrightarrow>
     ev_state b = ''promoted'' \<and> parent_evaluator_id c = Some (evaluator_id b) \<and> ev_kind c = ev_kind b \<and>
     run_evaluator_id br = evaluator_id b \<and> run_evaluator_id cr = evaluator_id c \<and>
     cohort_sha256 br = cohort_sha256 cr \<and> set (frozen_case_ids b) \<subseteq> set (active_case_ids c) \<and>
     assessor_role cr = ''independent_evaluator'' \<and> assessor cr \<noteq> proposed_by c \<and>
     20 \<le> evaluated_case_count (run_metrics br) \<and> 20 \<le> evaluated_case_count (run_metrics cr) \<and>
     safety_quality (run_metrics br) \<le> safety_quality (run_metrics cr) \<and>
     primary_quality (run_metrics br) + 2 / 100 \<le> primary_quality (run_metrics cr) \<and>
     calibration_quality (run_metrics br) \<le> calibration_quality (run_metrics cr)"

lemma subset_list_all: "list_all (\<lambda>i. i \<in> set ys) xs \<longleftrightarrow> set xs \<subseteq> set ys"
  by (auto simp: list_all_iff)

lemma decide_promotable:
  assumes "promotable b c br cr"
  shows "decide_evaluator_transition f b c br cr = decision_of f b c br cr ''promoted'' ''independent_holdout_improvement''"
proof -
  let ?bm = "run_metrics br" and ?cm = "run_metrics cr"
  have "\<not> min (evaluated_case_count ?bm) (evaluated_case_count ?cm) < 20" "\<not> safety_quality ?cm < safety_quality ?bm"
    "\<not> primary_quality ?cm < primary_quality ?bm" "\<not> primary_quality ?cm < primary_quality ?bm + 2 / 100"
    "\<not> calibration_quality ?cm < calibration_quality ?bm"
    using assms by (simp_all add: promotable_def not_less)
  then show ?thesis using assms
    by (simp only: decide_evaluator_transition_def Let_def minimum_holdout_cases_def primary_improvement_def)
       (simp add: promotable_def subset_list_all)
qed

lemma decide_not_promotable:
  assumes "decide_evaluator_transition f b c br cr = Inr d" "ev_decision d = ''promoted''"
  shows "promotable b c br cr"
proof -
  have no: "decision_of f b c br cr dec reason \<noteq> Inr d" if "dec \<noteq> ''promoted''" for dec reason
    using decision_of_Inr assms(2) that by fastforce
  have "ev_state b = ''promoted'' \<and> parent_evaluator_id c = Some (evaluator_id b) \<and> ev_kind c = ev_kind b"
    "run_evaluator_id br = evaluator_id b \<and> run_evaluator_id cr = evaluator_id c" "cohort_sha256 br = cohort_sha256 cr"
    "set (frozen_case_ids b) \<subseteq> set (active_case_ids c)" "assessor_role cr = ''independent_evaluator'' \<and> assessor cr \<noteq> proposed_by c"
    "\<not> min (evaluated_case_count (run_metrics br)) (evaluated_case_count (run_metrics cr)) < 20"
    "\<not> safety_quality (run_metrics cr) < safety_quality (run_metrics br)"
    "\<not> primary_quality (run_metrics cr) < primary_quality (run_metrics br) + 2 / 100"
    "\<not> calibration_quality (run_metrics cr) < calibration_quality (run_metrics br)"
    using assms(1) unfolding decide_evaluator_transition_def Let_def minimum_holdout_cases_def primary_improvement_def
    by (auto simp: res_simps no subset_list_all split: if_splits)
  then show ?thesis by (simp add: promotable_def not_less)
qed

end
