(* ===== verification/EvaluatorProps.thy ===== *)
theory EvaluatorProps
  imports ResponseQuality
begin

text \<open>
  Properties of the evaluator gate, the solution memory and the response contract: what a promotion
  requires and what it does not protect, how outcomes decide the state of an asset, the agreement
  of the diagnostics with the metrics, and the bounds of a live replay.
\<close>

subsection \<open>Promotions\<close>

text \<open>
  C14: a candidate evaluator is promoted only when every gate holds: it extends a promoted evaluator
  of its kind, each run belongs to its evaluator, it keeps the frozen cases active, was measured on the
  same cohort of at least twenty cases by someone other than its author, and is at least as safe and
  calibrated and better by two hundredths in quality. The decision names both evaluators and both runs.
\<close>

theorem promotion_requires_gates:
  assumes "decide_evaluator_transition f b c br cr = Inr d" "ev_decision d = ''promoted''"
  shows "ev_state b = ''promoted'' \<and> parent_evaluator_id c = Some (evaluator_id b) \<and> ev_kind c = ev_kind b \<and>
    run_evaluator_id br = evaluator_id b \<and> run_evaluator_id cr = evaluator_id c \<and>
    cohort_sha256 br = cohort_sha256 cr \<and> set (frozen_case_ids b) \<subseteq> set (active_case_ids c) \<and>
    assessor_role cr = ''independent_evaluator'' \<and> assessor cr \<noteq> proposed_by c \<and>
    20 \<le> evaluated_case_count (run_metrics br) \<and> 20 \<le> evaluated_case_count (run_metrics cr) \<and>
    safety_quality (run_metrics br) \<le> safety_quality (run_metrics cr) \<and>
    primary_quality (run_metrics br) + 2 / 100 \<le> primary_quality (run_metrics cr) \<and>
    calibration_quality (run_metrics br) \<le> calibration_quality (run_metrics cr) \<and>
    baseline_evaluator_id d = evaluator_id b \<and> candidate_evaluator_id d = evaluator_id c \<and>
    baseline_run_id d = run_id br \<and> candidate_run_id d = run_id cr"
  using decide_not_promotable [OF assms] decide_promotable [OF decide_not_promotable [OF assms]] assms(1)
  by (auto simp: promotable_def decision_of_def make_decision_def bindR_Inr_iff)

text \<open>Evaluators and runs of a concrete lineage.\<close>

definition uuid_n :: "nat \<Rightarrow> string" where
  "uuid_n n = hyphenate (hex32 n)"

lemma uuid_n_ok: "n < 2 ^ 128 \<Longrightarrow> is_uuid_text (uuid_n n)"
  by (simp add: is_uuid_text_def uuid_n_def uuid_str_hex32)

definition lineage_version :: "nat \<Rightarrow> string option \<Rightarrow> string list \<Rightarrow> string list \<Rightarrow> string \<Rightarrow> evaluator_version" where
  "lineage_version c parent frozen active st =
     \<lparr>evaluator_id = uuid_n c, ev_kind = ''response_quality'', ev_version = ''version_'' @ show_nat c, proposed_by = ''author_one'',
      definition_sha256 = replicate 64 CHR ''a'', frozen_case_ids = frozen, active_case_ids = active, ev_state = st,
      parent_evaluator_id = parent\<rparr>"

definition lineage_run :: "nat \<Rightarrow> nat \<Rightarrow> rat \<Rightarrow> evaluation_run" where
  "lineage_run r c q =
     \<lparr>run_id = uuid_n r, run_evaluator_id = uuid_n c, cohort_sha256 = replicate 64 CHR ''b'', assessor = ''judge_one'',
      assessor_role = ''independent_evaluator'',
      run_metrics = \<lparr>primary_quality = q, safety_quality = 1, calibration_quality = 1, cost_efficiency = 1, evaluated_case_count = 20\<rparr>\<rparr>"

definition first_version :: evaluator_version where
  "first_version = lineage_version 1 None [''case_kept'', ''case_lost''] [''case_kept'', ''case_lost''] ''promoted''"

definition second_version :: "string \<Rightarrow> evaluator_version" where
  "second_version st = lineage_version 2 (Some (uuid_n 1)) [''case_kept''] [''case_kept'', ''case_lost''] st"

definition third_version :: evaluator_version where
  "third_version = lineage_version 3 (Some (uuid_n 2)) [''case_kept''] [''case_kept''] ''proposed''"

lemma lineage_texts:
  "fullmatch ident_rx ''version_1''" "fullmatch ident_rx ''version_2''" "fullmatch ident_rx ''version_3''"
  "fullmatch ident_rx ''author_one''" "fullmatch ident_rx ''case_kept''" "fullmatch ident_rx ''case_lost''"
  "fullmatch ident_rx ''independent_holdout_improvement''"
  unfolding match_ident by code_simp+

lemma digest_a: "fullmatch hex64_rx (replicate 64 CHR ''a'')"
  by (simp only: match_hex64) code_simp

lemma show_small: "show_nat (Suc 0) = ''1''" "show_nat 2 = ''2''" "show_nat 3 = ''3''"
  by code_simp+

lemma lineage_made:
  "make_version first_version = Inr first_version" "make_version (second_version ''proposed'') = Inr (second_version ''proposed'')"
  "make_version third_version = Inr third_version"
  by (simp_all add: make_version_def first_version_def second_version_def third_version_def lineage_version_def uuid_n_ok
      lineage_texts digest_a show_small del: fullmatch.simps)

lemma lineage_promotable:
  "promotable first_version (second_version ''proposed'') (lineage_run 4 1 (80 / 100)) (lineage_run 5 2 (85 / 100))"
  "promotable (second_version ''promoted'') third_version (lineage_run 5 2 (85 / 100)) (lineage_run 6 3 (90 / 100))"
  by (simp_all add: promotable_def first_version_def second_version_def third_version_def lineage_version_def lineage_run_def)

lemma lineage_promoted:
  "\<exists>d. decide_evaluator_transition (uuid_n 7) first_version (second_version ''proposed'') (lineage_run 4 1 (80 / 100))
     (lineage_run 5 2 (85 / 100)) = Inr d \<and> ev_decision d = ''promoted''"
  "\<exists>d. decide_evaluator_transition (uuid_n 8) (second_version ''promoted'') third_version (lineage_run 5 2 (85 / 100))
     (lineage_run 6 3 (90 / 100)) = Inr d \<and> ev_decision d = ''promoted''"
  unfolding decide_promotable [OF lineage_promotable(1)] decide_promotable [OF lineage_promotable(2)]
  by (simp_all add: decision_of_def make_decision_def first_version_def second_version_def third_version_def lineage_version_def
      lineage_run_def uuid_n_ok lineage_texts del: fullmatch.simps)

text \<open>
  two promotions can remove a frozen case: the gate compares the frozen cases of the baseline
  with the active cases of the candidate, and a candidate may freeze fewer, so the next one may
  drop what the first had frozen.
\<close>

theorem frozen_case_lost_by_two_promotions:
  "\<exists>d1 d2. make_version first_version = Inr first_version \<and> make_version (second_version ''proposed'') = Inr (second_version ''proposed'') \<and>
     make_version third_version = Inr third_version \<and>
     decide_evaluator_transition (uuid_n 7) first_version (second_version ''proposed'')
       (lineage_run 4 1 (80 / 100)) (lineage_run 5 2 (85 / 100)) = Inr d1 \<and> ev_decision d1 = ''promoted'' \<and>
     decide_evaluator_transition (uuid_n 8) (second_version ''promoted'') third_version
       (lineage_run 5 2 (85 / 100)) (lineage_run 6 3 (90 / 100)) = Inr d2 \<and> ev_decision d2 = ''promoted'' \<and>
     ''case_lost'' \<in> set (frozen_case_ids first_version) \<and> ''case_lost'' \<notin> set (active_case_ids third_version)"
proof -
  have "''case_lost'' \<in> set (frozen_case_ids first_version)" "''case_lost'' \<notin> set (active_case_ids third_version)"
    by (simp_all add: first_version_def third_version_def lineage_version_def)
  then show ?thesis using lineage_made lineage_promoted by blast
qed

subsection \<open>Solution memory\<close>

lemma of_kind_append [simp]: "of_kind k (xs @ ys) = of_kind k xs @ of_kind k ys"
  by (simp add: of_kind_def)

lemma of_kind_replicate [simp]: "of_kind k (replicate n x) = (if outcome_kind x = k then replicate n x else [])"
  by (simp add: of_kind_def)

text \<open>When the outcomes all belong to the asset, what the state depends on.\<close>

lemma next_state_relevant:
  assumes "\<forall>i \<in> set os. outcome_asset_id i = asset_id a" "os \<noteq> []"
  shows "next_asset_state a os =
    (if 2 \<le> length (of_kind ''regression'' os) then Inr ''retired''
     else (let successful = of_kind ''success'' os in
       if 3 \<le> length successful \<and> list_all (\<lambda>i. 90 / 100 \<le> outcome_safety i) successful \<and>
          80 / 100 \<le> sum_list (map outcome_primary successful) / of_nat (length successful)
       then Inr ''promoted''
       else if list_ex (\<lambda>i. outcome_kind i \<in> {''failure'', ''regression''}) os then Inr ''watchlist'' else Inr ''candidate''))"
proof -
  have "filter (\<lambda>i. outcome_asset_id i = asset_id a) os = os" using assms(1) by simp
  then show ?thesis using assms(2) by (simp add: next_asset_state_def)
qed

lemma next_state_relevantD:
  assumes "next_asset_state a os = Inr st"
  shows "\<forall>i \<in> set os. outcome_asset_id i = asset_id a" "os \<noteq> []"
proof -
  have "length (filter (\<lambda>i. outcome_asset_id i = asset_id a) os) = length os" "os \<noteq> []"
    using assms by (auto simp: next_asset_state_def res_simps Let_def)
  moreover have "\<forall>i \<in> set os. outcome_asset_id i = asset_id a"
  proof
    fix i
    assume "i \<in> set os"
    then show "outcome_asset_id i = asset_id a"
      using calculation(1) length_filter_less [of i os "\<lambda>i. outcome_asset_id i = asset_id a"] by auto
  qed
  ultimately show "\<forall>i \<in> set os. outcome_asset_id i = asset_id a" "os \<noteq> []" by blast+
qed

text \<open>
  an asset that is promoted stays promoted whatever number of failures follows: failures count
  only against an asset that does not have its three successes.
\<close>

theorem failures_do_not_demote:
  assumes "next_asset_state a os = Inr ''promoted''" "outcome_asset_id f = asset_id a" "outcome_kind f = ''failure''"
  shows "next_asset_state a (os @ replicate n f) = Inr ''promoted''"
proof -
  have os: "\<forall>i \<in> set os. outcome_asset_id i = asset_id a" "os \<noteq> []" using next_state_relevantD [OF assms(1)] .
  then have "\<forall>i \<in> set (os @ replicate n f). outcome_asset_id i = asset_id a" "os @ replicate n f \<noteq> []" using assms(2) by auto
  then show ?thesis using assms(1,3)
    by (simp add: next_state_relevant os Let_def split: if_splits)
qed

text \<open>
  the outcome of one and the same run, recorded three times, promotes an asset: the runs behind
  the successes are not required to differ.
\<close>

theorem copies_of_one_run_promote:
  assumes "outcome_asset_id o1 = asset_id a" "outcome_kind o1 = ''success''" "90 / 100 \<le> outcome_safety o1"
    "80 / 100 \<le> outcome_primary o1" "3 \<le> n"
  shows "next_asset_state a (replicate n o1) = Inr ''promoted''"
proof -
  have "sum_list (map outcome_primary (replicate n o1)) = of_nat n * outcome_primary o1"
    by (simp add: sum_list_replicate)
  moreover have "list_all (\<lambda>i. 90 / 100 \<le> outcome_safety i) (replicate n o1)" using assms(3) by (simp add: list_all_length)
  ultimately show ?thesis using assms
    by (subst next_state_relevant) (simp_all add: Let_def)
qed

definition prompt_asset :: solution_asset where
  "prompt_asset = \<lparr>asset_id = uuid_n 1, asset_kind = ''prompt_template'', asset_label = ''prompts'',
     content_sha256 = replicate 64 CHR ''a'', asset_state = ''candidate''\<rparr>"

definition one_outcome :: "string \<Rightarrow> rat \<Rightarrow> solution_outcome" where
  "one_outcome k q = \<lparr>outcome_asset_id = uuid_n 1, synthetic_run_sha256 = replicate 64 CHR ''b'', evaluator_run_id = uuid_n 4,
     outcome_kind = k, outcome_primary = q, outcome_safety = q\<rparr>"

theorem copies_of_one_run_promote_witness:
  "next_asset_state prompt_asset (replicate 3 (one_outcome ''success'' 1)) = Inr ''promoted''"
  by (rule copies_of_one_run_promote) (simp_all add: prompt_asset_def one_outcome_def)

theorem failures_do_not_demote_witness:
  "next_asset_state prompt_asset (replicate 3 (one_outcome ''success'' 1) @ replicate 5 (one_outcome ''failure'' 0)) = Inr ''promoted''"
proof (rule failures_do_not_demote)
  show "next_asset_state prompt_asset (replicate 3 (one_outcome ''success'' 1)) = Inr ''promoted''"
    by (simp add: next_state_relevant prompt_asset_def one_outcome_def numeral_3_eq_3 of_kind_def)
qed (simp_all add: prompt_asset_def one_outcome_def)

theorem promotion_requires_gates_witness:
  "\<exists>d. decide_evaluator_transition (uuid_n 7) first_version (second_version ''proposed'') (lineage_run 4 1 (80 / 100))
       (lineage_run 5 2 (85 / 100)) = Inr d \<and> ev_decision d = ''promoted'' \<and>
     run_evaluator_id (lineage_run 5 2 (85 / 100)) = evaluator_id (second_version ''proposed'') \<and>
     set (frozen_case_ids first_version) \<subseteq> set (active_case_ids (second_version ''proposed''))"
proof -
  obtain d where d: "decide_evaluator_transition (uuid_n 7) first_version (second_version ''proposed'') (lineage_run 4 1 (80 / 100))
       (lineage_run 5 2 (85 / 100)) = Inr d" "ev_decision d = ''promoted''" using lineage_promoted(1) by blast
  show ?thesis using promotion_requires_gates [OF d] d by blast
qed

end
