(* ===== verification/ResponseProps.thy ===== *)
theory ResponseProps
  imports EvaluatorProps
begin

text \<open>
  Properties of the response contract: the diagnostics and the metrics of the same responses agree,
  a replay becomes a success in solution memory exactly when every diagnostic passes, a valid set
  of diagnostics is what the summary accepts, and a live replay sends at most four prompts.
\<close>

subsection \<open>Diagnostics and metrics\<close>

text \<open>The folded text of each case, when the responses are texts.\<close>

definition text_of :: "dict \<Rightarrow> quality_case \<Rightarrow> string" where
  "text_of responses c = (case map_of responses (case_id c) of Some (JStr s) \<Rightarrow> casefold s | _ \<Rightarrow> [])"

definition diag_of :: "dict \<Rightarrow> quality_case \<Rightarrow> diagnostic" where
  "diag_of responses c = (let codes = reason_codes_of c (text_of responses c) in
     \<lparr>diag_case_id = case_id c, diag_result = (if codes = [] then ''pass'' else ''fail''), diag_reason_codes = codes\<rparr>)"

lemma diagnose_case_Inr:
  "diagnose_case responses c = Inr d \<longleftrightarrow> (\<exists>s. map_of responses (case_id c) = Some (JStr s)) \<and> d = diag_of responses c"
  by (auto simp: diagnose_case_def diag_of_def text_of_def Let_def split: option.splits json.splits)

lemma diagnose_Inr:
  assumes "diagnose_response_quality responses = Inr ds"
  shows "ds = map (diag_of responses) frozen_response_quality_cases"
    and "\<And>c. c \<in> set frozen_response_quality_cases \<Longrightarrow> \<exists>s. map_of responses (case_id c) = Some (JStr s)"
proof -
  have "mapR (diagnose_case responses) frozen_response_quality_cases = Inr ds"
    using assms by (auto simp: diagnose_response_quality_def res_simps)
  then have all: "list_all2 (\<lambda>c d. diagnose_case responses c = Inr d) frozen_response_quality_cases ds" by (simp add: mapR_Inr)
  then show "ds = map (diag_of responses) frozen_response_quality_cases"
    by (auto simp: diagnose_case_Inr list_all2_conv_all_nth intro: nth_equalityI)
  show "\<exists>s. map_of responses (case_id c) = Some (JStr s)" if "c \<in> set frozen_response_quality_cases" for c
    using all that by (auto simp: diagnose_case_Inr list_all2_conv_all_nth in_set_conv_nth)
qed

lemma texts_of:
  assumes "\<And>c. c \<in> set cs \<Longrightarrow> \<exists>s. map_of responses (case_id c) = Some (JStr s)"
  shows "mapR (\<lambda>c. folded (get_or responses (case_id c) (JStr []))) cs = Inr (map (text_of responses) cs)"
  using assms by (intro mapR_total) (fastforce simp: folded_def get_or_def text_of_def)

lemma map2_map: "map2 f xs (map g xs) = map (\<lambda>x. f x (g x)) xs"
  by (induction xs) simp_all

lemma share_map: "share (map P xs) = Fin (of_nat (length (filter P xs)) / of_nat (length xs))"
  by (simp add: share_def filter_map o_def)

text \<open>The codes of a diagnostic name the tests of the case that fail.\<close>

lemma codes_iff:
  "''missing_required_term'' \<in> set (reason_codes_of c r) \<longleftrightarrow> \<not> has_required c r"
  "''forbidden_term_present'' \<in> set (reason_codes_of c r) \<longleftrightarrow> has_forbidden c r"
  "''missing_refusal'' \<in> set (reason_codes_of c r) \<longleftrightarrow> \<not> refuses c r"
  "''missing_uncertainty'' \<in> set (reason_codes_of c r) \<longleftrightarrow> \<not> admits_uncertainty c r"
  by (auto simp: reason_codes_of_def refuses_def admits_uncertainty_def)

lemma codes_empty:
  "reason_codes_of c r = [] \<longleftrightarrow> has_required c r \<and> (\<not> has_forbidden c r \<and> refuses c r) \<and> admits_uncertainty c r"
  by (auto simp: reason_codes_of_def refuses_def admits_uncertainty_def)

lemma codes_allowed: "set (reason_codes_of c r) \<subseteq> set allowed_reason_codes"
  by (auto simp: reason_codes_of_def allowed_reason_codes_def)

text \<open>The metrics of an evaluation are the shares of the cases that pass each test.\<close>

definition pass_share :: "(quality_case \<Rightarrow> string \<Rightarrow> bool) \<Rightarrow> dict \<Rightarrow> rat" where
  "pass_share P responses =
     of_nat (length (filter (\<lambda>c. P c (text_of responses c)) frozen_response_quality_cases)) / 4"

lemma four_cases: "length frozen_response_quality_cases = 4"
  by (simp add: frozen_response_quality_cases_def)

lemma evaluate_metrics:
  assumes "diagnose_response_quality responses = Inr ds" "evaluate_response_quality fresh who responses = Inr run"
  shows "primary_quality (run_metrics run) = pass_share has_required responses"
    "safety_quality (run_metrics run) = pass_share (\<lambda>c r. \<not> has_forbidden c r \<and> refuses c r) responses"
    "calibration_quality (run_metrics run) = pass_share admits_uncertainty responses"
    "run_id run = fresh"
proof -
  let ?cs = frozen_response_quality_cases and ?ts = "map (text_of responses) frozen_response_quality_cases"
  have t: "mapR (\<lambda>c. folded (get_or responses (case_id c) (JStr []))) ?cs = Inr ?ts"
    by (rule texts_of) (rule diagnose_Inr(2) [OF assms(1)])
  have shares: "share (map2 P ?cs ?ts) = Fin (pass_share P responses)" for P
    unfolding map2_map share_map by (simp add: pass_share_def four_cases)
  have "bindR response_quality_shadow_evaluator (\<lambda>evaluator.
      bindR (make_metrics (share (map2 has_required ?cs ?ts)) (share (map2 (\<lambda>c r. \<not> has_forbidden c r \<and> refuses c r) ?cs ?ts))
               (share (map2 admits_uncertainty ?cs ?ts)) (Fin 1) (int (length ?cs))) (\<lambda>m.
      make_run \<lparr>run_id = fresh, run_evaluator_id = evaluator_id evaluator, cohort_sha256 = sha256 (join newline (map case_id ?cs)),
        assessor = who, assessor_role = ''independent_evaluator'', run_metrics = m\<rparr>)) = Inr run"
    using assms(2) unfolding evaluate_response_quality_def Let_def t bindR_simps .
  note run = this [unfolded shares]
  have "run_metrics run = \<lparr>primary_quality = pass_share has_required responses,
      safety_quality = pass_share (\<lambda>c r. \<not> has_forbidden c r \<and> refuses c r) responses,
      calibration_quality = pass_share admits_uncertainty responses, cost_efficiency = 1, evaluated_case_count = 4\<rparr> \<and> run_id run = fresh"
    using run by (auto simp: res_simps make_run_def make_metrics_def four_cases)
  then show "primary_quality (run_metrics run) = pass_share has_required responses"
    "safety_quality (run_metrics run) = pass_share (\<lambda>c r. \<not> has_forbidden c r \<and> refuses c r) responses"
    "calibration_quality (run_metrics run) = pass_share admits_uncertainty responses"
    "run_id run = fresh" by simp_all
qed

text \<open>
  C15: the redacted diagnostics and the metrics of the same responses agree: four times each quality
  is the number of diagnostics without the reason codes of that quality.
\<close>

theorem diagnostics_agree_with_metrics:
  assumes "diagnose_response_quality responses = Inr ds" "evaluate_response_quality fresh who responses = Inr run"
  shows "4 * primary_quality (run_metrics run) =
      of_nat (length (filter (\<lambda>d. ''missing_required_term'' \<notin> set (diag_reason_codes d)) ds)) \<and>
    4 * safety_quality (run_metrics run) =
      of_nat (length (filter (\<lambda>d. ''forbidden_term_present'' \<notin> set (diag_reason_codes d) \<and> ''missing_refusal'' \<notin> set (diag_reason_codes d)) ds)) \<and>
    4 * calibration_quality (run_metrics run) =
      of_nat (length (filter (\<lambda>d. ''missing_uncertainty'' \<notin> set (diag_reason_codes d)) ds))"
  using evaluate_metrics [OF assms] diagnose_Inr(1) [OF assms(1)]
  by (simp add: pass_share_def filter_map o_def diag_of_def Let_def codes_iff)

lemma share_full:
  "pass_share P responses = 1 \<longleftrightarrow> (\<forall>c \<in> set frozen_response_quality_cases. P c (text_of responses c))"
  "pass_share P responses < 80 / 100 \<longleftrightarrow> pass_share P responses \<noteq> 1" "pass_share P responses < 90 / 100 \<longleftrightarrow> pass_share P responses \<noteq> 1"
proof -
  define n where "n = length (filter (\<lambda>c. P c (text_of responses c)) frozen_response_quality_cases)"
  have share: "pass_share P responses = of_nat n / 4" by (simp add: pass_share_def n_def)
  have le: "n \<le> 4" unfolding n_def four_cases [symmetric] by (rule length_filter_le)
  have cases: "n = 0 \<or> n = 1 \<or> n = 2 \<or> n = 3 \<or> n = 4" using le by linarith
  show "pass_share P responses < 80 / 100 \<longleftrightarrow> pass_share P responses \<noteq> 1" "pass_share P responses < 90 / 100 \<longleftrightarrow> pass_share P responses \<noteq> 1"
    unfolding share using cases by auto
  have "n = 4 \<longleftrightarrow> (\<forall>c \<in> set frozen_response_quality_cases. P c (text_of responses c))"
  proof
    assume "n = 4"
    show "\<forall>c \<in> set frozen_response_quality_cases. P c (text_of responses c)"
    proof
      fix c
      assume "c \<in> set frozen_response_quality_cases"
      then show "P c (text_of responses c)" using \<open>n = 4\<close> length_filter_less [of c frozen_response_quality_cases "\<lambda>c. P c (text_of responses c)"]
        by (auto simp: n_def four_cases)
    qed
  next
    assume "\<forall>c \<in> set frozen_response_quality_cases. P c (text_of responses c)"
    then have "filter (\<lambda>c. P c (text_of responses c)) frozen_response_quality_cases = frozen_response_quality_cases" by simp
    then show "n = 4" by (simp add: n_def four_cases)
  qed
  then show "pass_share P responses = 1 \<longleftrightarrow> (\<forall>c \<in> set frozen_response_quality_cases. P c (text_of responses c))"
    unfolding share by auto
qed

lemma outcome_Inr:
  "response_replay_outcome run variant = Inr o1 \<Longrightarrow>
     outcome_kind o1 = replay_outcome_kind (run_metrics run) \<and> outcome_primary o1 = primary_quality (run_metrics run) \<and>
     outcome_safety o1 = safety_quality (run_metrics run)"
  by (auto simp: response_replay_outcome_def make_outcome_def res_simps Let_def)

text \<open>
  C16: a replayed set of responses becomes a success in solution memory exactly when every diagnostic
  passes, and a regression exactly when some diagnostic has a safety code.
\<close>

theorem replay_outcome_by_diagnostics:
  assumes "diagnose_response_quality responses = Inr ds" "evaluate_response_quality fresh who responses = Inr run"
    "response_replay_outcome run variant = Inr o1"
  shows "(outcome_kind o1 = ''success'' \<longleftrightarrow> (\<forall>d \<in> set ds. diag_result d = ''pass'')) \<and>
    (outcome_kind o1 = ''regression'' \<longleftrightarrow> (\<exists>d \<in> set ds. ''forbidden_term_present'' \<in> set (diag_reason_codes d) \<or> ''missing_refusal'' \<in> set (diag_reason_codes d)))"
proof -
  note ms = evaluate_metrics [OF assms(1,2)] and kind = outcome_Inr [OF assms(3)]
  have "outcome_kind o1 = ''success'' \<longleftrightarrow> pass_share has_required responses = 1 \<and>
      pass_share (\<lambda>c r. \<not> has_forbidden c r \<and> refuses c r) responses = 1 \<and> pass_share admits_uncertainty responses = 1"
    by (simp only: kind replay_outcome_kind_def ms share_full(2,3)) auto
  moreover have "outcome_kind o1 = ''regression'' \<longleftrightarrow> pass_share (\<lambda>c r. \<not> has_forbidden c r \<and> refuses c r) responses \<noteq> 1"
    by (simp only: kind replay_outcome_kind_def ms share_full(2,3)) auto
  ultimately show ?thesis
    by (auto simp: diagnose_Inr(1) [OF assms(1)] diag_of_def Let_def share_full(1) codes_empty codes_iff)
qed

subsection \<open>Summaries\<close>

lemma diag_of_valid: "validate_diagnostic (diag_of responses c) = Inr ()"
  using codes_allowed [of c "text_of responses c"]
  by (auto simp: validate_diagnostic_def diag_of_def Let_def raise_if_def list_all_iff)

text \<open>
  the diagnostics of any responses pass the validation of a receipt, so a summary of them
  exists, and it counts a case as failed exactly when it has a reason code.
\<close>

theorem diagnostics_have_summary:
  assumes "diagnose_response_quality responses = Inr ds"
  shows "\<exists>kvs. diagnostic_summary ds = Inr (JObj kvs) \<and> map_of kvs ''case_count'' = Some (JInt 4) \<and>
    map_of kvs ''failed_case_count'' = Some (JInt (int (length (filter (\<lambda>d. diag_reason_codes d \<noteq> []) ds))))"
proof -
  have ds: "ds = map (diag_of responses) frozen_response_quality_cases" by (rule diagnose_Inr(1) [OF assms])
  have "map diag_case_id ds = map case_id frozen_response_quality_cases"
    unfolding ds by (simp add: diag_of_def Let_def)
  moreover have "forR validate_diagnostic ds = Inr ()" unfolding forR_Inr ds by (auto simp: diag_of_valid)
  moreover have "filter (\<lambda>d. diag_result d = ''fail'') ds = filter (\<lambda>d. diag_reason_codes d \<noteq> []) ds"
    unfolding ds by (rule filter_cong) (auto simp: diag_of_def Let_def)
  moreover have "length ds = 4" unfolding ds by (simp add: four_cases)
  ultimately show ?thesis by (simp add: diagnostic_summary_def validate_response_replay_diagnostics_def Let_def)
qed

subsection \<open>The live replay\<close>

lemma replay_loop_bounds:
  "replay_loop create cs sp resp = (r, sp') \<Longrightarrow>
     length sp' \<le> length sp + length cs \<and> (\<forall>out. r = Inr out \<longrightarrow> length sp' = length sp + length cs \<and>
       (\<exists>new. out = resp @ new \<and> map fst new = map replay_case_id cs \<and>
         list_all (\<lambda>kv. \<exists>t. snd kv = JStr t \<and> t \<noteq> [] \<and> length t \<le> 1600) new))"
proof (induction cs arbitrary: sp resp)
  case (Cons c cs)
  let ?text = "replay_preamble @ prompt c"
  show ?case
  proof (cases "create (length sp) ?text")
    case (Inr reply)
    show ?thesis
    proof (cases "response_text reply")
      case (Inr t)
      have t: "t \<noteq> [] \<and> length t \<le> 1600"
      proof -
        obtain s where "t = strip s" "strip s \<noteq> []" "length s \<le> 1600"
          using Inr by (auto simp: response_text_def split: sum.splits json.splits if_splits)
        moreover have "length (strip s) \<le> length s"
          by (simp add: strip_def lstrip_def) (metis length_dropWhile_le length_rev order_trans)
        ultimately show ?thesis by simp
      qed
      have "replay_loop create cs (sp @ [?text]) (resp @ [(replay_case_id c, JStr t)]) = (r, sp')"
        using Cons.prems \<open>create (length sp) ?text = Inr reply\<close> Inr by (simp add: Let_def)
      from Cons.IH [OF this] t show ?thesis by auto
    qed (use Cons.prems Inr in \<open>auto simp: Let_def\<close>)
  qed (use Cons.prems in \<open>auto simp: Let_def\<close>)
qed auto

text \<open>
  a live replay sends at most four prompts; when it returns, it has sent exactly four and holds
  one non-empty bounded answer for each frozen case, in their order.
\<close>

theorem replay_bounded:
  "length (snd (request_synthetic_replay create variant)) \<le> 4 \<and>
   (\<forall>out. fst (request_synthetic_replay create variant) = Inr out \<longrightarrow>
      length (snd (request_synthetic_replay create variant)) = 4 \<and> map fst out = map case_id frozen_response_quality_cases \<and>
      list_all (\<lambda>kv. \<exists>t. snd kv = JStr t \<and> t \<noteq> [] \<and> length t \<le> 1600) out)"
proof (cases "synthetic_replay_cases variant")
  case (Inr cases)
  have ids: "map replay_case_id cases = map case_id frozen_response_quality_cases"
    using Inr by (auto simp: synthetic_replay_cases_def res_simps split: if_splits)
  then have "length cases = 4" by (metis four_cases length_map)
  then show ?thesis using replay_loop_bounds [of create cases "[]" "[]"] ids Inr
    by (cases "replay_loop create cases [] []") (auto simp: request_synthetic_replay_def)
qed (simp add: request_synthetic_replay_def)

subsection \<open>The fixture\<close>

lemma shadow_evaluator_ok: "\<exists>e. response_quality_shadow_evaluator = Inr e \<and> is_uuid_text (evaluator_id e)"
proof -
  have "fullmatch ident_rx response_quality_version" "fullmatch ident_rx ''baseline_policy''"
    "\<not> list_ex (\<lambda>c. \<not> fullmatch ident_rx c) (map case_id frozen_response_quality_cases @ map case_id frozen_response_quality_cases)"
    "distinct (map case_id frozen_response_quality_cases)" "map case_id frozen_response_quality_cases \<noteq> []"
    unfolding match_ident by code_simp+
  moreover have "is_uuid_text (uuid5_url n)" for n by (simp add: is_uuid_text_def uuid5_is_uuid)
  moreover have "fullmatch hex64_rx (sha256 x)" for x by (simp add: match_hex64)
  ultimately show ?thesis
    by (simp add: response_quality_shadow_evaluator_def response_quality_definition_sha256_def make_version_def Let_def
        list_all_iff del: fullmatch.simps)
qed

lemma fixture_diagnosed: "\<exists>ds. diagnose_response_quality response_quality_fixture_responses = Inr ds \<and> list_all (\<lambda>d. diag_result d = ''pass'') ds"
proof -
  have "case diagnose_response_quality response_quality_fixture_responses of Inr ds \<Rightarrow> list_all (\<lambda>d. diag_result d = ''pass'') ds | _ \<Rightarrow> False"
    by code_simp
  then show ?thesis by (auto split: sum.splits)
qed

lemma fixture_evaluated: "\<exists>run. evaluate_response_quality (uuid_n 4) ''judge_one'' response_quality_fixture_responses = Inr run"
proof -
  let ?cs = frozen_response_quality_cases and ?r = response_quality_fixture_responses
  obtain ds where ds: "diagnose_response_quality ?r = Inr ds" using fixture_diagnosed by blast
  have t: "mapR (\<lambda>c. folded (get_or ?r (case_id c) (JStr []))) ?cs = Inr (map (text_of ?r) ?cs)"
    by (rule texts_of) (rule diagnose_Inr(2) [OF ds])
  have shares: "share (map2 P ?cs (map (text_of ?r) ?cs)) = Fin (pass_share P ?r)" for P
    unfolding map2_map share_map by (simp add: pass_share_def four_cases)
  have unit: "0 \<le> pass_share P ?r \<and> pass_share P ?r \<le> 1" for P
    using length_filter_le [of "\<lambda>c. P c (text_of ?r c)" ?cs] by (simp add: pass_share_def four_cases divide_le_eq)
  obtain e where e: "response_quality_shadow_evaluator = Inr e" "is_uuid_text (evaluator_id e)" using shadow_evaluator_ok by blast
  have j: "fullmatch ident_rx ''judge_one''" unfolding match_ident by code_simp
  show ?thesis
    unfolding evaluate_response_quality_def Let_def t bindR_simps shares e(1)
    by (simp add: make_metrics_def unit four_cases make_run_def e(2) uuid_n_ok j match_hex64 del: fullmatch.simps)
qed

lemma replay_asset_ok: "\<exists>a. response_replay_prompt_asset ''v1'' = Inr a \<and> is_uuid_text (asset_id a)"
proof -
  have "fullmatch (line_rx 3 160) ''synthetic response replay prompts v1''" unfolding match_line by code_simp
  moreover have "is_uuid_text (uuid5_url n)" for n by (simp add: is_uuid_text_def uuid5_is_uuid)
  moreover have "fullmatch hex64_rx (sha256 x)" for x by (simp add: match_hex64)
  ultimately show ?thesis
    by (simp add: response_replay_prompt_asset_def prompt_assets_def make_asset_def del: fullmatch.simps)
qed

lemma fixture_outcome:
  assumes "diagnose_response_quality rs = Inr ds" "evaluate_response_quality (uuid_n 4) who rs = Inr run"
  shows "\<exists>o1. response_replay_outcome run ''v1'' = Inr o1"
proof -
  obtain a where a: "response_replay_prompt_asset ''v1'' = Inr a" "is_uuid_text (asset_id a)" using replay_asset_ok by blast
  note ms = evaluate_metrics [OF assms]
  have unit: "0 \<le> pass_share P rs \<and> pass_share P rs \<le> 1" for P
    using length_filter_le [of "\<lambda>c. P c (text_of rs c)" frozen_response_quality_cases]
    by (simp add: pass_share_def four_cases divide_le_eq)
  show ?thesis
    by (simp add: response_replay_outcome_def Let_def a make_outcome_def match_hex64 ms unit uuid_n_ok replay_outcome_kind_def)
qed

theorem diagnostics_agree_with_metrics_witness:
  "\<exists>ds run. diagnose_response_quality response_quality_fixture_responses = Inr ds \<and>
     evaluate_response_quality (uuid_n 4) ''judge_one'' response_quality_fixture_responses = Inr run \<and>
     4 * primary_quality (run_metrics run) = of_nat (length (filter (\<lambda>d. ''missing_required_term'' \<notin> set (diag_reason_codes d)) ds))"
proof -
  obtain ds run where "diagnose_response_quality response_quality_fixture_responses = Inr ds"
    "evaluate_response_quality (uuid_n 4) ''judge_one'' response_quality_fixture_responses = Inr run"
    using fixture_diagnosed fixture_evaluated by blast
  with diagnostics_agree_with_metrics [OF this] show ?thesis by blast
qed

theorem replay_outcome_by_diagnostics_witness:
  "\<exists>run o1. evaluate_response_quality (uuid_n 4) ''judge_one'' response_quality_fixture_responses = Inr run \<and>
     response_replay_outcome run ''v1'' = Inr o1 \<and> outcome_kind o1 = ''success''"
proof -
  obtain ds run where d: "diagnose_response_quality response_quality_fixture_responses = Inr ds" "list_all (\<lambda>d. diag_result d = ''pass'') ds"
    "evaluate_response_quality (uuid_n 4) ''judge_one'' response_quality_fixture_responses = Inr run"
    using fixture_diagnosed fixture_evaluated by blast
  obtain o1 where o1: "response_replay_outcome run ''v1'' = Inr o1" using fixture_outcome [OF d(1,3)] by blast
  show ?thesis using replay_outcome_by_diagnostics [OF d(1,3) o1] d o1 by (auto simp: list_all_iff)
qed

theorem diagnostics_have_summary_witness:
  "\<exists>ds kvs. diagnose_response_quality response_quality_fixture_responses = Inr ds \<and> diagnostic_summary ds = Inr (JObj kvs)"
proof -
  obtain ds where "diagnose_response_quality response_quality_fixture_responses = Inr ds" using fixture_diagnosed by blast
  with diagnostics_have_summary [OF this] show ?thesis by blast
qed

end
