(* ===== verification/SemanticHoldout.thy ===== *)
theory SemanticHoldout
  imports Evaluators GigaChatClient
begin

text \<open>
  The gate of the sealed response holdout (\<open>semantic_holdout_gate.py\<close>): the signed aggregate
  receipt with the checks of its constructor, its reading from JSON, the HMAC of its payload and
  the evaluation run a verified receipt becomes.
\<close>

definition semantic_holdout_version :: string where
  "semantic_holdout_version = ''semantic_holdout_v1''"

definition semantic_holdout_case_ids :: "string list" where
  "semantic_holdout_case_ids = map (\<lambda>n. ''sealed_semantic_'' @ two_digits n) [1..<21]"

definition semantic_holdout_case_set_sha256 :: string where
  "semantic_holdout_case_set_sha256 = sha256 (join [char_of (10 :: nat)] semantic_holdout_case_ids)"

definition semantic_holdout_definition_sha256 :: string where
  "semantic_holdout_definition_sha256 = sha256 (join [char_of (10 :: nat)]
     [semantic_holdout_version, semantic_holdout_case_set_sha256, ''signed_aggregate_receipt_only'',
      ''no_prompts_outputs_rationales_or_per_case_results''])"

definition semantic_holdout_evaluator :: "evaluator_version res" where
  "semantic_holdout_evaluator =
     (let digest = semantic_holdout_definition_sha256 in
      make_version \<lparr>evaluator_id = uuid5_url (''neurolab/response_quality/'' @ semantic_holdout_version @ ''/'' @ digest),
        ev_kind = ''response_quality'', ev_version = semantic_holdout_version, proposed_by = ''semantic_holdout_policy'',
        definition_sha256 = digest, frozen_case_ids = semantic_holdout_case_ids, active_case_ids = semantic_holdout_case_ids,
        ev_state = ''shadow'', parent_evaluator_id = None\<rparr>)"

subsection \<open>Receipts\<close>

record holdout_receipt =
  judge_id :: string
  judge_model_sha256 :: string
  candidate_artifact_sha256 :: string
  candidate_model_sha256 :: string
  receipt_case_set_sha256 :: string
  receipt_case_count :: int
  receipt_primary :: fval
  receipt_safety :: fval
  receipt_calibration :: fval
  signature_sha256 :: string

definition make_receipt :: "holdout_receipt \<Rightarrow> holdout_receipt res" where
  "make_receipt r =
     thenR (raise_if (\<not> fullmatch ident_rx (judge_id r)) SemanticHoldoutError ''judge identifier is malformed'')
     (thenR (raise_if (list_ex (\<lambda>h. \<not> fullmatch hex64_rx h)
              [judge_model_sha256 r, candidate_artifact_sha256 r, candidate_model_sha256 r, receipt_case_set_sha256 r, signature_sha256 r])
              SemanticHoldoutError ''receipt hash is malformed'')
     (thenR (raise_if (receipt_case_set_sha256 r \<noteq> semantic_holdout_case_set_sha256)
              SemanticHoldoutError ''receipt does not use the sealed semantic holdout'')
     (thenR (raise_if (receipt_case_count r \<noteq> int (length semantic_holdout_case_ids))
              SemanticHoldoutError ''receipt must cover every sealed semantic case'')
     (thenR (raise_if (judge_model_sha256 r = candidate_model_sha256 r)
              SemanticHoldoutError ''judge model must be distinct from candidate model'')
     (thenR (raise_if (\<not> list_all in_unit [receipt_primary r, receipt_safety r, receipt_calibration r])
              SemanticHoldoutError ''receipt metrics are malformed'')
     (Inr r))))))"

definition unsigned_payload :: "holdout_receipt \<Rightarrow> dict" where
  "unsigned_payload r =
     [(''candidate_artifact_sha256'', JStr (candidate_artifact_sha256 r)), (''candidate_model_sha256'', JStr (candidate_model_sha256 r)),
      (''calibration_quality'', JFloat (float_repr (receipt_calibration r))), (''case_set_sha256'', JStr (receipt_case_set_sha256 r)),
      (''evaluated_case_count'', JInt (receipt_case_count r)), (''judge_id'', JStr (judge_id r)),
      (''judge_model_sha256'', JStr (judge_model_sha256 r)), (''primary_quality'', JFloat (float_repr (receipt_primary r))),
      (''safety_quality'', JFloat (float_repr (receipt_safety r)))]"

definition receipt_fields :: "string list" where
  "receipt_fields = [''judge_id'', ''judge_model_sha256'', ''candidate_artifact_sha256'', ''candidate_model_sha256'', ''case_set_sha256'',
     ''evaluated_case_count'', ''primary_quality'', ''safety_quality'', ''calibration_quality'', ''signature_sha256'']"

text \<open>\<open>cls(...)\<close>: the conversions in the order of the arguments, then the constructor.\<close>

definition receipt_of :: "dict \<Rightarrow> holdout_receipt res" where
  "receipt_of d =
     bindR (json_int (jget d ''evaluated_case_count'')) (\<lambda>n.
     bindR (json_float (jget d ''primary_quality'')) (\<lambda>p.
     bindR (json_float (jget d ''safety_quality'')) (\<lambda>s.
     bindR (json_float (jget d ''calibration_quality'')) (\<lambda>c.
     make_receipt
       \<lparr>judge_id = py_str (jget d ''judge_id''), judge_model_sha256 = py_str (jget d ''judge_model_sha256''),
        candidate_artifact_sha256 = py_str (jget d ''candidate_artifact_sha256''),
        candidate_model_sha256 = py_str (jget d ''candidate_model_sha256''),
        receipt_case_set_sha256 = py_str (jget d ''case_set_sha256''), receipt_case_count = n,
        receipt_primary = p, receipt_safety = s, receipt_calibration = c,
        signature_sha256 = py_str (jget d ''signature_sha256'')\<rparr>))))"

text \<open>The except clause of the constructor call: the classes it names are one error.\<close>

definition malformed_fields :: "'a res \<Rightarrow> 'a res" where
  "malformed_fields r = (case r of
     Inl e \<Rightarrow> if is_a e KeyError \<or> is_a e TypeError \<or> is_a e ValueError
       then raise SemanticHoldoutError ''receipt fields are malformed'' else Inl e
   | Inr x \<Rightarrow> Inr x)"

definition receipt_from_json :: "string \<Rightarrow> holdout_receipt res" where
  "receipt_from_json raw =
     bindR (reraise JSONDecodeError SemanticHoldoutError ''receipt is not JSON'' (loads raw)) (\<lambda>value.
     case value of
       JObj d \<Rightarrow> if set (map fst d) \<noteq> set receipt_fields
         then raise SemanticHoldoutError ''receipt fields are not allowlisted''
         else malformed_fields (receipt_of d)
     | _ \<Rightarrow> raise SemanticHoldoutError ''receipt fields are not allowlisted'')"

subsection \<open>Verification\<close>

definition sign_semantic_holdout_payload :: "dict \<Rightarrow> string \<Rightarrow> string res" where
  "sign_semantic_holdout_payload payload key =
     thenR (raise_if (key = []) SemanticHoldoutError ''sealed receipt signing key is required'')
     (Inr (hmac_sha256 (utf8 key) (utf8 (dumps compact_opts (sort_keys (JObj payload))))))"

definition verified_semantic_holdout_run ::
    "string \<Rightarrow> holdout_receipt \<Rightarrow> string \<Rightarrow> string \<Rightarrow> string \<Rightarrow> evaluation_run res" where
  "verified_semantic_holdout_run fresh r key artifact model_sha =
     thenR (raise_if (candidate_artifact_sha256 r \<noteq> artifact)
              SemanticHoldoutError ''receipt candidate artifact does not match the evaluated asset'')
     (thenR (raise_if (candidate_model_sha256 r \<noteq> model_sha)
              SemanticHoldoutError ''receipt candidate model does not match the evaluated model'')
     (bindR (sign_semantic_holdout_payload (unsigned_payload r) key) (\<lambda>expected.
     thenR (raise_if (signature_sha256 r \<noteq> expected) SemanticHoldoutError ''receipt signature is invalid'')
     (bindR semantic_holdout_evaluator (\<lambda>evaluator.
     bindR (make_metrics (receipt_primary r) (receipt_safety r) (receipt_calibration r) (Fin 1) (receipt_case_count r)) (\<lambda>m.
     make_run \<lparr>run_id = fresh, run_evaluator_id = evaluator_id evaluator, cohort_sha256 = receipt_case_set_sha256 r,
       assessor = judge_id r, assessor_role = ''independent_evaluator'', run_metrics = m\<rparr>))))))"

subsection \<open>Properties\<close>

lemma twenty_cases: "length semantic_holdout_case_ids = 20"
  by (simp add: semantic_holdout_case_ids_def)

lemma make_receipt_Inr:
  "make_receipt r = Inr r' \<longleftrightarrow> r' = r \<and> fullmatch ident_rx (judge_id r) \<and>
     list_all (fullmatch hex64_rx) [judge_model_sha256 r, candidate_artifact_sha256 r, candidate_model_sha256 r, receipt_case_set_sha256 r, signature_sha256 r] \<and>
     receipt_case_set_sha256 r = semantic_holdout_case_set_sha256 \<and> receipt_case_count r = 20 \<and>
     judge_model_sha256 r \<noteq> candidate_model_sha256 r \<and> list_all in_unit [receipt_primary r, receipt_safety r, receipt_calibration r]"
  by (auto simp: make_receipt_def res_simps twenty_cases)

lemma holdout_evaluator_ok: "\<exists>e. semantic_holdout_evaluator = Inr e \<and> is_uuid_text (evaluator_id e) \<and> ev_state e = ''shadow''"
proof -
  have "fullmatch ident_rx semantic_holdout_version" "fullmatch ident_rx ''semantic_holdout_policy''"
    "\<not> list_ex (\<lambda>c. \<not> fullmatch ident_rx c) semantic_holdout_case_ids"
    "distinct semantic_holdout_case_ids" "semantic_holdout_case_ids \<noteq> []"
    unfolding match_ident by code_simp+
  moreover have "is_uuid_text (uuid5_url n)" for n by (simp add: is_uuid_text_def uuid5_is_uuid)
  moreover have "fullmatch hex64_rx (sha256 x)" for x by (simp add: match_hex64)
  ultimately show ?thesis
    by (simp add: semantic_holdout_evaluator_def semantic_holdout_definition_sha256_def make_version_def Let_def list_all_iff
        del: fullmatch.simps)
qed

text \<open>
  C17: a receipt becomes an evaluation run exactly when it names the expected artifact and model and
  carries the HMAC of its payload under a key that is not empty; the run then covers the twenty
  cases, with the metrics of the receipt, judged by a model other than the candidate.
\<close>

theorem holdout_run_iff_signed:
  assumes "make_receipt r0 = Inr r" "is_uuid_text fresh"
  shows "(\<exists>run. verified_semantic_holdout_run fresh r key artifact model_sha = Inr run \<and>
      evaluated_case_count (run_metrics run) = 20 \<and> primary_quality (run_metrics run) = rat_of (receipt_primary r) \<and>
      safety_quality (run_metrics run) = rat_of (receipt_safety r) \<and> assessor run = judge_id r \<and>
      judge_model_sha256 r \<noteq> model_sha) \<longleftrightarrow>
    candidate_artifact_sha256 r = artifact \<and> candidate_model_sha256 r = model_sha \<and> key \<noteq> [] \<and>
    signature_sha256 r = hmac_sha256 (utf8 key) (utf8 (dumps compact_opts (sort_keys (JObj (unsigned_payload r)))))"
proof -
  obtain e where e: "semantic_holdout_evaluator = Inr e" "is_uuid_text (evaluator_id e)" using holdout_evaluator_ok by blast
  have r: "fullmatch ident_rx (judge_id r)" "fullmatch hex64_rx (receipt_case_set_sha256 r)" "receipt_case_count r = 20"
    "judge_model_sha256 r \<noteq> candidate_model_sha256 r" "in_unit (receipt_primary r)" "in_unit (receipt_safety r)" "in_unit (receipt_calibration r)"
    using assms(1) by (auto simp: make_receipt_Inr)
  show ?thesis using r
    by (auto simp: verified_semantic_holdout_run_def sign_semantic_holdout_payload_def res_simps e make_metrics_def
        make_run_def assms(2) simp del: dumps.simps sort_keys.simps fullmatch.simps)
qed

lemma json_float_errors: "json_float j = Inl e \<Longrightarrow> exn_class e \<in> {OverflowError, ValueError, TypeError}"
  by (auto simp: json_float_def split: json.splits option.splits fval.splits)

lemma json_int_errors: "json_int j = Inl e \<Longrightarrow> exn_class e \<in> {OverflowError, ValueError, TypeError}"
  by (auto simp: json_int_def split: json.splits option.splits fval.splits)

lemma make_receipt_errors: "make_receipt r = Inl e \<Longrightarrow> exn_class e = SemanticHoldoutError"
  by (auto simp: make_receipt_def res_simps)

lemma receipt_of_errors: "receipt_of d = Inl e \<Longrightarrow> exn_class e \<in> {OverflowError, ValueError, TypeError, SemanticHoldoutError}"
  unfolding receipt_of_def
  by (auto simp: res_simps dest!: json_float_errors json_int_errors make_receipt_errors)

lemma loads_error: "loads raw = Inl e \<Longrightarrow> exn_class e = JSONDecodeError"
  by (auto simp: loads_def split: option.splits prod.splits if_splits)

lemma read_error_class:
  assumes "receipt_from_json raw = Inl e"
  shows "exn_class e \<in> {SemanticHoldoutError, OverflowError}"
proof (cases "loads raw")
  case (Inl e')
  then show ?thesis using assms loads_error [OF Inl] by (auto simp: receipt_from_json_def reraise_def is_a_def)
next
  case (Inr j)
  then show ?thesis using assms
    by (auto simp: receipt_from_json_def reraise_def malformed_fields_def is_a_def
        split: json.splits if_splits sum.splits dest!: receipt_of_errors)
qed

text \<open>A receipt whose quality is an integer beyond the range of floats.\<close>

definition huge_fields :: dict where
  "huge_fields = map (\<lambda>k. (k, if k = ''primary_quality'' then JInt (10 ^ 400) else JInt 20)) receipt_fields"

lemma huge_overflows: "receipt_of huge_fields = raise OverflowError ''int too large to convert to float''"
proof -
  have "jget huge_fields ''evaluated_case_count'' = JInt 20" "jget huge_fields ''primary_quality'' = JInt (10 ^ 400)"
    by (simp_all add: huge_fields_def receipt_fields_def jget_def)
  moreover have "json_float (JInt (10 ^ 400)) = raise OverflowError ''int too large to convert to float''"
    by (simp add: json_float_def as_double_def)
  ultimately show ?thesis by (simp add: receipt_of_def json_int_def)
qed

lemma huge_read: "receipt_from_json (dumps default_opts (JObj huge_fields)) = raise OverflowError ''int too large to convert to float''"
proof -
  have "plain (JObj huge_fields)" by (simp add: huge_fields_def receipt_fields_def)
  then have "loads (dumps default_opts (JObj huge_fields)) = Inr (JObj huge_fields)" by (intro loads_dumps) simp_all
  moreover have "set (map fst huge_fields) = set receipt_fields" by (simp add: huge_fields_def)
  ultimately show ?thesis
    by (simp add: receipt_from_json_def reraise_def huge_overflows malformed_fields_def is_a_def del: dumps.simps)
qed

text \<open>
  reading a receipt raises only the error of this module or an OverflowError, and it does raise
  the latter, for a number beyond the range of floats, although the clause around the conversions
  means to turn every malformed field into a receipt error.
\<close>

theorem receipt_read_errors:
  "(receipt_from_json raw = Inl e \<longrightarrow> exn_class e \<in> {SemanticHoldoutError, OverflowError}) \<and>
   (\<exists>text m. receipt_from_json text = raise OverflowError m)"
  using read_error_class huge_read by blast

theorem receipt_read_errors_witness:
  "exn_class (Exn SemanticHoldoutError ''receipt is not JSON'') \<in> {SemanticHoldoutError, OverflowError}"
proof -
  have "receipt_from_json [] = Inl (Exn SemanticHoldoutError ''receipt is not JSON'')" by code_simp
  then show ?thesis using receipt_read_errors by blast
qed

definition sealed_receipt :: "string \<Rightarrow> holdout_receipt" where
  "sealed_receipt sig =
     \<lparr>judge_id = ''judge_one'', judge_model_sha256 = replicate 64 CHR ''a'', candidate_artifact_sha256 = replicate 64 CHR ''b'',
      candidate_model_sha256 = replicate 64 CHR ''c'', receipt_case_set_sha256 = semantic_holdout_case_set_sha256,
      receipt_case_count = 20, receipt_primary = Fin 1, receipt_safety = Fin 1, receipt_calibration = Fin 1, signature_sha256 = sig\<rparr>"

theorem holdout_run_iff_signed_witness:
  "\<exists>r run. verified_semantic_holdout_run (hyphenate (hex32 7)) r ''key'' (replicate 64 CHR ''b'') (replicate 64 CHR ''c'') = Inr run \<and>
     evaluated_case_count (run_metrics run) = 20"
proof -
  let ?sig = "hmac_sha256 (utf8 ''key'') (utf8 (dumps compact_opts (sort_keys (JObj (unsigned_payload (sealed_receipt []))))))"
  have same: "unsigned_payload (sealed_receipt x) = unsigned_payload (sealed_receipt [])" for x
    by (simp add: unsigned_payload_def sealed_receipt_def)
  have "list_all is_hex_lower (replicate 64 c)" if "is_hex_lower c" for c using that by (simp add: list_all_length)
  moreover have "is_hex_lower CHR ''a''" "is_hex_lower CHR ''b''" "is_hex_lower CHR ''c''" by code_simp+
  moreover have "fullmatch ident_rx ''judge_one''" unfolding match_ident by code_simp
  moreover have "replicate 64 CHR ''a'' \<noteq> replicate 64 CHR ''c''" by (simp add: replicate_eq_replicate)
  ultimately have r: "make_receipt (sealed_receipt ?sig) = Inr (sealed_receipt ?sig)"
    by (simp add: make_receipt_Inr sealed_receipt_def match_hex64 hmac_form semantic_holdout_case_set_sha256_def
        del: fullmatch.simps dumps.simps sort_keys.simps)
  have "is_uuid_text (hyphenate (hex32 7))" by (simp add: is_uuid_text_def uuid_str_hex32)
  from holdout_run_iff_signed [OF r this, of "''key''" "replicate 64 CHR ''b''" "replicate 64 CHR ''c''"]
  show ?thesis by (auto simp: same [of ?sig] simp del: dumps.simps sort_keys.simps) (auto simp: sealed_receipt_def)
qed

end
