(* ===== verification/CardProps.thy ===== *)
theory CardProps
  imports DiagramCards
begin

text \<open>
  Properties of the cards: the windows partition the pages that have text and lose what is beyond
  their limit, an answer of a model becomes a card only within every bound, and the shortlist of
  diagram pages is bounded and sorted.
\<close>

subsection \<open>Windows\<close>

lemma starts_bound:
  assumes "0 < k" "s \<in> set (starts n k)"
  shows "s < n" "k dvd s"
proof -
  obtain i where i: "i < (n + k - 1) div k" "s = i * k" using assms(2) by (auto simp: starts_def)
  have "(i + 1) * k \<le> (n + k - 1) div k * k" using i(1) by (intro mult_right_mono) simp_all
  also have "\<dots> \<le> n + k - 1" by (rule div_times_less_eq_dividend)
  finally have "i * k + k \<le> n + k - 1" by simp
  then show "s < n" using assms(1) i(2) by linarith
  show "k dvd s" using i(2) by simp
qed

lemma starts_cover:
  assumes "0 < k" "p < n"
  shows "p div k * k \<in> set (starts n k)"
proof -
  have "n + k - 1 = (n - 1) + k" using assms by simp
  moreover have "((n - 1) + k) div k = (n - 1) div k + 1" by (rule div_add_self2) (use assms(1) in simp)
  ultimately have "(n + k - 1) div k = (n - 1) div k + 1" by (simp only:)
  moreover have "p div k \<le> (n - 1) div k" using assms(2) by (intro div_le_mono) simp
  ultimately have "p div k < (n + k - 1) div k" by simp
  then show ?thesis unfolding starts_def set_map by (intro imageI) simp
qed

lemma starts_sorted: "0 < k \<Longrightarrow> sorted_wrt (<) (starts n k)"
  by (simp add: starts_def sorted_wrt_map)

text \<open>The chunk of pages of a window, and the window it gives.\<close>

definition chunk_text :: "string list \<Rightarrow> nat \<Rightarrow> nat \<Rightarrow> string" where
  "chunk_text pages k s = strip (join newline (take k (drop s pages)))"

definition window_of :: "string list \<Rightarrow> nat \<Rightarrow> nat \<Rightarrow> page_window" where
  "window_of pages k s = \<lparr>page_start = int s + 1, page_end = int (min (s + k) (length pages)),
     window_text = take max_window_chars (chunk_text pages k s)\<rparr>"

lemma make_window_Inr: "make_window w = Inr w' \<Longrightarrow> w' = w"
  by (auto simp: make_window_def res_simps)

lemma window_at_Inr:
  "window_at pages k s = Inr x \<Longrightarrow> x = (if chunk_text pages k s = [] then None else Some (window_of pages k s))"
  by (auto simp: window_at_def Let_def chunk_text_def window_of_def res_simps dest: make_window_Inr split: if_splits)

lemma windows_of_starts:
  "mapR (window_at pages k) ss = Inr xs \<Longrightarrow>
     List.map_filter (\<lambda>w. w) xs = map (window_of pages k) (filter (\<lambda>s. chunk_text pages k s \<noteq> []) ss)"
  by (induction ss arbitrary: xs) (auto simp: res_simps List.map_filter_simps dest!: window_at_Inr)

lemma plan_Inr:
  assumes "plan_page_windows pages per = Inr ws"
  shows "ws = map (window_of pages (nat per)) (filter (\<lambda>s. chunk_text pages (nat per) s \<noteq> []) (starts (length pages) (nat per)))"
    "1 \<le> per" "length ws \<le> 50" "length pages \<le> 100"
  using assms by (auto simp: plan_page_windows_def res_simps between_def Let_def max_windows_def dest!: windows_of_starts)

lemma strip_empty: "strip s = [] \<longleftrightarrow> list_all is_space s"
proof -
  have "strip s = [] \<longleftrightarrow> list_all is_space (dropWhile is_space s)"
    by (auto simp: strip_def lstrip_def dropWhile_eq_Nil_conv list_all_iff)
  also have "\<dots> \<longleftrightarrow> list_all is_space s"
    by (metis (no_types, lifting) dropWhile_eq_Nil_conv dropWhile_twice list_all_iff)
  finally show ?thesis .
qed

lemma strip_id:
  assumes "s \<noteq> []" "\<not> is_space (hd s)" "\<not> is_space (last s)"
  shows "strip s = s"
proof -
  have "dropWhile is_space s = s" using assms(1,2) by (cases s) simp_all
  moreover have "dropWhile is_space (rev s) = rev s" using assms(1,3) by (cases s rule: rev_cases) simp_all
  ultimately show ?thesis by (simp add: strip_def lstrip_def)
qed

lemma join_chars: "w \<in> set xs \<Longrightarrow> set w \<subseteq> set (join sep xs)"
  by (induction sep xs rule: join.induct) auto

lemma chunk_not_blank:
  assumes "0 < k" "p < length pages" "strip (pages ! p) \<noteq> []"
  shows "chunk_text pages k (p div k * k) \<noteq> []"
proof -
  let ?s = "p div k * k"
  have "?s \<le> p" "p < ?s + k" using dividend_less_div_times [OF assms(1), of p] by simp_all
  then have "p - ?s < k" "p - ?s < length pages - ?s" "?s + (p - ?s) = p" using assms(2) by arith+
  then have "take k (drop ?s pages) ! (p - ?s) = pages ! p" "p - ?s < length (take k (drop ?s pages))"
    using \<open>?s \<le> p\<close> assms(2) by (simp_all only: nth_take nth_drop length_take length_drop min_less_iff_conj)
  then have "pages ! p \<in> set (take k (drop ?s pages))" by (metis nth_mem)
  then have "set (pages ! p) \<subseteq> set (join newline (take k (drop ?s pages)))" by (rule join_chars)
  then show ?thesis using assms(3) by (auto simp: chunk_text_def strip_empty list_all_iff)
qed

lemma window_holds_page:
  assumes "0 < k" "s \<in> set (starts (length pages) k)" "p < length pages"
  shows "between (page_start (window_of pages k s)) (page_end (window_of pages k s)) (int p + 1) \<longleftrightarrow> s = p div k * k"
proof -
  obtain i where i: "s = i * k" using starts_bound(2) [OF assms(1,2)] by (metis dvdE mult.commute)
  have "s \<le> p \<and> p < s + k \<longleftrightarrow> p div k = i"
  proof
    assume "s \<le> p \<and> p < s + k"
    then show "p div k = i" unfolding i by (intro div_nat_eqI) (simp_all add: mult.commute)
  next
    assume "p div k = i"
    then show "s \<le> p \<and> p < s + k" unfolding i using dividend_less_div_times [OF assms(1), of p] by auto
  qed
  moreover have "between (page_start (window_of pages k s)) (page_end (window_of pages k s)) (int p + 1) \<longleftrightarrow> s \<le> p \<and> p < s + k"
    using assms(3) by (simp add: between_def window_of_def) linarith
  moreover have "p div k = i \<longleftrightarrow> s = p div k * k" unfolding i using assms(1) by auto
  ultimately show ?thesis by simp
qed

text \<open>
  C18: the planned windows are in page order without overlap, stay within the document and within the
  requested number of pages, and every page with text lies in exactly one of them.
\<close>

theorem windows_partition_pages:
  assumes "plan_page_windows pages per = Inr ws"
  shows "sorted_wrt (\<lambda>w w'. page_end w < page_start w') ws \<and>
    list_all (\<lambda>w. 1 \<le> page_start w \<and> page_end w \<le> int (length pages) \<and> page_end w < page_start w + per) ws \<and>
    (\<forall>p < length pages. strip (pages ! p) \<noteq> [] \<longrightarrow> (\<exists>!w. w \<in> set ws \<and> between (page_start w) (page_end w) (int p + 1)))"
proof (intro conjI allI impI)
  let ?k = "nat per" and ?n = "length pages"
  let ?ss = "filter (\<lambda>s. chunk_text pages ?k s \<noteq> []) (starts ?n ?k)"
  have ws: "ws = map (window_of pages ?k) ?ss" and k: "0 < ?k" using plan_Inr [OF assms] by simp_all
  have step: "s + ?k \<le> s'" if "s < s'" "s \<in> set (starts ?n ?k)" "s' \<in> set (starts ?n ?k)" for s s'
    using that starts_bound(2) [OF k that(2)] starts_bound(2) [OF k that(3)] by (metis dvd_add_triv_right_iff dvd_imp_le dvd_minus_self
      le_add_diff_inverse less_imp_le_nat nat_add_left_cancel_le zero_less_diff dvd_diff_nat)
  have "sorted_wrt (<) ?ss" using starts_sorted [OF k] by (rule sorted_wrt_filter)
  then have "sorted_wrt (\<lambda>s s'. page_end (window_of pages ?k s) < page_start (window_of pages ?k s')) ?ss"
    by (rule sorted_wrt_mono_rel [rotated]) (use step in \<open>fastforce simp: window_of_def\<close>)
  then show "sorted_wrt (\<lambda>w w'. page_end w < page_start w') ws" by (simp add: ws sorted_wrt_map)
  show "list_all (\<lambda>w. 1 \<le> page_start w \<and> page_end w \<le> int ?n \<and> page_end w < page_start w + per) ws"
    using plan_Inr(2) [OF assms] by (auto simp: ws list_all_iff window_of_def)
  fix p
  assume p: "p < ?n" "strip (pages ! p) \<noteq> []"
  let ?s = "p div ?k * ?k"
  have s: "?s \<in> set ?ss" using chunk_not_blank [OF k p] starts_cover [OF k p(1)] by simp
  show "\<exists>!w. w \<in> set ws \<and> between (page_start w) (page_end w) (int p + 1)"
  proof (rule ex1I [of _ "window_of pages ?k ?s"])
    show "window_of pages ?k ?s \<in> set ws \<and> between (page_start (window_of pages ?k ?s)) (page_end (window_of pages ?k ?s)) (int p + 1)"
      using s window_holds_page [OF k starts_cover [OF k p(1)] p(1)] by (simp add: ws)
    show "w = window_of pages ?k ?s" if "w \<in> set ws \<and> between (page_start w) (page_end w) (int p + 1)" for w
      using that window_holds_page [OF k _ p(1)] by (auto simp: ws)
  qed
qed

theorem windows_partition_pages_witness:
  "\<exists>w. plan_page_windows [''a'', [], ''b''] 2 = Inr [\<lparr>page_start = 1, page_end = 2, window_text = ''a''\<rparr>, w] \<and>
     page_start w = 3 \<and> (\<exists>!v. v \<in> set [\<lparr>page_start = 1, page_end = 2, window_text = ''a''\<rparr>, w] \<and> between (page_start v) (page_end v) (int 0 + 1))"
proof -
  let ?w = "\<lparr>page_start = 3, page_end = 3, window_text = ''b''\<rparr>"
  let ?ws = "[\<lparr>page_start = 1, page_end = 2, window_text = ''a''\<rparr>, ?w]"
  have st: "strip (''a'' @ newline) = ''a''" "strip ''b'' = ''b''" "strip ''a'' = ''a''" by code_simp+
  have ss: "starts (Suc (Suc (Suc 0))) 2 = [0, 2]" by code_simp
  have "window_at [''a'', [], ''b''] 2 0 = Inr (Some \<lparr>page_start = 1, page_end = 2, window_text = ''a''\<rparr>)"
    using st by (simp add: window_at_def Let_def make_window_def page_range_def max_window_chars_def)
  moreover have "window_at [''a'', [], ''b''] 2 2 = Inr (Some ?w)"
    using st by (simp add: window_at_def Let_def make_window_def page_range_def max_window_chars_def)
  ultimately have run: "plan_page_windows [''a'', [], ''b''] 2 = Inr ?ws"
    by (simp add: plan_page_windows_def between_def ss Let_def max_windows_def List.map_filter_simps)
  have "\<exists>!v. v \<in> set ?ws \<and> between (page_start v) (page_end v) (int 0 + 1)"
    using conjunct2 [OF conjunct2 [OF windows_partition_pages [OF run]], THEN spec [of _ 0]] st(3) by simp
  then show ?thesis using run by (intro exI [of _ ?w]) simp
qed

text \<open>
  a window keeps the first twelve thousand characters of its pages: a page after a long one is
  counted as covered although none of its text is in any window.
\<close>

theorem covered_page_can_lose_its_text:
  "\<exists>ws. plan_page_windows [replicate 12000 CHR ''a'', ''b''] 2 = Inr ws \<and> list_all (\<lambda>w. CHR ''b'' \<notin> set (window_text w)) ws"
proof -
  let ?a = "replicate 12000 CHR ''a''"
  have ns: "\<not> is_space CHR ''a''" "\<not> is_space CHR ''b''" by (simp_all add: is_space_def)
  have "strip (?a @ newline @ ''b'') = ?a @ newline @ ''b''" "strip ?a = ?a"
    using ns by (auto intro!: strip_id)
  then have "window_at [?a, ''b''] 2 0 = Inr (Some \<lparr>page_start = 1, page_end = 2, window_text = ?a\<rparr>)"
    by (simp add: window_at_def Let_def make_window_def page_range_def max_window_chars_def)
  then have "plan_page_windows [?a, ''b''] 2 = Inr [\<lparr>page_start = 1, page_end = 2, window_text = ?a\<rparr>]"
    by (simp add: plan_page_windows_def between_def starts_def Let_def max_windows_def List.map_filter_simps)
  then show ?thesis by simp
qed

subsection \<open>Parsed cards\<close>

definition bounded_line :: "nat \<Rightarrow> nat \<Rightarrow> string \<Rightarrow> bool" where
  "bounded_line lo hi s \<longleftrightarrow> lo \<le> length s \<and> length s \<le> hi \<and> list_all (\<lambda>c. code c \<noteq> 10 \<and> code c \<noteq> 13) s"

lemma match_bounded: "fullmatch (line_rx lo hi) s \<longleftrightarrow> bounded_line lo hi s"
  by (auto simp: match_line bounded_line_def list_all_iff)

definition finding_kinds :: "string list" where
  "finding_kinds = [''architecture'', ''method'', ''implementation'', ''evaluation'', ''limitation'']"

lemma make_finding_Inr:
  "make_finding f = Inr f' \<Longrightarrow> f' = f \<and> page_range (finding_start f) (finding_end f) \<and>
     finding_kind f \<in> set finding_kinds \<and> bounded_line 20 1400 (finding_summary f)"
  by (auto simp: make_finding_def require_line_def match_bounded finding_kinds_def res_simps)

lemma parse_finding_Inr:
  "parse_finding n j = Inr f \<Longrightarrow> page_range (finding_start f) (finding_end f) \<and> finding_end f \<le> n \<and>
     finding_kind f \<in> set finding_kinds \<and> bounded_line 20 1400 (finding_summary f)"
  unfolding parse_finding_def
  by (cases j) (auto simp: raise_if_Inr dest!: make_finding_Inr elim!: bindR_InrE)

lemma make_card_Inr:
  assumes "make_card c = Inr c'"
  shows "c' = c" "card_reviewer_status c = ''needs_review''" "list_all (ok_score \<circ> snd) (card_scores c)"
    "length (utf8 (card_json c)) \<le> 48000" "between 1 20 (int (length (findings c)))"
    "card_uncertainty c \<in> set uncertainties"
    "list_all (bounded_line 20 1400) [document_summary c, research_problem c, card_method c]"
    "list_all (\<lambda>xs. length xs \<le> 8 \<and> list_all (bounded_line 3 360) xs) [card_implementation c, card_evaluation c, card_limitations c]"
    "fullmatch hex64_rx (card_source_key c)" "fullmatch hex64_rx (card_document_sha256 c)" "card_version c = ''document-card-v1''"
  using assms by (auto simp: make_card_def require_line_def require_lines_def match_bounded res_simps max_card_bytes_def list_all_iff list_ex_iff)

lemma scores_names:
  "mapR (\<lambda>k. bindR (score_field v k) (\<lambda>s. Inr (k, s))) ks = Inr xs \<Longrightarrow> map fst xs = ks"
  by (induction ks arbitrary: xs) (auto simp: res_simps)

lemma enum_strings_Inr:
  "enum_strings d k valid mx True = Inr xs \<Longrightarrow> xs \<noteq> [] \<and> set xs \<subseteq> set valid \<and> distinct xs"
  by (auto simp: enum_strings_def res_simps list_all_iff)

text \<open>
  C19: whatever text a model answers, a card made from it keeps every bound of the contract: it is the
  card of the requested source, document and digest and still requires review; its summary, problem and
  method are single lines of 20 to 1400 characters; its three lists have at most eight lines of 3 to 360
  characters; its layers are distinct and known; its one to twenty findings are of a known kind, have
  such a summary and lie within the pages of the document; its scores are absent or between 0 and 1, its
  uncertainty is one of four words, and its JSON text is within the size limit.
\<close>

theorem parsed_card_within_bounds:
  assumes "parse_document_card raw key did digest page_count = Inr c"
  shows "card_source_key c = key \<and> card_document_id c = did \<and> card_document_sha256 c = digest \<and>
    fullmatch hex64_rx key \<and> fullmatch hex64_rx digest \<and>
    card_reviewer_status c = ''needs_review'' \<and> card_version c = ''document-card-v1'' \<and>
    list_all (bounded_line 20 1400) [document_summary c, research_problem c, card_method c] \<and>
    list_all (\<lambda>xs. length xs \<le> 8 \<and> list_all (bounded_line 3 360) xs) [card_implementation c, card_evaluation c, card_limitations c] \<and>
    1 \<le> length (findings c) \<and> length (findings c) \<le> 20 \<and>
    list_all (\<lambda>f. 1 \<le> finding_start f \<and> finding_start f \<le> finding_end f \<and> finding_end f \<le> min page_count 100 \<and>
      finding_kind f \<in> {''architecture'', ''method'', ''implementation'', ''evaluation'', ''limitation''} \<and>
      bounded_line 20 1400 (finding_summary f)) (findings c) \<and>
    map fst (card_scores c) = score_names \<and>
    list_all (\<lambda>(_, s). case s of None \<Rightarrow> True | Some v \<Rightarrow> \<exists>q. v = Fin q \<and> 0 \<le> q \<and> q \<le> 1) (card_scores c) \<and>
    card_uncertainty c \<in> {''low'', ''medium'', ''high'', ''unknown''} \<and>
    distinct (card_layers c) \<and> card_layers c \<noteq> [] \<and>
    set (card_layers c) \<subseteq> {''global_architecture'', ''subsystem'', ''component'', ''feature''} \<and>
    length (utf8 (card_json c)) \<le> 48000"
proof -
  obtain fs ds rp me ls im ev li sc un where
    fs: "\<exists>js. mapR (parse_finding page_count) js = Inr fs"
    and ls: "\<exists>v. enum_strings v ''architecture_layers'' layers 4 True = Inr ls"
    and sc: "\<exists>v. mapR (\<lambda>k. bindR (score_field v k) (\<lambda>s. Inr (k, s))) score_names = Inr sc"
    and mk: "make_card \<lparr>card_source_key = key, card_document_id = did, card_document_sha256 = digest, document_summary = ds,
           research_problem = rp, card_method = me, card_layers = ls, card_implementation = im, card_evaluation = ev,
           card_limitations = li, findings = fs, card_scores = sc, card_uncertainty = un,
           card_reviewer_status = ''needs_review'', card_version = ''document-card-v1''\<rparr> = Inr c"
    using assms unfolding parse_document_card_def 
    by (elim bindR_InrE) (simp split: json.split_asm, elim bindR_InrE, rule that, blast, blast, blast, assumption)
  have "list_all (\<lambda>f. page_range (finding_start f) (finding_end f) \<and> finding_end f \<le> page_count \<and>
      finding_kind f \<in> set finding_kinds \<and> bounded_line 20 1400 (finding_summary f)) fs"
    using fs parse_finding_Inr by (fastforce simp: mapR_Inr list_all_iff list_all2_conv_all_nth in_set_conv_nth)
  then have found: "list_all (\<lambda>f. 1 \<le> finding_start f \<and> finding_start f \<le> finding_end f \<and> finding_end f \<le> min page_count 100 \<and>
      finding_kind f \<in> {''architecture'', ''method'', ''implementation'', ''evaluation'', ''limitation''} \<and>
      bounded_line 20 1400 (finding_summary f)) fs"
    by (auto simp: list_all_iff page_range_def finding_kinds_def)
  have "ok_score s \<Longrightarrow> case s of None \<Rightarrow> True | Some v \<Rightarrow> \<exists>q. v = Fin q \<and> 0 \<le> q \<and> q \<le> 1" for s
    by (auto simp: ok_score_def in_unit_def split: option.splits fval.splits)
  then have scores: "list_all (\<lambda>(_, s). case s of None \<Rightarrow> True | Some v \<Rightarrow> \<exists>q. v = Fin q \<and> 0 \<le> q \<and> q \<le> 1) sc"
    using make_card_Inr(3) [OF mk] by (auto simp: list_all_iff)
  have "set layers = {''global_architecture'', ''subsystem'', ''component'', ''feature''}" by (simp add: layers_def)
  then have "distinct ls \<and> ls \<noteq> [] \<and> set ls \<subseteq> {''global_architecture'', ''subsystem'', ''component'', ''feature''}"
    using ls enum_strings_Inr by metis
  moreover have "un \<in> {''low'', ''medium'', ''high'', ''unknown''}" using make_card_Inr(6) [OF mk] by (simp add: uncertainties_def)
  ultimately show ?thesis
    using make_card_Inr(1,2,4,5,7-11) [OF mk] found scores sc by (auto simp: between_def dest: scores_names)
qed

subsection \<open>Answers in the format of the contract\<close>

text \<open>The object a model answers for a note, and the fenced form of a text.\<close>

definition note_answer :: "window_note \<Rightarrow> json" where
  "note_answer n = JObj [(''summary'', JStr (note_summary n)), (''architecture_layers'', strs (note_layers n)),
     (''implementation_signals'', strs (note_implementation n)), (''evaluation_signals'', strs (note_evaluation n)),
     (''limitations'', strs (note_limitations n))]"

definition fenced :: "string \<Rightarrow> string" where
  "fenced s = ''```json'' @ newline @ s @ newline @ ''```''"

lemma dumps_object_ends: "hd (dumps opt (JObj kvs)) = CHR ''{''" "last (dumps opt (JObj kvs)) = CHR ''}''" "dumps opt (JObj kvs) \<noteq> []"
  by simp_all

lemma strip_object: "strip (dumps opt (JObj kvs)) = dumps opt (JObj kvs)"
  using dumps_object_ends by (intro strip_id) (simp_all only:, simp_all add: is_space_def)

lemma unfenced_object: "unfenced (dumps opt (JObj kvs)) = dumps opt (JObj kvs)"
  unfolding unfenced_def Let_def strip_object by (simp add: starts_with_def)

lemma unfenced_fence: "unfenced (fenced s) = strip s"
proof -
  have "strip (fenced s) = fenced s" by (rule strip_id) (simp_all add: fenced_def is_space_def)
  moreover have "starts_with (''```json'' @ newline) (fenced s)" "ends_with (newline @ ''```'') (fenced s)"
    by (simp_all add: fenced_def starts_with_def ends_with_def)
  moreover have "drop 8 (take (length (fenced s) - 4) (fenced s)) = s"
    by (simp add: fenced_def numeral_eq_Suc)
  ultimately show ?thesis by (simp add: unfenced_def)
qed

lemma all_strings_map: "all_strings (map JStr xs) = Some xs"
  by (induction xs) simp_all

lemma short_strings_strs: "jget d k = strs xs \<Longrightarrow> length xs \<le> mx \<Longrightarrow> short_strings d k mx = Inr xs"
  by (simp add: short_strings_def all_strings_map)

lemma make_note_Inr:
  assumes "make_note n = Inr n'"
  shows "n' = n" "length (note_implementation n) \<le> 6" "length (note_evaluation n) \<le> 6" "length (note_limitations n) \<le> 6"
    "note_layers n \<noteq> []" "set (note_layers n) \<subseteq> set layers"
  using assms by (auto simp: make_note_def require_line_def require_lines_def require_layers_def res_simps list_all_iff)

lemma distinct_layers_length:
  assumes "set xs \<subseteq> set layers" "distinct xs"
  shows "length xs \<le> 4"
proof -
  have "length xs = card (set xs)" using assms(2) by (simp add: distinct_card)
  also have "\<dots> \<le> card (set layers)" by (rule card_mono) (use assms(1) in simp_all)
  also have "\<dots> \<le> length layers" by (rule card_length)
  finally show ?thesis by (simp add: layers_def)
qed

lemma repeated_layers_refused:
  "jget d k = strs xs \<Longrightarrow> \<not> distinct xs \<Longrightarrow> enum_strings d k valid mx b = raise DocumentCardError (k @ '' are malformed'')"
  by (simp add: enum_strings_def short_strings_def all_strings_map raise_if_def)

text \<open>
  C20: a note that passes its checks, answered as JSON under any separators, bare or inside one
  Markdown fence, is read back as it is if its layers are distinct; a note with a repeated layer, which
  the constructor accepts, is refused by the reader.
\<close>

theorem note_answer_roundtrip:
  assumes ok: "make_note n = Inr n" and opt: "ok_opts opt" and w: "page_start w = note_start n" "page_end w = note_end n"
  shows "list_all (\<lambda>raw. parse_window_note raw w =
      (if distinct (note_layers n) then Inr n else raise DocumentCardError ''architecture_layers are malformed''))
    [dumps opt (note_answer n), fenced (dumps opt (note_answer n))]"
proof -
  note n = make_note_Inr [OF ok]
  have "plain (note_answer n)" by (simp add: note_answer_def list_all_iff)
  then have read: "loads (dumps opt (note_answer n)) = Inr (note_answer n)" by (rule loads_dumps [OF opt])
  have parse: "parse_window_note raw w =
      (if distinct (note_layers n) then Inr n else raise DocumentCardError ''architecture_layers are malformed'')"
    if "unfenced raw = dumps opt (note_answer n)" for raw
  proof -
    have strict: "strict_json raw [''summary'', ''architecture_layers'', ''implementation_signals'', ''evaluation_signals'', ''limitations''] =
      Inr [(''summary'', JStr (note_summary n)), (''architecture_layers'', strs (note_layers n)),
        (''implementation_signals'', strs (note_implementation n)), (''evaluation_signals'', strs (note_evaluation n)),
        (''limitations'', strs (note_limitations n))]"
      using read by (simp add: strict_json_def that reraise_def note_answer_def del: dumps.simps)
    show ?thesis
    proof (cases "distinct (note_layers n)")
      case True
      then show ?thesis using strict n distinct_layers_length [OF n(6) True] ok
        by (cases n) (simp add: parse_window_note_def string_field_def enum_strings_def short_strings_strs jget_def w raise_if_def list_all_iff subset_iff)
    next
      case False
      then show ?thesis using strict by (simp add: parse_window_note_def string_field_def jget_def repeated_layers_refused)
    qed
  qed
  show ?thesis
    using parse [of "dumps opt (note_answer n)"] parse [of "fenced (dumps opt (note_answer n))"]
    by (simp add: unfenced_object unfenced_fence strip_object note_answer_def del: dumps.simps)
qed

theorem note_answer_roundtrip_witness:
  "\<exists>n m w. note_layers n = [''feature''] \<and> parse_window_note (fenced (dumps default_opts (note_answer n))) w = Inr n \<and>
     note_layers m = [''feature'', ''feature''] \<and> make_note m = Inr m \<and>
     parse_window_note (fenced (dumps default_opts (note_answer m))) w = raise DocumentCardError ''architecture_layers are malformed''"
proof -
  let ?n = "\<lambda>ls. \<lparr>note_start = 1, note_end = 2, note_summary = replicate 20 CHR ''s'', note_layers = ls, note_implementation = [],
    note_evaluation = [''a test''], note_limitations = []\<rparr>"
  let ?w = "\<lparr>page_start = 1, page_end = 2, window_text = ''text''\<rparr>"
  have "make_note (?n [''feature'']) = Inr (?n [''feature''])" "make_note (?n [''feature'', ''feature'']) = Inr (?n [''feature'', ''feature''])"
    by (simp_all add: make_note_def require_line_def require_lines_def require_layers_def page_range_def match_line list_all_iff layers_def)
  then show ?thesis
    using note_answer_roundtrip [of "?n [''feature'']" default_opts ?w] note_answer_roundtrip [of "?n [''feature'', ''feature'']" default_opts ?w]
    by (intro exI [of _ "?n [''feature'']"] exI [of _ "?n [''feature'', ''feature'']"] exI [of _ ?w]) (simp del: dumps.simps)
qed

text \<open>An answer that becomes a card.\<close>

definition sample_answer :: "(string \<times> json) list" where
  "sample_answer = [(''document_summary'', JStr (replicate 20 CHR ''s'')), (''research_problem'', JStr (replicate 20 CHR ''p'')),
     (''method'', JStr (replicate 20 CHR ''m'')), (''architecture_layers'', strs [''feature'']), (''implementation_signals'', strs []),
     (''evaluation_signals'', strs []), (''limitations'', strs []),
     (''findings'', JList [JObj [(''page_start'', JInt 1), (''page_end'', JInt 2), (''kind'', JStr ''method''),
        (''summary'', JStr (replicate 20 CHR ''f''))]]),
     (''conceptual_support'', JInt 1), (''empirical_support'', JNull), (''reproducibility'', JNull), (''feasibility_now'', JNull),
     (''source_independence'', JNull), (''uncertainty'', JStr ''low'')]"

definition sample_card :: document_card where
  "sample_card = \<lparr>card_source_key = replicate 64 CHR ''a'', card_document_id = ''d'', card_document_sha256 = replicate 64 CHR ''b'',
     document_summary = replicate 20 CHR ''s'', research_problem = replicate 20 CHR ''p'', card_method = replicate 20 CHR ''m'',
     card_layers = [''feature''], card_implementation = [], card_evaluation = [], card_limitations = [],
     findings = [\<lparr>finding_start = 1, finding_end = 2, finding_kind = ''method'', finding_summary = replicate 20 CHR ''f''\<rparr>],
     card_scores = [(''conceptual_support'', Some (Fin 1)), (''empirical_support'', None), (''reproducibility'', None),
        (''feasibility_now'', None), (''source_independence'', None)],
     card_uncertainty = ''low'', card_reviewer_status = ''needs_review'', card_version = ''document-card-v1''\<rparr>"

lemma sample_size: "length (utf8 (card_json sample_card)) \<le> 48000"
proof -
  have "length (utf8 (card_json sample_card)) < 1200" by code_simp
  then show ?thesis by simp
qed

theorem parsed_card_within_bounds_witness:
  "\<exists>c. parse_document_card (dumps default_opts (JObj sample_answer)) (replicate 64 CHR ''a'') ''d'' (replicate 64 CHR ''b'') 2 = Inr c \<and>
     list_all (\<lambda>f. finding_end f \<le> 2) (findings c) \<and> bounded_line 20 1400 (document_summary c)"
proof -
  have hex: "fullmatch hex64_rx (replicate 64 CHR ''a'')" "fullmatch hex64_rx (replicate 64 CHR ''b'')"
    by (simp_all add: match_hex64 list_all_iff) code_simp+
  have lines: "fullmatch (line_rx 20 1400) (replicate 20 c)" if "code c \<noteq> 13" "code c \<noteq> 10" for c
    using that by (simp add: match_line list_all_iff)
  have one: "json_float (JInt 1) = Inr (Fin 1)" by (simp add: json_float_def as_double_def)
  have "strict_json (dumps default_opts (JObj sample_answer)) card_keys = Inr sample_answer"
    by (simp add: strict_json_def unfenced_object loads_dumps sample_answer_def card_keys_def reraise_def insert_commute del: dumps.simps)
  moreover have "make_card sample_card = Inr sample_card" 
    using sample_size
    by (simp add: make_card_def sample_card_def hex lines require_line_def require_lines_def require_layers_def layers_def between_def
      uncertainties_def ok_score_def max_card_bytes_def in_unit_def)
  ultimately have run: "parse_document_card (dumps default_opts (JObj sample_answer)) (replicate 64 CHR ''a'') ''d'' (replicate 64 CHR ''b'') 2 =
    Inr sample_card"
    by (simp add: parse_document_card_def sample_answer_def sample_card_def jget_def between_def parse_finding_def page_number_def
      string_field_def make_finding_def page_range_def lines require_line_def enum_strings_def short_strings_strs short_strings_def layers_def score_names_def
      score_field_def one)
  then show ?thesis using parsed_card_within_bounds [OF run] by (intro exI [of _ sample_card]) (simp add: list_all_iff)
qed

subsection \<open>Claims\<close>

text \<open>
  the production lane is closed to every claim, and the lanes grow with the maturity: a lane
  open to a maturity is open to every higher one.
\<close>

theorem lanes_grow_with_maturity:
  assumes "validate_maturity_lane mat lane = Inr ()" "map_of maturity_rank mat = Some i" "map_of maturity_rank mat' = Some j" "i \<le> j"
  shows "lane \<noteq> ''production_candidate'' \<and> validate_maturity_lane mat' lane = Inr ()"
  using assms by (auto simp: validate_maturity_lane_def res_simps)

theorem lanes_grow_with_maturity_witness:
  "validate_maturity_lane ''hypothesis'' ''watchlist'' = Inr () \<and> validate_maturity_lane ''prototype'' ''watchlist'' = Inr ()"
  using lanes_grow_with_maturity [of "''hypothesis''" "''watchlist''" 0 "''prototype''" 3]
  by (simp add: validate_maturity_lane_def maturity_rank_def)

subsection \<open>Candidate pages\<close>

definition shortlist_key :: "nat \<times> nat \<Rightarrow> int \<times> nat" where
  "shortlist_key = (\<lambda>(score, p). (- int score, p))"

lemma ranked_members:
  "(sc, p) \<in> set (ranked_pages pages) \<longleftrightarrow>
     1 \<le> p \<and> p \<le> length pages \<and> sc = page_score (median_length pages) (pages ! (p - 1)) \<and> sc \<noteq> 0"
  by (cases p) (auto simp: ranked_pages_def image_iff)

lemma ranked_distinct: "distinct (map snd (ranked_pages pages))"
proof -
  have "map snd (map (\<lambda>i. (page_score (median_length pages) (pages ! i), i + 1)) [0..<length pages]) = map Suc [0..<length pages]"
    by simp
  then have "distinct (map snd (map (\<lambda>i. (page_score (median_length pages) (pages ! i), i + 1)) [0..<length pages]))"
    by (simp only: distinct_map) simp
  then show ?thesis unfolding ranked_pages_def by (rule distinct_map_filter)
qed

lemma sort_key_take_drop:
  assumes "x \<in> set (take n (sort_key f xs))" "y \<in> set (drop n (sort_key f xs))"
  shows "f x \<le> f y"
proof -
  have "sorted (map f (take n (sort_key f xs)) @ map f (drop n (sort_key f xs)))"
    by (simp flip: map_append)
  then show ?thesis using assms by (auto simp: sorted_append)
qed

text \<open>
  the shortlist of diagram pages is strictly increasing, within its bound and within the
  document, and when a page with a positive score is left out, the shortlist is full and each of
  its pages scores at least as much.
\<close>

theorem shortlist_keeps_best_pages:
  assumes "candidate_diagram_pages pages m = Inr ps"
  shows "sorted_wrt (<) ps \<and> int (length ps) \<le> m \<and> set ps \<subseteq> {1..length pages} \<and>
    (\<forall>q \<in> {1..length pages} - set ps. 0 < page_score (median_length pages) (pages ! (q - 1)) \<longrightarrow>
       int (length ps) = m \<and>
       (\<forall>p \<in> set ps. page_score (median_length pages) (pages ! (q - 1)) \<le> page_score (median_length pages) (pages ! (p - 1))))"
proof -
  let ?S = "sort_key shortlist_key (ranked_pages pages)" and ?k = "nat m"
  let ?score = "\<lambda>p. page_score (median_length pages) (pages ! (p - 1))"
  have ps: "ps = sort (map snd (take ?k ?S))" and m: "1 \<le> m"
    using assms by (auto simp: candidate_diagram_pages_def res_simps between_def shortlist_key_def)
  have d: "distinct (map snd ?S)" using ranked_distinct [of pages] by (simp add: distinct_map)
  then have "distinct (map snd (take ?k ?S))" by (metis distinct_take take_map)
  then have sorted: "sorted_wrt (<) ps" by (simp add: ps strict_sorted_iff)
  have member: "(sc, p) \<in> set ?S \<longleftrightarrow> 1 \<le> p \<and> p \<le> length pages \<and> sc = ?score p \<and> sc \<noteq> 0" for sc p
    by (simp add: ranked_members)
  have inS: "(?score p, p) \<in> set (take ?k ?S) \<and> 1 \<le> p \<and> p \<le> length pages" if p: "p \<in> set ps" for p
  proof -
    obtain sc where "(sc, p) \<in> set (take ?k ?S)" using p by (auto simp: ps)
    moreover from this have "(sc, p) \<in> set ?S" by (rule in_set_takeD)
    ultimately show ?thesis using member by metis
  qed
  have best: "int (length ps) = m \<and> (\<forall>p \<in> set ps. ?score q \<le> ?score p)"
    if q: "q \<in> {1..length pages} - set ps" "0 < ?score q" for q
  proof -
    have "(?score q, q) \<in> set ?S" using q by (auto simp: ranked_members)
    moreover have "(?score q, q) \<notin> set (take ?k ?S)" using q(1) by (force simp: ps)
    ultimately have out: "(?score q, q) \<in> set (drop ?k ?S)" by (metis Un_iff append_take_drop_id set_append)
    then have "?k < length ?S" by (metis drop_all empty_iff empty_set leI)
    then have "int (length ps) = m" using m by (simp add: ps)
    moreover have "?score q \<le> ?score p" if "p \<in> set ps" for p
      using sort_key_take_drop [OF conjunct1 [OF inS [OF that]] out] by (auto simp: shortlist_key_def less_eq_prod_def)
    ultimately show ?thesis by blast
  qed
  have "int (length ps) \<le> m" using m by (simp add: ps)
  moreover have "set ps \<subseteq> {1..length pages}" using inS by fastforce
  ultimately show ?thesis using sorted best by blast
qed

theorem shortlist_keeps_best_pages_witness:
  "\<exists>ps. candidate_diagram_pages [''Figure 1'', ''none'', ''see Fig. 2''] 1 = Inr ps \<and> sorted_wrt (<) ps \<and> length ps = 1"
proof -
  have run: "candidate_diagram_pages [''Figure 1'', ''none'', ''see Fig. 2''] 1 = Inr [1]" by code_simp
  show ?thesis using shortlist_keeps_best_pages [OF run] run by auto
qed

end
