(* ===== verification/HostMetrics.thy ===== *)
theory HostMetrics
  imports Worker PyFloat
begin

text \<open>
  Reading the host: the files of \<open>/proc\<close> and \<open>/sys\<close> and the disk, as \<open>monitor/monitor.py\<close> and
  \<open>host_metrics\<close> of \<open>dashboard/app.py\<close> do. What a file or the disk answers is an argument; the texts are
  split and parsed here, and the temperature is divided and rounded as doubles are.
\<close>

subsection \<open>Files\<close>

text \<open>How \<open>read_text\<close> fails: \<open>FileNotFoundError\<close>, \<open>PermissionError\<close>, another \<open>OSError\<close> or undecodable bytes.\<close>

datatype file_error = NotFound | Denied | OtherOS | BadText

record host =
  host_file :: "string \<Rightarrow> file_error + string"
  host_disk :: "(int \<times> int) res"

definition file_exn :: "file_error \<Rightarrow> exn" where
  "file_exn f = (case f of BadText \<Rightarrow> Exn UnicodeDecodeError ''invalid bytes'' | _ \<Rightarrow> Exn OSError ''cannot read the file'')"

definition read_text :: "host \<Rightarrow> string \<Rightarrow> string res" where
  "read_text h path = (case host_file h path of Inl f \<Rightarrow> Inl (file_exn f) | Inr s \<Rightarrow> Inr s)"

subsection \<open>Lines and fields\<close>

text \<open>\<open>s.splitlines()\<close>: a carriage return and the line feed after it are one break.\<close>

definition line_end :: "char \<Rightarrow> bool" where
  "line_end c \<longleftrightarrow> (let n = code c in (10 \<le> n \<and> n \<le> 13) \<or> (28 \<le> n \<and> n \<le> 30) \<or> n = 133)"

definition after_break :: "char \<Rightarrow> string \<Rightarrow> string" where
  "after_break c s = (case s of d # t \<Rightarrow> if code c = 13 \<and> code d = 10 then t else s | [] \<Rightarrow> [])"

lemma after_break_length: "length (after_break c s) \<le> length s"
  by (simp add: after_break_def split: list.split)

function lines_acc :: "string \<Rightarrow> string \<Rightarrow> string list" where
  "lines_acc w [] = (if w = [] then [] else [rev w])"
| "lines_acc w (c # s) = (if line_end c then rev w # lines_acc [] (after_break c s) else lines_acc (c # w) s)"
  by pat_completeness auto

termination
  by (relation "measure (\<lambda>(w, s). length s)") (auto simp: le_imp_less_Suc after_break_length)

definition splitlines :: "string \<Rightarrow> string list" where
  "splitlines s = lines_acc [] s"

definition first_field :: "'a list \<Rightarrow> 'a res" where
  "first_field xs = (case xs of [] \<Rightarrow> raise IndexError ''list index out of range'' | x # _ \<Rightarrow> Inr x)"

definition int_of_text :: "string \<Rightarrow> int res" where
  "int_of_text s = (case py_int s of Some i \<Rightarrow> Inr i | None \<Rightarrow> raise ValueError ''invalid literal for int() with base 10'')"

definition float_of_text :: "string \<Rightarrow> fval res" where
  "float_of_text s = (case py_float s of Some v \<Rightarrow> Inr v | None \<Rightarrow> raise ValueError ''could not convert string to float'')"

text \<open>One line of \<open>meminfo\<close>, and all of them; a later line replaces an earlier one of the same key.\<close>

definition memory_line :: "string \<Rightarrow> (string \<times> int) res" where
  "memory_line l = (case dropWhile (\<lambda>c. c \<noteq> CHR '':'') l of
     [] \<Rightarrow> raise ValueError ''not enough values to unpack''
   | _ # v \<Rightarrow> bindR (first_field (words (strip v))) (\<lambda>w. bindR (int_of_text w) (\<lambda>n. Inr (takeWhile (\<lambda>c. c \<noteq> CHR '':'') l, n * 1024))))"

definition memory_of :: "string \<Rightarrow> (string \<Rightarrow> int option) res" where
  "memory_of s = bindR (mapR memory_line (splitlines s)) (\<lambda>kvs. Inr (map_of (rev kvs)))"

subsection \<open>The temperature\<close>

text \<open>
  \<open>round(k / 1000, 1)\<close>: the quotient is the nearest double, halves to the even mantissa, and the rounding
  is exact on that double, halves to the even digit. The result is kept as the number of tenths it prints.
\<close>

definition round_even :: "rat \<Rightarrow> int" where
  "round_even x = (let f = \<lfloor>x\<rfloor>; d = x - of_int f in
     if d < 1 / 2 then f else if 1 / 2 < d then f + 1 else if even f then f else f + 1)"

fun ilog2 :: "nat \<Rightarrow> nat" where
  "ilog2 n = (if n < 2 then 0 else Suc (ilog2 (n div 2)))"

declare ilog2.simps [simp del]

text \<open>The unit in the last place of the double next to \<open>k / 1000\<close>, whose magnitude is at least \<open>2 ^ -10\<close>.\<close>

definition ulp_of :: "int \<Rightarrow> rat" where
  "ulp_of k = 2 ^ ilog2 (nat (\<bar>k\<bar> * 1024 div 1000)) / 2 ^ 62"

definition div1000 :: "int \<Rightarrow> rat" where
  "div1000 k = of_int (round_even (of_int k / 1000 / ulp_of k)) * ulp_of k"

definition tenths :: "int \<Rightarrow> int" where
  "tenths k = round_even (10 * div1000 k)"

definition temperature_of :: "string \<Rightarrow> rat res" where
  "temperature_of s = bindR (int_of_text s) (\<lambda>k. case as_double (of_int k / 1000) of
     Fin _ \<Rightarrow> Inr (of_int (tenths k) / 10)
   | _ \<Rightarrow> raise OverflowError ''integer division result too large for a float'')"

lemma temperature_ofD: "temperature_of s = Inr t \<Longrightarrow> \<exists>k. int_of_text s = Inr k \<and> t = of_int (tenths k) / 10"
  by (auto simp: temperature_of_def bindR_Inr_iff as_double_def split: if_splits)

lemma round_even_near: "\<bar>of_int (round_even x) - x\<bar> \<le> 1 / 2"
proof -
  have "of_int \<lfloor>x\<rfloor> \<le> x" "x < of_int \<lfloor>x\<rfloor> + 1" by linarith+
  then show ?thesis unfolding round_even_def Let_def by (auto simp only: abs_le_iff of_int_add of_int_1 split: if_split)
qed

lemma ilog2_bound: "0 < n \<Longrightarrow> 2 ^ ilog2 n \<le> n"
proof (induction n rule: ilog2.induct)
  case (1 n)
  show ?case
  proof (cases "n < 2")
    case False
    then have "2 ^ ilog2 (n div 2) \<le> n div 2" using 1 by simp
    then show ?thesis using False by (subst ilog2.simps) simp
  qed (use 1 in \<open>simp add: ilog2.simps\<close>)
qed

lemma ulp_small: "k \<noteq> 0 \<Longrightarrow> ulp_of k \<le> \<bar>of_int k\<bar> / 1000 / 2 ^ 52" "0 < ulp_of k"
proof -
  assume k: "k \<noteq> 0"
  let ?n = "nat (\<bar>k\<bar> * 1024 div 1000)"
  have "1 \<le> \<bar>k\<bar> * 1024 div 1000" using k by linarith
  then have "2 ^ ilog2 ?n \<le> ?n" using ilog2_bound [of ?n] by linarith
  then have "rat_of_nat (2 ^ ilog2 ?n) \<le> rat_of_nat ?n" by (simp only: of_nat_le_iff)
  moreover have "rat_of_nat ?n = of_int (\<bar>k\<bar> * 1024 div 1000)" by (rule of_nat_nat) simp
  moreover have "rat_of_int (\<bar>k\<bar> * 1024 div 1000) \<le> of_int (\<bar>k\<bar> * 1024) / 1000"
    using floor_divide_of_int_eq [of "\<bar>k\<bar> * 1024" 1000, where 'a = rat] of_int_floor_le [of "rat_of_int (\<bar>k\<bar> * 1024) / 1000"] by simp
  ultimately have "rat_of_nat (2 ^ ilog2 ?n) \<le> of_int (\<bar>k\<bar> * 1024) / 1000" by linarith
  then have "2 ^ ilog2 ?n \<le> rat_of_int \<bar>k\<bar> * 1024 / 1000" by (simp only: of_nat_power of_nat_numeral of_int_mult of_int_numeral)
  then show "ulp_of k \<le> \<bar>of_int k\<bar> / 1000 / 2 ^ 52" by (simp add: ulp_of_def field_simps)
qed (simp add: ulp_of_def)

text \<open>A temperature of at most a thousand degrees is at most half a tenth away from the reading.\<close>

lemma tenths_near:
  assumes "\<bar>tenths k\<bar> < 10000"
  shows "\<bar>100 * tenths k - k\<bar> \<le> 50"
proof (cases "k = 0")
  case False
  let ?q = "rat_of_int k / 1000" let ?u = "ulp_of k" let ?d = "div1000 k"
  have u: "0 < ?u" "?u \<le> \<bar>?q\<bar> / 2 ^ 52" using ulp_small(1) [OF False] ulp_small(2) [of k] by simp_all
  have "\<bar>of_int (round_even (?q / ?u)) - ?q / ?u\<bar> \<le> 1 / 2" by (rule round_even_near)
  then have "\<bar>of_int (round_even (?q / ?u)) - ?q / ?u\<bar> * ?u \<le> 1 / 2 * ?u" using u(1) by (intro mult_right_mono) simp_all
  then have "\<bar>(of_int (round_even (?q / ?u)) - ?q / ?u) * ?u\<bar> \<le> ?u / 2" using u(1) by (simp add: abs_mult)
  then have d: "\<bar>?d - ?q\<bar> \<le> ?u / 2" using u(1) by (simp add: div1000_def left_diff_distrib)
  have n: "\<bar>of_int (tenths k) - 10 * ?d\<bar> \<le> 1 / 2" unfolding tenths_def by (rule round_even_near)
  have t: "\<bar>rat_of_int (tenths k)\<bar> \<le> 9999" using assms by linarith
  have "\<bar>?q\<bar> / 2 ^ 52 \<le> \<bar>?q\<bar> / 1000" by (intro divide_left_mono) simp_all
  then have "\<bar>?q\<bar> \<le> 1001" using d n t u by linarith
  then have "?u \<le> 1001 / 2 ^ 52" using u(2) divide_right_mono [of "\<bar>?q\<bar>" 1001 "2 ^ 52"] by simp
  then have "?u \<le> 1 / 1000000" by simp
  then have "\<bar>of_int (tenths k) - 10 * ?q\<bar> \<le> 1 / 2 + 1 / 100000" using d n by linarith
  then have "\<bar>rat_of_int (100 * tenths k - k)\<bar> < 51"
    unfolding of_int_diff of_int_mult of_int_numeral by linarith
  then show ?thesis by linarith
qed (simp add: tenths_def div1000_def round_even_def)

text \<open>
  Where the half of a tenth is a double, which is the case for a quarter or three quarters of a degree,
  the digit is even.
\<close>

lemma round_even_int: "round_even (of_int z) = z"
  by (simp add: round_even_def)

lemma round_even_half: "even (round_even (of_int z + 1 / 2))"
proof -
  have "\<lfloor>rat_of_int z + 1 / 2\<rfloor> = z" by linarith
  then show ?thesis by (simp add: round_even_def Let_def)
qed

lemma quarter_exact:
  assumes "k mod 500 = 250" "\<bar>k\<bar> \<le> 1000100"
  shows "div1000 k = of_int k / 1000"
proof -
  let ?i = "ilog2 (nat (\<bar>k\<bar> * 1024 div 1000))"
  have k: "k = 500 * (k div 500) + 250" using assms(1) mult_div_mod_eq [of 500 k] by linarith
  have "k \<noteq> 0" using assms(1) by auto
  then have "0 < nat (\<bar>k\<bar> * 1024 div 1000)" by linarith
  then have "2 ^ ?i \<le> nat (\<bar>k\<bar> * 1024 div 1000)" by (rule ilog2_bound)
  also have "\<dots> < 2 ^ 60" using assms(2) by simp
  finally have i: "?i < 60" by (simp only: power_strict_increasing_iff one_less_numeral_iff semiring_norm)
  then have p: "(2::rat) ^ 62 = 4 * (2 ^ (60 - ?i) * 2 ^ ?i)" by (simp flip: power_add)
  have "rat_of_int k / 1000 = of_int (2 * (k div 500) + 1) / 4" by (subst k) (simp add: field_simps)
  then have "rat_of_int k / 1000 / ulp_of k = of_int ((2 * (k div 500) + 1) * 2 ^ (60 - ?i))"
    unfolding ulp_of_def p by (simp add: field_simps)
  then obtain z where z: "rat_of_int k / 1000 / ulp_of k = of_int z" by blast
  have "0 < ulp_of k" by (rule ulp_small(2))
  then have "rat_of_int z * ulp_of k = of_int k / 1000" using z by (simp add: divide_eq_eq)
  then show ?thesis unfolding div1000_def z round_even_int .
qed

lemma tenths_half_even:
  assumes "k mod 500 = 250" "\<bar>tenths k\<bar> < 10000"
  shows "even (tenths k)"
proof -
  have k: "k = 500 * (k div 500) + 250" using assms(1) mult_div_mod_eq [of 500 k] by linarith
  have "\<bar>k\<bar> \<le> 1000100" using tenths_near [OF assms(2)] assms(2) by linarith
  then have "10 * div1000 k = of_int (5 * (k div 500) + 2) + 1 / 2"
    unfolding quarter_exact [OF assms(1) \<open>\<bar>k\<bar> \<le> 1000100\<close>] by (subst k) (simp add: field_simps)
  then show ?thesis unfolding tenths_def by (simp only: round_even_half)
qed

subsection \<open>The host in the overview\<close>

text \<open>\<open>read_first_line\<close>: the three errors it names become nothing, every other one passes.\<close>

definition read_first_line :: "host \<Rightarrow> string \<Rightarrow> string option res" where
  "read_first_line h path = (case host_file h path of
     Inl NotFound \<Rightarrow> Inr None
   | Inl Denied \<Rightarrow> Inr None
   | Inl f \<Rightarrow> Inl (file_exn f)
   | Inr s \<Rightarrow> Inr (case splitlines (strip s) of [] \<Rightarrow> None | l # _ \<Rightarrow> Some l))"

record host_data =
  hd_load :: "fval option"
  hd_memory_total :: "int option"
  hd_memory_available :: "int option"
  hd_temperature :: "rat option"
  hd_disk_total :: int
  hd_disk_free :: int

definition when_text :: "string option \<Rightarrow> (string \<Rightarrow> 'a res) \<Rightarrow> 'a option res" where
  "when_text t f = (case t of None \<Rightarrow> Inr None | Some s \<Rightarrow> if s = [] then Inr None else bindR (f s) (\<lambda>x. Inr (Some x)))"

definition load_of :: "string \<Rightarrow> fval res" where
  "load_of s = bindR (first_field (words s)) float_of_text"

definition host_metrics :: "host \<Rightarrow> host_data res" where
  "host_metrics h =
     bindR (read_first_line h ''/host/proc/loadavg'') (\<lambda>load_text.
     bindR (case host_file h ''/host/proc/meminfo'' of Inl BadText \<Rightarrow> Inl (file_exn BadText) | Inl _ \<Rightarrow> Inr [] | Inr s \<Rightarrow> Inr s) (\<lambda>memory_text.
     bindR (memory_of memory_text) (\<lambda>memory.
     bindR (read_first_line h ''/host/sys/thermal_temp'') (\<lambda>temperature.
     bindR (host_disk h) (\<lambda>(disk_total, disk_free).
     bindR (when_text load_text load_of) (\<lambda>load.
     bindR (when_text temperature temperature_of) (\<lambda>t.
       Inr \<lparr>hd_load = load, hd_memory_total = memory ''MemTotal'', hd_memory_available = memory ''MemAvailable'',
            hd_temperature = t, hd_disk_total = disk_total, hd_disk_free = disk_free\<rparr>)))))))"

text \<open>A sensor that answers with an error other than the two named ones hides every other value.\<close>

lemma other_error_hides_metrics:
  assumes "host_file h ''/host/sys/thermal_temp'' = Inl OtherOS"
  shows "\<exists>e. host_metrics h = Inl e"
proof -
  have "read_first_line h ''/host/sys/thermal_temp'' = Inl (file_exn OtherOS)" using assms by (simp add: read_first_line_def)
  then show ?thesis by (auto simp: host_metrics_def bindR_def split: sum.split)
qed

end
