(* ===== verification/Dashboard.thy ===== *)
theory Dashboard
  imports HostMetrics
begin

text \<open>
  The dashboard (\<open>dashboard/app.py\<close>): its configuration, the request it accepts, the endpoint that
  records a task behind the capacity and budget checks, and the queries of the overview with
  the metrics of the host. Formatting a time is an argument; the static page is left out.
\<close>

subsection \<open>Configuration and requests\<close>

record dash_config =
  max_queue_depth :: int
  max_tasks_per_lane_per_day :: int

definition load_dash_config :: "(string \<Rightarrow> int option) \<Rightarrow> dash_config" where
  "load_dash_config env = \<lparr>
     max_queue_depth = max 1 (env_int env ''DASHBOARD_MAX_QUEUE_DEPTH'' 100),
     max_tasks_per_lane_per_day = max 1 (env_int env ''DASHBOARD_MAX_TASKS_PER_LANE_PER_DAY'' 50)\<rparr>"

definition CHAT_MODELS :: "string list" where
  "CHAT_MODELS = [''GigaChat-2'', ''GigaChat-2-Max'', ''GigaChat-2-Pro'', ''GigaChat-3-Lightning'', ''GigaChat-3-Pro'', ''GigaChat-3-Ultra'']"

record task_request =
  rq_prompt :: string
  rq_model :: string
  rq_lane :: string
  rq_max_tokens :: int

text \<open>The declared field constraints, which are checked before the handler runs.\<close>

definition valid_request :: "task_request \<Rightarrow> bool" where
  "valid_request r \<longleftrightarrow> 1 \<le> length (rq_prompt r) \<and> length (rq_prompt r) \<le> 8000 \<and> rq_lane r \<in> {''primary'', ''freemium''} \<and>
     16 \<le> rq_max_tokens r \<and> rq_max_tokens r \<le> 2048"

text \<open>An answer, an HTTP error with its status, or an exception no clause catches.\<close>

datatype 'a http = Answer 'a | HttpError nat string | Crash exn

subsection \<open>Submitting a task\<close>

definition task_payload :: "string \<Rightarrow> task_request \<Rightarrow> int \<Rightarrow> dict" where
  "task_payload tk r clock =
     [(''task_id'', JStr tk), (''provider'', JStr ''gigachat''), (''operation'', JStr ''chat''),
      (''credential_lane'', JStr (rq_lane r)), (''model'', JStr (rq_model r)),
      (''messages'', JList [JObj [(''role'', JStr ''user''), (''content'', JStr (rq_prompt r))]]),
      (''max_tokens'', JInt (rq_max_tokens r)), (''request_ref'', JStr (''dashboard-'' @ show_int clock))]"

definition dash_error :: "exn \<Rightarrow> 'a http" where
  "dash_error x = (if is_a x RedisError then HttpError 503 ''Task queue is unavailable''
     else if is_a x PsycopgError then HttpError 503 ''Task state is unavailable'' else Crash x)"

text \<open>
  What one request meets: its fresh uuid4, \<open>time.time()\<close>, the times of its two transactions and how
  the three calls go.
\<close>

record visit =
  v_uuid :: string
  v_clock :: int
  v_count_now :: time
  v_record_now :: time
  v_llen :: outcome
  v_count :: outcome
  v_record :: outcome

text \<open>The part before the write: an error, or the request may be recorded.\<close>

definition admission :: "dash_config \<Rightarrow> visit \<Rightarrow> task_request \<Rightarrow> queues \<Rightarrow> db \<Rightarrow> string http option" where
  "admission L v r q d =
     (if rq_model r \<notin> set CHAT_MODELS then Some (HttpError 422 ''Unsupported chat model'')
      else case fst (redis_call (v_llen v) (\<lambda>q. (length (task_q q), q)) q) of
        Inl x \<Rightarrow> Some (dash_error x)
      | Inr n \<Rightarrow>
          if max_queue_depth L \<le> int n then Some (HttpError 429 ''Task queue is at its safe capacity'')
          else case fst (db_call (v_count v) (\<lambda>d. Inr (daily_lane_task_count (v_count_now v) (rq_lane r) d, d)) d) of
            Inl x \<Rightarrow> Some (dash_error x)
          | Inr c \<Rightarrow>
              if max_tasks_per_lane_per_day L \<le> int c
              then Some (HttpError 429 ''Credential lane reached its daily task budget'') else None)"

text \<open>The write and the answer.\<close>

definition record_request :: "ext \<Rightarrow> visit \<Rightarrow> task_request \<Rightarrow> db \<Rightarrow> string http \<times> db" where
  "record_request X v r d =
     (case db_call (v_record v) (\<lambda>d. bindR (record_queued_task X (v_record_now v) (v_uuid v) (task_payload (v_uuid v) r (v_clock v)) d)
             (\<lambda>d'. Inr ((), d'))) d of
        (Inl x, d') \<Rightarrow> (dash_error x, d')
      | (Inr _, d') \<Rightarrow> (Answer (v_uuid v), d'))"

definition create_task :: "ext \<Rightarrow> dash_config \<Rightarrow> visit \<Rightarrow> task_request \<Rightarrow> queues \<Rightarrow> db \<Rightarrow> string http \<times> db" where
  "create_task X L v r q d = (case admission L v r q d of
     Some h \<Rightarrow> (h, d)
   | None \<Rightarrow> record_request X v r d)"

text \<open>The endpoint: requests that break a field constraint are refused by the framework.\<close>

definition post_task :: "ext \<Rightarrow> dash_config \<Rightarrow> visit \<Rightarrow> task_request \<Rightarrow> queues \<Rightarrow> db \<Rightarrow> string http \<times> db" where
  "post_task X L v r q d = (if valid_request r then create_task X L v r q d else (HttpError 422 ''validation error'', d))"

text \<open>
  Several requests in flight: each arrives, is admitted or refused, and then records its task. The
  requests interleave between their admission and their write.
\<close>

datatype client = Arrived visit task_request | Admitted visit task_request | Finished "string http"

definition client_step :: "ext \<Rightarrow> dash_config \<Rightarrow> queues \<Rightarrow> client \<Rightarrow> db \<Rightarrow> client \<times> db" where
  "client_step X L q c d = (case c of
     Arrived v r \<Rightarrow> (case admission L v r q d of Some h \<Rightarrow> (Finished h, d) | None \<Rightarrow> (Admitted v r, d))
   | Admitted v r \<Rightarrow> (case record_request X v r d of (h, d') \<Rightarrow> (Finished h, d'))
   | Finished h \<Rightarrow> (Finished h, d))"

fun run_clients :: "ext \<Rightarrow> dash_config \<Rightarrow> queues \<Rightarrow> nat list \<Rightarrow> client list \<Rightarrow> db \<Rightarrow> client list \<times> db" where
  "run_clients X L q [] cs d = (cs, d)"
| "run_clients X L q (i # sched) cs d =
     (if i < length cs then (case client_step X L q (cs ! i) d of (c, d') \<Rightarrow> run_clients X L q sched (cs[i := c]) d')
      else run_clients X L q sched cs d)"

text \<open>Requests one after another.\<close>

fun run_requests :: "ext \<Rightarrow> dash_config \<Rightarrow> (visit \<times> task_request \<times> queues) list \<Rightarrow> db \<Rightarrow> db" where
  "run_requests X L [] d = d"
| "run_requests X L ((v, r, q) # vs) d = run_requests X L vs (snd (create_task X L v r q d))"

subsection \<open>The overview\<close>

text \<open>\<open>jsonb - 'embeddings'\<close>: a key of an object, equal strings of an array; a scalar is an error.\<close>

definition minus_embeddings :: "json option \<Rightarrow> json option res" where
  "minus_embeddings j = (case j of
     None \<Rightarrow> Inr None
   | Some (JObj kvs) \<Rightarrow> Inr (Some (JObj (filter (\<lambda>(k, _). k \<noteq> ''embeddings'') kvs)))
   | Some (JList xs) \<Rightarrow> Inr (Some (JList (filter (\<lambda>x. x \<noteq> JStr ''embeddings'') xs)))
   | Some _ \<Rightarrow> raise PsycopgError ''cannot delete from scalar'')"

definition status_text :: "task_status \<Rightarrow> string" where
  "status_text s = (case s of Queued \<Rightarrow> ''queued'' | Running \<Rightarrow> ''running'' | Succeeded \<Rightarrow> ''succeeded'' | Failed \<Rightarrow> ''failed'')"

definition opt_json :: "string option \<Rightarrow> json" where
  "opt_json s = (case s of None \<Rightarrow> JNull | Some t \<Rightarrow> JStr t)"

text \<open>\<open>isof\<close> is \<open>datetime.isoformat\<close>.\<close>

definition serialize_row :: "(time \<Rightarrow> string) \<Rightarrow> string \<Rightarrow> task_row \<Rightarrow> json option \<Rightarrow> json" where
  "serialize_row isof k r res = JObj
     [(''id'', JStr k), (''created_at'', JStr (isof (created_at r))),
      (''completed_at'', opt_json (map_option isof (completed_at r))), (''status'', JStr (status_text (status r))),
      (''provider'', opt_json (provider r)), (''model'', opt_json (model r)), (''request_ref'', opt_json (request_ref r)),
      (''error'', opt_json (error_message r)), (''credential_lane'', opt_json (credential_lane r)),
      (''result'', case res of None \<Rightarrow> JObj [] | Some j \<Rightarrow> if truthy j then j else JObj [])]"

text \<open>\<open>ORDER BY created_at DESC LIMIT 18\<close>; rows of one time stay in insertion order.\<close>

definition recent_rows :: "db \<Rightarrow> (string \<times> task_row) list" where
  "recent_rows d = take 18 (sort_key (\<lambda>(_, r). - created_at r) (tasks d))"

definition recent_tasks :: "(time \<Rightarrow> string) \<Rightarrow> db \<Rightarrow> json list res" where
  "recent_tasks isof d = mapR (\<lambda>(k, r). bindR (minus_embeddings (result r)) (\<lambda>res. Inr (serialize_row isof k r res))) (recent_rows d)"

text \<open>\<open>GROUP BY\<close> with a count.\<close>

definition group_counts :: "'a list \<Rightarrow> ('a \<times> nat) list" where
  "group_counts xs = map (\<lambda>x. (x, count_list xs x)) (remdups xs)"

definition task_counts :: "time \<Rightarrow> db \<Rightarrow> (task_status \<times> nat) list" where
  "task_counts now d = group_counts (map (\<lambda>(_, r). status r) (filter (\<lambda>(_, r). now - secs 86400 < created_at r) (tasks d)))"

definition recent_costs :: "time \<Rightarrow> db \<Rightarrow> cost_row list" where
  "recent_costs now d = map snd (filter (\<lambda>(_, c). now - secs 86400 < c_recorded_at c) (cost_events d))"

definition sum_tokens :: "int option list \<Rightarrow> int" where
  "sum_tokens xs = sum_list (map (\<lambda>x. case x of None \<Rightarrow> 0 | Some n \<Rightarrow> n) xs)"

text \<open>\<open>raw_usage->>'credential_lane'\<close>.\<close>

definition usage_lane :: "cost_row \<Rightarrow> string option" where
  "usage_lane c = (case c_raw_usage c of
     JObj kvs \<Rightarrow> (case map_of kvs ''credential_lane'' of
        None \<Rightarrow> None | Some JNull \<Rightarrow> None | Some (JStr s) \<Rightarrow> Some s | Some j \<Rightarrow> Some (dumps default_opts j))
   | _ \<Rightarrow> None)"

text \<open>The comprehension \<open>{lane or "unknown": count}\<close>: a later group of the same key replaces an earlier one.\<close>

definition lane_counts :: "time \<Rightarrow> db \<Rightarrow> (string \<times> nat) list" where
  "lane_counts now d = foldl (\<lambda>t (l, n). upsert (case l of None \<Rightarrow> ''unknown'' | Some s \<Rightarrow> if s = [] then ''unknown'' else s) n (\<lambda>_. n) t) []
     (group_counts (map usage_lane (recent_costs now d)))"

definition active_workers :: "time \<Rightarrow> db \<Rightarrow> nat" where
  "active_workers now d = row_count (\<lambda>_ h. now - secs 90 < last_seen h) (worker_heartbeats d)"

record overview_data =
  ov_generated_at :: string
  ov_refresh_seconds :: int
  ov_host :: host_data
  ov_queue_depth :: nat
  ov_active_workers :: nat
  ov_tasks :: "(task_status \<times> nat) list"
  ov_input_tokens :: int
  ov_output_tokens :: int
  ov_events :: nat
  ov_by_lane :: "(string \<times> nat) list"
  ov_recent :: "json list"

text \<open>\<open>generated\<close> is the local time as text, \<open>depth\<close> the answer of \<open>LLEN\<close>.\<close>

definition refresh_seconds :: "(string \<Rightarrow> int option) \<Rightarrow> int" where
  "refresh_seconds env = env_int env ''PANEL_REFRESH_SECONDS'' 10"

definition overview ::
    "(string \<Rightarrow> int option) \<Rightarrow> (time \<Rightarrow> string) \<Rightarrow> string \<Rightarrow> host \<Rightarrow> time \<Rightarrow> nat res \<Rightarrow> db \<Rightarrow> overview_data res" where
  "overview env isof generated h now depth d =
     bindR (recent_tasks isof d) (\<lambda>recent.
     bindR (host_metrics h) (\<lambda>hm.
     bindR depth (\<lambda>n.
       Inr \<lparr>ov_generated_at = generated, ov_refresh_seconds = refresh_seconds env, ov_host = hm, ov_queue_depth = n, ov_active_workers = active_workers now d, ov_tasks = task_counts now d,
            ov_input_tokens = sum_tokens (map c_input_tokens (recent_costs now d)),
            ov_output_tokens = sum_tokens (map c_output_tokens (recent_costs now d)),
            ov_events = length (recent_costs now d), ov_by_lane = lane_counts now d, ov_recent = recent\<rparr>)))"

definition get_overview ::
    "(string \<Rightarrow> int option) \<Rightarrow> (time \<Rightarrow> string) \<Rightarrow> string \<Rightarrow> host \<Rightarrow> time \<Rightarrow> nat res \<Rightarrow> db \<Rightarrow> overview_data http" where
  "get_overview env isof generated h now depth d = (case overview env isof generated h now depth d of
     Inl _ \<Rightarrow> HttpError 503 ''Control-plane data is temporarily unavailable'' | Inr ov \<Rightarrow> Answer ov)"

definition get_models :: "(string \<times> string list) list" where
  "get_models = [(''chat_models'', CHAT_MODELS)]"

text \<open>\<open>samples\<close> are the rows of the metrics table, their time and temperature; no clause catches a failure.\<close>

definition get_temperature :: "time \<Rightarrow> int \<Rightarrow> (time \<times> rat) list res \<Rightarrow> (int \<times> (time \<times> rat) list) http" where
  "get_temperature now hours samples =
     (if hours \<notin> {1, 12, 24} then HttpError 422 ''hours must be 1, 12, or 24''
      else case samples of
        Inl x \<Rightarrow> Crash x
      | Inr rows \<Rightarrow> Answer (hours, sort_key fst (filter (\<lambda>(t, _). now - secs (3600 * hours) \<le> t) rows)))"

end
