(* ===== verification/DashboardProps.thy ===== *)
theory DashboardProps
  imports Dashboard Scenarios
begin

text \<open>
  What the dashboard's submission guarantees: an answered request is durable, requests one after
  another keep the daily budget of a lane, and requests that overlap do not.
\<close>

subsection \<open>Counting the tasks of a lane\<close>

lemma row_count_insert: "row_count p (insert_nothing k v t) \<le> row_count p t + (if p k v then 1 else 0)"
  by (auto simp: row_count_def insert_nothing_def split: option.splits)

lemma row_count_mono: "(\<And>k v. p k v \<Longrightarrow> q k v) \<Longrightarrow> row_count p t \<le> row_count q t"
  by (induction t) (auto simp: row_count_def)

lemma lane_count_later: "now \<le> now' \<Longrightarrow> daily_lane_task_count now' l d \<le> daily_lane_task_count now l d"
  unfolding daily_lane_task_count_def by (rule row_count_mono) (auto simp: secs_def)

text \<open>Text parameters are stored as they are, or refused.\<close>

definition text_kept :: "ext \<Rightarrow> bool" where
  "text_kept X \<longleftrightarrow> (\<forall>s t. pg_text X (JStr s) = Inr t \<longrightarrow> t = Some s)"

lemma record_request_tasks:
  assumes "record_request X v r d = (h, d')" "text_kept X"
  shows "d' = d \<or> (\<exists>k t. tasks d' = insert_nothing k t (tasks d) \<and> credential_lane t = Some (rq_lane r) \<and> created_at t = v_record_now v)"
proof (cases "d' = d")
  case False
  have "record_queued_task X (v_record_now v) (v_uuid v) (task_payload (v_uuid v) r (v_clock v)) d = Inr d'"
    using assms(1) False by (auto simp: record_request_def db_call_def bindR_Inr_iff split: outcome.splits sum.splits)
  then obtain k t where "queued_row X (v_record_now v) (task_payload (v_uuid v) r (v_clock v)) t" "tasks d' = insert_nothing k t (tasks d)"
    by (rule record_queued_task_tasks)
  then show ?thesis using assms(2) by (auto simp: queued_row_def task_payload_def jget_def text_kept_def)
qed simp

lemma record_request_count:
  assumes "record_request X v r d = (h, d')" "text_kept X"
  shows "daily_lane_task_count now l d' \<le> daily_lane_task_count now l d + (if l = rq_lane r then 1 else 0)"
proof -
  consider "d' = d" | k t where "tasks d' = insert_nothing k t (tasks d)" "credential_lane t = Some (rq_lane r)"
    using record_request_tasks [OF assms] by blast
  then show ?thesis
  proof cases
    case 2
    let ?p = "\<lambda>_ r. credential_lane r = Some l \<and> now - secs 86400 < created_at r"
    have "row_count ?p (tasks d') \<le> row_count ?p (tasks d) + (if ?p k t then 1 else 0)"
      unfolding 2(1) by (rule row_count_insert)
    moreover have "?p k t \<Longrightarrow> l = rq_lane r" using 2(2) by simp
    ultimately show ?thesis unfolding daily_lane_task_count_def by (auto split: if_splits)
  qed simp
qed

lemma admitted_below_budget:
  "admission L v r q d = None \<Longrightarrow> int (daily_lane_task_count (v_count_now v) (rq_lane r) d) < max_tasks_per_lane_per_day L"
  by (auto simp: admission_def db_call_def redis_call_def split: if_splits sum.splits outcome.splits)

lemma create_task_budget:
  assumes "text_kept X" "v_count_now v \<le> v_record_now v" "now \<le> v_count_now v"
    "\<And>l. int (daily_lane_task_count now l d) \<le> max_tasks_per_lane_per_day L"
  shows "int (daily_lane_task_count (v_record_now v) l (snd (create_task X L v r q d))) \<le> max_tasks_per_lane_per_day L"
proof (cases "admission L v r q d")
  case None
  obtain h d' where rec: "record_request X v r d = (h, d')" by fastforce
  note later = lane_count_later [OF assms(2), of l d] lane_count_later [OF order_trans [OF assms(3,2)], of l d]
  show ?thesis
    using record_request_count [OF rec assms(1), of "v_record_now v" l] admitted_below_budget [OF None] later assms(4) [of l]
    by (cases "l = rq_lane r") (simp_all add: create_task_def None rec)
next
  case (Some h)
  then show ?thesis
    using lane_count_later [OF order_trans [OF assms(3,2)], of l d] assms(4) [of l] by (simp add: create_task_def)
qed

text \<open>The times of a sequence of requests do not run backwards.\<close>

fun in_order :: "time \<Rightarrow> (visit \<times> task_request \<times> queues) list \<Rightarrow> bool" where
  "in_order now [] = True"
| "in_order now ((v, _, _) # vs) = (now \<le> v_count_now v \<and> v_count_now v \<le> v_record_now v \<and> in_order (v_record_now v) vs)"

fun last_time :: "time \<Rightarrow> (visit \<times> task_request \<times> queues) list \<Rightarrow> time" where
  "last_time now [] = now"
| "last_time now ((v, _, _) # vs) = last_time (v_record_now v) vs"

lemma run_requests_budget:
  assumes "text_kept X" "in_order now vs" "\<And>l. int (daily_lane_task_count now l d) \<le> max_tasks_per_lane_per_day L"
  shows "int (daily_lane_task_count (last_time now vs) l (run_requests X L vs d)) \<le> max_tasks_per_lane_per_day L"
  using assms(2,3)
proof (induction vs arbitrary: now d)
  case (Cons x vs)
  obtain v r q where x: "x = (v, r, q)" by (cases x)
  have "int (daily_lane_task_count (v_record_now v) l (snd (create_task X L v r q d))) \<le> max_tasks_per_lane_per_day L" for l
    using Cons.prems by (intro create_task_budget [OF assms(1), of v now]) (simp_all add: x)
  then show ?case using Cons.IH [of "v_record_now v" "snd (create_task X L v r q d)"] Cons.prems(1) by (simp add: x)
qed simp

text \<open>
  C21: requests that are handled one after another, however their calls fail, keep every credential
  lane within its daily budget.
\<close>

theorem sequential_requests_within_budget:
  assumes "text_kept X" "in_order now vs" "tasks d = []"
  shows "int (daily_lane_task_count (last_time now vs) l (run_requests X (load_dash_config env) vs d)) \<le> max_tasks_per_lane_per_day (load_dash_config env)"
  using assms by (intro run_requests_budget) (simp_all add: daily_lane_task_count_def row_count_def load_dash_config_def)

subsection \<open>Concrete requests\<close>

definition visit_at :: "string \<Rightarrow> time \<Rightarrow> visit" where
  "visit_at u t = \<lparr>v_uuid = u, v_clock = t div 1000000, v_count_now = t, v_record_now = t, v_llen = Done, v_count = Done, v_record = Done\<rparr>"

definition sample_request :: task_request where
  "sample_request = \<lparr>rq_prompt = ''hello'', rq_model = ''GigaChat-2'', rq_lane = ''primary'', rq_max_tokens = 512\<rparr>"

definition task2 :: string where
  "task2 = ''00000000-0000-4000-8000-000000000002''"

lemma pg_model_text [simp]: "text_kept pg_model"
  by (simp add: text_kept_def pg_model_def)

lemma task2_uuid: "uuid_str task2 = Inr task2"
  unfolding task2_def by code_simp

lemma pg_model_values:
  "pg_uuid pg_model (JStr task1) = Inr task1" "pg_uuid pg_model (JStr task2) = Inr task2"
  "pg_text pg_model (JStr s) = Inr (Some s)" "pg_jsonb pg_model j = Inr j"
  by (simp_all add: pg_model_def task1_uuid task2_uuid)

lemma task2_other: "task2 \<noteq> task1"
  by (simp add: task1_def task2_def)

lemmas request_defs = create_task_def admission_def record_request_def record_queued_task_def insert_queued_task_def
  redis_call_def db_call_def task_payload_def jget_def daily_lane_task_count_def row_count_def insert_nothing_def
  dash_error_def visit_at_def sample_request_def pg_model_values VALID_CREDENTIAL_LANES_def CHAT_MODELS_def empty_db_def
  no_queues_def secs_def task2_other

theorem sequential_requests_within_budget_witness:
  "int (daily_lane_task_count 5 ''primary'' (run_requests pg_model (load_dash_config (\<lambda>_. None)) [(visit_at task1 5, sample_request, no_queues)] empty_db)) \<le> 50"
  using sequential_requests_within_budget [of pg_model 0 "[(visit_at task1 5, sample_request, no_queues)]" empty_db "''primary''" "\<lambda>_. None"]
  by (simp add: empty_db_def visit_at_def load_dash_config_def env_int_def)

text \<open>
  the checks before the write see only what has been written and published: two overlapping
  requests both pass a daily budget of one task, and two consecutive ones both pass a capacity of
  one while their tasks wait in the outbox.
\<close>

theorem admission_misses_waiting_tasks:
  "(case run_clients pg_model \<lparr>max_queue_depth = 100, max_tasks_per_lane_per_day = 1\<rparr> no_queues [0, 1, 0, 1]
       [Arrived (visit_at task1 5) sample_request, Arrived (visit_at task2 6) sample_request] empty_db of
     (cs, d) \<Rightarrow> cs = [Finished (Answer task1), Finished (Answer task2)] \<and> daily_lane_task_count 6 ''primary'' d = 2) \<and>
   (case create_task pg_model \<lparr>max_queue_depth = 1, max_tasks_per_lane_per_day = 50\<rparr> (visit_at task1 5) sample_request no_queues empty_db of
     (a, d) \<Rightarrow> a = Answer task1 \<and>
       (case create_task pg_model \<lparr>max_queue_depth = 1, max_tasks_per_lane_per_day = 50\<rparr> (visit_at task2 6) sample_request no_queues d of
         (b, d') \<Rightarrow> b = Answer task2 \<and> length (filter (\<lambda>(_, ob). o_delivered_at ob = None) (task_outbox d')) = 2))"
  by (simp add: client_step_def request_defs)

subsection \<open>Durability\<close>

text \<open>
  C22: a request that is answered passed every check (the field constraints, the model, the length of the
  queue and the daily budget of its lane), and its task is waiting in the table and in the outbox under
  the answered identifier; a request refused by a check changes nothing.
\<close>

theorem answered_task_is_durable:
  assumes "post_task X L v r q d = (h, d')" "row (tasks d) k = None" "row (task_outbox d) k = None" "pg_uuid X (JStr (v_uuid v)) = Inr k"
  shows "(\<forall>tk. h = Answer tk \<longrightarrow> tk = v_uuid v \<and>
      1 \<le> length (rq_prompt r) \<and> length (rq_prompt r) \<le> 8000 \<and> rq_lane r \<in> {''primary'', ''freemium''} \<and>
      16 \<le> rq_max_tokens r \<and> rq_max_tokens r \<le> 2048 \<and> rq_model r \<in> set CHAT_MODELS \<and>
      int (length (task_q q)) < max_queue_depth L \<and>
      int (daily_lane_task_count (v_count_now v) (rq_lane r) d) < max_tasks_per_lane_per_day L \<and>
      (\<exists>t ob. row (tasks d') k = Some t \<and> status t = Queued \<and> created_at t = v_record_now v \<and>
        row (task_outbox d') k = Some ob \<and> o_delivered_at ob = None \<and>
        pg_jsonb X (JObj (task_payload tk r (v_clock v))) = Inr (o_payload ob))) \<and>
    (h = HttpError 422 m \<or> h = HttpError 429 m \<longrightarrow> d' = d)"
proof (cases "valid_request r \<and> admission L v r q d = None")
  case True
  then have adm: "rq_model r \<in> set CHAT_MODELS" "int (length (task_q q)) < max_queue_depth L"
      "int (daily_lane_task_count (v_count_now v) (rq_lane r) d) < max_tasks_per_lane_per_day L"
    by (auto simp: admission_def redis_call_def db_call_def split: if_splits sum.splits outcome.splits)
  have rec: "record_request X v r d = (h, d')" using assms(1) True by (simp add: post_task_def create_task_def)
  have "h \<noteq> HttpError 422 m" "h \<noteq> HttpError 429 m"
    using rec by (auto simp: record_request_def dash_error_def split: prod.splits sum.splits if_splits)
  moreover have "tk = v_uuid v \<and> (\<exists>t ob. row (tasks d') k = Some t \<and> status t = Queued \<and> created_at t = v_record_now v \<and>
        row (task_outbox d') k = Some ob \<and> o_delivered_at ob = None \<and>
        pg_jsonb X (JObj (task_payload tk r (v_clock v))) = Inr (o_payload ob))" if "h = Answer tk" for tk
  proof -
    have tk: "tk = v_uuid v" and "record_queued_task X (v_record_now v) (v_uuid v) (task_payload (v_uuid v) r (v_clock v)) d = Inr d'"
      using rec that by (auto simp: record_request_def dash_error_def db_call_def bindR_Inr_iff split: outcome.splits sum.splits if_splits)
    then obtain k' t o' where "pg_uuid X (JStr (v_uuid v)) = Inr k'" "queued_row X (v_record_now v) (task_payload (v_uuid v) r (v_clock v)) t"
      "tasks d' = insert_nothing k' t (tasks d)" "o_delivered_at o' = None"
      "pg_jsonb X (JObj (task_payload (v_uuid v) r (v_clock v))) = Inr (o_payload o')" "task_outbox d' = insert_nothing k' o' (task_outbox d)"
      by (elim record_queued_task_tasks) blast
    then show ?thesis using assms(2-4) tk by (auto simp: table_simps queued_row_def)
  qed
  ultimately show ?thesis using adm True by (auto simp: valid_request_def)
next
  case False
  have "admission L v r q d \<noteq> Some (Answer tk)" for tk
    by (auto simp: admission_def dash_error_def split: if_splits sum.splits)
  then have "d' = d" "h \<noteq> Answer tk" for tk
    using assms(1) False by (auto simp: post_task_def create_task_def split: if_splits option.splits)
  then show ?thesis by simp
qed

theorem answered_task_is_durable_witness:
  "\<exists>d' t. post_task pg_model (load_dash_config (\<lambda>_. None)) (visit_at task1 5) sample_request no_queues empty_db = (Answer task1, d') \<and>
     row (tasks d') task1 = Some t \<and> status t = Queued"
proof -
  let ?L = "load_dash_config (\<lambda>_. None)"
  have "valid_request sample_request" by (simp add: valid_request_def request_defs)
  then obtain d' where run: "post_task pg_model ?L (visit_at task1 5) sample_request no_queues empty_db = (Answer task1, d')"
    by (simp add: post_task_def request_defs load_dash_config_def env_int_def)
  have "row (tasks empty_db) task1 = None" "row (task_outbox empty_db) task1 = None"
    "pg_uuid pg_model (JStr (v_uuid (visit_at task1 5))) = Inr task1"
    by (simp_all add: empty_db_def pg_model_values visit_at_def)
  from answered_task_is_durable [OF run this] show ?thesis using run by auto
qed

subsection \<open>The overview\<close>

lemma group_counts_sum: "sum_list (map snd (group_counts xs)) = length xs"
proof -
  have "sum_list (map snd (group_counts xs)) = (\<Sum>x\<leftarrow>remdups xs. count_list xs x)" by (simp add: group_counts_def comp_def)
  also have "\<dots> = (\<Sum>x\<in>set xs. count_list xs x)" by (simp add: sum_list_distinct_conv_sum_set)
  also have "\<dots> = length xs" by (rule sum_count_set) simp_all
  finally show ?thesis .
qed

lemma task_counts_total: "sum_list (map snd (task_counts now d)) = row_count (\<lambda>_ r. now - secs 86400 < created_at r) (tasks d)"
  by (simp add: task_counts_def group_counts_sum row_count_def)

end
