(* ===== verification/Urls.thy ===== *)
theory Urls
  imports PyRegex Digest
begin

text \<open>
  URLs as \<open>urllib.parse\<close> reads and writes them: \<open>urlparse\<close> with the attributes of its result that the
  code uses (\<open>scheme\<close>, \<open>hostname\<close>, \<open>port\<close>, \<open>username\<close>, \<open>password\<close>, \<open>path\<close>, \<open>query\<close>, \<open>fragment\<close>),
  \<open>quote\<close> and \<open>urlencode\<close>. Texts are below code point 256, where the normalisation check of the
  network location never fails.
\<close>

text \<open>
  \<open>ipaddress.ip_address\<close>, whose tables of networks depend on the version of the library, is an
  argument: the kind of address a host is, and whether it is global.
\<close>

datatype ip = IPv4 bool | IPv6 bool

type_synonym ip_reader = "string \<Rightarrow> ip option"

fun ip_global :: "ip \<Rightarrow> bool" where
  "ip_global (IPv4 g) = g"
| "ip_global (IPv6 g) = g"

subsection \<open>Splitting\<close>

text \<open>\<open>s.partition(c)\<close>: what precedes the first \<open>c\<close>, whether there is one, and what follows.\<close>

definition partition_at :: "char \<Rightarrow> string \<Rightarrow> string \<times> bool \<times> string" where
  "partition_at c s = (takeWhile (\<lambda>x. x \<noteq> c) s, c \<in> set s, drop 1 (dropWhile (\<lambda>x. x \<noteq> c) s))"

text \<open>\<open>s.rpartition(c)\<close>, split at the last \<open>c\<close>.\<close>

definition rpartition_at :: "char \<Rightarrow> string \<Rightarrow> string \<times> bool \<times> string" where
  "rpartition_at c s = (if c \<in> set s
     then (rev (drop 1 (dropWhile (\<lambda>x. x \<noteq> c) (rev s))), True, rev (takeWhile (\<lambda>x. x \<noteq> c) (rev s)))
     else ([], False, s))"

record url =
  u_scheme :: string
  u_netloc :: string
  u_path :: string
  u_query :: string
  u_fragment :: string

definition scheme_char :: "char \<Rightarrow> bool" where
  "scheme_char c \<longleftrightarrow> is_digit c \<or> lower_letter c \<or> upper_letter c \<or> c \<in> set ''+-.''"

text \<open>The scheme in front of the first colon, if there is one, lowered.\<close>

definition split_scheme :: "string \<Rightarrow> string \<times> string" where
  "split_scheme s = (case partition_at CHR '':'' s of (a, found, r) \<Rightarrow>
     if found \<and> a \<noteq> [] \<and> (lower_letter (hd a) \<or> upper_letter (hd a)) \<and> list_all scheme_char a then (lower a, r) else ([], s))"

text \<open>What may stand in brackets: an IPv6 address or the form reserved for later versions.\<close>

definition bracketed_ok :: "ip_reader \<Rightarrow> string \<Rightarrow> bool" where
  "bracketed_ok ipa h = (if starts_with ''v'' h
     then (case partition_at CHR ''.'' (drop 1 h) of (a, found, r) \<Rightarrow>
             found \<and> a \<noteq> [] \<and> list_all (\<lambda>c. is_hex_lower c \<or> in_range CHR ''A'' CHR ''F'' c) a \<and> r \<noteq> [])
     else (case ipa h of Some (IPv6 _) \<Rightarrow> True | _ \<Rightarrow> False))"

definition check_netloc :: "ip_reader \<Rightarrow> string \<Rightarrow> unit res" where
  "check_netloc ipa n =
     thenR (raise_if ((CHR ''['' \<in> set n) \<noteq> (CHR '']'' \<in> set n)) ValueError ''Invalid IPv6 URL'')
     (raise_if (CHR ''['' \<in> set n \<and> \<not> bracketed_ok ipa (fst (partition_at CHR '']'' (snd (snd (partition_at CHR ''['' n))))))
        ValueError ''Invalid IPv6 URL'')"

text \<open>Parameters of the last path segment are split off the path.\<close>

definition without_params :: "string \<Rightarrow> string" where
  "without_params p = (case rpartition_at CHR ''/'' p of (a, found, r) \<Rightarrow>
     if found then a @ ''/'' @ fst (partition_at CHR '';'' r) else fst (partition_at CHR '';'' p))"

definition param_schemes :: "string list" where
  "param_schemes = [[], ''ftp'', ''hdl'', ''prospero'', ''http'', ''imap'', ''https'', ''shttp'', ''rtsp'', ''rtsps'', ''rtspu'', ''sip'', ''sips'',
     ''mms'', ''sftp'', ''tel'']"

definition urlparse :: "ip_reader \<Rightarrow> string \<Rightarrow> url res" where
  "urlparse ipa s =
     (let s1 = filter (\<lambda>c. code c \<notin> {9, 10, 13}) (dropWhile (\<lambda>c. code c \<le> 32) s) in
      case split_scheme s1 of (sch, r) \<Rightarrow>
      let net = (if starts_with ''//'' r then takeWhile (\<lambda>c. c \<notin> set ''/?#'') (drop 2 r) else []);
          r1 = (if starts_with ''//'' r then dropWhile (\<lambda>c. c \<notin> set ''/?#'') (drop 2 r) else r) in
      thenR (check_netloc ipa net)
      (case partition_at CHR ''#'' r1 of (r2, _, fragment) \<Rightarrow>
       case partition_at CHR ''?'' r2 of (path, _, query) \<Rightarrow>
         Inr \<lparr>u_scheme = sch, u_netloc = net, u_path = (if sch \<in> set param_schemes then without_params path else path),
              u_query = query, u_fragment = fragment\<rparr>))"

subsection \<open>The network location\<close>

definition userinfo :: "url \<Rightarrow> string option \<times> string option" where
  "userinfo u = (case rpartition_at CHR ''@'' (u_netloc u) of (ui, found, _) \<Rightarrow>
     if \<not> found then (None, None)
     else (case partition_at CHR '':'' ui of (n, have, p) \<Rightarrow> (Some n, if have then Some p else None)))"

definition host_port :: "url \<Rightarrow> string \<times> string" where
  "host_port u = (case rpartition_at CHR ''@'' (u_netloc u) of (_, _, hi) \<Rightarrow>
     case partition_at CHR ''['' hi of (_, br, inner) \<Rightarrow>
       if br then (case partition_at CHR '']'' inner of (h, _, r) \<Rightarrow> (h, snd (snd (partition_at CHR '':'' r))))
       else (case partition_at CHR '':'' hi of (h, _, p) \<Rightarrow> (h, p)))"

text \<open>\<open>parsed.hostname\<close>, None for an empty one; a zone after a percent sign keeps its case.\<close>

definition u_hostname :: "url \<Rightarrow> string option" where
  "u_hostname u = (let h = fst (host_port u) in
     if h = [] then None
     else (case partition_at CHR ''%'' h of (a, found, z) \<Rightarrow> Some (if found then lower a @ ''%'' @ z else lower a)))"

definition u_port :: "url \<Rightarrow> int option res" where
  "u_port u = (let p = snd (host_port u) in
     if p = [] then Inr None
     else if \<not> list_all is_digit p then raise ValueError ''Port could not be cast to integer value''
     else if 65535 < read_base 10 p then raise ValueError ''Port out of range 0-65535'' else Inr (Some (int (read_base 10 p))))"

text \<open>\<open>parsed.username or parsed.password\<close> as a condition.\<close>

definition has_credentials :: "url \<Rightarrow> bool" where
  "has_credentials u = (case userinfo u of (n, p) \<Rightarrow> n \<notin> {None, Some []} \<or> p \<notin> {None, Some []})"

definition standard_port :: "int option \<Rightarrow> bool" where
  "standard_port p \<longleftrightarrow> p = None \<or> p = Some 443"

subsection \<open>Writing\<close>

definition unreserved :: "char \<Rightarrow> bool" where
  "unreserved c \<longleftrightarrow> is_digit c \<or> lower_letter c \<or> upper_letter c \<or> c \<in> set ''_.-~''"

definition hex_upper :: "nat \<Rightarrow> char" where
  "hex_upper d = char_of (if d < 10 then 48 + d else 55 + d)"

definition percent :: "char \<Rightarrow> string" where
  "percent c = [CHR ''%'', hex_upper (code c div 16), hex_upper (code c mod 16)]"

text \<open>\<open>quote(s, safe="")\<close> and \<open>quote_plus(s)\<close>.\<close>

definition quote :: "string \<Rightarrow> string" where
  "quote s = concat (map (\<lambda>c. if unreserved c then [c] else percent c) (utf8 s))"

definition quote_plus :: "string \<Rightarrow> string" where
  "quote_plus s = map (\<lambda>c. if c = CHR '' '' then CHR ''+'' else c)
     (concat (map (\<lambda>c. if unreserved c \<or> c = CHR '' '' then [c] else percent c) (utf8 s)))"

definition urlencode :: "(string \<times> string) list \<Rightarrow> string" where
  "urlencode ps = join ''&'' (map (\<lambda>(k, v). quote_plus k @ ''='' @ quote_plus v) ps)"

text \<open>A quoted text has only characters that cannot end a path or a parameter.\<close>

lemma quote_safe: "set (quote s) \<subseteq> Collect unreserved \<union> {CHR ''%''}"
proof -
  have "unreserved (hex_upper d)" if "d < 16" for d
  proof -
    have "d \<in> set [0..<16]" using that by simp
    moreover have "list_all (\<lambda>d. unreserved (hex_upper d)) [0..<16]" by code_simp
    ultimately show ?thesis unfolding list_all_iff by blast
  qed
  moreover have "code c div 16 < 16" "code c mod 16 < 16" for c
    using nat_of_char_less_256 [of c] by (simp_all add: less_mult_imp_div_less)
  ultimately show ?thesis by (auto simp: quote_def percent_def split: if_splits)
qed

end
