(* ===== verification/ResearchEvidence.thy ===== *)
theory ResearchEvidence
  imports Urls
begin

text \<open>
  The contract of public sources (\<open>research_evidence.py\<close>): ISO dates, the public host of a URL, the
  checks of one record and the review report over at least two independent hosts.
\<close>

subsection \<open>Dates\<close>

text \<open>\<open>datetime.date\<close> as the number of its day, and \<open>date.fromisoformat\<close>; None is the ValueError.\<close>

definition leap :: "int \<Rightarrow> bool" where
  "leap y \<longleftrightarrow> 4 dvd y \<and> (\<not> 100 dvd y \<or> 400 dvd y)"

definition month_days :: "int \<Rightarrow> int list" where
  "month_days y = [31, if leap y then 29 else 28, 31, 30, 31, 30, 31, 31, 30, 31, 30, 31]"

definition days_before_year :: "int \<Rightarrow> int" where
  "days_before_year y = (let p = y - 1 in p * 365 + p div 4 - p div 100 + p div 400)"

definition ymd :: "nat \<Rightarrow> nat \<Rightarrow> nat \<Rightarrow> int option" where
  "ymd y m d = (if 1 \<le> y \<and> y \<le> 9999 \<and> 1 \<le> m \<and> m \<le> 12 \<and> 1 \<le> d \<and> int d \<le> month_days (int y) ! (m - 1)
     then Some (days_before_year (int y) + sum_list (take (m - 1) (month_days (int y))) + int d) else None)"

text \<open>The first day of the first ISO week of a year; day 1 of the calendar is a Monday.\<close>

definition iso_week1 :: "int \<Rightarrow> int" where
  "iso_week1 y = (let first = days_before_year y + 1; weekday = (first + 6) mod 7 in
     if 3 < weekday then first - weekday + 7 else first - weekday)"

definition ywd :: "nat \<Rightarrow> nat \<Rightarrow> nat \<Rightarrow> int option" where
  "ywd y w d = (let first = days_before_year (int y) + 1; weekday = (first + 6) mod 7;
       long = (weekday = 3 \<or> weekday = 2 \<and> leap (int y)); n = iso_week1 (int y) + (int w - 1) * 7 + int d - 1 in
     if 1 \<le> y \<and> y \<le> 9999 \<and> 1 \<le> w \<and> (w \<le> 52 \<or> w = 53 \<and> long) \<and> 1 \<le> d \<and> d \<le> 7 \<and> 1 \<le> n \<and> n \<le> 3652059
     then Some n else None)"

text \<open>A text of a shape: the digits stand where the shape has a d, other characters are themselves.\<close>

definition shaped :: "string \<Rightarrow> string \<Rightarrow> bool" where
  "shaped p s \<longleftrightarrow> list_all2 (\<lambda>a c. if a = CHR ''d'' then is_digit c else c = a) p s"

abbreviation digits_at :: "nat \<Rightarrow> nat \<Rightarrow> string \<Rightarrow> nat" where
  "digits_at i n s \<equiv> read_base 10 (take n (drop i s))"

definition iso_date :: "string \<Rightarrow> int option" where
  "iso_date s =
     (if shaped ''dddd-dd-dd'' s then ymd (digits_at 0 4 s) (digits_at 5 2 s) (digits_at 8 2 s)
      else if shaped ''dddddddd'' s then ymd (digits_at 0 4 s) (digits_at 4 2 s) (digits_at 6 2 s)
      else if shaped ''ddddWdd'' s then ywd (digits_at 0 4 s) (digits_at 5 2 s) 1
      else if shaped ''dddd-Wdd'' s then ywd (digits_at 0 4 s) (digits_at 6 2 s) 1
      else if shaped ''ddddWddd'' s then ywd (digits_at 0 4 s) (digits_at 5 2 s) (digits_at 7 1 s)
      else if shaped ''dddd-Wdd-d'' s then ywd (digits_at 0 4 s) (digits_at 6 2 s) (digits_at 9 1 s)
      else None)"

subsection \<open>Records\<close>

record source_evidence =
  source_id :: string
  ev_url :: string
  ev_title :: string
  ev_published_on :: string
  ev_checked_on :: string
  ev_level :: string
  ev_limitations :: "string list"
  raw_excerpt :: string

record citation =
  cit_source_id :: string
  cit_url :: string
  cit_title :: string
  cit_published_on :: string
  cit_checked_on :: string
  cit_level :: string
  cit_limitations :: "string list"

record review_report =
  report_decision :: string
  citations :: "citation list"
  excerpt_digests :: "string list"
  report_audit :: "string list"

definition source_id_rx :: rx where
  "source_id_rx = RSeq (lit ''src-'') (RRep (RSet (\<lambda>c. lower_letter c \<or> is_digit c \<or> c = CHR ''-'')) 3 (Some 64))"

definition evidence_levels :: "string list" where
  "evidence_levels = [''primary'', ''secondary'', ''reference'']"

definition max_title_length :: nat where
  "max_title_length = 500"

subsection \<open>Checks\<close>

definition public_hostname :: "ip_reader \<Rightarrow> string \<Rightarrow> string res" where
  "public_hostname ipa s =
     bindR (urlparse ipa s) (\<lambda>u.
     bindR (reraise ValueError ResearchEvidencePolicyError ''source URL port is malformed'' (u_port u)) (\<lambda>port.
     case u_hostname u of
       None \<Rightarrow> raise ResearchEvidencePolicyError ''source URL must be public HTTPS without credentials''
     | Some h \<Rightarrow>
         thenR (raise_if (u_scheme u \<noteq> ''https'' \<or> has_credentials u \<or> \<not> standard_port port) ResearchEvidencePolicyError
                  ''source URL must be public HTTPS without credentials'')
         (case ipa (lower h) of
            None \<Rightarrow> Inr (lower h)
          | Some a \<Rightarrow> thenR (raise_if (\<not> ip_global a) ResearchEvidencePolicyError ''source URL must not use a non-public IP address'')
                       (Inr (lower h)))))"

definition parse_iso_date :: "string \<Rightarrow> string \<Rightarrow> int res" where
  "parse_iso_date s field = (case iso_date s of
     Some n \<Rightarrow> Inr n | None \<Rightarrow> raise ResearchEvidencePolicyError (field @ '' must be an ISO date''))"

definition require_public_evidence :: "ip_reader \<Rightarrow> source_evidence \<Rightarrow> unit res" where
  "require_public_evidence ipa e =
     thenR (raise_if (\<not> fullmatch source_id_rx (source_id e)) ResearchEvidencePolicyError ''source id is malformed'')
     (bindR (public_hostname ipa (ev_url e)) (\<lambda>_.
     thenR (raise_if (strip (ev_title e) = [] \<or> max_title_length < length (ev_title e)) ResearchEvidencePolicyError
              ''source title is missing or too long'')
     (bindR (parse_iso_date (ev_published_on e) ''published_on'') (\<lambda>p.
     bindR (parse_iso_date (ev_checked_on e) ''checked_on'') (\<lambda>c.
     thenR (raise_if (c < p) ResearchEvidencePolicyError ''source cannot be checked before publication'')
     (thenR (raise_if (ev_level e \<notin> set evidence_levels) ResearchEvidencePolicyError ''evidence level is not declared'')
     (thenR (raise_if (ev_limitations e = [] \<or> list_ex (\<lambda>s. strip s = []) (ev_limitations e)) ResearchEvidencePolicyError
              ''source limitations are required'')
     (raise_if (20000 < length (raw_excerpt e)) ResearchEvidencePolicyError ''raw excerpt is invalid'')))))))) "

text \<open>The loop over the records, with the identifiers and the hosts seen so far.\<close>

fun check_sources :: "ip_reader \<Rightarrow> source_evidence list \<Rightarrow> string list \<Rightarrow> string set \<Rightarrow> string set res" where
  "check_sources ipa [] ids hosts = Inr hosts"
| "check_sources ipa (e # es) ids hosts =
     thenR (require_public_evidence ipa e)
     (thenR (raise_if (source_id e \<in> set ids) ResearchEvidencePolicyError ''source ids must be unique'')
     (bindR (public_hostname ipa (ev_url e)) (\<lambda>h. check_sources ipa es (source_id e # ids) (insert h hosts))))"

definition cite :: "source_evidence \<Rightarrow> citation" where
  "cite e = \<lparr>cit_source_id = source_id e, cit_url = ev_url e, cit_title = ev_title e, cit_published_on = ev_published_on e,
     cit_checked_on = ev_checked_on e, cit_level = ev_level e, cit_limitations = ev_limitations e\<rparr>"

definition build_research_review_report :: "ip_reader \<Rightarrow> source_evidence list \<Rightarrow> review_report res" where
  "build_research_review_report ipa es =
     thenR (raise_if (length es < 2) ResearchEvidencePolicyError ''at least two sources are required'')
     (bindR (check_sources ipa es [] {}) (\<lambda>hosts.
     thenR (raise_if (card hosts < 2) ResearchEvidencePolicyError ''independent public domains are required'')
     (Inr \<lparr>report_decision = ''review_required'', citations = map cite es, excerpt_digests = map (\<lambda>e. sha256 (raw_excerpt e)) es,
           report_audit = [''sources:public-https'', ''sources:independent-domains'', ''content:untrusted-opaque'', ''decision:review_required'']\<rparr>)))"

end
