(* ===== verification/ItResearch.thy ===== *)
theory ItResearch
  imports ResearchEvidence Tables PyFloat
begin

text \<open>
  The public research pipeline (\<open>it_research.py\<close>): the query and the normalized items, the request
  checks, the three searches and the two exact look-ups, and the run that collects them behind the
  evidence contract. The transport (an HTTPS request), the day, decoding UTF-8 and the XML parser,
  which are library and system code in C, are arguments. The brief and the receipts in Russian are
  left out.
\<close>

text \<open>An XML element: its tag with the name space, attributes, text and children.\<close>

datatype xml = Xml (x_tag: string) (x_attrs: "(string \<times> string) list") (x_text: string) (x_children: "xml list")

text \<open>
  \<open>decode\<close> is \<open>payload.decode("utf-8")\<close> (None is the UnicodeDecodeError), \<open>xml_of\<close> is
  \<open>ElementTree.fromstring\<close> (None is the ParseError), \<open>today\<close> the text of \<open>_today()\<close>.
\<close>

record lib =
  ipa :: ip_reader
  decode :: "string \<Rightarrow> string option"
  xml_of :: "string \<Rightarrow> xml option"
  today :: string

subsection \<open>Queries and items\<close>

definition topic_rx :: rx where
  "topic_rx = line_rx 5 180"

record query =
  topic :: string
  max_results :: int

definition make_query :: "query \<Rightarrow> query res" where
  "make_query q =
     thenR (raise_if (\<not> fullmatch topic_rx (strip (topic q))) ItResearchError ''topic must be a single line of 5 to 180 characters'')
     (thenR (raise_if (max_results q < 2 \<or> 10 < max_results q) ItResearchError ''max results per provider must be between 2 and 10'')
     (Inr q))"

datatype provider_name = Arxiv | Openalex | Crossref

definition provider_text :: "provider_name \<Rightarrow> string" where
  "provider_text p = (case p of Arxiv \<Rightarrow> ''arxiv'' | Openalex \<Rightarrow> ''openalex'' | Crossref \<Rightarrow> ''crossref'')"

definition provenance_url :: "provider_name \<Rightarrow> string" where
  "provenance_url p = (case p of Arxiv \<Rightarrow> ''https://arxiv.org'' | Openalex \<Rightarrow> ''https://openalex.org'' | Crossref \<Rightarrow> ''https://crossref.org'')"

record research_item =
  it_provider :: provider_name
  it_provider_id :: string
  it_url :: string
  it_title :: string
  it_published_on :: string
  it_checked_on :: string
  it_level :: string
  it_limitations :: "string list"
  it_abstract :: string
  it_authors :: "string list"
  it_doi :: "string option"

definition to_evidence :: "research_item \<Rightarrow> source_evidence" where
  "to_evidence i =
     \<lparr>source_id = ''src-'' @ provider_text (it_provider i) @ ''-'' @
        take 16 (sha256 (provider_text (it_provider i) @ '':'' @ it_provider_id i)),
      ev_url = provenance_url (it_provider i), ev_title = it_title i, ev_published_on = it_published_on i,
      ev_checked_on = it_checked_on i, ev_level = it_level i, ev_limitations = it_limitations i, raw_excerpt = it_abstract i\<rparr>"

record research_run =
  run_query :: query
  run_checked_on :: string
  run_items :: "research_item list"
  run_errors :: "string list"
  run_decision :: string
  run_audit :: "string list"

subsection \<open>Requests\<close>

definition allowed_hosts :: "string list" where
  "allowed_hosts = [''export.arxiv.org'', ''api.openalex.org'', ''api.crossref.org'']"

definition max_response_bytes :: nat where
  "max_response_bytes = 1000000"

definition validate_url :: "ip_reader \<Rightarrow> string \<Rightarrow> unit res" where
  "validate_url ip s =
     bindR (urlparse ip s) (\<lambda>u.
     bindR (reraise ValueError ItResearchError ''research request URL port is malformed'' (u_port u)) (\<lambda>port.
     thenR (raise_if (u_scheme u \<noteq> ''https'' \<or> (case u_hostname u of None \<Rightarrow> True | Some h \<Rightarrow> h \<notin> set allowed_hosts))
              ItResearchError ''research request target is outside the allowlist'')
     (raise_if (has_credentials u \<or> \<not> standard_port port) ItResearchError ''research request URL is malformed'')))"

text \<open>
  \<open>opener.open\<close> and \<open>response.read\<close>: the final URL and at most the bytes asked for, or an exception.
  \<open>opener.open\<close> stops at a redirect with the error of the handler.
\<close>

type_synonym opener = "string \<Rightarrow> (string \<times> string) list \<Rightarrow> nat \<Rightarrow> (string \<times> string) res"

definition request_failures :: "exn \<Rightarrow> bool" where
  "request_failures e \<longleftrightarrow> is_a e HTTPError \<or> is_a e URLError \<or> is_a e TimeoutError"

definition default_transport :: "ip_reader \<Rightarrow> opener \<Rightarrow> string \<Rightarrow> (string \<times> string) list \<Rightarrow> string res" where
  "default_transport ip net url headers =
     thenR (validate_url ip url)
     (bindR (case net url headers (max_response_bytes + 1) of
        Inl e \<Rightarrow> (if request_failures e then raise ItResearchError ''research provider request failed'' else Inl e)
      | Inr (final, payload) \<Rightarrow> thenR (validate_url ip final) (Inr payload)) (\<lambda>payload.
     thenR (raise_if (max_response_bytes < length payload) ItResearchError ''research provider response exceeded the size limit'')
     (Inr payload)))"

type_synonym transport = "string \<Rightarrow> (string \<times> string) list \<Rightarrow> string res"

text \<open>A metadata page: its content type and bytes.\<close>

record abstract_response =
  content_type :: string
  page_bytes :: string

type_synonym abstract_transport = "string \<Rightarrow> abstract_response res"

definition arxiv_id_rx :: rx where
  "arxiv_id_rx = RSeq (RRep (RSet is_digit) 4 (Some 4)) (RSeq (RSet (\<lambda>c. c = CHR ''.'')) (RSeq (RRep (RSet is_digit) 4 (Some 5))
     (opt_rx (RSeq (RSet (\<lambda>c. c = CHR ''v'')) (RRep (RSet is_digit) 1 None)))))"

definition doi_rx :: rx where
  "doi_rx = RSeq (lit ''10.'') (RSeq (RRep (RSet is_digit) 4 (Some 9)) (RSeq (RSet (\<lambda>c. c = CHR ''/''))
     (RRep (RSet (\<lambda>c. lower_letter c \<or> upper_letter c \<or> is_digit c \<or> c \<in> set ''-._;()/:'')) 1 (Some 180))))"

definition page_types :: "string list" where
  "page_types = [''text/html'', ''application/xhtml+xml'']"

text \<open>The opener of pages also gives the content type of the response.\<close>

definition default_arxiv_abstract_transport ::
    "ip_reader \<Rightarrow> (string \<Rightarrow> nat \<Rightarrow> (string \<times> string \<times> string) res) \<Rightarrow> abstract_transport" where
  "default_arxiv_abstract_transport ip net url =
     bindR (urlparse ip url) (\<lambda>u.
     bindR (if u_scheme u \<noteq> ''https'' \<or> u_hostname u \<noteq> Some ''arxiv.org'' \<or> has_credentials u then Inr True
            else bindR (u_port u) (\<lambda>port. Inr (\<not> standard_port port \<or> \<not> fullmatch (RSeq (lit ''/abs/'') arxiv_id_rx) (u_path u) \<or>
                   u_query u \<noteq> [] \<or> u_fragment u \<noteq> []))) (\<lambda>bad.
     thenR (raise_if bad ItResearchError ''arXiv abstract target is outside the exact allowlist'')
     (bindR (case net url (max_response_bytes + 1) of
        Inl e \<Rightarrow> (if request_failures e then raise ItResearchError ''arXiv abstract request failed'' else Inl e)
      | Inr (final, payload, ct) \<Rightarrow> thenR (raise_if (final \<noteq> url) ItResearchError ''arXiv abstract location changed'') (Inr (payload, ct)))
      (\<lambda>(payload, ct).
     thenR (raise_if (max_response_bytes < length payload \<or> ct \<notin> set page_types) ItResearchError ''arXiv abstract response is invalid'')
     (Inr \<lparr>content_type = ct, page_bytes = payload\<rparr>)))))"

subsection \<open>Cleaning metadata\<close>

text \<open>\<open>_TAG.sub(" ", s)\<close>: each leftmost \<open>[<][^>]+[>]\<close> with something inside becomes a space.\<close>

function sub_tags :: "string \<Rightarrow> string" where
  "sub_tags s = (case s of
     [] \<Rightarrow> []
   | c # r \<Rightarrow> (if c = CHR ''<'' \<and> takeWhile (\<lambda>x. x \<noteq> CHR ''>'') r \<noteq> [] \<and> CHR ''>'' \<in> set r
       then CHR '' '' # sub_tags (drop 1 (dropWhile (\<lambda>x. x \<noteq> CHR ''>'') r)) else c # sub_tags r))"
  by pat_completeness auto

termination
  by (relation "measure length") (auto intro!: le_imp_less_Suc le_trans [OF diff_le_self length_dropWhile_le])

declare sub_tags.simps [simp del]

text \<open>A value of the response, or None where there is none; only texts are cleaned.\<close>

definition clean_string :: "string \<Rightarrow> string" where
  "clean_string s = take 20000 (join '' '' (words (sub_tags s)))"

definition clean_text :: "json \<Rightarrow> string" where
  "clean_text j = (case j of JStr s \<Rightarrow> clean_string s | _ \<Rightarrow> [])"

definition clean_or :: "json \<Rightarrow> string \<Rightarrow> string" where
  "clean_or j fallback = (case j of JStr s \<Rightarrow> (if clean_string s = [] then fallback else clean_string s) | _ \<Rightarrow> fallback)"

definition date_of :: "json \<Rightarrow> string \<Rightarrow> string" where
  "date_of j checked = (let t = take 10 (clean_text j) in if shaped ''dddd-dd-dd'' t then t else checked)"

definition https_url :: "ip_reader \<Rightarrow> json \<Rightarrow> string \<Rightarrow> string res" where
  "https_url ip j fallback =
     (let url0 = clean_or j fallback;
          url = (if starts_with ''http://'' url0 then ''https://'' @ drop 7 url0 else url0) in
      bindR (urlparse ip url) (\<lambda>u.
        Inr (case u_port u of
          Inl _ \<Rightarrow> fallback
        | Inr port \<Rightarrow> if u_scheme u \<noteq> ''https'' \<or> u_hostname u = None \<or> has_credentials u \<or> \<not> standard_port port
                      then fallback else url)))"

definition opt_str :: "string option \<Rightarrow> json" where
  "opt_str s = (case s of None \<Rightarrow> JNull | Some t \<Rightarrow> JStr t)"

text \<open>The metadata tags of an abstract page, in the order the HTML parser meets them.\<close>

record page_meta =
  pm_title :: string
  pm_authors :: "string list"
  pm_published :: string

definition handle_starttag :: "string \<Rightarrow> (string \<times> string option) list \<Rightarrow> page_meta \<Rightarrow> page_meta" where
  "handle_starttag tag attrs m =
     (if casefold tag \<noteq> ''meta'' then m
      else let values = foldl (\<lambda>t (n, v). case v of None \<Rightarrow> t | Some x \<Rightarrow> upsert (casefold n) x (\<lambda>_. x) t) [] attrs;
               name = casefold (case map_of values ''name'' of None \<Rightarrow> [] | Some x \<Rightarrow> x);
               content = clean_text (opt_str (map_of values ''content'')) in
        if name \<in> {''citation_title'', ''dc.title''} \<and> pm_title m = [] then m\<lparr>pm_title := content\<rparr>
        else if name = ''citation_author'' \<and> content \<noteq> [] then m\<lparr>pm_authors := pm_authors m @ [content]\<rparr>
        else if name \<in> {''citation_date'', ''dc.date''} \<and> pm_published m = [] then m\<lparr>pm_published := content\<rparr>
        else m)"

definition page_meta_of :: "(string \<times> (string \<times> string option) list) list \<Rightarrow> page_meta" where
  "page_meta_of tags = foldl (\<lambda>m (t, attrs). handle_starttag t attrs m) \<lparr>pm_title = [], pm_authors = [], pm_published = []\<rparr> tags"

text \<open>\<open>tags_of\<close> gives the start tags \<open>HTMLParser\<close> reports for a page.\<close>

definition lookup_arxiv_abstract_page ::
    "lib \<Rightarrow> (string \<Rightarrow> (string \<times> (string \<times> string option) list) list) \<Rightarrow> string \<Rightarrow> abstract_transport \<Rightarrow> research_item res" where
  "lookup_arxiv_abstract_page L tags_of aid tr =
     (let url = ''https://arxiv.org/abs/'' @ aid in
      bindR (tr url) (\<lambda>resp.
      thenR (raise_if (content_type resp \<notin> set page_types \<or> max_response_bytes < length (page_bytes resp))
               ItResearchError ''arXiv abstract response is invalid'')
      (case decode L (page_bytes resp) of
         None \<Rightarrow> raise ItResearchError ''arXiv abstract metadata is not UTF-8''
       | Some html \<Rightarrow> (let m = page_meta_of (tags_of html) in
           thenR (raise_if (pm_title m = []) ItResearchError ''arXiv abstract metadata has no title'')
           (Inr \<lparr>it_provider = Arxiv, it_provider_id = aid, it_url = url, it_title = pm_title m,
                 it_published_on = date_of (JStr (pm_published m)) (today L), it_checked_on = today L, it_level = ''reference'',
                 it_limitations = [''arXiv preprint; peer-review status must be checked separately.'',
                    ''Exact arXiv abstract metadata fallback used after an Atom API refusal.''],
                 it_abstract = [], it_authors = take 100 (pm_authors m), it_doi = None\<rparr>)))))"

definition load_json :: "lib \<Rightarrow> string \<Rightarrow> (string \<times> json) list res" where
  "load_json L payload = (case decode L payload of
     None \<Rightarrow> raise ItResearchError ''research provider returned invalid JSON''
   | Some s \<Rightarrow> bindR (reraise JSONDecodeError ItResearchError ''research provider returned invalid JSON'' (loads s)) (\<lambda>j.
       case j of JObj kvs \<Rightarrow> Inr kvs | _ \<Rightarrow> raise ItResearchError ''research provider JSON envelope is invalid''))"

text \<open>\<open>[a-z0-9][a-z0-9-]{2,}\<close>: the maximal matches from the left.\<close>

definition term_char :: "char \<Rightarrow> bool" where
  "term_char c \<longleftrightarrow> lower_letter c \<or> upper_letter c \<or> is_digit c \<or> c = CHR ''-''"

function find_terms :: "string \<Rightarrow> string list" where
  "find_terms s = (case s of
     [] \<Rightarrow> []
   | c # r \<Rightarrow> (let w = takeWhile term_char r in
       if term_char c \<and> c \<noteq> CHR ''-'' \<and> 2 \<le> length w then (c # w) # find_terms (dropWhile term_char r) else find_terms r))"
  by pat_completeness auto

termination by (relation "measure length") (auto simp: le_imp_less_Suc length_dropWhile_le)

declare find_terms.simps [simp del]

definition title_relevance :: "string \<Rightarrow> string \<Rightarrow> nat" where
  "title_relevance title tp = card (set (find_terms (casefold tp)) \<inter> set (find_terms (casefold title)))"

subsection \<open>arXiv\<close>

definition arxiv_scan_results :: nat where
  "arxiv_scan_results = 20"

definition atom :: string where
  "atom = ''{http://www.w3.org/2005/Atom}''"

definition find_all :: "xml \<Rightarrow> string \<Rightarrow> xml list" where
  "find_all e tag = filter (\<lambda>c. x_tag c = tag) (x_children e)"

text \<open>\<open>e.findtext(tag)\<close>: the text of the first child of that tag.\<close>

definition find_text :: "xml \<Rightarrow> string \<Rightarrow> json" where
  "find_text e tag = (case find_all e tag of [] \<Rightarrow> JNull | c # _ \<Rightarrow> JStr (x_text c))"

definition user_agent :: "(string \<times> string) list" where
  "user_agent = [(''User-Agent'', ''neurolab-it-research/0.1'')]"

text \<open>The item of an entry; the identifier is its cleaned id.\<close>

definition arxiv_item :: "lib \<Rightarrow> xml \<Rightarrow> string \<Rightarrow> research_item res" where
  "arxiv_item L e identifier =
     bindR (https_url (ipa L) (JStr identifier) ''https://arxiv.org'') (\<lambda>url.
     Inr \<lparr>it_provider = Arxiv, it_provider_id = after_last CHR ''/'' identifier, it_url = url,
          it_title = clean_text (find_text e (atom @ ''title'')), it_published_on = date_of (find_text e (atom @ ''published'')) (today L),
          it_checked_on = today L, it_level = ''reference'',
          it_limitations = ''arXiv preprint; peer-review status must be checked separately.'' #
            take 3 (map (\<lambda>c. case map_of (x_attrs c) ''term'' of None \<Rightarrow> [] | Some t \<Rightarrow> t) (find_all e (atom @ ''category''))),
          it_abstract = clean_text (find_text e (atom @ ''summary'')),
          it_authors = filter (\<lambda>n. n \<noteq> []) (map (\<lambda>a. clean_text (find_text a (atom @ ''name''))) (find_all e (atom @ ''author''))),
          it_doi = None\<rparr>)"

text \<open>The loop over the entries; entries without an id or a title are skipped.\<close>

fun arxiv_entries :: "lib \<Rightarrow> xml list \<Rightarrow> research_item list res" where
  "arxiv_entries L [] = Inr []"
| "arxiv_entries L (e # es) =
     (let identifier = clean_text (find_text e (atom @ ''id'')) in
      if identifier = [] \<or> clean_text (find_text e (atom @ ''title'')) = [] then arxiv_entries L es
      else bindR (arxiv_item L e identifier) (\<lambda>i. bindR (arxiv_entries L es) (\<lambda>is. Inr (i # is))))"

definition arxiv_params :: "(string \<times> string) list" where
  "arxiv_params = [(''search_query'', ''cat:cs.AI OR cat:cs.SE OR cat:cs.CL OR cat:cs.IR''), (''start'', ''0''),
     (''max_results'', show_nat arxiv_scan_results), (''sortBy'', ''submittedDate''), (''sortOrder'', ''descending'')]"

text \<open>\<open>sorted(..., reverse=True)\<close> keeps the order of items with equal relevance.\<close>

definition search_arxiv :: "lib \<Rightarrow> query \<Rightarrow> transport \<Rightarrow> research_item list res" where
  "search_arxiv L q tr =
     bindR (tr (''https://export.arxiv.org/api/query?'' @ urlencode arxiv_params) user_agent) (\<lambda>payload.
     case xml_of L payload of
       None \<Rightarrow> raise ItResearchError ''arXiv returned invalid Atom XML''
     | Some doc \<Rightarrow> bindR (arxiv_entries L (take arxiv_scan_results (find_all doc (atom @ ''entry'')))) (\<lambda>items.
         Inr (take (nat (max_results q)) (sort_key (\<lambda>i. - int (title_relevance (it_title i) (topic q))) items))))"

definition lookup_arxiv_identifier ::
    "lib \<Rightarrow> (string \<Rightarrow> (string \<times> (string \<times> string option) list) list) \<Rightarrow> string \<Rightarrow> transport \<Rightarrow> abstract_transport \<Rightarrow> research_item res" where
  "lookup_arxiv_identifier L tags_of aid tr fallback =
     thenR (raise_if (\<not> fullmatch arxiv_id_rx aid) ItResearchError ''only modern arXiv identifiers are allowed'')
     (case tr (''https://export.arxiv.org/api/query?'' @ urlencode [(''id_list'', aid)]) user_agent of
        Inl e \<Rightarrow> (if is_a e ItResearchError then lookup_arxiv_abstract_page L tags_of aid fallback else Inl e)
      | Inr payload \<Rightarrow> (case xml_of L payload of
          None \<Rightarrow> raise ItResearchError ''arXiv returned invalid Atom XML''
        | Some doc \<Rightarrow> (case find_all doc (atom @ ''entry'') of
            [e] \<Rightarrow> (let identifier = clean_text (find_text e (atom @ ''id'')) in
               thenR (raise_if (after_last CHR ''/'' identifier \<noteq> aid \<or> clean_text (find_text e (atom @ ''title'')) = [])
                        ItResearchError ''arXiv record does not match the requested identifier'')
               (arxiv_item L e identifier))
          | _ \<Rightarrow> raise ItResearchError ''arXiv identifier did not resolve to exactly one record'')))"

subsection \<open>OpenAlex\<close>

text \<open>\<open>authorship.get("author", {}).get("display_name")\<close>; an author that is no object has no method get.\<close>

definition display_name :: "(string \<times> json) list \<Rightarrow> json res" where
  "display_name a = (case map_of a ''author'' of
     None \<Rightarrow> Inr JNull
   | Some (JObj kvs) \<Rightarrow> Inr (jget kvs ''display_name'')
   | Some _ \<Rightarrow> raise AttributeError ''get'')"

fun openalex_authors :: "json list \<Rightarrow> string list res" where
  "openalex_authors [] = Inr []"
| "openalex_authors (a # as) = (case a of
     JObj kvs \<Rightarrow> bindR (display_name kvs) (\<lambda>n. bindR (openalex_authors as) (\<lambda>ns.
       Inr (if clean_text n = [] then ns else clean_text n # ns)))
   | _ \<Rightarrow> openalex_authors as)"

definition openalex_item :: "lib \<Rightarrow> (string \<times> json) list \<Rightarrow> research_item option res" where
  "openalex_item L r =
     (let pid = clean_text (jget r ''id''); title = clean_text (jget r ''title'') in
      if pid = [] \<or> title = [] then Inr None
      else let loc = (case jget r ''primary_location'' of JObj kvs \<Rightarrow> jget kvs ''landing_page_url'' | _ \<Rightarrow> JNull) in
        bindR (https_url (ipa L) (JStr pid) ''https://openalex.org'') (\<lambda>own.
        bindR (case jget r ''authorships'' of JList as \<Rightarrow> openalex_authors as | _ \<Rightarrow> Inr []) (\<lambda>authors.
        bindR (https_url (ipa L) loc own) (\<lambda>url.
        Inr (Some \<lparr>it_provider = Openalex, it_provider_id = after_last CHR ''/'' pid, it_url = url, it_title = title,
               it_published_on = date_of (jget r ''publication_date'') (today L), it_checked_on = today L, it_level = ''secondary'',
               it_limitations = [''OpenAlex metadata; verify publisher record and full-text licence separately.''],
               it_abstract = [], it_authors = authors,
               it_doi = (let d = clean_text (jget r ''doi'') in if d = [] then None else Some d)\<rparr>)))))"

fun openalex_items :: "lib \<Rightarrow> json list \<Rightarrow> research_item list res" where
  "openalex_items L [] = Inr []"
| "openalex_items L (j # js) = (case j of
     JObj r \<Rightarrow> bindR (openalex_item L r) (\<lambda>i. bindR (openalex_items L js) (\<lambda>is. Inr (case i of None \<Rightarrow> is | Some x \<Rightarrow> x # is)))
   | _ \<Rightarrow> openalex_items L js)"

definition auth_headers :: "string option \<Rightarrow> (string \<times> string) list" where
  "auth_headers key = (case key of
     None \<Rightarrow> user_agent
   | Some k \<Rightarrow> if strip k = [] then user_agent else user_agent @ [(''Authorization'', ''Bearer '' @ strip k)])"

definition search_openalex :: "lib \<Rightarrow> query \<Rightarrow> string option \<Rightarrow> transport \<Rightarrow> research_item list res" where
  "search_openalex L q key tr =
     bindR (tr (''https://api.openalex.org/works?'' @ urlencode
         [(''search.exact'', strip (topic q)), (''per-page'', show_int (max_results q)),
          (''select'', ''id,title,publication_date,authorships,doi,primary_location'')]) (auth_headers key)) (\<lambda>payload.
     bindR (load_json L payload) (\<lambda>env.
     case jget env ''results'' of
       JList rs \<Rightarrow> openalex_items L (take (nat (max_results q)) rs)
     | _ \<Rightarrow> raise ItResearchError ''OpenAlex results are invalid''))"

definition lookup_openalex_doi :: "lib \<Rightarrow> string \<Rightarrow> string option \<Rightarrow> transport \<Rightarrow> research_item res" where
  "lookup_openalex_doi L doi key tr =
     (let norm = casefold (strip doi) in
      thenR (raise_if (\<not> fullmatch doi_rx norm) ItResearchError ''only a bounded DOI identifier is allowed'')
      (bindR (tr (''https://api.openalex.org/works/'' @ quote (''https://doi.org/'' @ norm)) (auth_headers key)) (\<lambda>payload.
      bindR (load_json L payload) (\<lambda>env.
      bindR (openalex_item L env) (\<lambda>item.
      case item of
        None \<Rightarrow> raise ItResearchError ''OpenAlex record does not match the requested DOI''
      | Some i \<Rightarrow> thenR (raise_if (remove_prefix ''https://doi.org/'' (casefold (case it_doi i of None \<Rightarrow> [] | Some d \<Rightarrow> d)) \<noteq> norm)
                     ItResearchError ''OpenAlex record does not match the requested DOI'') (Inr i))))))"

subsection \<open>Crossref\<close>

text \<open>\<open>isinstance(part, int)\<close> holds for truth values, too; the format pads with zeros behind the sign.\<close>

definition int_part :: "json \<Rightarrow> int option" where
  "int_part j = (case j of JInt i \<Rightarrow> Some i | JBool b \<Rightarrow> Some (if b then 1 else 0) | _ \<Rightarrow> None)"

definition zero_pad :: "nat \<Rightarrow> int \<Rightarrow> string" where
  "zero_pad w i = (let ds = show_nat (nat \<bar>i\<bar>) in
     if i < 0 then ''-'' @ replicate (w - 1 - length ds) CHR ''0'' @ ds else replicate (w - length ds) CHR ''0'' @ ds)"

definition published_date :: "json \<Rightarrow> string \<Rightarrow> string" where
  "published_date j checked = (case j of
     JObj kvs \<Rightarrow> (case jget kvs ''date-parts'' of
        JList (JList (a # b # c # _) # _) \<Rightarrow> (case (int_part a, int_part b, int_part c) of
            (Some y, Some m, Some d) \<Rightarrow> zero_pad 4 y @ ''-'' @ zero_pad 2 m @ ''-'' @ zero_pad 2 d
          | _ \<Rightarrow> checked)
      | _ \<Rightarrow> checked)
   | _ \<Rightarrow> checked)"

definition crossref_authors :: "json \<Rightarrow> string list" where
  "crossref_authors j = (case j of
     JList as \<Rightarrow> List.map_filter (\<lambda>a. case a of
        JObj kvs \<Rightarrow> Some (join '' '' (filter (\<lambda>p. p \<noteq> []) [clean_text (jget kvs ''given''), clean_text (jget kvs ''family'')]))
      | _ \<Rightarrow> None) as
   | _ \<Rightarrow> [])"

definition crossref_item :: "lib \<Rightarrow> (string \<times> json) list \<Rightarrow> research_item option res" where
  "crossref_item L r =
     (let doi = clean_text (jget r ''DOI''); title = (case jget r ''title'' of JList (t # _) \<Rightarrow> clean_text t | _ \<Rightarrow> []) in
      if doi = [] \<or> title = [] then Inr None
      else bindR (https_url (ipa L) (jget r ''URL'') (''https://doi.org/'' @ doi)) (\<lambda>url.
        Inr (Some \<lparr>it_provider = Crossref, it_provider_id = lower doi, it_url = url, it_title = title,
               it_published_on = published_date (jget r ''published'') (today L), it_checked_on = today L, it_level = ''primary'',
               it_limitations = [''Crossref metadata; publisher abstract and full text may have separate copyright terms.''],
               it_abstract = clean_text (jget r ''abstract''), it_authors = crossref_authors (jget r ''author''), it_doi = Some doi\<rparr>)))"

fun crossref_items :: "lib \<Rightarrow> json list \<Rightarrow> research_item list res" where
  "crossref_items L [] = Inr []"
| "crossref_items L (j # js) = (case j of
     JObj r \<Rightarrow> bindR (crossref_item L r) (\<lambda>i. bindR (crossref_items L js) (\<lambda>is. Inr (case i of None \<Rightarrow> is | Some x \<Rightarrow> x # is)))
   | _ \<Rightarrow> crossref_items L js)"

definition search_crossref :: "lib \<Rightarrow> query \<Rightarrow> string option \<Rightarrow> transport \<Rightarrow> research_item list res" where
  "search_crossref L q mailto tr =
     bindR (tr (''https://api.crossref.org/works?'' @ urlencode
         ([(''query.bibliographic'', strip (topic q)), (''rows'', show_int (max_results q)),
           (''select'', ''DOI,title,published,URL,author,abstract'')] @
          (case mailto of None \<Rightarrow> [] | Some m \<Rightarrow> if strip m = [] then [] else [(''mailto'', strip m)]))) user_agent) (\<lambda>payload.
     bindR (load_json L payload) (\<lambda>env.
     case (case jget env ''message'' of JObj m \<Rightarrow> jget m ''items'' | _ \<Rightarrow> JNull) of
       JList rs \<Rightarrow> crossref_items L (take (nat (max_results q)) rs)
     | _ \<Rightarrow> raise ItResearchError ''Crossref results are invalid''))"

subsection \<open>The run\<close>

text \<open>The attempts in order; a provider that fails or finds nothing leaves a note.\<close>

fun collect :: "(provider_name \<times> research_item list res) list \<Rightarrow> (research_item list \<times> string list) res" where
  "collect [] = Inr ([], [])"
| "collect ((p, r) # ps) = (case r of
     Inl e \<Rightarrow> if is_a e ItResearchError
       then bindR (collect ps) (\<lambda>(items, errs). Inr (items, (''provider:'' @ provider_text p @ '':unavailable'') # errs)) else Inl e
   | Inr found \<Rightarrow> bindR (collect ps) (\<lambda>(items, errs).
       Inr (found @ items, if found = [] then (''provider:'' @ provider_text p @ '':empty'') # errs else errs)))"

definition run_it_research :: "lib \<Rightarrow> query \<Rightarrow> string option \<Rightarrow> string option \<Rightarrow> transport \<Rightarrow> research_run res" where
  "run_it_research L q key mailto tr =
     bindR (collect [(Arxiv, search_arxiv L q tr), (Openalex, search_openalex L q key tr), (Crossref, search_crossref L q mailto tr)])
     (\<lambda>(items, errs).
     bindR (reraise ResearchEvidencePolicyError ItResearchError ''insufficient independent public evidence''
              (build_research_review_report (ipa L) (map to_evidence items))) (\<lambda>rep.
     Inr \<lparr>run_query = q, run_checked_on = today L, run_items = items, run_errors = errs, run_decision = report_decision rep,
          run_audit = report_audit rep @ [''scope:it-public-only'', ''output:code-agent-brief'']\<rparr>))"

end
