(* ===== verification/Corpus.thy ===== *)
theory Corpus
  imports ItResearch Evaluators "HOL-Library.Product_Lexorder" "HOL-Library.List_Lexorder"
begin

text \<open>
  The public corpus: classification of items and the coverage gate (\<open>research_corpus.py\<close>), the queue
  of full-text candidates (\<open>fulltext_candidate_queue.py\<close>), the observer of the transition to a
  specification (\<open>corpus_spec_observer.py\<close>) and the contract evaluator of the classifier
  (\<open>article_scoring_evaluator.py\<close>). Scores are rational numbers. The rendered status in Russian is
  left out.
\<close>

subsection \<open>Classification\<close>

datatype layer = GlobalArchitecture | Subsystem | Component | Feature

definition all_layers :: "layer list" where
  "all_layers = [GlobalArchitecture, Subsystem, Component, Feature]"

definition layer_text :: "layer \<Rightarrow> string" where
  "layer_text l = (case l of GlobalArchitecture \<Rightarrow> ''global_architecture'' | Subsystem \<Rightarrow> ''subsystem''
     | Component \<Rightarrow> ''component'' | Feature \<Rightarrow> ''feature'')"

definition layer_terms :: "layer \<Rightarrow> string list" where
  "layer_terms l = (case l of
     GlobalArchitecture \<Rightarrow> [''architecture'', ''architectures'', ''framework'', ''system'', ''systems'', ''agentic'', ''orchestration'']
   | Subsystem \<Rightarrow> [''pipeline'', ''workflow'', ''planner'', ''planning'', ''memory'', ''retrieval'', ''supervisor'', ''routing'']
   | Component \<Rightarrow> [''mcp'', ''langgraph'', ''tool'', ''tools'', ''evaluation'', ''benchmark'', ''guardrail'', ''testing'', ''agent'']
   | Feature \<Rightarrow> [''review'', ''trace'', ''tracing'', ''logging'', ''observability'', ''search'', ''ranking'', ''citation'', ''audit''])"

datatype verification = MetadataObserved | MetadataCorroborated | ContentVerified

fun verification_rank :: "verification \<Rightarrow> nat" where
  "verification_rank MetadataObserved = 0"
| "verification_rank MetadataCorroborated = 1"
| "verification_rank ContentVerified = 2"

record source_assessment =
  sa_key :: string
  sa_item :: research_item
  sa_layers :: "layer list"
  sa_confidence :: rat
  sa_conceptual :: rat
  sa_implementation :: rat
  sa_reproducibility :: rat
  sa_independence :: rat
  sa_verification :: verification
  sa_rationale :: "string list"

definition canonical_source_key :: "research_item \<Rightarrow> string" where
  "canonical_source_key i = sha256 (casefold (strip (case it_doi i of Some d \<Rightarrow> if d = [] then it_url i else d | None \<Rightarrow> it_url i)))"

definition layers_of_title :: "string \<Rightarrow> layer list" where
  "layers_of_title t = (let terms = find_terms (casefold t) in
     filter (\<lambda>l. list_ex (\<lambda>w. w \<in> set (layer_terms l)) terms) all_layers)"

definition level_support :: "string \<Rightarrow> rat res" where
  "level_support l = (if l = ''reference'' then Inr (45 / 100) else if l = ''secondary'' then Inr (50 / 100)
     else if l = ''primary'' then Inr (55 / 100) else raise KeyError l)"

definition provider_independence :: "provider_name \<Rightarrow> rat" where
  "provider_independence p = (case p of Arxiv \<Rightarrow> 45 / 100 | Openalex \<Rightarrow> 55 / 100 | Crossref \<Rightarrow> 55 / 100)"

definition classify_item :: "research_item \<Rightarrow> source_assessment res" where
  "classify_item i =
     (let found = layers_of_title (it_title i);
          layers = (if found = [] then [Component] else found);
          confidence = (if found = [] then 20 / 100 else min (80 / 100) (35 / 100 + 10 / 100 * of_nat (length layers)));
          reason = (if found = [] then ''Title has no taxonomy signal; assigned component only as a low-confidence review queue.''
             else ''Architecture layer is a deterministic title-metadata classification and requires human review.'') in
      bindR (level_support (it_level i)) (\<lambda>conceptual.
      Inr \<lparr>sa_key = canonical_source_key i, sa_item = i, sa_layers = layers, sa_confidence = confidence,
           sa_conceptual = conceptual, sa_implementation = 0, sa_reproducibility = 0,
           sa_independence = provider_independence (it_provider i), sa_verification = MetadataObserved,
           sa_rationale = [reason, ''Metadata-only discovery is not evidence of executable code, dataset availability, or reproduced results.'']\<rparr>))"

subsection \<open>The coverage gate\<close>

record coverage_policy =
  minimum_unique_sources :: int
  minimum_sources_per_layer :: int
  minimum_provider_provenance :: int
  minimum_content_verified :: int
  minimum_reproducibility_mean :: rat

definition default_policy :: coverage_policy where
  "default_policy = \<lparr>minimum_unique_sources = 12, minimum_sources_per_layer = 3, minimum_provider_provenance = 2,
     minimum_content_verified = 4, minimum_reproducibility_mean = 35 / 100\<rparr>"

record coverage =
  cov_ready :: bool
  cov_unique :: int
  cov_providers :: int
  cov_layers :: "(layer \<times> int) list"
  cov_verified :: int
  cov_mean :: rat
  cov_unmet :: "string list"

text \<open>One observation: a key keeps its strongest assessment, and among equals the first.\<close>

definition observe :: "source_assessment \<Rightarrow> (string, source_assessment) table \<Rightarrow> (string, source_assessment) table" where
  "observe a t = (case row t (sa_key a) of
     None \<Rightarrow> t @ [(sa_key a, a)]
   | Some p \<Rightarrow> if verification_rank (sa_verification p) < verification_rank (sa_verification a)
       then update_where (\<lambda>k _. k = sa_key a) (\<lambda>_. a) t else t)"

definition by_key :: "source_assessment list \<Rightarrow> (string, source_assessment) table" where
  "by_key as = foldl (\<lambda>t a. observe a t) [] as"

definition layer_count :: "layer \<Rightarrow> source_assessment list \<Rightarrow> int" where
  "layer_count l vs = int (length (filter (\<lambda>a. l \<in> set (sa_layers a)) vs))"

definition buildable :: "source_assessment list \<Rightarrow> rat list" where
  "buildable vs = map sa_reproducibility (filter (\<lambda>a. Component \<in> set (sa_layers a) \<or> Feature \<in> set (sa_layers a)) vs)"

definition mean :: "rat list \<Rightarrow> rat" where
  "mean xs = (if xs = [] then 0 else sum_list xs / of_nat (length xs))"

text \<open>\<open>round(x, 3)\<close>, with halves to the even neighbour.\<close>

definition round3 :: "rat \<Rightarrow> rat" where
  "round3 x = (let y = 1000 * x; f = \<lfloor>y\<rfloor>; d = y - of_int f in
     of_int (if d < 1 / 2 then f else if 1 / 2 < d then f + 1 else if even f then f else f + 1) / 1000)"

definition evaluate_coverage :: "coverage_policy \<Rightarrow> source_assessment list \<Rightarrow> coverage" where
  "evaluate_coverage P as =
     (let vs = map snd (by_key as); n = int (length vs); provs = int (card (set (map (\<lambda>a. it_provider (sa_item a)) as)));
          m = mean (buildable vs); ver = int (length (filter (\<lambda>a. sa_verification a = ContentVerified) vs));
          unmet =
            (if n < minimum_unique_sources P then [''need '' @ show_int (minimum_unique_sources P - n) @ '' more unique sources''] else []) @
            (if provs < minimum_provider_provenance P then [''need metadata from at least two provider provenances''] else []) @
            concat (map (\<lambda>l. let missing = minimum_sources_per_layer P - layer_count l vs in
              if 0 < missing then [''need '' @ show_int missing @ '' more sources for '' @ layer_text l] else []) all_layers) @
            (if ver < minimum_content_verified P
             then [''need '' @ show_int (minimum_content_verified P - ver) @ '' more content-verified sources''] else []) @
            (if m < minimum_reproducibility_mean P then [''need reproducibility evidence for component and feature sources''] else [])
      in \<lparr>cov_ready = (unmet = []), cov_unique = n, cov_providers = provs,
          cov_layers = map (\<lambda>l. (l, layer_count l vs)) all_layers, cov_verified = ver, cov_mean = round3 m, cov_unmet = unmet\<rparr>)"

subsection \<open>Full-text candidates\<close>

record preflight_candidate =
  pc_key :: string
  pc_arxiv_id :: string
  pc_priority :: rat
  pc_reasons :: "string list"
  pc_next_action :: string

definition priority_of :: "source_assessment \<Rightarrow> rat \<times> string list" where
  "priority_of a =
     (let build = Component \<in> set (sa_layers a) \<or> Feature \<in> set (sa_layers a);
          sub = Subsystem \<in> set (sa_layers a); glob = GlobalArchitecture \<in> set (sa_layers a);
          score = 10 / 100 + 20 / 100 * sa_conceptual a + 10 / 100 * sa_confidence a + 10 / 100 * sa_independence a +
            (if build then 25 / 100 else 0) + (if sub then 15 / 100 else 0) + (if glob then 10 / 100 else 0)
      in (round3 (min score 1), [''metadata_only'', ''license_preflight_required''] @
           (if build then [''implementation_or_feature_coverage''] else []) @ (if sub then [''subsystem_coverage''] else []) @
           (if glob then [''global_architecture_context''] else [])))"

definition preflight_eligible :: "source_assessment \<Rightarrow> bool" where
  "preflight_eligible a \<longleftrightarrow> it_provider (sa_item a) = Arxiv \<and> sa_verification a = MetadataObserved \<and>
     fullmatch arxiv_id_rx (it_provider_id (sa_item a))"

text \<open>A key keeps the assessment with the highest confidence, and among equals the first.\<close>

definition keep_confident :: "source_assessment \<Rightarrow> (string, source_assessment) table \<Rightarrow> (string, source_assessment) table" where
  "keep_confident a t = (case row t (sa_key a) of
     None \<Rightarrow> t @ [(sa_key a, a)]
   | Some p \<Rightarrow> if sa_confidence p < sa_confidence a then update_where (\<lambda>k _. k = sa_key a) (\<lambda>_. a) t else t)"

definition candidate_of :: "source_assessment \<Rightarrow> preflight_candidate" where
  "candidate_of a = \<lparr>pc_key = sa_key a, pc_arxiv_id = it_provider_id (sa_item a), pc_priority = fst (priority_of a),
     pc_reasons = snd (priority_of a), pc_next_action = ''verify_arxiv_license_and_exact_pdf''\<rparr>"

definition preflight_table :: "source_assessment list \<Rightarrow> (string, source_assessment) table" where
  "preflight_table as = foldl (\<lambda>t a. if preflight_eligible a then keep_confident a t else t) [] as"

text \<open>The order of Python's texts.\<close>

definition text_key :: "string \<Rightarrow> nat list" where
  "text_key s = map code s"

definition build_fulltext_preflight_queue :: "source_assessment list \<Rightarrow> int \<Rightarrow> preflight_candidate list res" where
  "build_fulltext_preflight_queue as limit =
     thenR (raise_if (limit < 1 \<or> 20 < limit) ValueError ''preflight queue limit must be between 1 and 20'')
     (Inr (take (nat limit) (sort_key (\<lambda>c. (- pc_priority c, text_key (pc_key c)))
        (map (\<lambda>(_, a). candidate_of a) (preflight_table as)))))"

subsection \<open>The observer\<close>

record evaluator_receipt =
  er_kind :: string
  er_version :: string
  er_state :: string
  er_definition :: string
  er_metrics :: "metrics option"

record observation =
  ob_policy :: string
  ob_coverage_ready :: bool
  ob_article :: string
  ob_response :: string
  ob_decision :: string
  ob_reasons :: "string list"

definition article_baseline_is_healthy :: "evaluator_receipt option \<Rightarrow> bool" where
  "article_baseline_is_healthy r = (case r of
     None \<Rightarrow> False
   | Some e \<Rightarrow> er_state e = ''promoted'' \<and> (case er_metrics e of
        None \<Rightarrow> False
      | Some m \<Rightarrow> 99 / 100 \<le> primary_quality m \<and> 99 / 100 \<le> safety_quality m \<and> 99 / 100 \<le> calibration_quality m))"

definition response_status :: "evaluator_receipt option \<Rightarrow> string" where
  "response_status r = (case r of
     None \<Rightarrow> ''not_observed''
   | Some e \<Rightarrow> if er_state e = ''shadow'' \<and> er_metrics e \<noteq> None then ''shadow_observed'' else ''not_ready'')"

definition observe_corpus_to_spec :: "coverage \<Rightarrow> evaluator_receipt option \<Rightarrow> evaluator_receipt option \<Rightarrow> observation" where
  "observe_corpus_to_spec c article response =
     (let status = (if article_baseline_is_healthy article then ''healthy_baseline'' else ''baseline_missing_or_unhealthy'');
          out = (\<lambda>d rs. \<lparr>ob_policy = ''corpus-spec-observer-v1'', ob_coverage_ready = cov_ready c, ob_article = status,
                   ob_response = response_status response, ob_decision = d, ob_reasons = rs\<rparr>) in
      if \<not> cov_ready c then out ''continue_collecting_evidence'' [''coverage_gate_not_ready'']
      else if status \<noteq> ''healthy_baseline'' then out ''hold_for_article_evaluator'' [''article_scorer_baseline_required'']
      else out ''review_only_synthesis_candidate'' [''coverage_gate_ready'', ''article_scorer_contract_healthy'', ''no_code_agent_dispatch''])"

subsection \<open>The contract of the classifier\<close>

record scoring_case =
  sc_id :: string
  sc_item :: research_item
  sc_layers :: "layer list"
  sc_confidence :: rat

definition scoring_case_ids :: "string list" where
  "scoring_case_ids = [''arch_system'', ''workflow_tools'', ''trace_feature'', ''no_signal'']"

definition synthetic_item :: "string \<Rightarrow> provider_name \<Rightarrow> string \<Rightarrow> research_item" where
  "synthetic_item title p level = \<lparr>it_provider = p, it_provider_id = ''synthetic-'' @ take 12 (sha256 title),
     it_url = ''https://example.invalid/synthetic'', it_title = title, it_published_on = ''2026-01-01'', it_checked_on = ''2026-01-01'',
     it_level = level, it_limitations = [''synthetic evaluator fixture''], it_abstract = [], it_authors = [], it_doi = None\<rparr>"

definition frozen_article_scoring_cases :: "scoring_case list" where
  "frozen_article_scoring_cases =
     [\<lparr>sc_id = ''arch_system'', sc_item = synthetic_item ''Agentic system architecture'' Arxiv ''reference'',
       sc_layers = [GlobalArchitecture], sc_confidence = 45 / 100\<rparr>,
      \<lparr>sc_id = ''workflow_tools'', sc_item = synthetic_item ''Workflow planner with MCP tools'' Openalex ''primary'',
       sc_layers = [Subsystem, Component], sc_confidence = 55 / 100\<rparr>,
      \<lparr>sc_id = ''trace_feature'', sc_item = synthetic_item ''Tracing and audit search'' Crossref ''secondary'',
       sc_layers = [Feature], sc_confidence = 45 / 100\<rparr>,
      \<lparr>sc_id = ''no_signal'', sc_item = synthetic_item ''Methods for nocturnal butterflies'' Arxiv ''reference'',
       sc_layers = [Component], sc_confidence = 20 / 100\<rparr>]"

text \<open>\<open>src\<close> is the source text of \<open>classify_item\<close>, which \<open>inspect\<close> reads.\<close>

definition article_scorer_definition_sha256 :: "string \<Rightarrow> string" where
  "article_scorer_definition_sha256 src = sha256 (join [char_of (10 :: nat)] (''metadata_title_v1'' # src # scoring_case_ids))"

definition article_scorer_baseline :: "string \<Rightarrow> evaluator_version res" where
  "article_scorer_baseline src = (let def = article_scorer_definition_sha256 src in make_version
     \<lparr>evaluator_id = uuid5_url (''neurolab/article_scoring/metadata_title_v1/'' @ def), ev_kind = ''article_scoring'',
      ev_version = ''metadata_title_v1'', proposed_by = ''baseline_policy'', definition_sha256 = def,
      frozen_case_ids = scoring_case_ids, active_case_ids = scoring_case_ids, ev_state = ''promoted'', parent_evaluator_id = None\<rparr>)"

definition cohort_of :: "scoring_case list \<Rightarrow> string" where
  "cohort_of cs = sha256 (join [char_of (10 :: nat)] (map sc_id cs))"

definition ratio :: "bool list \<Rightarrow> rat" where
  "ratio bs = of_nat (length (filter (\<lambda>b. b) bs)) / of_nat (length bs)"

definition evaluate_article_scorer ::
    "string \<Rightarrow> string \<Rightarrow> (research_item \<Rightarrow> source_assessment res) \<Rightarrow> string \<Rightarrow> evaluation_run res" where
  "evaluate_article_scorer src fresh classify who =
     (let cs = frozen_article_scoring_cases in
      bindR (mapR (\<lambda>c. classify (sc_item c)) cs) (\<lambda>as.
      bindR (article_scorer_baseline src) (\<lambda>base.
      bindR (make_metrics (Fin (ratio (map2 (\<lambda>c a. sa_layers a = sc_layers c) cs as)))
               (Fin (ratio (map (\<lambda>a. sa_implementation a = 0 \<and> sa_reproducibility a = 0 \<and> sa_verification a = MetadataObserved) as)))
               (Fin (ratio (map2 (\<lambda>c a. \<bar>sa_confidence a - sc_confidence c\<bar> < 1 / 10 ^ 9) cs as)))
               (Fin 1) (int (length cs))) (\<lambda>m.
      make_run \<lparr>run_id = fresh, run_evaluator_id = evaluator_id base, cohort_sha256 = cohort_of cs, assessor = who,
                assessor_role = ''independent_evaluator'', run_metrics = m\<rparr>))))"

end
