(* ===== verification/CorpusProps.thy ===== *)
theory CorpusProps
  imports Corpus
begin

text \<open>
  Properties of the research pipeline and of the corpus: what decides whether a run succeeds, that
  metadata alone never opens the coverage gate, which assessment of a source counts, the bounded
  queue of candidates and the contract of the classifier.
\<close>

subsection \<open>The evidence of items\<close>

text \<open>The hosts of the providers are names and no addresses.\<close>

definition plain_hosts :: "lib \<Rightarrow> bool" where
  "plain_hosts L \<longleftrightarrow> ipa L ''arxiv.org'' = None \<and> ipa L ''openalex.org'' = None \<and> ipa L ''crossref.org'' = None"

definition provider_host :: "provider_name \<Rightarrow> string" where
  "provider_host p = (case p of Arxiv \<Rightarrow> ''arxiv.org'' | Openalex \<Rightarrow> ''openalex.org'' | Crossref \<Rightarrow> ''crossref.org'')"

text \<open>What the evidence contract asks of an item.\<close>

definition item_ok :: "research_item \<Rightarrow> bool" where
  "item_ok i \<longleftrightarrow> strip (it_title i) \<noteq> [] \<and> length (it_title i) \<le> 500 \<and>
     (\<exists>p c. iso_date (it_published_on i) = Some p \<and> iso_date (it_checked_on i) = Some c \<and> p \<le> c) \<and>
     it_level i \<in> set evidence_levels \<and> it_limitations i \<noteq> [] \<and> list_all (\<lambda>s. strip s \<noteq> []) (it_limitations i) \<and>
     length (it_abstract i) \<le> 20000"

lemma provider_urls: "urlparse ip (provenance_url p) =
    Inr \<lparr>u_scheme = ''https'', u_netloc = provider_host p, u_path = [], u_query = [], u_fragment = []\<rparr>"
  unfolding provenance_url_def provider_host_def by (cases p; simp only: provider_name.case; code_simp)

lemma provider_hostname: "plain_hosts L \<Longrightarrow> public_hostname (ipa L) (provenance_url p) = Inr (provider_host p)"
proof -
  assume L: "plain_hosts L"
  let ?u = "\<lparr>u_scheme = ''https'', u_netloc = provider_host p, u_path = [], u_query = [], u_fragment = []\<rparr>"
  have "u_port ?u = Inr None \<and> u_hostname ?u = Some (provider_host p) \<and> \<not> has_credentials ?u \<and> lower (provider_host p) = provider_host p"
    unfolding provider_host_def by (cases p; simp only: provider_name.case; code_simp)
  moreover have "ipa L (provider_host p) = None" using L by (cases p) (simp_all add: plain_hosts_def provider_host_def)
  ultimately show ?thesis by (simp add: public_hostname_def provider_urls reraise_def standard_port_def)
qed

lemma evidence_id_ok: "fullmatch source_id_rx (source_id (to_evidence i))"
proof -
  let ?t = "provider_text (it_provider i) @ ''-'' @ take 16 (sha256 (provider_text (it_provider i) @ '':'' @ it_provider_id i))"
  have h: "list_all is_hex_lower (take 16 (sha256 x))" "length (take 16 (sha256 x)) = 16" for x
    using sha256_form [of x] by (auto simp: list_all_iff dest: in_set_takeD)
  have "list_all (\<lambda>c. lower_letter c \<or> is_digit c \<or> c = CHR ''-'') ?t"
  proof -
    have "list_all (\<lambda>c. lower_letter c \<or> is_digit c \<or> c = CHR ''-'') (provider_text p)" for p
      unfolding provider_text_def by (cases p; simp only: provider_name.case; code_simp)
    moreover have "list_all (\<lambda>c. lower_letter c \<or> is_digit c \<or> c = CHR ''-'') (take 16 (sha256 x))" for x
      by (rule list.pred_mono_strong [OF h(1)]) (auto simp: is_hex_lower_def in_range_def)
    ultimately show ?thesis by simp
  qed
  moreover have "3 \<le> length ?t \<and> length ?t \<le> 64" using h(2) by (cases "it_provider i") (simp_all add: provider_text_def)
  ultimately have "fullmatch (RRep (RSet (\<lambda>c. lower_letter c \<or> is_digit c \<or> c = CHR ''-'')) 3 (Some 64)) ?t"
    by (simp add: match_class in_bounds_def)
  then show ?thesis unfolding source_id_rx_def match_seq match_lit by (auto simp: to_evidence_def)
qed

lemma evidence_checked:
  assumes "plain_hosts L"
  shows "require_public_evidence (ipa L) (to_evidence i) = Inr () \<longleftrightarrow> item_ok i"
    "require_public_evidence (ipa L) (to_evidence i) = Inl e \<Longrightarrow> exn_class e = ResearchEvidencePolicyError"
proof -
  have f: "ev_url (to_evidence i) = provenance_url (it_provider i)" "ev_title (to_evidence i) = it_title i"
    "ev_published_on (to_evidence i) = it_published_on i" "ev_checked_on (to_evidence i) = it_checked_on i"
    "ev_level (to_evidence i) = it_level i" "ev_limitations (to_evidence i) = it_limitations i"
    "raw_excerpt (to_evidence i) = it_abstract i"
    by (simp_all add: to_evidence_def)
  note p = require_public_evidence_def evidence_id_ok f provider_hostname [OF assms] parse_iso_date_def
  show "require_public_evidence (ipa L) (to_evidence i) = Inr () \<longleftrightarrow> item_ok i"
    by (auto simp: p res_simps item_ok_def max_title_length_def list_ex_iff list_all_iff not_less split: option.splits)
  show "require_public_evidence (ipa L) (to_evidence i) = Inl e \<Longrightarrow> exn_class e = ResearchEvidencePolicyError"
    by (auto simp: p res_simps split: option.splits)
qed

text \<open>The loop over the evidence of items.\<close>

lemma check_items:
  assumes "plain_hosts L"
  shows "if list_all item_ok is \<and> distinct (map (source_id \<circ> to_evidence) is) \<and> (\<forall>i \<in> set is. source_id (to_evidence i) \<notin> set ids)
    then check_sources (ipa L) (map to_evidence is) ids hosts = Inr (hosts \<union> provider_host ` it_provider ` set is)
    else \<exists>m. check_sources (ipa L) (map to_evidence is) ids hosts = raise ResearchEvidencePolicyError m"
proof (induction "is" arbitrary: ids hosts)
  case (Cons i "is")
  have url: "ev_url (to_evidence i) = provenance_url (it_provider i)" by (simp add: to_evidence_def)
  show ?case
  proof (cases "item_ok i \<and> source_id (to_evidence i) \<notin> set ids")
    case True
    then have step: "check_sources (ipa L) (map to_evidence (i # is)) ids hosts =
        check_sources (ipa L) (map to_evidence is) (source_id (to_evidence i) # ids) (insert (provider_host (it_provider i)) hosts)"
      using evidence_checked(1) [OF assms, of i] by (simp add: url provider_hostname [OF assms])
    have cond: "(list_all item_ok (i # is) \<and> distinct (map (source_id \<circ> to_evidence) (i # is)) \<and>
        (\<forall>j \<in> set (i # is). source_id (to_evidence j) \<notin> set ids)) \<longleftrightarrow>
      (list_all item_ok is \<and> distinct (map (source_id \<circ> to_evidence) is) \<and>
        (\<forall>j \<in> set is. source_id (to_evidence j) \<notin> set (source_id (to_evidence i) # ids)))"
      using True by auto (metis image_eqI)+
    have hosts: "hosts \<union> provider_host ` it_provider ` set (i # is) = insert (provider_host (it_provider i)) hosts \<union> provider_host ` it_provider ` set is"
      by simp
    show ?thesis unfolding step cond hosts by (rule Cons.IH)
  next
    case False
    obtain e where "check_sources (ipa L) (map to_evidence (i # is)) ids hosts = Inl e" "exn_class e = ResearchEvidencePolicyError"
    proof (cases "require_public_evidence (ipa L) (to_evidence i)")
      case (Inl e)
      then show ?thesis using that evidence_checked(2) [OF assms Inl] by simp
    next
      case (Inr u)
      then have "item_ok i" using evidence_checked(1) [OF assms, of i] by (cases u) simp
      then show ?thesis using that False Inr by simp
    qed
    then show ?thesis using False by (cases e) auto
  qed
qed simp

lemma provider_hosts_differ: "provider_host p = provider_host p' \<longleftrightarrow> p = p'"
  by (cases p; cases p') (simp_all add: provider_host_def)

lemma report_of_items:
  assumes "plain_hosts L"
  shows "if list_all item_ok is \<and> distinct (map (source_id \<circ> to_evidence) is) \<and> 2 \<le> card (it_provider ` set is)
    then \<exists>rep. build_research_review_report (ipa L) (map to_evidence is) = Inr rep \<and> report_decision rep = ''review_required'' \<and>
      report_audit rep = [''sources:public-https'', ''sources:independent-domains'', ''content:untrusted-opaque'', ''decision:review_required'']
    else \<exists>m. build_research_review_report (ipa L) (map to_evidence is) = raise ResearchEvidencePolicyError m"
proof -
  have card: "card (provider_host ` it_provider ` set is) = card (it_provider ` set is)"
    by (rule card_image) (simp add: inj_on_def provider_hosts_differ)
  have len: "card (it_provider ` set is) \<le> length is" using card_image_le [of "set is" it_provider] card_length [of "is"] by simp
  show ?thesis
    using check_items [OF assms, of "is" "[]" "{}"] card len
    by (auto simp: build_research_review_report_def raise_if_def split: if_splits)
qed

text \<open>
  C23: once the searches have answered, a run succeeds exactly when every collected item keeps the
  evidence contract, no two items share an identity and at least two providers contributed; a single
  item that breaks the contract makes the whole run fail as if evidence were insufficient.
\<close>

theorem run_decided_by_items:
  assumes "plain_hosts L"
    and "collect [(Arxiv, search_arxiv L q tr), (Openalex, search_openalex L q key tr), (Crossref, search_crossref L q mailto tr)] = Inr (items, errs)"
  shows "run_it_research L q key mailto tr =
    (if list_all item_ok items \<and> distinct (map (source_id \<circ> to_evidence) items) \<and> 2 \<le> card (it_provider ` set items)
     then Inr \<lparr>run_query = q, run_checked_on = today L, run_items = items, run_errors = errs, run_decision = ''review_required'',
       run_audit = [''sources:public-https'', ''sources:independent-domains'', ''content:untrusted-opaque'', ''decision:review_required'',
         ''scope:it-public-only'', ''output:code-agent-brief'']\<rparr>
     else raise ItResearchError ''insufficient independent public evidence'')"
  using report_of_items [OF assms(1), of items] assms(2)
  by (auto simp: run_it_research_def reraise_def is_a_def split: if_splits)

subsection \<open>A concrete run\<close>

definition sample_lib :: lib where
  "sample_lib = \<lparr>ipa = (\<lambda>_. None), decode = Some, xml_of = (\<lambda>_. None), today = ''2026-01-02''\<rparr>"

definition openalex_answer :: json where
  "openalex_answer = JObj [(''results'', JList [JObj [(''id'', JStr ''https://openalex.org/W1''), (''title'', JStr ''Safe agent architecture'')]])]"

definition crossref_answer :: json where
  "crossref_answer = JObj [(''message'', JObj [(''items'', JList [JObj [(''DOI'', JStr ''10.2/x''), (''title'', JList [JStr ''Evidence gated tools''])]])])]"

definition sample_transport :: transport where
  "sample_transport url h =
     (if starts_with ''https://api.openalex.org/'' url then Inr (dumps default_opts openalex_answer)
      else if starts_with ''https://api.crossref.org/'' url then Inr (dumps default_opts crossref_answer)
      else raise ItResearchError ''down'')"

definition sample_query :: query where
  "sample_query = \<lparr>topic = ''safe agents'', max_results = 2\<rparr>"

definition sample_item :: "provider_name \<Rightarrow> string \<Rightarrow> string \<Rightarrow> string \<Rightarrow> string \<Rightarrow> string \<Rightarrow> string option \<Rightarrow> research_item" where
  "sample_item p pid url title level limit doi = \<lparr>it_provider = p, it_provider_id = pid, it_url = url, it_title = title,
     it_published_on = ''2026-01-02'', it_checked_on = ''2026-01-02'', it_level = level, it_limitations = [limit], it_abstract = [],
     it_authors = [], it_doi = doi\<rparr>"

definition sample_items :: "research_item list" where
  "sample_items =
     [sample_item Openalex ''W1'' ''https://openalex.org/W1'' ''Safe agent architecture'' ''secondary''
        ''OpenAlex metadata; verify publisher record and full-text licence separately.'' None,
      sample_item Crossref ''10.2/x'' ''https://doi.org/10.2/x'' ''Evidence gated tools'' ''primary''
        ''Crossref metadata; publisher abstract and full text may have separate copyright terms.'' (Some ''10.2/x'')]"

lemma clean_stringI: "join '' '' (words (sub_tags s)) = t \<Longrightarrow> length t \<le> 20000 \<Longrightarrow> clean_string s = t"
  by (simp add: clean_string_def)

lemma sample_texts:
  "clean_string ''https://openalex.org/W1'' = ''https://openalex.org/W1''" "clean_string ''Safe agent architecture'' = ''Safe agent architecture''"
  "clean_string ''10.2/x'' = ''10.2/x''" "clean_string ''Evidence gated tools'' = ''Evidence gated tools''"
  by (rule clean_stringI, code_simp, simp)+

lemma sample_urls:
  "urlparse ip ''https://openalex.org/W1'' = Inr \<lparr>u_scheme = ''https'', u_netloc = ''openalex.org'', u_path = ''/W1'', u_query = [], u_fragment = []\<rparr>"
  "urlparse ip ''https://doi.org/10.2/x'' = Inr \<lparr>u_scheme = ''https'', u_netloc = ''doi.org'', u_path = ''/10.2/x'', u_query = [], u_fragment = []\<rparr>"
  by code_simp+

lemma sample_https:
  "https_url ip (JStr ''https://openalex.org/W1'') f = Inr ''https://openalex.org/W1''" "https_url ip JNull ''https://openalex.org/W1'' = Inr ''https://openalex.org/W1''"
  "https_url ip JNull ''https://doi.org/10.2/x'' = Inr ''https://doi.org/10.2/x''"
proof -
  have n: "u_port \<lparr>u_scheme = ''https'', u_netloc = ''openalex.org'', u_path = ''/W1'', u_query = [], u_fragment = []\<rparr> = Inr None"
    "u_port \<lparr>u_scheme = ''https'', u_netloc = ''doi.org'', u_path = ''/10.2/x'', u_query = [], u_fragment = []\<rparr> = Inr None"
    "u_hostname \<lparr>u_scheme = ''https'', u_netloc = ''openalex.org'', u_path = ''/W1'', u_query = [], u_fragment = []\<rparr> \<noteq> None"
    "u_hostname \<lparr>u_scheme = ''https'', u_netloc = ''doi.org'', u_path = ''/10.2/x'', u_query = [], u_fragment = []\<rparr> \<noteq> None"
    "\<not> has_credentials \<lparr>u_scheme = ''https'', u_netloc = ''openalex.org'', u_path = ''/W1'', u_query = [], u_fragment = []\<rparr>"
    "\<not> has_credentials \<lparr>u_scheme = ''https'', u_netloc = ''doi.org'', u_path = ''/10.2/x'', u_query = [], u_fragment = []\<rparr>"
    by code_simp+
  show "https_url ip (JStr ''https://openalex.org/W1'') f = Inr ''https://openalex.org/W1''"
    "https_url ip JNull ''https://openalex.org/W1'' = Inr ''https://openalex.org/W1''"
    "https_url ip JNull ''https://doi.org/10.2/x'' = Inr ''https://doi.org/10.2/x''"
    using n by (auto simp: https_url_def Let_def clean_or_def sample_texts starts_with_def sample_urls standard_port_def)
qed

lemma sample_openalex: "openalex_items sample_lib [JObj [(''id'', JStr ''https://openalex.org/W1''), (''title'', JStr ''Safe agent architecture'')]] =
    Inr (take 1 sample_items)"
proof -
  have "after_last CHR ''/'' ''https://openalex.org/W1'' = ''W1''" by code_simp
  then show ?thesis
    by (simp add: openalex_item_def Let_def jget_def clean_text_def sample_texts sample_https date_of_def shaped_def sample_lib_def
      sample_items_def sample_item_def)
qed

lemma sample_crossref: "crossref_items sample_lib [JObj [(''DOI'', JStr ''10.2/x''), (''title'', JList [JStr ''Evidence gated tools''])]] =
    Inr (drop 1 sample_items)"
proof -
  have "lower ''10.2/x'' = ''10.2/x''" by code_simp
  then show ?thesis
    by (simp add: crossref_item_def Let_def jget_def clean_text_def sample_texts sample_https published_date_def crossref_authors_def
      sample_lib_def sample_items_def sample_item_def)
qed

lemma sample_loads:
  "load_json sample_lib (dumps default_opts openalex_answer) = Inr [(''results'', JList [JObj [(''id'', JStr ''https://openalex.org/W1''), (''title'', JStr ''Safe agent architecture'')]])]"
  "load_json sample_lib (dumps default_opts crossref_answer) = Inr [(''message'', JObj [(''items'', JList [JObj [(''DOI'', JStr ''10.2/x''), (''title'', JList [JStr ''Evidence gated tools''])]])])]"
  by (simp_all add: load_json_def sample_lib_def loads_dumps openalex_answer_def crossref_answer_def reraise_def del: dumps.simps)

lemma sample_collect:
  "collect [(Arxiv, search_arxiv sample_lib sample_query sample_transport), (Openalex, search_openalex sample_lib sample_query None sample_transport),
     (Crossref, search_crossref sample_lib sample_query None sample_transport)] = Inr (sample_items, [''provider:arxiv:unavailable''])"
proof -
  have t: "sample_transport (''https://export.arxiv.org/api/query?'' @ x) h = raise ItResearchError ''down''"
    "sample_transport (''https://api.openalex.org/works?'' @ x) h = Inr (dumps default_opts openalex_answer)"
    "sample_transport (''https://api.crossref.org/works?'' @ x) h = Inr (dumps default_opts crossref_answer)" for x h
    by (simp_all add: sample_transport_def starts_with_def del: dumps.simps)
  have "search_arxiv sample_lib sample_query sample_transport = raise ItResearchError ''down''"
    unfolding search_arxiv_def t by simp
  moreover have "search_openalex sample_lib sample_query None sample_transport = Inr (take 1 sample_items)"
    unfolding search_openalex_def t by (simp add: sample_loads jget_def sample_query_def sample_openalex del: openalex_items.simps)
  moreover have "search_crossref sample_lib sample_query None sample_transport = Inr (drop 1 sample_items)"
    unfolding search_crossref_def t by (simp add: sample_loads jget_def sample_query_def sample_crossref del: crossref_items.simps)
  ultimately show ?thesis by (simp add: is_a_def provider_text_def sample_items_def)
qed

lemma sample_items_good:
  "list_all item_ok sample_items" "distinct (map (source_id \<circ> to_evidence) sample_items)" "card (it_provider ` set sample_items) = 2"
proof -
  have "iso_date ''2026-01-02'' \<noteq> None" by code_simp
  moreover have "strip ''Safe agent architecture'' \<noteq> []" "strip ''Evidence gated tools'' \<noteq> []"
    "strip ''OpenAlex metadata; verify publisher record and full-text licence separately.'' \<noteq> []"
    "strip ''Crossref metadata; publisher abstract and full text may have separate copyright terms.'' \<noteq> []"
    by code_simp+
  ultimately show "list_all item_ok sample_items"
    by (auto simp: sample_items_def sample_item_def item_ok_def evidence_levels_def)
  show "distinct (map (source_id \<circ> to_evidence) sample_items)"
    by (simp add: sample_items_def sample_item_def to_evidence_def provider_text_def)
  show "card (it_provider ` set sample_items) = 2"
    by (simp add: sample_items_def sample_item_def)
qed

lemma sample_hosts: "plain_hosts sample_lib"
  by (simp add: plain_hosts_def sample_lib_def)

theorem run_decided_by_items_witness:
  "\<exists>run. run_it_research sample_lib sample_query None None sample_transport = Inr run \<and> run_items run = sample_items"
  using run_decided_by_items [OF sample_hosts sample_collect] sample_items_good by simp

subsection \<open>The coverage gate\<close>

lemma observe_values: "b \<in> snd ` set (observe a t) \<Longrightarrow> b = a \<or> b \<in> snd ` set t"
  by (force simp: observe_def update_where_def split: option.splits if_splits)

lemma by_key_values: "snd ` set (by_key as) \<subseteq> set as"
proof (induction as rule: rev_induct)
  case (snoc a as)
  then show ?case using observe_values [of _ a "by_key as"] by (fastforce simp: by_key_def)
qed (simp add: by_key_def)

lemma classified:
  "mapR classify_item is = Inr as \<Longrightarrow> \<forall>a \<in> set as. sa_verification a = MetadataObserved \<and> sa_reproducibility a = 0"
  by (induction "is" arbitrary: as) (auto simp: res_simps classify_item_def Let_def)

lemma metadata_not_ready:
  assumes "mapR classify_item is = Inr as"
  shows "\<not> cov_ready (evaluate_coverage default_policy as)"
proof -
  have "filter (\<lambda>a. sa_verification a = ContentVerified) (map snd (by_key as)) = []"
    using classified [OF assms] by_key_values [of as] by (force simp: filter_empty_conv)
  then show ?thesis by (simp add: evaluate_coverage_def Let_def default_policy_def)
qed

lemma check_sources_all:
  "check_sources ip es ids hosts = Inr hs \<Longrightarrow> e \<in> set es \<Longrightarrow> require_public_evidence ip e = Inr ()"
  by (induction es arbitrary: ids hosts) (auto simp: res_simps)

lemma levels_classified:
  assumes "\<And>i. i \<in> set is \<Longrightarrow> it_level i \<in> set evidence_levels"
  shows "\<exists>as. mapR classify_item is = Inr as"
  using assms by (induction "is") (auto simp: classify_item_def level_support_def evidence_levels_def Let_def)

text \<open>
  a run over the discovery providers, whatever they answer, can be classified completely, and
  its metadata alone never opens the coverage gate: the observer keeps collecting evidence for any
  state of the evaluators.
\<close>

theorem discovery_never_opens_the_gate:
  assumes "run_it_research L q key mailto tr = Inr run"
  shows "\<exists>as. mapR classify_item (run_items run) = Inr as \<and>
    ob_decision (observe_corpus_to_spec (evaluate_coverage default_policy as) article response) = ''continue_collecting_evidence''"
proof -
  obtain rep items where items: "run_items run = items" and "build_research_review_report (ipa L) (map to_evidence items) = Inr rep"
    using assms by (auto simp: run_it_research_def res_simps)
  then obtain hs where "check_sources (ipa L) (map to_evidence items) [] {} = Inr hs"
    by (auto simp: build_research_review_report_def res_simps)
  then have "require_public_evidence (ipa L) (to_evidence i) = Inr ()" if "i \<in> set items" for i
    using that by (intro check_sources_all) auto
  then have "it_level i \<in> set evidence_levels" if "i \<in> set items" for i
    using that by (fastforce simp: require_public_evidence_def res_simps to_evidence_def)
  then obtain as where as: "mapR classify_item items = Inr as" using levels_classified by blast
  then show ?thesis using metadata_not_ready [OF as] by (auto simp: items observe_corpus_to_spec_def Let_def)
qed

theorem discovery_never_opens_the_gate_witness:
  "\<exists>run as. run_it_research sample_lib sample_query None None sample_transport = Inr run \<and> mapR classify_item (run_items run) = Inr as"
proof -
  obtain run where "run_it_research sample_lib sample_query None None sample_transport = Inr run"
    unfolding run_it_research_def sample_collect using report_of_items [OF sample_hosts, of sample_items] sample_items_good
    by (auto simp: reraise_def)
  then show ?thesis using discovery_never_opens_the_gate by blast
qed

subsection \<open>Which assessment counts\<close>

lemma by_key_snoc: "by_key (as @ [a]) = observe a (by_key as)"
  by (simp add: by_key_def)

lemma row_observe: "row (observe a t) k = (if k \<noteq> sa_key a then row t k else
    case row t k of None \<Rightarrow> Some a | Some p \<Rightarrow> if verification_rank (sa_verification p) < verification_rank (sa_verification a) then Some a else Some p)"
  by (auto simp: observe_def table_simps map_add_def split: option.splits)

lemma by_key_keyed: "keyed (by_key as)"
  by (induction as rule: rev_induct)
     (auto simp: by_key_snoc observe_def by_key_def [of "[]"] keyed_def map_of_eq_None_iff split: option.splits)

lemma by_key_dom: "fst ` set (by_key as) = sa_key ` set as"
proof -
  have "row (by_key as) k \<noteq> None \<longleftrightarrow> k \<in> sa_key ` set as" for k
  proof (induction as rule: rev_induct)
    case (snoc a as)
    then show ?case by (auto simp: by_key_snoc row_observe split: option.splits)
  qed (simp add: by_key_def)
  then show ?thesis by (auto simp: map_of_eq_None_iff)
qed

lemma by_key_strongest:
  "row (by_key as) k = Some b \<Longrightarrow> b \<in> set as \<and> sa_key b = k \<and>
     (\<forall>a \<in> set as. sa_key a = k \<longrightarrow> verification_rank (sa_verification a) \<le> verification_rank (sa_verification b))"
proof (induction as arbitrary: b rule: rev_induct)
  case (snoc a as)
  have none: "row (by_key as) k = None \<Longrightarrow> \<forall>c \<in> set as. sa_key c \<noteq> k"
    using by_key_dom [of as] by (auto simp: map_of_eq_None_iff)
  show ?case
  proof (cases "k = sa_key a")
    case True
    show ?thesis
    proof (cases "row (by_key as) k")
      case None
      then show ?thesis using True snoc.prems none by (auto simp: by_key_snoc row_observe)
    next
      case (Some p)
      note p = snoc.IH [OF Some]
      have "b = (if verification_rank (sa_verification p) < verification_rank (sa_verification a) then a else p)"
        using snoc.prems Some True by (simp add: by_key_snoc row_observe split: if_splits)
      then show ?thesis using p True by (auto split: if_splits)
    qed
  next
    case False
    then show ?thesis using snoc by (auto simp: by_key_snoc row_observe)
  qed
qed (simp add: by_key_def)

text \<open>
  the gate counts every source once, through a strongest of its assessments, and an assessment of
  a known source that is not stronger and comes from a known provider does not change the coverage.
\<close>

theorem strongest_assessment_counts:
  assumes "a \<in> set as"
  shows "(\<exists>b. row (by_key as) (sa_key a) = Some b \<and> b \<in> set as \<and> sa_key b = sa_key a \<and>
      verification_rank (sa_verification a) \<le> verification_rank (sa_verification b) \<and>
      (verification_rank (sa_verification c) \<le> verification_rank (sa_verification b) \<and> sa_key c = sa_key a \<and>
         it_provider (sa_item c) = it_provider (sa_item a) \<longrightarrow> evaluate_coverage P (as @ [c]) = evaluate_coverage P as)) \<and>
    cov_unique (evaluate_coverage P as) = int (card (sa_key ` set as))"
proof -
  obtain b where b: "row (by_key as) (sa_key a) = Some b"
    using assms by_key_dom [of as] by (metis image_eqI map_of_eq_None_iff not_None_eq)
  have "evaluate_coverage P (as @ [c]) = evaluate_coverage P as"
    if "verification_rank (sa_verification c) \<le> verification_rank (sa_verification b)" "sa_key c = sa_key a"
      "it_provider (sa_item c) = it_provider (sa_item a)"
  proof -
    have "by_key (as @ [c]) = by_key as" using that b by (simp add: by_key_snoc observe_def)
    moreover have "set (map (\<lambda>a. it_provider (sa_item a)) (as @ [c])) = set (map (\<lambda>a. it_provider (sa_item a)) as)"
      using that(3) assms by (auto simp: image_iff intro: bexI [of _ a])
    ultimately show ?thesis unfolding evaluate_coverage_def by (simp only:)
  qed
  moreover have "cov_unique (evaluate_coverage P as) = int (card (sa_key ` set as))"
  proof -
    have "length (by_key as) = card (fst ` set (by_key as))"
      using by_key_keyed [of as] unfolding keyed_def by (metis distinct_card length_map set_map)
    then show ?thesis by (simp add: evaluate_coverage_def Let_def by_key_dom)
  qed
  ultimately show ?thesis using b by_key_strongest [OF b] assms by blast
qed

definition sample_assessment :: "verification \<Rightarrow> source_assessment" where
  "sample_assessment v = \<lparr>sa_key = ''k'', sa_item = hd sample_items, sa_layers = [Component], sa_confidence = 1, sa_conceptual = 1,
     sa_implementation = 0, sa_reproducibility = 0, sa_independence = 0, sa_verification = v, sa_rationale = []\<rparr>"

theorem strongest_assessment_counts_witness:
  "row (by_key [sample_assessment MetadataObserved, sample_assessment ContentVerified]) ''k'' = Some (sample_assessment ContentVerified) \<and>
   cov_unique (evaluate_coverage default_policy [sample_assessment MetadataObserved, sample_assessment ContentVerified]) = 1"
  using strongest_assessment_counts [of "sample_assessment ContentVerified"
      "[sample_assessment MetadataObserved, sample_assessment ContentVerified]" "sample_assessment MetadataObserved" default_policy]
  by (auto simp: sample_assessment_def)

subsection \<open>Full-text candidates\<close>

lemma keep_keyed: "keyed t \<Longrightarrow> keyed (keep_confident a t)"
  by (auto simp: keep_confident_def keyed_def map_of_eq_None_iff split: option.splits)

lemma keep_member: "(k, b) \<in> set (keep_confident a t) \<Longrightarrow> (k, b) \<in> set t \<or> k = sa_key a \<and> b = a"
  by (auto simp: keep_confident_def update_where_def split: option.splits if_splits)

lemma preflight_snoc:
  "preflight_table (as @ [a]) = (if preflight_eligible a then keep_confident a (preflight_table as) else preflight_table as)"
  by (simp add: preflight_table_def)

lemma preflight_table_sound:
  "keyed (preflight_table as) \<and> (\<forall>(k, a) \<in> set (preflight_table as). a \<in> set as \<and> preflight_eligible a \<and> k = sa_key a)"
proof (induction as rule: rev_induct)
  case (snoc a as)
  then show ?case by (auto simp: preflight_snoc keep_keyed dest!: keep_member split: if_splits)
qed (simp add: preflight_table_def)

text \<open>
  the queue of full-text candidates is within its limit, names every source once, is ordered by
  priority, and each entry is an observed arXiv record of the corpus with a well-formed identifier.
\<close>

theorem preflight_queue_sound:
  assumes "build_fulltext_preflight_queue as limit = Inr cs"
  shows "int (length cs) \<le> limit \<and> limit \<le> 20 \<and> distinct (map pc_key cs) \<and>
    sorted (map (\<lambda>c. (- pc_priority c, text_key (pc_key c))) cs) \<and>
    (\<forall>c \<in> set cs. \<exists>a \<in> set as. preflight_eligible a \<and> c = candidate_of a)"
proof -
  let ?f = "\<lambda>c. (- pc_priority c, text_key (pc_key c))" and ?all = "map (\<lambda>(_, a). candidate_of a) (preflight_table as)"
  have cs: "cs = take (nat limit) (sort_key ?f ?all)" and l: "1 \<le> limit" "limit \<le> 20"
    using assms by (auto simp: build_fulltext_preflight_queue_def res_simps)
  note t = preflight_table_sound [of as]
  have "map pc_key ?all = map fst (preflight_table as)"
    using t by (auto simp: candidate_of_def)
  then have "distinct (map pc_key ?all)" using t by (simp only: keyed_def)
  then have "distinct (map pc_key (sort_key ?f ?all))"
    by (simp only: distinct_map [where f = pc_key] distinct_sort set_sort)
  then have "distinct (map pc_key cs)" unfolding cs take_map [symmetric] by (rule distinct_take)
  moreover have "sorted (map ?f cs)" unfolding cs take_map [symmetric] by (rule sorted_wrt_take) (rule sorted_sort_key)
  moreover have "\<exists>a \<in> set as. preflight_eligible a \<and> c = candidate_of a" if "c \<in> set cs" for c
  proof -
    have "c \<in> set (sort_key ?f ?all)" using that unfolding cs by (rule in_set_takeD)
    then have "c \<in> set ?all" by (simp only: set_sort)
    then show ?thesis using t by auto
  qed
  moreover have "int (length cs) \<le> limit" using l by (simp add: cs)
  ultimately show ?thesis using l by blast
qed

theorem preflight_queue_sound_witness:
  "build_fulltext_preflight_queue [sample_assessment MetadataObserved] 8 = Inr [] \<and> sorted (map (\<lambda>c. (- pc_priority c, text_key (pc_key c))) ([] :: preflight_candidate list))"
proof -
  have run: "build_fulltext_preflight_queue [sample_assessment MetadataObserved] 8 = Inr []"
    by (simp add: build_fulltext_preflight_queue_def preflight_table_def preflight_eligible_def sample_assessment_def sample_items_def sample_item_def)
  show ?thesis using preflight_queue_sound [OF run] run by blast
qed

subsection \<open>The contract of the classifier\<close>

lemma case_titles:
  "layers_of_title ''Agentic system architecture'' = [GlobalArchitecture]"
  "layers_of_title ''Workflow planner with MCP tools'' = [Subsystem, Component]"
  "layers_of_title ''Tracing and audit search'' = [Feature]"
  "layers_of_title ''Methods for nocturnal butterflies'' = []"
  by code_simp+

lemma baseline_made: "\<exists>b. article_scorer_baseline src = Inr b \<and> ev_state b = ''promoted'' \<and> is_uuid_text (evaluator_id b)"
proof -
  have id: "is_uuid_text (uuid5_url x)" for x
    using uuid5_is_uuid [of x] by (simp add: is_uuid_text_def)
  have "fullmatch ident_rx ''metadata_title_v1''" "fullmatch ident_rx ''baseline_policy''" "fullmatch ident_rx ''arch_system''"
    "fullmatch ident_rx ''workflow_tools''" "fullmatch ident_rx ''trace_feature''" "fullmatch ident_rx ''no_signal''"
    unfolding match_ident by code_simp+
  moreover have "fullmatch hex64_rx (sha256 x)" for x by (simp add: match_hex64)
  ultimately show ?thesis
    using id by (simp add: article_scorer_baseline_def Let_def make_version_def article_scorer_definition_sha256_def scoring_case_ids_def)
qed

text \<open>
  the classifier meets its frozen contract on every case: its evaluation gives full marks, which
  the observer accepts as a healthy baseline.
\<close>

theorem classifier_meets_contract:
  assumes "is_uuid_text fresh" "fullmatch ident_rx who"
  shows "\<exists>run. evaluate_article_scorer src fresh classify_item who = Inr run \<and>
    run_metrics run = \<lparr>primary_quality = 1, safety_quality = 1, calibration_quality = 1, cost_efficiency = 1, evaluated_case_count = 4\<rparr> \<and>
    article_baseline_is_healthy (Some \<lparr>er_kind = ''article_scoring'', er_version = ''metadata_title_v1'', er_state = ''promoted'',
      er_definition = article_scorer_definition_sha256 src, er_metrics = Some (run_metrics run)\<rparr>)"
proof -
  obtain b where b: "article_scorer_baseline src = Inr b" "is_uuid_text (evaluator_id b)" using baseline_made by blast
  obtain a1 a2 a3 a4 where c: "mapR (\<lambda>c. classify_item (sc_item c)) frozen_article_scoring_cases = Inr [a1, a2, a3, a4]"
    and l: "sa_layers a1 = [GlobalArchitecture]" "sa_layers a2 = [Subsystem, Component]" "sa_layers a3 = [Feature]" "sa_layers a4 = [Component]"
    and n: "sa_confidence a1 = 45 / 100" "sa_confidence a2 = 55 / 100" "sa_confidence a3 = 45 / 100" "sa_confidence a4 = 20 / 100"
    and m: "\<forall>a \<in> {a1, a2, a3, a4}. sa_implementation a = 0 \<and> sa_reproducibility a = 0 \<and> sa_verification a = MetadataObserved"
    by (simp add: frozen_article_scoring_cases_def classify_item_def synthetic_item_def case_titles level_support_def Let_def)
  have "\<exists>run. evaluate_article_scorer src fresh classify_item who = Inr run \<and>
    run_metrics run = \<lparr>primary_quality = 1, safety_quality = 1, calibration_quality = 1, cost_efficiency = 1, evaluated_case_count = 4\<rparr>"
    using assms b l n m unfolding evaluate_article_scorer_def Let_def c
    by (simp add: frozen_article_scoring_cases_def ratio_def make_metrics_def make_run_def cohort_of_def match_hex64)
  then show ?thesis by (auto simp: article_baseline_is_healthy_def)
qed

theorem classifier_meets_contract_witness:
  "\<exists>run. evaluate_article_scorer [] (hyphenate (hex32 7)) classify_item ''contract_evaluator'' = Inr run \<and> primary_quality (run_metrics run) = 1"
proof -
  have "fullmatch ident_rx ''contract_evaluator''" unfolding match_ident by code_simp
  moreover have "is_uuid_text (hyphenate (hex32 7))" by (simp add: is_uuid_text_def uuid_str_hex32)
  ultimately show ?thesis
    using classifier_meets_contract [of "hyphenate (hex32 7)" "''contract_evaluator''" "[]"] by auto
qed

end
