(* ===== verification/Retry.thy ===== *)
theory Retry
  imports Prelude
begin

text \<open>
  The retry boundary of provider calls (\<open>gigachat_retry.py\<close>). The call and the pause are arguments
  that change a state of the caller; an exception of the call is a value whose class name the code
  looks at.
\<close>

definition retryable_names :: "string list" where
  "retryable_names = [''RateLimitError'', ''TimeoutError'', ''ConnectTimeout'']"

text \<open>How the function is left: with a value, with the exception of the call, or with one of its own.\<close>

datatype ('e, 'a) ended = Returned 'a | Reraised 'e | Raised exn

text \<open>The for loop over the attempts; behind it stands the assertion.\<close>

fun bounded_loop ::
    "('s \<Rightarrow> ('e + 'a) \<times> 's) \<Rightarrow> (nat \<Rightarrow> 's \<Rightarrow> 's) \<Rightarrow> ('e \<Rightarrow> string) \<Rightarrow> nat \<Rightarrow> nat list \<Rightarrow> 's \<Rightarrow> ('e, 'a) ended \<times> 's" where
  "bounded_loop call pause class_name max_retries [] s = (Raised (Exn AssertionError ''unreachable''), s)"
| "bounded_loop call pause class_name max_retries (attempt # attempts) s =
     (case call s of
        (Inr x, s1) \<Rightarrow> (Returned x, s1)
      | (Inl e, s1) \<Rightarrow>
          if class_name e \<notin> set retryable_names then (Reraised e, s1)
          else if attempt = max_retries
            then (Raised (Exn GigaChatRetryError ''GigaChat is temporarily unavailable after bounded retry''), s1)
          else bounded_loop call pause class_name max_retries attempts (pause (2 ^ (attempt + 1)) s1))"

definition bounded_gigachat_call ::
    "('s \<Rightarrow> ('e + 'a) \<times> 's) \<Rightarrow> (nat \<Rightarrow> 's \<Rightarrow> 's) \<Rightarrow> ('e \<Rightarrow> string) \<Rightarrow> int \<Rightarrow> 's \<Rightarrow> ('e, 'a) ended \<times> 's" where
  "bounded_gigachat_call call pause class_name max_retries s =
     (if max_retries < 0 \<or> 2 < max_retries then (Raised (Exn ValueError ''max_retries must be between zero and two''), s)
      else bounded_loop call pause class_name (nat max_retries) [0..<nat max_retries + 1] s)"

subsection \<open>The loop ends\<close>

text \<open>The state before the call of an attempt, when all calls before it failed.\<close>

fun after_failures :: "('s \<Rightarrow> ('e + 'a) \<times> 's) \<Rightarrow> (nat \<Rightarrow> 's \<Rightarrow> 's) \<Rightarrow> 's \<Rightarrow> nat \<Rightarrow> 's" where
  "after_failures call pause s 0 = s"
| "after_failures call pause s (Suc i) = pause (2 ^ Suc i) (snd (call (after_failures call pause s i)))"

definition retryable :: "('e \<Rightarrow> string) \<Rightarrow> 'e + 'a \<Rightarrow> bool" where
  "retryable class_name r = (case r of Inl e \<Rightarrow> class_name e \<in> set retryable_names | Inr _ \<Rightarrow> False)"

definition verdict :: "('e \<Rightarrow> string) \<Rightarrow> 'e + 'a \<Rightarrow> ('e, 'a) ended" where
  "verdict class_name r = (case r of
     Inr x \<Rightarrow> Returned x
   | Inl e \<Rightarrow> if class_name e \<in> set retryable_names
       then Raised (Exn GigaChatRetryError ''GigaChat is temporarily unavailable after bounded retry'') else Reraised e)"

lemma bounded_loop_ends:
  assumes "k \<le> m" "s = after_failures call pause s0 k"
  shows "\<exists>j. k \<le> j \<and> j \<le> m \<and> (\<forall>i \<in> {k..<j}. retryable class_name (fst (call (after_failures call pause s0 i)))) \<and>
    (retryable class_name (fst (call (after_failures call pause s0 j))) \<longrightarrow> j = m) \<and>
    bounded_loop call pause class_name m [k..<m + 1] s =
      (verdict class_name (fst (call (after_failures call pause s0 j))), snd (call (after_failures call pause s0 j)))"
  using assms
proof (induction "m - k" arbitrary: k s)
  case 0
  then show ?case
    by (intro exI [of _ k]) (auto simp: verdict_def split: prod.splits sum.splits)
next
  case (Suc n)
  let ?r = "call s"
  have unfold: "[k..<m + 1] = k # [Suc k..<m + 1]" "k \<noteq> m" using Suc.prems(1) Suc.hyps(2) by (auto simp: upt_rec)
  show ?case
  proof (cases "retryable class_name (fst ?r)")
    case False
    then show ?thesis using Suc.prems unfold
      by (intro exI [of _ k]) (auto simp: verdict_def retryable_def split: prod.splits sum.splits)
  next
    case True
    then obtain e s1 where e: "call s = (Inl e, s1)" "class_name e \<in> set retryable_names"
      by (cases ?r; cases "fst ?r") (auto simp: retryable_def)
    have step: "bounded_loop call pause class_name m [k..<m + 1] s =
        bounded_loop call pause class_name m [Suc k..<m + 1] (after_failures call pause s0 (Suc k))"
      using e Suc.prems(2) unfold(2) by (simp only: unfold(1)) simp
    have less: "n = m - Suc k" "Suc k \<le> m" using Suc.hyps(2) unfold(2) Suc.prems(1) by auto
    obtain j where j: "Suc k \<le> j" "j \<le> m" "\<forall>i \<in> {Suc k..<j}. retryable class_name (fst (call (after_failures call pause s0 i)))"
      "retryable class_name (fst (call (after_failures call pause s0 j))) \<longrightarrow> j = m"
      "bounded_loop call pause class_name m [Suc k..<m + 1] (after_failures call pause s0 (Suc k)) =
        (verdict class_name (fst (call (after_failures call pause s0 j))), snd (call (after_failures call pause s0 j)))"
      using Suc.hyps(1) [OF less refl] by (elim exE conjE) (rule that)
    have "retryable class_name (fst (call (after_failures call pause s0 i)))" if "i \<in> {k..<j}" for i
      using that j(3) True Suc.prems(2) by (cases "i = k") auto
    then show ?thesis using j step by (intro exI [of _ j]) auto
  qed
qed

text \<open>
  C25: a bounded call always ends: behind at most two failed calls that may be retried, with pauses of
  two and four seconds, one more call decides; its value is returned, an exception that may not be
  retried is raised as it is, and only an exhausted budget raises the error of the boundary. The
  assertion behind the loop is never reached.
\<close>

theorem bounded_call_ends:
  assumes "0 \<le> max_retries" "max_retries \<le> 2"
  shows "\<exists>j \<le> nat max_retries. (\<forall>i < j. retryable class_name (fst (call (after_failures call pause s i)))) \<and>
    (retryable class_name (fst (call (after_failures call pause s j))) \<longrightarrow> j = nat max_retries) \<and>
    bounded_gigachat_call call pause class_name max_retries s =
      (verdict class_name (fst (call (after_failures call pause s j))), snd (call (after_failures call pause s j)))"
  using bounded_loop_ends [of 0 "nat max_retries" s call pause s class_name] assms
  by (auto simp: bounded_gigachat_call_def)

text \<open>A provider that is limited twice and then answers; the state counts calls and keeps the pauses.\<close>

definition limited_twice :: "nat \<times> nat list \<Rightarrow> (string + nat) \<times> nat \<times> nat list" where
  "limited_twice s = ((if fst s < 2 then Inl ''RateLimitError'' else Inr 42), (fst s + 1, snd s))"

theorem bounded_call_ends_witness:
  "bounded_gigachat_call limited_twice (\<lambda>d (n, ds). (n, ds @ [d])) (\<lambda>e. e) 2 (0, []) = (Returned 42, (3, [2, 4])) \<and>
   (\<exists>j \<le> 2. fst (bounded_gigachat_call limited_twice (\<lambda>d (n, ds). (n, ds @ [d])) (\<lambda>e. e) 2 (0, [])) =
      verdict (\<lambda>e. e) (fst (limited_twice (after_failures limited_twice (\<lambda>d (n, ds). (n, ds @ [d])) (0, []) j))))"
proof -
  have "bounded_gigachat_call limited_twice (\<lambda>d (n, ds). (n, ds @ [d])) (\<lambda>e. e) 2 (0, []) = (Returned 42, (3, [2, 4]))"
    by (simp add: bounded_gigachat_call_def limited_twice_def retryable_names_def upt_rec)
  then show ?thesis
    using bounded_call_ends [of 2 "\<lambda>e. e" limited_twice "\<lambda>d (n, ds). (n, ds @ [d])" "(0, [])"] by auto
qed

end
