(* ===== verification/EvaluatorStore.thy ===== *)
theory EvaluatorStore
  imports Corpus ResponseQuality
begin

text \<open>
  The receipts of evaluators and reusable solutions in PostgreSQL (\<open>evaluator_storage.py\<close> over the
  tables of \<open>20260918_15_evaluator_and_solution_memory.sql\<close> and \<open>20260918_16_response_replay_diagnostics.sql\<close>).
  An operation takes the address of the database, the time and fresh identifiers as arguments and
  gives its value or exception and the tables after it; an exception inside the transaction leaves
  them as they were. The keys, uniqueness and references of the tables and the size limit of JSON
  columns are modelled; the other column checks repeat those of the constructors.
\<close>

subsection \<open>Tables\<close>

record version_row =
  vr_kind :: string
  vr_label :: string
  vr_parent :: "string option"
  vr_definition :: string
  vr_frozen :: string
  vr_active :: string
  vr_state :: string
  vr_proposed_by :: string

record run_row =
  rr_evaluator :: string
  rr_cohort :: string
  rr_assessor :: string
  rr_role :: string
  rr_metrics :: json
  rr_count :: int
  rr_completed :: time

record decision_row =
  dc_baseline :: string
  dc_candidate :: string
  dc_baseline_run :: string
  dc_candidate_run :: string
  dc_decision :: string
  dc_reasons :: json
  dc_policy :: string

record asset_row =
  as_kind :: string
  as_label :: string
  as_content :: string
  as_state :: string

record outcome_row =
  oc_asset :: string
  oc_digest :: string
  oc_run :: string
  oc_kind :: string
  oc_primary :: rat
  oc_safety :: rat
  oc_recorded :: time

record diagnostics_row =
  dg_run :: string
  dg_version :: string
  dg_cases :: json

record store =
  es_versions :: "(string, version_row) table"
  es_runs :: "(string, run_row) table"
  es_decisions :: "(string, decision_row) table"
  es_assets :: "(string, asset_row) table"
  es_outcomes :: "(string, outcome_row) table"
  es_diagnostics :: "(string, diagnostics_row) table"

definition empty_store :: store where
  "empty_store = \<lparr>es_versions = [], es_runs = [], es_decisions = [], es_assets = [], es_outcomes = [], es_diagnostics = []\<rparr>"

text \<open>A text bound to a UUID column.\<close>

abbreviation uuid_col :: "ext \<Rightarrow> string \<Rightarrow> string res" where
  "uuid_col X s \<equiv> pg_uuid X (JStr s)"

definition uuid_col_opt :: "ext \<Rightarrow> string option \<Rightarrow> string option res" where
  "uuid_col_opt X s = (case s of None \<Rightarrow> Inr None | Some t \<Rightarrow> bindR (uuid_col X t) (\<lambda>u. Inr (Some u)))"

text \<open>\<open>octet_length(x::text) <= 2048\<close> for a value of ASCII texts.\<close>

definition json_fits :: "json \<Rightarrow> bool" where
  "json_fits j \<longleftrightarrow> length (dumps default_opts j) \<le> 2048"

text \<open>The address is checked first.\<close>

definition run_tx ::
    "string \<Rightarrow> string \<Rightarrow> bool \<Rightarrow> (store \<Rightarrow> ('a \<times> store) res) \<Rightarrow> ('a \<Rightarrow> 'b res) \<Rightarrow> store \<Rightarrow> 'b res \<times> store" where
  "run_tx url failed own tx check s =
     (if strip url = [] then (raise EvaluatorStorageError ''DATABASE_URL is required'', s)
      else transact EvaluatorStorageError failed own tx check s)"

subsection \<open>Versions and runs\<close>

definition row_of_version :: "evaluator_version \<Rightarrow> string option \<Rightarrow> version_row" where
  "row_of_version v parent = \<lparr>vr_kind = ev_kind v, vr_label = ev_version v, vr_parent = parent, vr_definition = definition_sha256 v,
     vr_frozen = frozen_case_set_sha256 v, vr_active = active_case_set_sha256 v, vr_state = ev_state v, vr_proposed_by = proposed_by v\<rparr>"

text \<open>The unique pair of kind and label.\<close>

definition version_by_label :: "string \<Rightarrow> string \<Rightarrow> (string, version_row) table \<Rightarrow> (string \<times> version_row) option" where
  "version_by_label kind label t = find (\<lambda>(_, r). vr_kind r = kind \<and> vr_label r = label) t"

definition insert_version :: "ext \<Rightarrow> evaluator_version \<Rightarrow> store \<Rightarrow> ((string \<times> version_row) \<times> store) res" where
  "insert_version X v s =
     bindR (uuid_col X (evaluator_id v)) (\<lambda>k.
     bindR (uuid_col_opt X (parent_evaluator_id v)) (\<lambda>parent.
     case version_by_label (ev_kind v) (ev_version v) (es_versions s) of
       Some kr \<Rightarrow> Inr (kr, s)
     | None \<Rightarrow>
         thenR (new_key k (es_versions s))
         (thenR (case parent of None \<Rightarrow> Inr () | Some p \<Rightarrow> if p = k then Inr () else refers p (es_versions s))
         (Inr ((k, row_of_version v parent), s\<lparr>es_versions := insert_nothing k (row_of_version v parent) (es_versions s)\<rparr>)))))"

definition persist_evaluator_version :: "ext \<Rightarrow> string \<Rightarrow> evaluator_version \<Rightarrow> store \<Rightarrow> string res \<times> store" where
  "persist_evaluator_version X url v s =
     run_tx url ''evaluator version persistence failed'' False (insert_version X v)
       (\<lambda>(k, r). thenR (raise_if ((vr_parent r, vr_definition r, vr_frozen r, vr_active r, vr_state r, vr_proposed_by r) \<noteq>
            (parent_evaluator_id v, definition_sha256 v, frozen_case_set_sha256 v, active_case_set_sha256 v, ev_state v, proposed_by v))
            EvaluatorStorageError ''evaluator version label conflicts with an immutable definition'') (Inr k)) s"

definition insert_run :: "ext \<Rightarrow> time \<Rightarrow> evaluation_run \<Rightarrow> store \<Rightarrow> (string \<times> store) res" where
  "insert_run X now r s =
     bindR (uuid_col X (run_id r)) (\<lambda>k.
     bindR (uuid_col X (run_evaluator_id r)) (\<lambda>e.
     bindR (loads (metrics_json (run_metrics r))) (\<lambda>text.
     bindR (pg_jsonb X text) (\<lambda>m.
     thenR (new_key k (es_runs s))
     (thenR (refers e (es_versions s))
     (Inr (k, s\<lparr>es_runs := insert_nothing k \<lparr>rr_evaluator = e, rr_cohort = cohort_sha256 r, rr_assessor = assessor r,
        rr_role = assessor_role r, rr_metrics = m, rr_count = evaluated_case_count (run_metrics r), rr_completed = now\<rparr> (es_runs s)\<rparr>)))))))"

definition persist_evaluation_run :: "ext \<Rightarrow> string \<Rightarrow> time \<Rightarrow> evaluation_run \<Rightarrow> store \<Rightarrow> string res \<times> store" where
  "persist_evaluation_run X url now r s = run_tx url ''evaluation run persistence failed'' False (insert_run X now r) Inr s"

subsection \<open>Diagnostics\<close>

definition diagnostic_version :: string where
  "diagnostic_version = ''response_contract_diagnostics_v1''"

definition insert_diagnostics :: "ext \<Rightarrow> string \<Rightarrow> evaluation_run \<Rightarrow> json \<Rightarrow> store \<Rightarrow> ((string \<times> json) \<times> store) res" where
  "insert_diagnostics X fresh r cases s =
     bindR (uuid_col X fresh) (\<lambda>k.
     bindR (uuid_col X (run_id r)) (\<lambda>run.
     bindR (pg_jsonb X cases) (\<lambda>stored.
     thenR (raise_if (\<not> json_fits stored) PsycopgError ''check of cases'')
     (case find (\<lambda>(_, d). dg_run d = run \<and> dg_version d = diagnostic_version) (es_diagnostics s) of
        Some (k', d) \<Rightarrow> Inr ((k', dg_cases d), s)
      | None \<Rightarrow>
          thenR (new_key k (es_diagnostics s))
          (thenR (refers run (es_runs s))
          (Inr ((k, stored), s\<lparr>es_diagnostics := insert_nothing k \<lparr>dg_run = run, dg_version = diagnostic_version, dg_cases = stored\<rparr>
             (es_diagnostics s)\<rparr>)))))))"

definition persist_response_replay_diagnostics ::
    "ext \<Rightarrow> string \<Rightarrow> string \<Rightarrow> evaluation_run \<Rightarrow> diagnostic list \<Rightarrow> store \<Rightarrow> string res \<times> store" where
  "persist_response_replay_diagnostics X url fresh r ds s =
     (if strip url = [] then (raise EvaluatorStorageError ''DATABASE_URL is required'', s)
      else case validate_response_replay_diagnostics ds of
        Inl e \<Rightarrow> (if is_a e ResponseReplayDiagnosticError
            then raise EvaluatorStorageError ''response replay diagnostics are malformed'' else Inl e, s)
      | Inr _ \<Rightarrow> (let cases = JList (map diagnostic_json ds) in
          run_tx url ''response replay diagnostics persistence failed'' False (insert_diagnostics X fresh r cases)
            (\<lambda>(k, stored). thenR (raise_if (stored \<noteq> cases) EvaluatorStorageError
               ''response replay diagnostic receipt conflicts with immutable content'') (Inr k)) s))"

subsection \<open>The latest receipt\<close>

text \<open>\<open>ORDER BY completed_at DESC, id DESC LIMIT 1\<close>; the texts of UUIDs are ordered like the UUIDs.\<close>

definition later_run :: "string \<times> run_row \<Rightarrow> (string \<times> run_row) option \<Rightarrow> (string \<times> run_row) option" where
  "later_run kr best = (case best of
     None \<Rightarrow> Some kr
   | Some b \<Rightarrow> if (rr_completed (snd b), text_key (fst b)) < (rr_completed (snd kr), text_key (fst kr)) then Some kr else Some b)"

definition latest_run :: "string \<Rightarrow> (string, run_row) table \<Rightarrow> (string \<times> run_row) option" where
  "latest_run evaluator t = foldl (\<lambda>best kr. later_run kr best) None (filter (\<lambda>(_, r). rr_evaluator r = evaluator) t)"

text \<open>\<open>float(raw["..."])\<close>: a missing key is a KeyError.\<close>

definition metric_of :: "dict \<Rightarrow> string \<Rightarrow> fval res" where
  "metric_of d k = (case map_of d k of None \<Rightarrow> raise KeyError k | Some j \<Rightarrow> json_float j)"

definition stored_metrics :: "run_row \<Rightarrow> metrics res" where
  "stored_metrics r = (case rr_metrics r of
     JObj d \<Rightarrow>
       (case bindR (metric_of d ''primary_quality'') (\<lambda>p. bindR (metric_of d ''safety_quality'') (\<lambda>q.
             bindR (metric_of d ''calibration_quality'') (\<lambda>c. bindR (metric_of d ''cost_efficiency'') (\<lambda>e.
             make_metrics p q c e (rr_count r))))) of
          Inl e \<Rightarrow> if is_a e KeyError \<or> is_a e TypeError \<or> is_a e ValueError \<or> is_a e EvaluatorEvolutionError
            then raise EvaluatorStorageError ''stored evaluator metrics are malformed'' else Inl e
        | Inr m \<Rightarrow> Inr m)
   | _ \<Rightarrow> raise EvaluatorStorageError ''stored evaluator metrics are malformed'')"

definition load_evaluator_receipt :: "string \<Rightarrow> string \<Rightarrow> string \<Rightarrow> store \<Rightarrow> evaluator_receipt option res" where
  "load_evaluator_receipt url kind version s =
     thenR (raise_if (strip url = []) EvaluatorStorageError ''DATABASE_URL is required'')
     (case version_by_label kind version (es_versions s) of
        None \<Rightarrow> Inr None
      | Some (k, v) \<Rightarrow>
          bindR (case latest_run k (es_runs s) of None \<Rightarrow> Inr None | Some (_, r) \<Rightarrow> bindR (stored_metrics r) (\<lambda>m. Inr (Some m))) (\<lambda>ms.
          Inr (Some \<lparr>er_kind = vr_kind v, er_version = vr_label v, er_state = vr_state v, er_definition = vr_definition v,
                er_metrics = ms\<rparr>)))"

subsection \<open>Decisions\<close>

definition open_state :: "version_row \<Rightarrow> bool" where
  "open_state r \<longleftrightarrow> vr_state r \<in> {''proposed'', ''shadow''}"

definition apply_decision :: "ext \<Rightarrow> evaluator_decision \<Rightarrow> store \<Rightarrow> (string \<times> store) res" where
  "apply_decision X d s =
     bindR (uuid_col X (baseline_run_id d)) (\<lambda>br.
     bindR (uuid_col X (candidate_run_id d)) (\<lambda>cr.
     thenR (raise_if (set (map (\<lambda>(_, r). rr_evaluator r) (filter (\<lambda>(k, _). k \<in> {br, cr}) (es_runs s))) \<noteq>
              {baseline_evaluator_id d, candidate_evaluator_id d})
              EvaluatorStorageError ''decision runs do not match evaluator identities'')
     (bindR (uuid_col X (candidate_evaluator_id d)) (\<lambda>c.
     thenR (raise_if (row_count (\<lambda>k r. k = c \<and> open_state r) (es_versions s) = 0)
              EvaluatorStorageError ''candidate evaluator is not eligible for a state transition'')
     (bindR (uuid_col X (decision_id d)) (\<lambda>k.
     bindR (uuid_col X (baseline_evaluator_id d)) (\<lambda>b.
     bindR (pg_jsonb X (JList (map JStr (reason_codes d)))) (\<lambda>reasons.
     thenR (raise_if (\<not> json_fits reasons) PsycopgError ''check of reason_codes'')
     (thenR (new_key k (es_decisions s))
     (thenR (refers b (es_versions s)) (thenR (refers br (es_runs s)) (thenR (refers cr (es_runs s))
     (Inr (k, s\<lparr>es_versions := update_where (\<lambda>k r. k = c \<and> open_state r) (\<lambda>r. r\<lparr>vr_state := ev_decision d\<rparr>) (es_versions s),
         es_decisions := insert_nothing k \<lparr>dc_baseline = b, dc_candidate = c, dc_baseline_run = br, dc_candidate_run = cr,
           dc_decision = ev_decision d, dc_reasons = reasons, dc_policy = policy_version d\<rparr> (es_decisions s)\<rparr>))))))))))))))"

definition persist_evaluator_decision :: "ext \<Rightarrow> string \<Rightarrow> evaluator_decision \<Rightarrow> store \<Rightarrow> string res \<times> store" where
  "persist_evaluator_decision X url d s = run_tx url ''evaluator decision persistence failed'' True (apply_decision X d) Inr s"

subsection \<open>Solutions\<close>

definition insert_asset :: "ext \<Rightarrow> solution_asset \<Rightarrow> store \<Rightarrow> ((string \<times> string) \<times> store) res" where
  "insert_asset X a s =
     bindR (uuid_col X (asset_id a)) (\<lambda>k.
     case find (\<lambda>(_, r). as_kind r = asset_kind a \<and> as_content r = content_sha256 a) (es_assets s) of
       Some (k', r) \<Rightarrow> Inr ((k', as_label r), s)
     | None \<Rightarrow>
         thenR (new_key k (es_assets s))
         (Inr ((k, asset_label a), s\<lparr>es_assets := insert_nothing k \<lparr>as_kind = asset_kind a, as_label = asset_label a,
            as_content = content_sha256 a, as_state = asset_state a\<rparr> (es_assets s)\<rparr>)))"

definition persist_solution_asset :: "ext \<Rightarrow> string \<Rightarrow> solution_asset \<Rightarrow> store \<Rightarrow> string res \<times> store" where
  "persist_solution_asset X url a s = run_tx url ''solution asset persistence failed'' False (insert_asset X a)
     (\<lambda>(k, label). thenR (raise_if (label \<noteq> asset_label a) EvaluatorStorageError ''solution asset conflicts with an immutable receipt'')
        (Inr k)) s"

text \<open>One outcome; a triple of asset, digest and run that is known is not stored again.\<close>

definition outcome_known :: "string \<Rightarrow> string \<Rightarrow> string \<Rightarrow> (string, outcome_row) table \<Rightarrow> bool" where
  "outcome_known a digest run t \<longleftrightarrow> (\<exists>(k, o') \<in> set t. oc_asset o' = a \<and> oc_digest o' = digest \<and> oc_run o' = run)"

definition insert_outcome :: "ext \<Rightarrow> time \<Rightarrow> string \<Rightarrow> solution_outcome \<Rightarrow> store \<Rightarrow> store res" where
  "insert_outcome X now fresh x s =
     bindR (uuid_col X fresh) (\<lambda>k.
     bindR (uuid_col X (outcome_asset_id x)) (\<lambda>a.
     bindR (uuid_col X (evaluator_run_id x)) (\<lambda>run.
     if outcome_known a (synthetic_run_sha256 x) run (es_outcomes s) then Inr s
     else thenR (new_key k (es_outcomes s))
       (thenR (refers a (es_assets s))
       (thenR (refers run (es_runs s))
       (Inr (s\<lparr>es_outcomes := insert_nothing k \<lparr>oc_asset = a, oc_digest = synthetic_run_sha256 x, oc_run = run, oc_kind = outcome_kind x,
          oc_primary = outcome_primary x, oc_safety = outcome_safety x, oc_recorded = now\<rparr> (es_outcomes s)\<rparr>)))))))"

fun insert_outcomes :: "ext \<Rightarrow> time \<Rightarrow> (string \<times> solution_outcome) list \<Rightarrow> store \<Rightarrow> store res" where
  "insert_outcomes X now [] s = Inr s"
| "insert_outcomes X now ((fresh, x) # xs) s = bindR (insert_outcome X now fresh x s) (insert_outcomes X now xs)"

text \<open>\<open>ORDER BY recorded_at, id\<close>\<close>

definition history_of :: "string \<Rightarrow> (string, outcome_row) table \<Rightarrow> outcome_row list" where
  "history_of a t = map snd (sort_key (\<lambda>(k, x). (oc_recorded x, text_key k)) (filter (\<lambda>(_, x). oc_asset x = a) t))"

definition read_outcome :: "string \<Rightarrow> outcome_row \<Rightarrow> solution_outcome res" where
  "read_outcome aid x = make_outcome aid (oc_digest x) (oc_run x) (oc_kind x) (Fin (oc_primary x)) (Fin (oc_safety x))"

definition apply_outcomes :: "ext \<Rightarrow> time \<Rightarrow> solution_asset \<Rightarrow> (string \<times> solution_outcome) list \<Rightarrow> store \<Rightarrow> (nat \<times> store) res" where
  "apply_outcomes X now a xs s =
     bindR (insert_outcomes X now xs s) (\<lambda>s1.
     bindR (uuid_col X (asset_id a)) (\<lambda>k.
     bindR (mapR (read_outcome (asset_id a)) (history_of k (es_outcomes s1))) (\<lambda>history.
     bindR (next_asset_state a history) (\<lambda>st.
     Inr (row_count (\<lambda>k' _. k' = k) (es_assets s1),
        s1\<lparr>es_assets := update_where (\<lambda>k' _. k' = k) (\<lambda>r. r\<lparr>as_state := st\<rparr>) (es_assets s1)\<rparr>)))))"

text \<open>Each outcome comes with the identifier \<open>uuid4\<close> gives for it; the value is the identifier the update returns.\<close>

definition persist_solution_outcomes ::
    "ext \<Rightarrow> string \<Rightarrow> time \<Rightarrow> solution_asset \<Rightarrow> (string \<times> solution_outcome) list \<Rightarrow> store \<Rightarrow> string res \<times> store" where
  "persist_solution_outcomes X url now a xs s = run_tx url ''solution outcome persistence failed'' False (apply_outcomes X now a xs)
     (\<lambda>n. thenR (raise_if (n = 0) EvaluatorStorageError ''solution asset does not exist'') (uuid_col X (asset_id a))) s"

end
