(* ===== verification/EvaluatorStoreProps.thy ===== *)
theory EvaluatorStoreProps
  imports EvaluatorStore
begin

text \<open>
  Properties of the stored receipts over any sequence of operations: a version changes its state only
  through recorded decisions and never again after a promotion or a reversal; the state of a
  solution is the one of its stored history, in which no outcome counts twice; registering a version
  again gives the stored one back.
\<close>

datatype store_op =
    PersistVersion evaluator_version
  | PersistRun time evaluation_run
  | PersistDiagnostics string evaluation_run "diagnostic list"
  | PersistDecision evaluator_decision
  | PersistAsset solution_asset
  | PersistOutcomes time solution_asset "(string \<times> solution_outcome) list"

fun store_step :: "ext \<Rightarrow> string \<Rightarrow> store_op \<Rightarrow> store \<Rightarrow> store" where
  "store_step X url (PersistVersion v) s = snd (persist_evaluator_version X url v s)"
| "store_step X url (PersistRun now r) s = snd (persist_evaluation_run X url now r s)"
| "store_step X url (PersistDiagnostics fresh r ds) s = snd (persist_response_replay_diagnostics X url fresh r ds s)"
| "store_step X url (PersistDecision d) s = snd (persist_evaluator_decision X url d s)"
| "store_step X url (PersistAsset a) s = snd (persist_solution_asset X url a s)"
| "store_step X url (PersistOutcomes now a xs) s = snd (persist_solution_outcomes X url now a xs s)"

definition run_ops :: "ext \<Rightarrow> string \<Rightarrow> store_op list \<Rightarrow> store \<Rightarrow> store" where
  "run_ops X url ops s = foldl (\<lambda>s op. store_step X url op s) s ops"

lemma run_ops_simps [simp]:
  "run_ops X url [] s = s" "run_ops X url (ops @ [op]) s = store_step X url op (run_ops X url ops s)"
  by (simp_all add: run_ops_def)

text \<open>A transaction leaves the tables or is the successful function.\<close>

lemma run_tx_snd: "snd (run_tx url failed own tx check s) = s \<or> (\<exists>x. tx s = Inr (x, snd (run_tx url failed own tx check s)))"
  using transact_snd [of EvaluatorStorageError failed own tx check s] by (auto simp: run_tx_def)

lemma run_tx_Inr: "run_tx url failed own tx check s = (Inr y, s') \<longleftrightarrow>
    strip url \<noteq> [] \<and> (\<exists>x. tx s = Inr (x, s') \<and> check x = Inr y)"
  by (auto simp: run_tx_def transact_Inr)

lemma insert_outcomes_Inr:
  "insert_outcomes X now xs s = Inr s1 \<Longrightarrow> \<exists>t. s1 = s\<lparr>es_outcomes := t\<rparr>"
proof (induction xs arbitrary: s)
  case Nil
  then show ?case by (intro exI [of _ "es_outcomes s"]) simp
next
  case (Cons fx xs)
  obtain f x where fx: "fx = (f, x)" by (cases fx)
  obtain s2 where s2: "insert_outcome X now f x s = Inr s2" "insert_outcomes X now xs s2 = Inr s1"
    using Cons.prems by (auto simp: fx bindR_Inr_iff)
  have "\<exists>t. s2 = s\<lparr>es_outcomes := t\<rparr>" using s2(1)
    by (auto simp: insert_outcome_def bindR_Inr_iff split: if_splits intro: exI [of _ "es_outcomes s"])
  then show ?case using Cons.IH [OF s2(2)] by auto
qed

subsection \<open>A concrete store\<close>

definition plain_ext :: ext where
  "plain_ext = \<lparr>pg_text = (\<lambda>_. Inr None), pg_uuid = (\<lambda>j. case j of JStr s \<Rightarrow> Inr s | _ \<Rightarrow> raise PsycopgError ''invalid uuid''),
     pg_int = (\<lambda>_. Inr None), pg_num = (\<lambda>_. Inr None), pg_jsonb = Inr\<rparr>"

definition some_id :: string where
  "some_id = hyphenate (hex32 7)"

lemma some_id_uuid: "is_uuid_text some_id"
  by (simp add: some_id_def is_uuid_text_def uuid_str_hex32)

definition full_marks :: metrics where
  "full_marks = \<lparr>primary_quality = 1, safety_quality = 1, calibration_quality = 1, cost_efficiency = 1, evaluated_case_count = 20\<rparr>"

lemma full_marks_json: "metrics_json full_marks =
    ''{\"calibration_quality\":1.0,\"cost_efficiency\":1.0,\"evaluated_case_count\":20,\"primary_quality\":1.0,\"safety_quality\":1.0}''"
  by code_simp

lemma full_marks_read: "\<exists>j. loads (metrics_json full_marks) = Inr j"
proof -
  have "\<not> isl (loads (metrics_json full_marks))" unfolding full_marks_json by code_simp
  then show ?thesis by (cases "loads (metrics_json full_marks)") auto
qed

definition sample_version :: "string \<Rightarrow> string \<Rightarrow> string \<Rightarrow> evaluator_version" where
  "sample_version k label st = \<lparr>evaluator_id = k, ev_kind = ''article_scoring'', ev_version = label, proposed_by = ''policy'',
     definition_sha256 = sha256 [], frozen_case_ids = [''case''], active_case_ids = [''case''], ev_state = st, parent_evaluator_id = None\<rparr>"

definition sample_run :: "string \<Rightarrow> string \<Rightarrow> evaluation_run" where
  "sample_run k evaluator = \<lparr>run_id = k, run_evaluator_id = evaluator, cohort_sha256 = sha256 [], assessor = ''judge'',
     assessor_role = ''independent_evaluator'', run_metrics = full_marks\<rparr>"

definition sample_decision :: "string \<Rightarrow> evaluator_decision" where
  "sample_decision k = \<lparr>decision_id = k, baseline_evaluator_id = ''v1'', candidate_evaluator_id = ''v2'', baseline_run_id = ''r1'',
     candidate_run_id = ''r2'', ev_decision = ''promoted'', reason_codes = [''better''], policy_version = ''p''\<rparr>"

definition sample_asset :: solution_asset where
  "sample_asset = \<lparr>asset_id = some_id, asset_kind = ''test_suite'', asset_label = ''suite'', content_sha256 = sha256 [], asset_state = ''candidate''\<rparr>"

definition sample_outcome :: solution_outcome where
  "sample_outcome = \<lparr>outcome_asset_id = some_id, synthetic_run_sha256 = sha256 [], evaluator_run_id = some_id, outcome_kind = ''success'',
     outcome_primary = 1, outcome_safety = 1\<rparr>"

lemmas sample_defs = plain_ext_def sample_version_def sample_run_def sample_decision_def sample_asset_def sample_outcome_def

lemma sample_registers: "persist_evaluator_version plain_ext ''db'' (sample_version k label st) empty_store =
    (Inr k, empty_store\<lparr>es_versions := [(k, row_of_version (sample_version k label st) None)]\<rparr>)"
proof -
  have "strip ''db'' \<noteq> []" by code_simp
  then show ?thesis
    by (simp add: persist_evaluator_version_def run_tx_def transact_def insert_version_def uuid_col_opt_def version_by_label_def new_key_def
      row_of_version_def empty_store_def insert_nothing_def sample_defs)
qed

subsection \<open>Versions change by decisions\<close>

text \<open>What one operation does to the versions and the decisions.\<close>

inductive versions_step :: "store \<Rightarrow> store \<Rightarrow> bool" where
  same: "es_versions s' = es_versions s \<Longrightarrow> es_decisions s' = es_decisions s \<Longrightarrow> versions_step s s'"
| register: "es_versions s' = insert_nothing k v (es_versions s) \<Longrightarrow> es_decisions s' = es_decisions s \<Longrightarrow> versions_step s s'"
| decide: "row (es_decisions s) dk = None \<Longrightarrow> es_decisions s' = insert_nothing dk d (es_decisions s) \<Longrightarrow>
    es_versions s' = update_where (\<lambda>k r. k = dc_candidate d \<and> open_state r) (\<lambda>r. r\<lparr>vr_state := dc_decision d\<rparr>) (es_versions s) \<Longrightarrow>
    versions_step s s'"

lemma tx_versions: "(\<And>x s'. tx s = Inr (x, s') \<Longrightarrow> versions_step s s') \<Longrightarrow> versions_step s (snd (run_tx url failed own tx check s))"
  using run_tx_snd [of url failed own tx check s] versions_step.same [of s s] by force

lemma decision_step: "apply_decision X d s = Inr (x, s') \<Longrightarrow> versions_step s s'"
proof -
  assume "apply_decision X d s = Inr (x, s')"
  then obtain k c b br cr reasons where "row (es_decisions s) k = None"
    "s' = s\<lparr>es_versions := update_where (\<lambda>k r. k = c \<and> open_state r) (\<lambda>r. r\<lparr>vr_state := ev_decision d\<rparr>) (es_versions s),
         es_decisions := insert_nothing k \<lparr>dc_baseline = b, dc_candidate = c, dc_baseline_run = br, dc_candidate_run = cr,
           dc_decision = ev_decision d, dc_reasons = reasons, dc_policy = policy_version d\<rparr> (es_decisions s)\<rparr>"
    by (auto simp: apply_decision_def bindR_Inr_iff new_key_def raise_if_Inr)
  then show ?thesis
    by (intro versions_step.decide [of s k s' "\<lparr>dc_baseline = b, dc_candidate = c, dc_baseline_run = br, dc_candidate_run = cr,
           dc_decision = ev_decision d, dc_reasons = reasons, dc_policy = policy_version d\<rparr>"]) simp_all
qed

lemma store_step_versions: "versions_step s (store_step X url op s)"
proof (cases op)
  case (PersistVersion v)
  have "versions_step s s'" if ins: "insert_version X v s = Inr (x, s')" for x s'
  proof (cases "version_by_label (ev_kind v) (ev_version v) (es_versions s)")
    case None
    then obtain k parent where "s' = s\<lparr>es_versions := insert_nothing k (row_of_version v parent) (es_versions s)\<rparr>"
      using ins by (auto simp: insert_version_def bindR_Inr_iff)
    then show ?thesis by (intro versions_step.register) simp_all
  next
    case (Some kr)
    then show ?thesis using ins by (auto simp: insert_version_def bindR_Inr_iff intro: versions_step.same)
  qed
  then show ?thesis by (simp add: PersistVersion persist_evaluator_version_def tx_versions)
next
  case (PersistRun now r)
  then show ?thesis by (auto simp: persist_evaluation_run_def insert_run_def bindR_Inr_iff intro!: tx_versions versions_step.same)
next
  case (PersistDiagnostics fresh r ds)
  have "versions_step s s'" if "insert_diagnostics X fresh r c s = Inr (x, s')" for x s' c
    using that by (auto simp: insert_diagnostics_def bindR_Inr_iff intro!: versions_step.same split: option.splits)
  then show ?thesis unfolding PersistDiagnostics
    by (auto simp: persist_response_replay_diagnostics_def Let_def intro!: tx_versions intro: versions_step.same [of s s] split: sum.split)
next
  case (PersistDecision d)
  then show ?thesis by (auto simp: persist_evaluator_decision_def intro!: tx_versions intro: decision_step)
next
  case (PersistAsset a)
  then show ?thesis by (auto simp: persist_solution_asset_def insert_asset_def bindR_Inr_iff
    intro!: tx_versions versions_step.same split: option.splits)
next
  case (PersistOutcomes now a xs)
  then show ?thesis by (auto simp: persist_solution_outcomes_def apply_outcomes_def bindR_Inr_iff
    intro!: tx_versions versions_step.same dest!: insert_outcomes_Inr)
qed

text \<open>The row is as it was, or it was open and carries the decision of a row recorded since.\<close>

definition audited :: "string \<Rightarrow> version_row \<Rightarrow> store \<Rightarrow> store \<Rightarrow> version_row \<Rightarrow> bool" where
  "audited k r s s' r' \<longleftrightarrow> r' = r \<or> open_state r \<and> (\<exists>dk d. row (es_decisions s') dk = Some d \<and> row (es_decisions s) dk = None \<and>
     dc_candidate d = k \<and> r' = r\<lparr>vr_state := dc_decision d\<rparr>)"

lemma audited_step:
  assumes "audited k r s0 s r1" "row (es_versions s) k = Some r1" "versions_step s s'"
    "\<And>dk d. row (es_decisions s0) dk = Some d \<Longrightarrow> row (es_decisions s) dk = Some d"
  shows "(\<exists>r'. row (es_versions s') k = Some r' \<and> audited k r s0 s' r') \<and>
    (\<forall>dk d. row (es_decisions s0) dk = Some d \<longrightarrow> row (es_decisions s') dk = Some d)"
  using assms(3)
proof (cases rule: versions_step.cases)
  case same
  then show ?thesis using assms by (auto simp: audited_def)
next
  case (register k' v)
  then show ?thesis using assms tables.ins_keeps [OF assms(2)] by (auto simp: audited_def)
next
  case (decide dk d)
  have keep: "row (es_decisions s') dk' = Some d'" if "row (es_decisions s) dk' = Some d'" for dk' d'
    using tables.ins_keeps [OF that] by (simp add: decide)
  have new: "row (es_decisions s') dk = Some d" "row (es_decisions s0) dk = None"
    using decide assms(4) by (auto simp: table_simps) (metis not_None_eq option.distinct(1))
  let ?r' = "if k = dc_candidate d \<and> open_state r1 then r1\<lparr>vr_state := dc_decision d\<rparr> else r1"
  have "row (es_versions s') k = Some ?r'" using assms(2) by (simp add: decide table_simps)
  moreover have "audited k r s0 s' ?r'"
  proof (cases "k = dc_candidate d \<and> open_state r1")
    case True
    moreover have "open_state r" using assms(1) True by (auto simp: audited_def)
    moreover have "r1\<lparr>vr_state := dc_decision d\<rparr> = r\<lparr>vr_state := dc_decision d\<rparr>" using assms(1) by (auto simp: audited_def)
    ultimately show ?thesis using new by (auto simp: audited_def)
  next
    case False
    then have "?r' = r1" by auto
    then show ?thesis using assms(1) keep by (fastforce simp: audited_def)
  qed
  ultimately show ?thesis using keep assms(4) by blast
qed

text \<open>
  C26: whatever operations follow, a registered version keeps its identity; its state changes only
  while it is proposed or in the shadow, and then to the decision of a recorded row about it, so a
  promoted or reverted version never changes again.
\<close>

theorem version_state_is_audited:
  assumes "row (es_versions s) k = Some r"
  shows "\<exists>r'. row (es_versions (run_ops X url ops s)) k = Some r' \<and> (r' = r \<or>
     vr_state r \<in> {''proposed'', ''shadow''} \<and> (\<exists>dk d. row (es_decisions (run_ops X url ops s)) dk = Some d \<and>
       row (es_decisions s) dk = None \<and> dc_candidate d = k \<and> r' = r\<lparr>vr_state := dc_decision d\<rparr>))"
proof -
  have "(\<exists>r'. row (es_versions (run_ops X url ops s)) k = Some r' \<and> audited k r s (run_ops X url ops s) r') \<and>
    (\<forall>dk d. row (es_decisions s) dk = Some d \<longrightarrow> row (es_decisions (run_ops X url ops s)) dk = Some d)"
  proof (induction ops rule: rev_induct)
    case (snoc op ops)
    then show ?case using audited_step [OF _ _ store_step_versions [of "run_ops X url ops s" X url op]] by auto
  qed (use assms in \<open>auto simp: audited_def\<close>)
  then show ?thesis by (auto simp: audited_def open_state_def)
qed


definition two_versions :: store where
  "two_versions = empty_store\<lparr>es_versions :=
       [(''v1'', row_of_version (sample_version ''v1'' ''a'' ''promoted'') None), (''v2'', row_of_version (sample_version ''v2'' ''b'' ''shadow'') None)],
     es_runs := [(''r1'', \<lparr>rr_evaluator = ''v1'', rr_cohort = [], rr_assessor = [], rr_role = [], rr_metrics = JNull, rr_count = 20, rr_completed = 0\<rparr>),
       (''r2'', \<lparr>rr_evaluator = ''v2'', rr_cohort = [], rr_assessor = [], rr_role = [], rr_metrics = JNull, rr_count = 20, rr_completed = 0\<rparr>)]\<rparr>"

theorem version_state_is_audited_witness:
  "vr_state (the (row (es_versions (run_ops plain_ext ''db'' [PersistDecision (sample_decision ''d1''), PersistDecision (sample_decision ''d2'')] two_versions)) ''v2'')) =
      ''promoted'' \<and>
   (\<exists>dk d. row (es_decisions (run_ops plain_ext ''db'' [PersistDecision (sample_decision ''d1''), PersistDecision (sample_decision ''d2'')] two_versions)) dk = Some d \<and>
      dc_candidate d = ''v2'')"
proof -
  let ?r = "row_of_version (sample_version ''v2'' ''b'' ''shadow'') None"
  have url: "strip ''db'' \<noteq> []" by code_simp
  have fits: "json_fits (JList [JStr ''better''])" by code_simp
  have "row (es_versions (run_ops plain_ext ''db'' [PersistDecision (sample_decision ''d1''), PersistDecision (sample_decision ''d2'')] two_versions)) ''v2'' =
      Some (?r\<lparr>vr_state := ''promoted''\<rparr>)"
    using url fits by (simp add: run_ops_def persist_evaluator_decision_def run_tx_def transact_def apply_decision_def two_versions_def empty_store_def
      sample_defs row_of_version_def row_count_def open_state_def new_key_def refers_def update_where_def insert_nothing_def
      insert_commute is_a_def)
  moreover have "row (es_versions two_versions) ''v2'' = Some ?r" by (simp add: two_versions_def)
  ultimately show ?thesis
    using version_state_is_audited [of two_versions "''v2''" ?r plain_ext "''db''"
      "[PersistDecision (sample_decision ''d1''), PersistDecision (sample_decision ''d2'')]"]
    by (auto simp: row_of_version_def sample_version_def)
qed

subsection \<open>The history of a solution\<close>

text \<open>No two stored outcomes share asset, digest and run, and no two rows share an identifier.\<close>

definition triple :: "outcome_row \<Rightarrow> string \<times> string \<times> string" where
  "triple x = (oc_asset x, oc_digest x, oc_run x)"

definition outcomes_ok :: "(string, outcome_row) table \<Rightarrow> bool" where
  "outcomes_ok t \<longleftrightarrow> keyed t \<and> distinct (map (triple \<circ> snd) t)"

lemma outcome_known_iff: "outcome_known a d run t \<longleftrightarrow> (a, d, run) \<in> (triple \<circ> snd) ` set t"
  by (force simp: outcome_known_def triple_def)

definition recorded :: "ext \<Rightarrow> solution_outcome \<Rightarrow> store \<Rightarrow> bool" where
  "recorded X x s \<longleftrightarrow> (\<exists>a run. uuid_col X (outcome_asset_id x) = Inr a \<and> uuid_col X (evaluator_run_id x) = Inr run \<and>
     outcome_known a (synthetic_run_sha256 x) run (es_outcomes s))"

lemma insert_outcome_ok:
  assumes "insert_outcome X now f x s = Inr s1" "outcomes_ok (es_outcomes s)"
  shows "outcomes_ok (es_outcomes s1) \<and> recorded X x s1 \<and> set (es_outcomes s) \<subseteq> set (es_outcomes s1)"
proof -
  obtain k a run where u: "uuid_col X f = Inr k" "uuid_col X (outcome_asset_id x) = Inr a" "uuid_col X (evaluator_run_id x) = Inr run"
    using assms(1) by (auto simp: insert_outcome_def bindR_Inr_iff)
  show ?thesis
  proof (cases "outcome_known a (synthetic_run_sha256 x) run (es_outcomes s)")
    case True
    then show ?thesis using assms u by (auto simp: insert_outcome_def recorded_def)
  next
    case False
    let ?o = "\<lparr>oc_asset = a, oc_digest = synthetic_run_sha256 x, oc_run = run, oc_kind = outcome_kind x,
          oc_primary = outcome_primary x, oc_safety = outcome_safety x, oc_recorded = now\<rparr>"
    have s1: "row (es_outcomes s) k = None" "es_outcomes s1 = es_outcomes s @ [(k, ?o)]"
      using assms(1) u False by (auto simp: insert_outcome_def bindR_Inr_iff new_key_def raise_if_Inr insert_nothing_def)
    have "triple ?o \<notin> (triple \<circ> snd) ` set (es_outcomes s)" using False by (simp add: outcome_known_iff triple_def)
    then show ?thesis using assms(2) s1 u
      by (auto simp: outcomes_ok_def keyed_def map_of_eq_None_iff recorded_def outcome_known_iff triple_def)
  qed
qed

lemma recorded_mono: "recorded X x s \<Longrightarrow> set (es_outcomes s) \<subseteq> set (es_outcomes s1) \<Longrightarrow> recorded X x s1"
  by (auto simp: recorded_def outcome_known_def)

lemma insert_outcomes_ok:
  "insert_outcomes X now xs s = Inr s1 \<Longrightarrow> outcomes_ok (es_outcomes s) \<Longrightarrow>
     outcomes_ok (es_outcomes s1) \<and> list_all (\<lambda>(f, x). recorded X x s1) xs \<and> set (es_outcomes s) \<subseteq> set (es_outcomes s1)"
proof (induction xs arbitrary: s)
  case (Cons fx xs)
  obtain f x where fx: "fx = (f, x)" by (cases fx)
  obtain s2 where s2: "insert_outcome X now f x s = Inr s2" "insert_outcomes X now xs s2 = Inr s1"
    using Cons.prems by (auto simp: fx bindR_Inr_iff)
  note a = insert_outcome_ok [OF s2(1) Cons.prems(2)]
  show ?case using Cons.IH [OF s2(2)] a by (auto simp: fx dest: recorded_mono)
qed simp

lemma insert_recorded:
  "list_all (\<lambda>(f, x). (\<exists>u. uuid_col X f = Inr u) \<and> recorded X x s) ys \<Longrightarrow> insert_outcomes X now ys s = Inr s"
  by (induction ys) (auto simp: insert_outcome_def recorded_def)

lemma store_step_outcomes: "outcomes_ok (es_outcomes s) \<Longrightarrow> outcomes_ok (es_outcomes (store_step X url op s))"
proof -
  assume ok: "outcomes_ok (es_outcomes s)"
  have tx: "outcomes_ok (es_outcomes (snd (run_tx url failed own tx check s)))"
    if "\<And>x s'. tx s = Inr (x, s') \<Longrightarrow> outcomes_ok (es_outcomes s')" for failed own check and tx :: "store \<Rightarrow> ('x \<times> store) res"
    using run_tx_snd [of url failed own tx check s] that ok by force
  show ?thesis
  proof (cases op)
    case (PersistVersion v)
    have "es_outcomes s' = es_outcomes s" if ins: "insert_version X v s = Inr (x, s')" for x s'
      using ins by (cases "version_by_label (ev_kind v) (ev_version v) (es_versions s)") (auto simp: insert_version_def bindR_Inr_iff)
    then show ?thesis unfolding PersistVersion store_step.simps persist_evaluator_version_def using ok by (intro tx) simp
  next
    case (PersistRun now r)
    have "es_outcomes s' = es_outcomes s" if ins: "insert_run X now r s = Inr (x, s')" for x s'
      using ins by (auto simp: insert_run_def bindR_Inr_iff)
    then show ?thesis unfolding PersistRun store_step.simps persist_evaluation_run_def using ok by (intro tx) simp
  next
    case (PersistDiagnostics fresh r ds)
    have "es_outcomes s' = es_outcomes s" if ins: "insert_diagnostics X fresh r c s = Inr (x, s')" for x s' c
      using ins by (auto simp: insert_diagnostics_def bindR_Inr_iff split: option.splits)
    then show ?thesis using ok unfolding PersistDiagnostics
      by (auto simp: persist_response_replay_diagnostics_def Let_def run_tx_def transact_def split: sum.splits)
  next
    case (PersistDecision d)
    have "es_outcomes s' = es_outcomes s" if ins: "apply_decision X d s = Inr (x, s')" for x s'
      using ins by (auto simp: apply_decision_def bindR_Inr_iff)
    then show ?thesis unfolding PersistDecision store_step.simps persist_evaluator_decision_def using ok by (intro tx) simp
  next
    case (PersistAsset a)
    have "es_outcomes s' = es_outcomes s" if ins: "insert_asset X a s = Inr (x, s')" for x s'
      using ins by (auto simp: insert_asset_def bindR_Inr_iff split: option.splits)
    then show ?thesis unfolding PersistAsset store_step.simps persist_solution_asset_def using ok by (intro tx) simp
  next
    case (PersistOutcomes now a xs)
    have "outcomes_ok (es_outcomes s')" if ins: "apply_outcomes X now a xs s = Inr (x, s')" for x s'
    proof -
      obtain s1 where s1: "insert_outcomes X now xs s = Inr s1" "es_outcomes s' = es_outcomes s1"
        using ins by (auto simp: apply_outcomes_def bindR_Inr_iff)
      then show ?thesis using insert_outcomes_ok [OF s1(1) ok] by simp
    qed
    then show ?thesis unfolding PersistOutcomes store_step.simps persist_solution_outcomes_def by (rule tx)
  qed
qed

lemma reachable_outcomes: "outcomes_ok (es_outcomes (run_ops X url ops empty_store))"
  by (induction ops rule: rev_induct) (simp_all add: store_step_outcomes, simp add: empty_store_def outcomes_ok_def)

lemma history_members: "set (history_of a t) = {x. \<exists>k. (k, x) \<in> set t \<and> oc_asset x = a}"
  by (auto simp: history_of_def image_iff)

lemma history_distinct:
  assumes "outcomes_ok t"
  shows "distinct (map (\<lambda>x. (oc_digest x, oc_run x)) (history_of a t))"
proof -
  let ?f = "filter (\<lambda>(_, x). oc_asset x = a) t" and ?g = "\<lambda>(k, x). (oc_digest x, oc_run x)"
  have "distinct (map (triple \<circ> snd) ?f)" using assms by (simp add: outcomes_ok_def distinct_map_filter)
  moreover have "map (triple \<circ> snd) ?f = map (Pair a) (map ?g ?f)" by (auto simp: triple_def)
  ultimately have "distinct (map (Pair a) (map ?g ?f))" by (simp only:)
  then have "distinct (map ?g ?f)" by (rule distinct_map [THEN iffD1, THEN conjunct1])
  then have "distinct (map ?g (sort_key (\<lambda>(k, x). (oc_recorded x, text_key k)) ?f))"
    by (simp only: distinct_map [where f = ?g] distinct_sort set_sort)
  then show ?thesis by (simp add: history_of_def comp_def split_def)
qed

text \<open>
  C27: after the outcomes of an asset are persisted, its state is the one its whole stored history
  decides, in which no pair of digest and run counts twice; every outcome handed over is stored, and
  handing the same outcomes over again, at any later time, changes nothing.
\<close>

theorem asset_state_from_history:
  assumes "s = run_ops X url ops empty_store" "persist_solution_outcomes X url now a xs s = (Inr k, s')"
    and "map snd ys = map snd xs" "list_all (\<lambda>(f, x). \<exists>u. uuid_col X f = Inr u) ys"
  shows "(\<exists>r os. row (es_assets s') k = Some r \<and> mapR (read_outcome (asset_id a)) (history_of k (es_outcomes s')) = Inr os \<and>
      next_asset_state a os = Inr (as_state r)) \<and>
    distinct (map (\<lambda>x. (oc_digest x, oc_run x)) (history_of k (es_outcomes s'))) \<and>
    (\<forall>x \<in> snd ` set xs. recorded X x s') \<and>
    persist_solution_outcomes X url later a ys s' = (Inr k, s')"
proof -
  obtain n where url: "strip url \<noteq> []" and tx: "apply_outcomes X now a xs s = Inr (n, s')" and n: "n \<noteq> 0" "uuid_col X (asset_id a) = Inr k"
    using assms(2) by (auto simp: persist_solution_outcomes_def run_tx_Inr bindR_Inr_iff raise_if_Inr)
  obtain s1 os st where s1: "insert_outcomes X now xs s = Inr s1" and os: "mapR (read_outcome (asset_id a)) (history_of k (es_outcomes s1)) = Inr os"
    and st: "next_asset_state a os = Inr st" and nn: "n = row_count (\<lambda>k' _. k' = k) (es_assets s1)"
    and s': "s' = s1\<lparr>es_assets := update_where (\<lambda>k' _. k' = k) (\<lambda>r. r\<lparr>as_state := st\<rparr>) (es_assets s1)\<rparr>"
    using tx n(2) by (auto simp: apply_outcomes_def bindR_Inr_iff)
  have ok: "outcomes_ok (es_outcomes s1)" "list_all (\<lambda>(f, x). recorded X x s1) xs"
    using insert_outcomes_ok [OF s1] reachable_outcomes assms(1) by auto
  obtain r where r: "row (es_assets s1) k = Some r"
    using n(1) nn by (cases "row (es_assets s1) k") (auto simp: row_count_def filter_empty_conv map_of_eq_None_iff rev_image_eqI)
  have rec: "recorded X x s'" if "recorded X x s1" for x using that by (auto simp: recorded_def s')
  have "list_all (\<lambda>(f, x). (\<exists>u. uuid_col X f = Inr u) \<and> recorded X x s') ys"
  proof -
    have "recorded X x s'" if "(f, x) \<in> set ys" for f x
    proof -
      have "x \<in> set (map snd ys)" using that by force
      then have "x \<in> snd ` set xs" using assms(3) by simp
      then show ?thesis using ok(2) rec by (auto simp: list_all_iff)
    qed
    then show ?thesis using assms(4) by (auto simp: list_all_iff)
  qed
  then have again: "insert_outcomes X later ys s' = Inr s'" by (rule insert_recorded)
  have twice: "update_where p (\<lambda>r. r\<lparr>as_state := st\<rparr>) (update_where p (\<lambda>r. r\<lparr>as_state := st\<rparr>) t) =
      update_where p (\<lambda>r. r\<lparr>as_state := st\<rparr>) t" if "p = (\<lambda>k' _. k' = k)" for p :: "string \<Rightarrow> asset_row \<Rightarrow> bool" and t
    by (induction t) (auto simp: update_where_def that)
  have count: "row_count (\<lambda>k' _. k' = k) (update_where (\<lambda>k' _. k' = k) (\<lambda>r. r\<lparr>as_state := st\<rparr>) t) = row_count (\<lambda>k' _. k' = k) t" for t :: "(string, asset_row) table"
    by (induction t) (auto simp: update_where_def row_count_def)
  have "apply_outcomes X later a ys s' = Inr (n, s')"
    using again n(2) os st nn by (simp add: apply_outcomes_def s' twice count)
  then have "persist_solution_outcomes X url later a ys s' = (Inr k, s')"
    using url n by (simp add: persist_solution_outcomes_def run_tx_def transact_def)
  moreover have "row (es_assets s') k = Some (r\<lparr>as_state := st\<rparr>)" using r by (simp add: s' table_simps)
  moreover have "\<forall>x \<in> snd ` set xs. recorded X x s'" using ok(2) rec by (auto simp: list_all_iff)
  ultimately show ?thesis using history_distinct [OF ok(1), of k] os st by (auto simp: s')
qed

theorem asset_state_from_history_witness:
  "\<exists>s s'. persist_solution_outcomes plain_ext ''db'' 5 sample_asset [(some_id, sample_outcome)] s = (Inr some_id, s') \<and>
     length (history_of some_id (es_outcomes s')) = 1 \<and>
     persist_solution_outcomes plain_ext ''db'' 9 sample_asset [(''x'', sample_outcome)] s' = (Inr some_id, s')"
proof -
  let ?ops = "[PersistVersion (sample_version some_id ''a'' ''shadow''), PersistRun 1 (sample_run some_id some_id), PersistAsset sample_asset]"
  have url: "strip ''db'' \<noteq> []" by code_simp
  have hex: "fullmatch hex64_rx (sha256 [])" by (simp add: match_hex64)
  obtain j where j: "loads (metrics_json full_marks) = Inr j" using full_marks_read by blast
  define s where "s = run_ops plain_ext ''db'' ?ops empty_store"
  have s: "es_runs s = [(some_id, \<lparr>rr_evaluator = some_id, rr_cohort = sha256 [], rr_assessor = ''judge'', rr_role = ''independent_evaluator'',
        rr_metrics = j, rr_count = 20, rr_completed = 1\<rparr>)]" "es_outcomes s = []"
    "es_assets s = [(some_id, \<lparr>as_kind = ''test_suite'', as_label = ''suite'', as_content = sha256 [], as_state = ''candidate''\<rparr>)]"
    using url j by (simp_all add: s_def run_ops_def sample_registers)
       (simp_all add: persist_evaluation_run_def persist_solution_asset_def run_tx_def transact_def insert_run_def insert_asset_def sample_defs
        new_key_def refers_def empty_store_def insert_nothing_def full_marks_def)
  obtain s' where s': "persist_solution_outcomes plain_ext ''db'' 5 sample_asset [(some_id, sample_outcome)] s = (Inr some_id, s')"
    "length (history_of some_id (es_outcomes s')) = 1"
    using url hex some_id_uuid by (simp add: persist_solution_outcomes_def run_tx_def transact_def apply_outcomes_def insert_outcome_def sample_defs s
      outcome_known_def new_key_def refers_def insert_nothing_def history_of_def read_outcome_def make_outcome_def in_unit_def rat_of_def
      next_asset_state_def of_kind_def row_count_def)
  then show ?thesis
    using asset_state_from_history [OF s_def s'(1), of "[(''x'', sample_outcome)]" 9] by (auto simp: plain_ext_def)
qed

subsection \<open>Registration\<close>

lemma find_snoc: "find P (t @ [x]) = (case find P t of None \<Rightarrow> if P x then Some x else None | Some y \<Rightarrow> Some y)"
  by (induction t) auto

lemma label_found: "version_by_label kind label t = Some (k, r) \<Longrightarrow> vr_kind r = kind \<and> vr_label r = label"
  by (auto simp: version_by_label_def find_Some_iff)

text \<open>
  a registration that succeeds, the first or a repeated one, gives the identifier of the row that
  holds exactly the fields of the version, and repeating it gives the same identifier and leaves the
  tables alone; a registered label with other fields is refused and the tables stay.
\<close>

theorem registration_roundtrip:
  assumes "persist_evaluator_version X url v s = (Inr k, s')"
  shows "version_by_label (ev_kind v) (ev_version v) (es_versions s') = Some (k, row_of_version v (parent_evaluator_id v)) \<and>
     persist_evaluator_version X url v s' = (Inr k, s') \<and>
     (ev_kind w = ev_kind v \<and> ev_version w = ev_version v \<and> row_of_version w (parent_evaluator_id w) \<noteq> row_of_version v (parent_evaluator_id v) \<longrightarrow>
        (\<exists>m. persist_evaluator_version X url w s' = (raise EvaluatorStorageError m, s')))"
proof -
  obtain r where url: "strip url \<noteq> []" and ins: "insert_version X v s = Inr ((k, r), s')"
    and r: "(vr_parent r, vr_definition r, vr_frozen r, vr_active r, vr_state r, vr_proposed_by r) =
      (parent_evaluator_id v, definition_sha256 v, frozen_case_set_sha256 v, active_case_set_sha256 v, ev_state v, proposed_by v)"
    using assms by (auto simp: persist_evaluator_version_def run_tx_Inr bindR_Inr_iff raise_if_Inr)
  obtain k0 parent where u: "uuid_col X (evaluator_id v) = Inr k0" "uuid_col_opt X (parent_evaluator_id v) = Inr parent"
    using ins by (auto simp: insert_version_def bindR_Inr_iff)
  have found: "version_by_label (ev_kind v) (ev_version v) (es_versions s') = Some (k, r)"
  proof (cases "version_by_label (ev_kind v) (ev_version v) (es_versions s)")
    case None
    then have "es_versions s' = es_versions s @ [(k, r)]" "r = row_of_version v parent"
      using ins u by (auto simp: insert_version_def bindR_Inr_iff new_key_def raise_if_Inr insert_nothing_def)
    then show ?thesis using None by (simp add: version_by_label_def find_snoc row_of_version_def)
  qed (use ins u in \<open>auto simp: insert_version_def\<close>)
  then have row: "r = row_of_version v (parent_evaluator_id v)" using r label_found [OF found] by (simp add: row_of_version_def)
  have "persist_evaluator_version X url v s' = (Inr k, s')"
    using url u found by (simp add: persist_evaluator_version_def run_tx_def transact_def insert_version_def row row_of_version_def)
  moreover have "\<exists>m. persist_evaluator_version X url w s' = (raise EvaluatorStorageError m, s')"
    if "ev_kind w = ev_kind v" "ev_version w = ev_version v" "row_of_version w (parent_evaluator_id w) \<noteq> row_of_version v (parent_evaluator_id v)"
  proof -
    have "insert_version X w s' = Inr ((k, r), s') \<or> (\<exists>e. insert_version X w s' = Inl e)"
      using that(1,2) found by (auto simp: insert_version_def bindR_def split: sum.split)
    then show ?thesis using that url
      by (auto simp: persist_evaluator_version_def run_tx_def transact_def row row_of_version_def raise_if_def)
  qed
  ultimately show ?thesis using found row by blast
qed

theorem registration_roundtrip_witness:
  "persist_evaluator_version plain_ext ''db'' (sample_version ''v1'' ''a'' ''shadow'') (empty_store\<lparr>es_versions :=
       [(''v1'', row_of_version (sample_version ''v1'' ''a'' ''shadow'') None)]\<rparr>) = (Inr ''v1'', empty_store\<lparr>es_versions :=
       [(''v1'', row_of_version (sample_version ''v1'' ''a'' ''shadow'') None)]\<rparr>)"
  using registration_roundtrip [OF sample_registers [of "''v1''" "''a''" "''shadow''"], of "sample_version ''v1'' ''a'' ''promoted''"] by blast

end
