(* ===== verification/PublicSources.thy ===== *)
theory PublicSources
  imports ItResearch
begin

text \<open>
  Evidence of public sources: the licence on a fixed arXiv page (\<open>license_verification.py\<close>), the text of
  an open PDF (\<open>fulltext_verification.py\<close>), the metadata of a public repository
  (\<open>artifact_verification.py\<close>) and the HTML page and the PDF of a publisher (\<open>publisher_evidence.py\<close>,
  \<open>publisher_fulltext_verification.py\<close>). The network, the PDF reader and the HTML parser are arguments;
  bytes are texts of characters below 256.
\<close>

subsection \<open>Requests\<close>

text \<open>
  An opener gives the final URL, at most the bytes asked for and the content type, or an exception. A
  redirect ends in the exception of the module's handler.
\<close>

type_synonym page_opener = "string \<Rightarrow> nat \<Rightarrow> (string \<times> string \<times> string) res"

text \<open>The condition of the target checks: evaluated from left to right, reading the port may raise.\<close>

definition bad_target :: "ip_reader \<Rightarrow> string \<Rightarrow> (url \<Rightarrow> bool) \<Rightarrow> string \<Rightarrow> bool res" where
  "bad_target ip host rest_ok url =
     bindR (urlparse ip url) (\<lambda>u.
     if u_scheme u \<noteq> ''https'' \<or> u_hostname u \<noteq> Some host \<or> has_credentials u then Inr True
     else bindR (u_port u) (\<lambda>port. Inr (\<not> standard_port port \<or> \<not> rest_ok u)))"

definition open_fixed :: "exn_class \<Rightarrow> string \<Rightarrow> string \<Rightarrow> page_opener \<Rightarrow> string \<Rightarrow> nat \<Rightarrow> (string \<times> string) res" where
  "open_fixed c changed failed net url n = (case net url n of
     Inl e \<Rightarrow> if request_failures e then raise c failed else Inl e
   | Inr (final, payload, ct) \<Rightarrow> thenR (raise_if (final \<noteq> url) c changed) (Inr (payload, ct)))"

record html_response =
  html_type :: string
  html_payload :: string

type_synonym html_transport = "string \<Rightarrow> html_response res"

text \<open>The leftmost match of \<open>https?://creativecommons\.org<path>/?\<close> without regard to case, as bytes.\<close>

definition cc_prefix :: "string \<Rightarrow> string \<Rightarrow> string option" where
  "cc_prefix path s =
     (let sch = (if starts_with ''https'' s then ''https'' else if starts_with ''http'' s then ''http'' else []);
          u = sch @ ''://creativecommons.org'' @ path in
      if sch = [] \<or> \<not> starts_with u s then None
      else Some (if starts_with (u @ ''/'') s then u @ ''/'' else u))"

fun cc_search :: "string \<Rightarrow> string \<Rightarrow> string option" where
  "cc_search path [] = None"
| "cc_search path (c # s) = (case cc_prefix path (c # s) of Some m \<Rightarrow> Some m | None \<Rightarrow> cc_search path s)"

text \<open>The match in lower case, \<open>match.group(0).lower()\<close>.\<close>

definition find_licence :: "string \<Rightarrow> string \<Rightarrow> string option" where
  "find_licence path payload = cc_search path (lower payload)"

subsection \<open>Licences of arXiv\<close>

definition max_html_bytes :: nat where
  "max_html_bytes = 1000000"

definition license_patterns :: "(string \<times> string) list" where
  "license_patterns = [(''/licenses/by/4.0'', ''CC-BY-4.0''), (''/publicdomain/zero/1.0'', ''CC0-1.0'')]"

record arxiv_license_request =
  lr_source_key :: string
  lr_arxiv_id :: string

definition make_license_request :: "arxiv_license_request \<Rightarrow> arxiv_license_request res" where
  "make_license_request r =
     thenR (raise_if (\<not> fullmatch hex64_rx (lr_source_key r)) LicenseVerificationError ''source key is malformed'')
     (thenR (raise_if (\<not> fullmatch arxiv_id_rx (lr_arxiv_id r)) LicenseVerificationError ''only modern arXiv identifiers are allowed'')
     (Inr r))"

definition license_url :: "arxiv_license_request \<Rightarrow> string" where
  "license_url r = ''https://arxiv.org/abs/'' @ lr_arxiv_id r"

record license_receipt =
  li_source_key :: string
  li_provider :: string
  li_metadata_url :: string
  li_license_id :: string
  li_evidence_sha256 :: string
  li_checked_on :: string

definition default_html_transport :: "ip_reader \<Rightarrow> page_opener \<Rightarrow> html_transport" where
  "default_html_transport ip net url =
     bindR (bad_target ip ''arxiv.org'' (\<lambda>_. True) url) (\<lambda>bad.
     thenR (raise_if bad LicenseVerificationError ''licence target is outside the allowlist'')
     (bindR (open_fixed LicenseVerificationError ''licence page location changed'' ''licence page request failed'' net url (max_html_bytes + 1))
       (\<lambda>(payload, ct). Inr \<lparr>html_type = ct, html_payload = payload\<rparr>)))"

text \<open>The loop over the patterns.\<close>

fun licence_of :: "(string \<times> string) list \<Rightarrow> string \<Rightarrow> (string \<times> string) option" where
  "licence_of [] payload = None"
| "licence_of ((path, lid) # ps) payload = (case find_licence path payload of Some m \<Rightarrow> Some (lid, m) | None \<Rightarrow> licence_of ps payload)"

definition verify_arxiv_license :: "arxiv_license_request \<Rightarrow> html_transport \<Rightarrow> string \<Rightarrow> license_receipt res" where
  "verify_arxiv_license r tr checked_on =
     bindR (tr (license_url r)) (\<lambda>resp.
     thenR (raise_if (html_type resp \<notin> set page_types) LicenseVerificationError ''licence response is not HTML'')
     (thenR (raise_if (max_html_bytes < length (html_payload resp)) LicenseVerificationError ''licence response exceeds the size limit'')
     (case licence_of license_patterns (html_payload resp) of
        None \<Rightarrow> raise LicenseVerificationError ''no compatible explicit open licence was found''
      | Some (lid, m) \<Rightarrow> Inr \<lparr>li_source_key = lr_source_key r, li_provider = ''arxiv'', li_metadata_url = license_url r, li_license_id = lid,
           li_evidence_sha256 = sha256_bytes m, li_checked_on = checked_on\<rparr>)))"

subsection \<open>Open PDFs\<close>

definition pdf_hosts :: "string list" where
  "pdf_hosts = [''arxiv.org'', ''export.arxiv.org'']"

definition allowed_licenses :: "string list" where
  "allowed_licenses = [''CC-BY-4.0'', ''CC0-1.0'', ''PUBLIC-DOMAIN'']"

definition max_pdf_bytes :: nat where "max_pdf_bytes = 25 * 1024 * 1024"
definition max_pdf_pages :: nat where "max_pdf_pages = 100"
definition max_extracted_chars :: nat where "max_extracted_chars = 1000000"

text \<open>\<open>s.upper()\<close> as far as a comparison with an ASCII text can see.\<close>

definition upper :: "string \<Rightarrow> string" where
  "upper s = map (\<lambda>c. if lower_letter c then char_of (code c - 32) else c) s"

record pdf_request =
  pr_source_key :: string
  pr_arxiv_id :: string
  pr_license_id :: string

definition make_pdf_request :: "pdf_request \<Rightarrow> pdf_request res" where
  "make_pdf_request r =
     thenR (raise_if (\<not> fullmatch hex64_rx (pr_source_key r)) FullTextVerificationError ''source key is malformed'')
     (thenR (raise_if (\<not> fullmatch arxiv_id_rx (pr_arxiv_id r)) FullTextVerificationError ''only modern arXiv identifiers are allowed'')
     (thenR (raise_if (upper (pr_license_id r) \<notin> set allowed_licenses) FullTextVerificationError
              ''an explicit compatible open licence is required'')
     (Inr r)))"

definition pdf_url :: "pdf_request \<Rightarrow> string" where
  "pdf_url r = ''https://export.arxiv.org/pdf/'' @ pr_arxiv_id r"

record pdf_response =
  pdf_type :: string
  pdf_payload :: string

type_synonym pdf_transport = "string \<Rightarrow> pdf_response res"

record fulltext_receipt =
  ft_source_key :: string
  ft_provider :: string
  ft_document_url :: string
  ft_license_id :: string
  ft_sha256 :: string
  ft_byte_count :: int
  ft_page_count :: int
  ft_text_sha256 :: string
  ft_character_count :: int
  ft_status :: string

definition validate_pdf_url :: "ip_reader \<Rightarrow> string \<Rightarrow> unit res" where
  "validate_pdf_url ip url =
     bindR (urlparse ip url) (\<lambda>u.
     thenR (raise_if (u_scheme u \<noteq> ''https'' \<or> (case u_hostname u of None \<Rightarrow> True | Some h \<Rightarrow> h \<notin> set pdf_hosts) \<or> has_credentials u)
              FullTextVerificationError ''PDF target is outside the allowlist'')
     (bindR (u_port u) (\<lambda>port. raise_if (\<not> standard_port port) FullTextVerificationError ''PDF target port is malformed'')))"

definition default_pdf_transport :: "ip_reader \<Rightarrow> page_opener \<Rightarrow> pdf_transport" where
  "default_pdf_transport ip net url =
     thenR (validate_pdf_url ip url)
     (case net url (max_pdf_bytes + 1) of
        Inl e \<Rightarrow> if request_failures e then raise FullTextVerificationError ''open-access PDF request failed'' else Inl e
      | Inr (final, payload, ct) \<Rightarrow> thenR (validate_pdf_url ip final) (Inr \<lparr>pdf_type = ct, pdf_payload = payload\<rparr>))"

text \<open>
  \<open>PdfReader\<close>: the pages of a document, each with the text \<open>extract_text\<close> gives, or exceptions.
\<close>

type_synonym pdf_reader = "string \<Rightarrow> string res list res"

text \<open>The try statement of the readers: the error class of the module passes, others are replaced.\<close>

definition read_pages :: "exn_class \<Rightarrow> string \<Rightarrow> string \<Rightarrow> pdf_reader \<Rightarrow> string \<Rightarrow> (nat \<times> string) res" where
  "read_pages c too_many failed reader payload =
     (case bindR (reader payload) (\<lambda>pages.
             thenR (raise_if (max_pdf_pages < length pages) c too_many)
             (bindR (mapR (\<lambda>p. p) pages) (\<lambda>ts. Inr (length pages, concat ts)))) of
        Inl e \<Rightarrow> if is_a e c then Inl e else raise c failed
      | Inr x \<Rightarrow> Inr x)"

definition verify_open_access_pdf :: "pdf_reader \<Rightarrow> pdf_request \<Rightarrow> pdf_transport \<Rightarrow> fulltext_receipt res" where
  "verify_open_access_pdf reader r tr =
     bindR (tr (pdf_url r)) (\<lambda>resp.
     thenR (raise_if (pdf_type resp \<noteq> ''application/pdf'') FullTextVerificationError ''response is not a PDF'')
     (thenR (raise_if (\<not> starts_with ''%PDF-'' (pdf_payload resp)) FullTextVerificationError ''response does not have a PDF signature'')
     (thenR (raise_if (max_pdf_bytes < length (pdf_payload resp)) FullTextVerificationError ''PDF exceeds the size limit'')
     (bindR (read_pages FullTextVerificationError ''PDF exceeds the page limit'' ''PDF text extraction failed'' reader (pdf_payload resp))
       (\<lambda>(n, text).
     thenR (raise_if (max_extracted_chars < length text) FullTextVerificationError ''extracted PDF text exceeds the limit'')
     (Inr \<lparr>ft_source_key = pr_source_key r, ft_provider = ''arxiv'', ft_document_url = pdf_url r, ft_license_id = upper (pr_license_id r),
           ft_sha256 = sha256_bytes (pdf_payload resp), ft_byte_count = int (length (pdf_payload resp)), ft_page_count = int n,
           ft_text_sha256 = sha256 text, ft_character_count = int (length text), ft_status = ''extracted_untrusted''\<rparr>))))))"

subsection \<open>Repositories\<close>

definition name_char :: "char \<Rightarrow> bool" where
  "name_char c \<longleftrightarrow> upper_letter c \<or> lower_letter c \<or> is_digit c \<or> c \<in> set ''_.-''"

definition repository_rx :: rx where
  "repository_rx = RSeq (RRep (RSet name_char) 1 (Some 39)) (RSeq (RSet (\<lambda>c. c = CHR ''/'')) (RRep (RSet name_char) 1 (Some 100)))"

definition branch_rx :: rx where
  "branch_rx = RRep (RSet (\<lambda>c. name_char c \<or> c = CHR ''/'')) 1 (Some 128)"

record repository_request =
  rp_source_key :: string
  rp_claim_id :: string
  rp_repository :: string

definition make_repository_request :: "repository_request \<Rightarrow> repository_request res" where
  "make_repository_request r =
     thenR (raise_if (\<not> fullmatch hex64_rx (rp_source_key r)) ArtifactVerificationError ''source key is malformed'')
     (bindR (reraise ValueError ArtifactVerificationError ''claim id is malformed'' (uuid_str (rp_claim_id r))) (\<lambda>_.
     thenR (raise_if (\<not> fullmatch repository_rx (rp_repository r)) ArtifactVerificationError ''repository must be an owner/name identifier'')
     (Inr r)))"

record artifact_receipt =
  ar_source_key :: string
  ar_claim_id :: string
  ar_repository :: string
  ar_api_url :: string
  ar_html_url :: string
  ar_default_branch :: string
  ar_code_license :: string
  ar_evidence_sha256 :: string
  ar_has_readme :: bool
  ar_has_test_paths :: bool
  ar_has_environment_manifest :: bool
  ar_has_data_paths :: bool
  ar_status :: string

definition api_url :: "string \<Rightarrow> string" where
  "api_url path = ''https://api.github.com'' @ path"

type_synonym json_transport = "string \<Rightarrow> string res"

definition default_github_transport :: "ip_reader \<Rightarrow> page_opener \<Rightarrow> json_transport" where
  "default_github_transport ip net url =
     bindR (bad_target ip ''api.github.com'' (\<lambda>_. True) url) (\<lambda>bad.
     thenR (raise_if bad ArtifactVerificationError ''repository API target is outside the allowlist'')
     (bindR (open_fixed ArtifactVerificationError ''repository API location changed'' ''repository API request failed'' net url (max_response_bytes + 1))
       (\<lambda>(payload, _).
     thenR (raise_if (max_response_bytes < length payload) ArtifactVerificationError ''repository API response exceeds the size limit'')
     (Inr payload))))"

text \<open>\<open>_json\<close>; \<open>decode\<close> is the UTF-8 decoder.\<close>

definition repo_json :: "(string \<Rightarrow> string option) \<Rightarrow> string \<Rightarrow> (string \<times> json) list res" where
  "repo_json dec payload = (case dec payload of
     None \<Rightarrow> raise ArtifactVerificationError ''repository API returned invalid JSON''
   | Some s \<Rightarrow> bindR (reraise JSONDecodeError ArtifactVerificationError ''repository API returned invalid JSON'' (loads s)) (\<lambda>j.
       case j of JObj kvs \<Rightarrow> Inr kvs | _ \<Rightarrow> raise ArtifactVerificationError ''repository API envelope is invalid''))"

text \<open>The case-folded texts under \<open>path\<close> of the entries that are objects.\<close>

definition tree_paths :: "json list \<Rightarrow> string list" where
  "tree_paths entries = List.map_filter (\<lambda>e. case e of
     JObj kvs \<Rightarrow> (case map_of kvs ''path'' of Some (JStr s) \<Rightarrow> Some (casefold s) | _ \<Rightarrow> None) | _ \<Rightarrow> None) entries"

definition manifest_names :: "string list" where
  "manifest_names = [''pyproject.toml'', ''requirements.txt'', ''environment.yml'', ''environment.yaml'', ''dockerfile'', ''compose.yaml'',
     ''package-lock.json'', ''poetry.lock'']"

definition starts_any :: "string list \<Rightarrow> string \<Rightarrow> bool" where
  "starts_any ps s = list_ex (\<lambda>p. starts_with p s) ps"

text \<open>The digest of the evidence: JSON with tight separators over the sorted paths.\<close>

definition evidence_json :: "string \<Rightarrow> string \<Rightarrow> string \<Rightarrow> string list \<Rightarrow> json" where
  "evidence_json repo branch spdx paths = JObj [(''repository'', JStr repo), (''branch'', JStr branch), (''licence'', JStr spdx),
     (''paths'', JList (map JStr (sort_key (map code) paths)))]"

definition artifact_receipt_of :: "repository_request \<Rightarrow> string \<Rightarrow> string \<Rightarrow> string \<Rightarrow> string list \<Rightarrow> artifact_receipt" where
  "artifact_receipt_of r branch html_url spdx paths =
     \<lparr>ar_source_key = rp_source_key r, ar_claim_id = rp_claim_id r, ar_repository = rp_repository r,
      ar_api_url = api_url (''/repos/'' @ rp_repository r), ar_html_url = html_url, ar_default_branch = branch, ar_code_license = spdx,
      ar_evidence_sha256 = sha256 (dumps compact_opts (evidence_json (rp_repository r) branch spdx paths)),
      ar_has_readme = list_ex (\<lambda>p. starts_with ''readme'' (after_last CHR ''/'' p)) paths,
      ar_has_test_paths = list_ex (\<lambda>p. starts_any [''test/'', ''tests/''] p \<or> has_sub ''/test_'' p) paths,
      ar_has_environment_manifest = list_ex (\<lambda>p. after_last CHR ''/'' p \<in> set manifest_names) paths,
      ar_has_data_paths = list_ex (starts_any [''data/'', ''dataset/'', ''datasets/'']) paths,
      ar_status = ''public_artifact_metadata_verified''\<rparr>"

definition verify_public_repository :: "(string \<Rightarrow> string option) \<Rightarrow> repository_request \<Rightarrow> json_transport \<Rightarrow> artifact_receipt res" where
  "verify_public_repository dec r tr =
     bindR (tr (api_url (''/repos/'' @ rp_repository r))) (\<lambda>p1.
     bindR (repo_json dec p1) (\<lambda>meta.
     thenR (raise_if (jget meta ''archived'' = JBool True \<or> jget meta ''private'' = JBool True) ArtifactVerificationError
              ''repository is not an active public artifact'')
     (bindR (case jget meta ''default_branch'' of
               JStr b \<Rightarrow> thenR (raise_if (\<not> fullmatch branch_rx b) ArtifactVerificationError ''repository default branch is malformed'') (Inr b)
             | _ \<Rightarrow> raise ArtifactVerificationError ''repository default branch is malformed'') (\<lambda>branch.
     thenR (raise_if (jget meta ''html_url'' \<noteq> JStr (''https://github.com/'' @ rp_repository r)) ArtifactVerificationError
              ''repository canonical URL is malformed'')
     (bindR (case jget meta ''license'' of
               JObj lic \<Rightarrow> (case jget lic ''spdx_id'' of
                  JStr t \<Rightarrow> if t \<in> {''NOASSERTION'', ''Other'', []} then raise ArtifactVerificationError ''repository has no machine-readable code licence''
                    else Inr t
                | _ \<Rightarrow> raise ArtifactVerificationError ''repository has no machine-readable code licence'')
             | _ \<Rightarrow> raise ArtifactVerificationError ''repository has no machine-readable code licence'') (\<lambda>spdx.
     bindR (tr (api_url (''/repos/'' @ rp_repository r @ ''/git/trees/'' @ quote branch @ ''?recursive=1''))) (\<lambda>p2.
     bindR (repo_json dec p2) (\<lambda>tree.
     case jget tree ''tree'' of
       JList entries \<Rightarrow>
         thenR (raise_if (jget tree ''truncated'' = JBool True) ArtifactVerificationError ''repository tree is incomplete'')
         (Inr (artifact_receipt_of r branch (''https://github.com/'' @ rp_repository r) spdx (tree_paths entries)))
     | _ \<Rightarrow> raise ArtifactVerificationError ''repository tree is incomplete''))))))))"

subsection \<open>Publisher pages\<close>

definition article_id_rx :: rx where
  "article_id_rx = RSeq (RRep (RSet is_digit) 1 (Some 3)) (RSeq (RSet (\<lambda>c. c = CHR ''-'')) (RRep (RSet is_digit) 1 (Some 6)))"

definition article_path_rx :: "string \<Rightarrow> rx" where
  "article_path_rx end_of = RSeq (lit ''/articles/'') (RSeq article_id_rx (RSeq (lit ''/v'') (RSeq (RRep (RSet is_digit) 1 (Some 2)) (lit end_of))))"

definition max_page_bytes :: nat where "max_page_bytes = 2000000"
definition max_excerpt :: nat where "max_excerpt = 2000"

record article_request =
  ag_source_key :: string
  ag_article_id :: string
  ag_version :: int

definition make_article_request :: "article_request \<Rightarrow> article_request res" where
  "make_article_request r =
     thenR (raise_if (\<not> fullmatch hex64_rx (ag_source_key r)) PublisherEvidenceError ''source key is malformed'')
     (thenR (raise_if (\<not> fullmatch article_id_rx (ag_article_id r)) PublisherEvidenceError ''article identifier is malformed'')
     (thenR (raise_if (ag_version r < 1 \<or> 99 < ag_version r) PublisherEvidenceError ''article version is outside the bounded range'')
     (Inr r)))"

definition article_url :: "article_request \<Rightarrow> string" where
  "article_url r = ''https://f1000research.com/articles/'' @ ag_article_id r @ ''/v'' @ show_int (ag_version r)"

record html_receipt =
  ht_source_key :: string
  ht_provider :: string
  ht_document_url :: string
  ht_license_id :: string
  ht_html_sha256 :: string
  ht_text_sha256 :: string
  ht_character_count :: int
  ht_checked_on :: string
  ht_status :: string

text \<open>What the HTML parser reports; the collector counts open ignored elements.\<close>

datatype html_event = StartTag string | EndTag string | Data string

definition ignored_tags :: "string list" where
  "ignored_tags = [''script'', ''style'', ''noscript'', ''template'']"

fun collect_text :: "html_event \<Rightarrow> nat \<times> string list \<Rightarrow> nat \<times> string list" where
  "collect_text (StartTag t) (d, ps) = (if casefold t \<in> set ignored_tags then d + 1 else d, ps)"
| "collect_text (EndTag t) (d, ps) = (if casefold t \<in> set ignored_tags \<and> d \<noteq> 0 then d - 1 else d, ps)"
| "collect_text (Data x) (d, ps) = (d, if d = 0 then ps @ [x] else ps)"

definition visible_text :: "html_event list \<Rightarrow> string" where
  "visible_text es = join '' '' (words (join '' '' (snd (foldl (\<lambda>st e. collect_text e st) (0, []) es))))"

definition default_f1000_transport :: "ip_reader \<Rightarrow> page_opener \<Rightarrow> html_transport" where
  "default_f1000_transport ip net url =
     bindR (bad_target ip ''f1000research.com'' (\<lambda>u. fullmatch (article_path_rx []) (u_path u) \<and> u_query u = [] \<and> u_fragment u = []) url) (\<lambda>bad.
     thenR (raise_if bad PublisherEvidenceError ''publisher target is outside the allowlist'')
     (bindR (open_fixed PublisherEvidenceError ''publisher page location changed'' ''publisher page request failed'' net url (max_page_bytes + 1))
       (\<lambda>(payload, ct). Inr \<lparr>html_type = ct, html_payload = payload\<rparr>)))"

text \<open>The receipt and the excerpt; \<open>events\<close> is the HTML parser.\<close>

definition verify_f1000_article ::
    "(string \<Rightarrow> string option) \<Rightarrow> (string \<Rightarrow> html_event list) \<Rightarrow> article_request \<Rightarrow> html_transport \<Rightarrow> string \<Rightarrow> (html_receipt \<times> string) res" where
  "verify_f1000_article dec events r tr checked_on =
     bindR (tr (article_url r)) (\<lambda>resp.
     thenR (raise_if (html_type resp \<notin> set page_types) PublisherEvidenceError ''publisher response is not HTML'')
     (thenR (raise_if (max_page_bytes < length (html_payload resp)) PublisherEvidenceError ''publisher response exceeds the size limit'')
     (thenR (raise_if (find_licence ''/licenses/by/4.0'' (html_payload resp) = None) PublisherEvidenceError
              ''no explicit compatible open licence was found'')
     (case dec (html_payload resp) of
        None \<Rightarrow> raise PublisherEvidenceError ''publisher response is not UTF-8 HTML''
      | Some html \<Rightarrow> (let text = visible_text (events html) in
          thenR (raise_if (text = []) PublisherEvidenceError ''publisher page has no visible text'')
          (Inr (\<lparr>ht_source_key = ag_source_key r, ht_provider = ''f1000research'', ht_document_url = article_url r,
             ht_license_id = ''CC-BY-4.0'', ht_html_sha256 = sha256_bytes (html_payload resp), ht_text_sha256 = sha256 text,
             ht_character_count = int (length text), ht_checked_on = checked_on, ht_status = ''publisher_html_verified''\<rparr>,
             take max_excerpt text)))))))"

end
