(* ===== verification/PublisherPdf.thy ===== *)
theory PublisherPdf
  imports PublicSources
begin

text \<open>
  The PDF of a publisher (\<open>publisher_fulltext_verification.py\<close>): the fixed route, its redirect to a
  static file, and the loop that fetches the file in ranges until the declared size is reached. The
  static host is an argument that may answer differently each time; an expired wall clock is one of
  the exceptions it may raise. The fetch also gives the ranges it asked for.
\<close>

definition static_path_rx :: rx where
  "static_path_rx =
     (let hex = RSet (\<lambda>c. is_hex_lower c \<or> in_range CHR ''A'' CHR ''F'' c); digits = RRep (RSet is_digit) 1 (Some 12);
          word = (\<lambda>w. foldr (\<lambda>c r. RSeq (RSet (\<lambda>x. lower_char x = c)) r) w REps) in
      RSeq (word ''/manuscripts/'') (RSeq digits (RSeq (lit ''/'') (RSeq (RRep hex 8 (Some 8))
        (RSeq (RRep (RSeq (lit ''-'') (RRep hex 4 (Some 4))) 3 (Some 3)) (RSeq (lit ''-'') (RSeq (RRep hex 12 (Some 12))
        (RSeq (word ''_f1000res'') (RSeq digits (word ''.pdf''))))))))))"

record publisher_request =
  pb_source_key :: string
  pb_article_id :: string
  pb_version :: int
  pb_license_id :: string

definition make_publisher_request :: "publisher_request \<Rightarrow> publisher_request res" where
  "make_publisher_request r =
     thenR (raise_if (\<not> fullmatch hex64_rx (pb_source_key r)) PublisherFullTextError ''source key is malformed'')
     (thenR (raise_if (\<not> fullmatch article_id_rx (pb_article_id r)) PublisherFullTextError ''article identifier is malformed'')
     (thenR (raise_if (pb_version r < 1 \<or> 99 < pb_version r) PublisherFullTextError ''article version is outside the bounded range'')
     (thenR (raise_if (upper (pb_license_id r) \<noteq> ''CC-BY-4.0'') PublisherFullTextError ''an explicit CC-BY-4.0 licence is required'')
     (Inr r))))"

definition publisher_url :: "publisher_request \<Rightarrow> string" where
  "publisher_url r = ''https://f1000research.com/articles/'' @ pb_article_id r @ ''/v'' @ show_int (pb_version r) @ ''/pdf''"

record publisher_pdf =
  pp_type :: string
  pp_payload :: string
  pp_url :: string

definition validate_publisher_url :: "ip_reader \<Rightarrow> string \<Rightarrow> unit res" where
  "validate_publisher_url ip url =
     bindR (bad_target ip ''f1000research.com'' (\<lambda>u. fullmatch (article_path_rx ''/pdf'') (u_path u) \<and> u_query u = [] \<and> u_fragment u = []) url)
     (\<lambda>bad. raise_if bad PublisherFullTextError ''publisher PDF target is outside the allowlist'')"

text \<open>The query of the location is dropped.\<close>

definition stable_file_url :: "ip_reader \<Rightarrow> string \<Rightarrow> string res" where
  "stable_file_url ip location =
     bindR (bad_target ip ''f1000research-files.f1000.com'' (\<lambda>u. fullmatch static_path_rx (u_path u) \<and> u_fragment u = []) location) (\<lambda>bad.
     thenR (raise_if bad PublisherFullTextError ''publisher PDF redirect is outside the static-file allowlist'')
     (bindR (urlparse ip location) (\<lambda>u. Inr (''https://f1000research-files.f1000.com'' @ u_path u))))"

subsection \<open>Ranges\<close>

definition range_chunk :: nat where
  "range_chunk = 256 * 1024"

text \<open>A response of the static host: final URL, status, content range (empty if absent), type and body.\<close>

record range_response =
  rg_url :: string
  rg_status :: int
  rg_range :: string
  rg_type :: string
  rg_body :: string

text \<open>The host, given the number of requests made before and the first and last byte asked for.\<close>

type_synonym range_host = "nat \<Rightarrow> nat \<Rightarrow> nat \<Rightarrow> range_response res"

text \<open>\<open>bytes (digits)-(digits)/(digits)\<close>\<close>

definition content_range :: "string \<Rightarrow> (nat \<times> nat \<times> nat) option" where
  "content_range s = (case partition_at CHR ''-'' (drop 6 s) of (a, fa, r) \<Rightarrow> case partition_at CHR ''/'' r of (b, fb, c) \<Rightarrow>
     if starts_with ''bytes '' s \<and> fa \<and> fb \<and> list_all (\<lambda>t. t \<noteq> [] \<and> list_all is_digit t) [a, b, c]
     then Some (read_base 10 a, read_base 10 b, read_base 10 c) else None)"

text \<open>The checks of one response; the value is its part, the last byte and the size of the file.\<close>

definition accept_range :: "string \<Rightarrow> nat \<Rightarrow> nat option \<Rightarrow> range_response \<Rightarrow> (string \<times> nat \<times> nat) res" where
  "accept_range url start known r =
     thenR (raise_if (rg_url r \<noteq> url \<or> rg_status r \<noteq> 206) PublisherFullTextError
              ''publisher static PDF did not honour the fixed range request'')
     (case content_range (rg_range r) of
        None \<Rightarrow> raise PublisherFullTextError ''publisher static PDF has no valid content range''
      | Some (begins, stop, full) \<Rightarrow>
          thenR (raise_if (begins \<noteq> start \<or> stop < begins) PublisherFullTextError ''publisher static PDF content range is discontinuous'')
          (thenR (raise_if (full = 0 \<or> max_pdf_bytes < full \<or> full \<le> stop) PublisherFullTextError
                    ''publisher static PDF size is outside the limit'')
          (thenR (raise_if (known \<noteq> None \<and> known \<noteq> Some full) PublisherFullTextError ''publisher static PDF size changed during retrieval'')
          (let part = take (stop - begins + 2) (rg_body r) in
           thenR (raise_if (length part \<noteq> stop - begins + 1) PublisherFullTextError ''publisher static PDF range is incomplete'')
           (Inr (part, stop, full))))))"

lemma accept_range_Inr:
  "accept_range url start known r = Inr (part, stop, full) \<Longrightarrow>
     start \<le> stop \<and> stop < full \<and> full \<le> max_pdf_bytes \<and> length part = stop - start + 1 \<and> (known = None \<or> known = Some full)"
  by (auto simp: accept_range_def raise_if_Inr bindR_Inr_iff Let_def split: option.splits prod.splits)

text \<open>The while loop; \<open>ct\<close> is the type of the last response.\<close>

function range_loop ::
    "range_host \<Rightarrow> string \<Rightarrow> nat \<Rightarrow> string \<Rightarrow> nat \<Rightarrow> nat option \<Rightarrow> string \<Rightarrow> (string \<times> string) res \<times> (nat \<times> nat) list" where
  "range_loop host url i payload start known ct =
     (if (case known of None \<Rightarrow> False | Some t \<Rightarrow> t \<le> start) then (Inr (payload, ct), [])
      else (let asked = (start, min (start + range_chunk - 1) (max_pdf_bytes - 1)) in
        case host i (fst asked) (snd asked) of
          Inl e \<Rightarrow> (Inl e, [asked])
        | Inr r \<Rightarrow> (case accept_range url start known r of
            Inl e \<Rightarrow> (Inl e, [asked])
          | Inr (part, stop, full) \<Rightarrow>
              (case range_loop host url (i + 1) (payload @ part) (stop + 1) (Some full) (rg_type r) of
                 (res, trail) \<Rightarrow> (res, asked # trail)))))"
  by pat_completeness auto

termination
  by (relation "measure (\<lambda>(host, url, i, payload, start, known, ct). case known of None \<Rightarrow> Suc max_pdf_bytes | Some t \<Rightarrow> t - start)")
     (auto dest!: accept_range_Inr split: option.splits)

declare range_loop.simps [simp del]

definition read_static_pdf_ranges :: "range_host \<Rightarrow> string \<Rightarrow> (string \<times> string) res \<times> (nat \<times> nat) list" where
  "read_static_pdf_ranges host url = range_loop host url 0 [] 0 None []"

text \<open>
  The first request of the route: a redirect error with its code and location, another exception or
  an answer.
\<close>

datatype route = Answered | HttpFailure int "string option" | Failed exn

definition default_f1000_pdf_transport :: "ip_reader \<Rightarrow> (string \<Rightarrow> route) \<Rightarrow> range_host \<Rightarrow> string \<Rightarrow> publisher_pdf res" where
  "default_f1000_pdf_transport ip net host url =
     thenR (validate_publisher_url ip url)
     (bindR (case net url of
        Answered \<Rightarrow> raise PublisherFullTextError ''publisher PDF route did not provide the expected static redirect''
      | HttpFailure c loc \<Rightarrow> if c \<notin> {301, 302, 303, 307, 308} then raise PublisherFullTextError ''publisher PDF route failed'' else Inr loc
      | Failed e \<Rightarrow> if is_a e URLError \<or> is_a e TimeoutError then raise PublisherFullTextError ''publisher PDF route failed'' else Inl e) (\<lambda>loc.
     bindR (case loc of None \<Rightarrow> raise PublisherFullTextError ''publisher PDF redirect has no location'' | Some l \<Rightarrow> Inr l) (\<lambda>l.
     bindR (stable_file_url ip l) (\<lambda>static.
     case fst (read_static_pdf_ranges host static) of
       Inl e \<Rightarrow> if request_failures e then raise PublisherFullTextError ''publisher static PDF request failed'' else Inl e
     | Inr (payload, ct) \<Rightarrow> Inr \<lparr>pp_type = ct, pp_payload = payload, pp_url = static\<rparr>))))"

definition verify_f1000_open_access_pdf :: "pdf_reader \<Rightarrow> publisher_request \<Rightarrow> (string \<Rightarrow> publisher_pdf res) \<Rightarrow> fulltext_receipt res" where
  "verify_f1000_open_access_pdf reader r tr =
     bindR (tr (publisher_url r)) (\<lambda>resp.
     thenR (raise_if (pp_type resp \<notin> {''application/pdf'', ''application/octet-stream''}) PublisherFullTextError
              ''publisher response is not an allowed PDF MIME type'')
     (thenR (raise_if (\<not> starts_with ''%PDF-'' (pp_payload resp)) PublisherFullTextError ''publisher response does not have a PDF signature'')
     (thenR (raise_if (max_pdf_bytes < length (pp_payload resp)) PublisherFullTextError ''publisher PDF exceeds the size limit'')
     (bindR (read_pages PublisherFullTextError ''publisher PDF exceeds the page limit'' ''publisher PDF text extraction failed'' reader (pp_payload resp))
       (\<lambda>(n, text).
     thenR (raise_if (max_extracted_chars < length text) PublisherFullTextError ''publisher extracted text exceeds the limit'')
     (Inr \<lparr>ft_source_key = pb_source_key r, ft_provider = ''f1000research'', ft_document_url = pp_url resp, ft_license_id = ''CC-BY-4.0'',
           ft_sha256 = sha256_bytes (pp_payload resp), ft_byte_count = int (length (pp_payload resp)), ft_page_count = int n,
           ft_text_sha256 = sha256 text, ft_character_count = int (length text), ft_status = ''extracted_untrusted''\<rparr>))))))"

subsection \<open>The loop ends\<close>

definition at_range :: "string \<Rightarrow> nat \<Rightarrow> nat option \<Rightarrow> bool" where
  "at_range payload start known \<longleftrightarrow> length payload = start \<and>
     (case known of None \<Rightarrow> start = 0 | Some t \<Rightarrow> 0 < start \<and> start \<le> t \<and> t \<le> max_pdf_bytes)"

lemma range_loop_log:
  "at_range payload start known \<Longrightarrow> range_loop host url i payload start known ct = (res, trail) \<Longrightarrow>
     (\<forall>p ct'. res = Inr (p, ct') \<longrightarrow> 0 < length p \<and> length p \<le> max_pdf_bytes) \<and>
     sorted_wrt (<) (map fst trail) \<and> (\<forall>(a, b) \<in> set trail. start \<le> a \<and> a \<le> b \<and> b < a + range_chunk \<and> b < max_pdf_bytes)"
proof (induction host url i payload start known ct arbitrary: res trail rule: range_loop.induct)
  case (1 host url i payload start known ct)
  let ?asked = "(start, min (start + range_chunk - 1) (max_pdf_bytes - 1))"
  show ?case
  proof (cases "case known of None \<Rightarrow> False | Some t \<Rightarrow> t \<le> start")
    case True
    then have "res = Inr (payload, ct)" "trail = []" using 1(3) by (simp_all add: range_loop.simps [of host url i payload])
    then show ?thesis using 1(2) True by (auto simp: at_range_def split: option.splits)
  next
    case False
    have less: "start < max_pdf_bytes" using 1(2) False by (auto simp: at_range_def max_pdf_bytes_def split: option.splits)
    have chunk: "0 < range_chunk" by (simp add: range_chunk_def)
    have asked: "fst ?asked \<le> snd ?asked" "snd ?asked < fst ?asked + range_chunk" "snd ?asked < max_pdf_bytes"
      using less chunk by auto
    note unfold = range_loop.simps [of host url i payload start known ct]
    show ?thesis
    proof (cases "\<exists>r part stop full. host i (fst ?asked) (snd ?asked) = Inr r \<and> accept_range url start known r = Inr (part, stop, full)")
      case no: False
      have "trail = [?asked] \<and> (\<exists>e. res = Inl e)"
        using 1(3) False no by (auto simp: unfold Let_def split: sum.splits)
      then show ?thesis using asked by auto
    next
      case yes: True
      then obtain r part stop full where r: "host i (fst ?asked) (snd ?asked) = Inr r" "accept_range url start known r = Inr (part, stop, full)"
        by blast
      obtain trail' where trail: "trail = ?asked # trail'"
        and rest: "range_loop host url (i + 1) (payload @ part) (stop + 1) (Some full) (rg_type r) = (res, trail')"
        using 1(3) False r by (auto simp: unfold Let_def split: prod.splits)
      note a = accept_range_Inr [OF r(2)]
      have at: "at_range (payload @ part) (stop + 1) (Some full)" using a 1(2) by (auto simp: at_range_def)
      have IH: "(\<forall>p ct'. res = Inr (p, ct') \<longrightarrow> 0 < length p \<and> length p \<le> max_pdf_bytes) \<and> sorted_wrt (<) (map fst trail') \<and>
          (\<forall>(a, b) \<in> set trail'. stop + 1 \<le> a \<and> a \<le> b \<and> b < a + range_chunk \<and> b < max_pdf_bytes)"
        by (rule 1(1) [OF False refl r(1) r(2) refl refl at rest])
      have "start < stop + 1" using a by simp
      then show ?thesis using IH asked by (fastforce simp: trail)
    qed
  qed
qed

text \<open>
  C28: whatever the host answers, the fetch ends after at most one request for each byte of the size
  limit; every request asks for at most a chunk inside the limit, starts behind the one before, and a
  file that is returned is within the limit.
\<close>

theorem range_fetch_bounded:
  "(case fst (read_static_pdf_ranges host url) of Inl e \<Rightarrow> True | Inr (p, ct) \<Rightarrow> 0 < length p \<and> length p \<le> max_pdf_bytes) \<and>
   length (snd (read_static_pdf_ranges host url)) \<le> max_pdf_bytes \<and>
   sorted_wrt (<) (map fst (snd (read_static_pdf_ranges host url))) \<and>
   list_all (\<lambda>(a, b). a \<le> b \<and> b < a + range_chunk \<and> b < max_pdf_bytes) (snd (read_static_pdf_ranges host url))"
proof -
  obtain res trail where run: "read_static_pdf_ranges host url = (res, trail)" by (cases "read_static_pdf_ranges host url")
  note * = range_loop_log [OF _ run [unfolded read_static_pdf_ranges_def]]
  have l: "(\<forall>p ct'. res = Inr (p, ct') \<longrightarrow> 0 < length p \<and> length p \<le> max_pdf_bytes)" "sorted_wrt (<) (map fst trail)"
    "\<forall>(a, b) \<in> set trail. 0 \<le> a \<and> a \<le> b \<and> b < a + range_chunk \<and> b < max_pdf_bytes"
    using * by (auto simp: at_range_def)
  have "distinct (map fst trail)" using l(2) by (simp add: strict_sorted_iff)
  moreover have "set (map fst trail) \<subseteq> {..<max_pdf_bytes}" using l(3) by fastforce
  ultimately have "length (map fst trail) \<le> card {..<max_pdf_bytes}" by (metis card_mono distinct_card finite_lessThan)
  then show ?thesis using l run by (auto simp: list_all_iff split: sum.split)
qed

subsection \<open>An honest host\<close>

lemma partition_digits: "list_all is_digit d \<Longrightarrow> \<not> is_digit c \<Longrightarrow> partition_at c (d @ c # r) = (d, True, r)"
  by (induction d) (auto simp: partition_at_def)

lemma show_digits: "list_all is_digit (show_nat n)"
  by (simp add: list_all_iff show_nat_digits)

lemma read_show [simp]: "read_base 10 (show_nat n) = n"
  by (simp add: show_nat_def read_show_base)

definition range_text :: "nat \<Rightarrow> nat \<Rightarrow> nat \<Rightarrow> string" where
  "range_text a b n = ''bytes '' @ show_nat a @ ''-'' @ show_nat b @ ''/'' @ show_nat n"

lemma content_range_text: "content_range (range_text a b n) = Some (a, b, n)"
proof -
  have d: "drop 6 (range_text a b n) = show_nat a @ CHR ''-'' # show_nat b @ CHR ''/'' # show_nat n" by (simp add: range_text_def)
  have s: "starts_with ''bytes '' (range_text a b n)" by (simp add: range_text_def starts_with_def)
  show ?thesis
    unfolding content_range_def d by (simp add: partition_digits show_digits s is_digit_def)
qed

text \<open>A host that has the file answers with some part of it that starts at the byte asked for.\<close>

definition honest :: "range_host \<Rightarrow> string \<Rightarrow> string \<Rightarrow> string \<Rightarrow> bool" where
  "honest host url file ct \<longleftrightarrow> (\<forall>i a b. a < length file \<longrightarrow> (\<exists>stop. a \<le> stop \<and> stop < length file \<and> host i a b = Inr
     \<lparr>rg_url = url, rg_status = 206, rg_range = range_text a stop (length file), rg_type = ct, rg_body = take (stop - a + 1) (drop a file)\<rparr>))"

lemma honest_loop:
  assumes "honest host url file ct" "length file \<le> max_pdf_bytes"
  shows "start < length file \<and> known \<in> {None, Some (length file)} \<or> start = length file \<and> known = Some start \<and> c = ct \<Longrightarrow>
    fst (range_loop host url i (take start file) start known c) = Inr (file, ct)"
proof (induction "length file - start" arbitrary: i start known c rule: less_induct)
  case less
  show ?case
  proof (cases "start < length file")
    case False
    then have "start = length file" "known = Some start" "c = ct" using less(2) by auto
    then show ?thesis by (simp add: range_loop.simps [of host url i])
  next
    case True
    let ?b = "min (start + range_chunk - 1) (max_pdf_bytes - 1)"
    obtain stop where stop: "start \<le> stop" "stop < length file" "host i start ?b = Inr
        \<lparr>rg_url = url, rg_status = 206, rg_range = range_text start stop (length file), rg_type = ct,
         rg_body = take (stop - start + 1) (drop start file)\<rparr>"
      using assms(1) True unfolding honest_def by blast
    let ?part = "take (stop - start + 1) (drop start file)"
    have len: "length ?part = stop - start + 1" using stop(1,2) by simp
    have join: "take start file @ ?part = take (stop + 1) file"
      using stop(1) by (simp add: take_add [symmetric])
    have acc: "accept_range url start known \<lparr>rg_url = url, rg_status = 206, rg_range = range_text start stop (length file), rg_type = ct,
        rg_body = ?part\<rparr> = Inr (?part, stop, length file)"
      using True stop(1,2) assms(2) less(2) len by (auto simp: accept_range_def content_range_text raise_if_def Let_def)
    have go: "\<not> (case known of None \<Rightarrow> False | Some t \<Rightarrow> t \<le> start)" using True less(2) by auto
    have "fst (range_loop host url (i + 1) (take (stop + 1) file) (stop + 1) (Some (length file)) ct) = Inr (file, ct)"
      using stop(1,2) by (intro less(1)) auto
    then obtain trail where "range_loop host url (i + 1) (take (stop + 1) file) (stop + 1) (Some (length file)) ct = (Inr (file, ct), trail)"
      by (metis prod.collapse)
    then show ?thesis using go
      by (simp add: range_loop.simps [of host url i "take start file"] Let_def stop(3) acc join del: One_nat_def)
  qed
qed

text \<open>
  C29: a host that has a file within the limit, and answers every request with some part of it that
  starts at the byte asked for, however short or long, makes the fetch return exactly that file.
\<close>

theorem honest_range_fetch:
  assumes "file \<noteq> []" "length file \<le> max_pdf_bytes" "honest host url file ct"
  shows "fst (read_static_pdf_ranges host url) = Inr (file, ct)"
  using honest_loop [OF assms(3,2), of 0 None] assms(1) by (simp add: read_static_pdf_ranges_def)

text \<open>A host that sends three bytes at a time.\<close>

definition slow_host :: "string \<Rightarrow> range_host" where
  "slow_host file i a b = (let stop = min (a + 2) (length file - 1) in Inr
     \<lparr>rg_url = ''u'', rg_status = 206, rg_range = range_text a stop (length file), rg_type = ''application/pdf'',
      rg_body = take (stop - a + 1) (drop a file)\<rparr>)"

theorem honest_range_fetch_witness:
  "fst (read_static_pdf_ranges (slow_host ''%PDF-1.7'') ''u'') = Inr (''%PDF-1.7'', ''application/pdf'')"
proof (rule honest_range_fetch)
  show "honest (slow_host ''%PDF-1.7'') ''u'' ''%PDF-1.7'' ''application/pdf''"
    unfolding honest_def
  proof (intro allI impI)
    fix i a b assume "a < length ''%PDF-1.7''"
    then show "\<exists>stop. a \<le> stop \<and> stop < length ''%PDF-1.7'' \<and> slow_host ''%PDF-1.7'' i a b = Inr
       \<lparr>rg_url = ''u'', rg_status = 206, rg_range = range_text a stop (length ''%PDF-1.7''), rg_type = ''application/pdf'',
        rg_body = take (stop - a + 1) (drop a ''%PDF-1.7'')\<rparr>"
      by (intro exI [of _ "min (a + 2) (length ''%PDF-1.7'' - 1)"]) (auto simp: slow_host_def Let_def)
  qed
  show "length ''%PDF-1.7'' \<le> max_pdf_bytes" by (simp add: max_pdf_bytes_def)
qed simp

end
