(* ===== verification/Workflows.thy ===== *)
theory Workflows
  imports ResearchStore EvaluatorStore
begin

text \<open>
  The scripts that join the research components: the document cycles of arXiv and F1000Research, the
  imports of single records, the persisted research run with its observer, the claims of a reviewer
  and the repository check. Files under \<open>runtime\<close> and printed lines are left out; the arguments are
  those \<open>argparse\<close> has converted, \<open>url\<close> is \<open>DATABASE_URL\<close> and \<open>day\<close> the date of the run.
\<close>

text \<open>A statement whose exception ends the script, then the rest.\<close>

definition and_then :: "'a res \<times> 's \<Rightarrow> ('a \<Rightarrow> 's \<Rightarrow> 'b res \<times> 's) \<Rightarrow> 'b res \<times> 's" where
  "and_then r f = (case r of (Inl e, s) \<Rightarrow> (Inl e, s) | (Inr x, s) \<Rightarrow> f x s)"

definition choice :: "string \<Rightarrow> string list \<Rightarrow> unit res" where
  "choice x xs = raise_if (x \<notin> set xs) SystemExit ''invalid choice''"

subsection \<open>Documents\<close>

definition arxiv_evidence ::
    "html_transport \<Rightarrow> pdf_reader \<Rightarrow> pdf_transport \<Rightarrow> string \<Rightarrow> string \<Rightarrow> string \<Rightarrow> (license_receipt \<times> fulltext_receipt) res" where
  "arxiv_evidence html reader pdf day key aid =
     bindR (make_license_request \<lparr>lr_source_key = key, lr_arxiv_id = aid\<rparr>) (\<lambda>r.
     bindR (verify_arxiv_license r html day) (\<lambda>lic.
     bindR (make_pdf_request \<lparr>pr_source_key = key, pr_arxiv_id = aid, pr_license_id = li_license_id lic\<rparr>) (\<lambda>p.
     bindR (verify_open_access_pdf reader p pdf) (\<lambda>doc. Inr (lic, doc)))))"

definition arxiv_cycle ::
    "ext \<Rightarrow> dates \<Rightarrow> html_transport \<Rightarrow> pdf_reader \<Rightarrow> pdf_transport \<Rightarrow> time \<Rightarrow> string \<Rightarrow> string \<Rightarrow> string \<Rightarrow> string \<Rightarrow> string \<Rightarrow> bool \<Rightarrow>
     corpus_db \<Rightarrow> int res \<times> corpus_db" where
  "arxiv_cycle X D html reader pdf now day fresh fresh' key aid persist s =
     and_then (arxiv_evidence html reader pdf day key aid, s) (\<lambda>(lic, doc) s.
     if \<not> persist then (Inr (ft_page_count doc), s)
     else and_then (persist_license_receipt X D fresh lic s) (\<lambda>_ s.
       and_then (persist_fulltext_receipt X now fresh' doc s) (\<lambda>_ s. (Inr (ft_page_count doc), s))))"

definition f1000_evidence ::
    "(string \<Rightarrow> string option) \<Rightarrow> (string \<Rightarrow> html_event list) \<Rightarrow> html_transport \<Rightarrow> pdf_reader \<Rightarrow> (string \<Rightarrow> publisher_pdf res) \<Rightarrow>
     string \<Rightarrow> string \<Rightarrow> string \<Rightarrow> int \<Rightarrow> (html_receipt \<times> fulltext_receipt) res" where
  "f1000_evidence dec events html reader pdf day key article version =
     bindR (make_article_request \<lparr>ag_source_key = key, ag_article_id = article, ag_version = version\<rparr>) (\<lambda>r.
     bindR (verify_f1000_article dec events r html day) (\<lambda>(page, excerpt).
     bindR (make_publisher_request \<lparr>pb_source_key = key, pb_article_id = article, pb_version = version, pb_license_id = ht_license_id page\<rparr>) (\<lambda>p.
     bindR (verify_f1000_open_access_pdf reader p pdf) (\<lambda>doc. Inr (page, doc)))))"

definition f1000_cycle ::
    "ext \<Rightarrow> dates \<Rightarrow> (string \<Rightarrow> string option) \<Rightarrow> (string \<Rightarrow> html_event list) \<Rightarrow> html_transport \<Rightarrow> pdf_reader \<Rightarrow> (string \<Rightarrow> publisher_pdf res) \<Rightarrow>
     time \<Rightarrow> string \<Rightarrow> string \<Rightarrow> string \<Rightarrow> string \<Rightarrow> string \<Rightarrow> int \<Rightarrow> bool \<Rightarrow> corpus_db \<Rightarrow> int res \<times> corpus_db" where
  "f1000_cycle X D dec events html reader pdf now day fresh fresh' key article version persist s =
     and_then (f1000_evidence dec events html reader pdf day key article version, s) (\<lambda>(page, doc) s.
     if \<not> persist then (Inr (ft_page_count doc), s)
     else and_then (persist_publisher_html_receipt X D fresh page s) (\<lambda>_ s.
       and_then (persist_fulltext_receipt X now fresh' doc s) (\<lambda>_ s. (Inr (ft_page_count doc), s))))"

text \<open>\<open>run_f1000_html_evidence.py\<close>: the page only.\<close>

definition f1000_page ::
    "ext \<Rightarrow> dates \<Rightarrow> (string \<Rightarrow> string option) \<Rightarrow> (string \<Rightarrow> html_event list) \<Rightarrow> html_transport \<Rightarrow> string \<Rightarrow> string \<Rightarrow> string \<Rightarrow> string \<Rightarrow> int \<Rightarrow>
     bool \<Rightarrow> corpus_db \<Rightarrow> string res \<times> corpus_db" where
  "f1000_page X D dec events html day fresh key article version persist s =
     and_then (bindR (make_article_request \<lparr>ag_source_key = key, ag_article_id = article, ag_version = version\<rparr>) (\<lambda>r.
         verify_f1000_article dec events r html day), s) (\<lambda>(page, excerpt) s.
     if \<not> persist then (Inr excerpt, s)
     else and_then (persist_publisher_html_receipt X D fresh page s) (\<lambda>_ s. (Inr excerpt, s)))"

text \<open>\<open>verify_open_access_pdf.py\<close>: the licence is an argument.\<close>

definition open_pdf ::
    "ext \<Rightarrow> pdf_reader \<Rightarrow> pdf_transport \<Rightarrow> time \<Rightarrow> string \<Rightarrow> string \<Rightarrow> string \<Rightarrow> string \<Rightarrow> bool \<Rightarrow> corpus_db \<Rightarrow> int res \<times> corpus_db" where
  "open_pdf X reader pdf now fresh key aid licence persist s =
     and_then (bindR (make_pdf_request \<lparr>pr_source_key = key, pr_arxiv_id = aid, pr_license_id = licence\<rparr>) (\<lambda>p.
         verify_open_access_pdf reader p pdf), s) (\<lambda>doc s.
     if \<not> persist then (Inr (ft_page_count doc), s)
     else and_then (persist_fulltext_receipt X now fresh doc s) (\<lambda>_ s. (Inr (ft_page_count doc), s)))"

subsection \<open>Claims and repositories\<close>

text \<open>A score argument: \<open>unknown\<close> or a number.\<close>

definition score_arg :: "string \<Rightarrow> fval option res" where
  "score_arg v = (if v = ''unknown'' then Inr None
     else case py_float v of None \<Rightarrow> raise ValueError ''could not convert string to float'' | Some x \<Rightarrow> Inr (Some x))"

record claim_arguments =
  arg_key :: string
  arg_document :: string
  arg_summary :: string
  arg_start :: int
  arg_end :: int
  arg_maturity :: string
  arg_lane :: string
  arg_scores :: "string list"
  arg_uncertainty :: string
  arg_assessor :: string
  arg_rationale :: "string list"

definition maturity_choices :: "string list" where
  "maturity_choices = [''hypothesis'', ''formal_or_method'', ''simulated_or_benchmarked'', ''prototype'', ''replicated'', ''operational'']"

definition lane_choices :: "string list" where
  "lane_choices = [''watchlist'', ''research_experiment'', ''implementation_candidate'', ''production_candidate'']"

definition claim_of_arguments :: "claim_arguments \<Rightarrow> reviewed_claim res" where
  "claim_of_arguments a =
     thenR (choice (arg_maturity a) maturity_choices) (thenR (choice (arg_lane a) lane_choices)
     (thenR (choice (arg_uncertainty a) [''low'', ''medium'', ''high'', ''unknown''])
     (thenR (choice (arg_assessor a) [''human'', ''approved_model''])
     (bindR (mapR score_arg (arg_scores a)) (\<lambda>scores.
     bindR (make_assessment \<lparr>claim_assessor = arg_assessor a, claim_scores = scores, claim_uncertainty = arg_uncertainty a,
        rationale = arg_rationale a\<rparr>) (\<lambda>ca.
     make_claim \<lparr>claim_source_key = arg_key a, claim_document_id = arg_document a, claim_summary = arg_summary a,
       claim_page_start = arg_start a, claim_page_end = arg_end a, maturity = arg_maturity a, action_lane = arg_lane a,
       claim_assessment = ca\<rparr>))))))"

definition record_reviewed_claim :: "ext \<Rightarrow> time \<Rightarrow> string \<Rightarrow> claim_arguments \<Rightarrow> corpus_db \<Rightarrow> (string \<times> string) res \<times> corpus_db" where
  "record_reviewed_claim X now fresh a s =
     and_then (claim_of_arguments a, s) (\<lambda>c s.
     and_then (persist_reviewed_claim X now fresh c s) (\<lambda>k s. (Inr (claim_reviewer_status c, k), s)))"

definition repository_check ::
    "ext \<Rightarrow> (string \<Rightarrow> string option) \<Rightarrow> json_transport \<Rightarrow> time \<Rightarrow> string \<Rightarrow> string \<Rightarrow> string \<Rightarrow> string \<Rightarrow> bool \<Rightarrow> corpus_db \<Rightarrow>
     artifact_receipt res \<times> corpus_db" where
  "repository_check X dec tr now fresh key claim repository persist s =
     and_then (bindR (make_repository_request \<lparr>rp_source_key = key, rp_claim_id = claim, rp_repository = repository\<rparr>) (\<lambda>r.
         verify_public_repository dec r tr), s) (\<lambda>receipt s.
     if \<not> persist then (Inr receipt, s)
     else and_then (persist_public_artifact_receipt X now fresh receipt s) (\<lambda>_ s. (Inr receipt, s)))"

subsection \<open>Research runs\<close>

text \<open>\<open>as_snapshot\<close> of an observation.\<close>

definition as_snapshot :: "observation \<Rightarrow> (string \<times> json) list" where
  "as_snapshot b = [(''policy_version'', JStr (ob_policy b)),
     (''coverage_status'', JStr (if ob_coverage_ready b then ''ready_for_synthesis'' else ''collecting_evidence'')),
     (''article_scorer_status'', JStr (ob_article b)), (''response_quality_status'', JStr (ob_response b)),
     (''decision'', JStr (ob_decision b)), (''reasons'', JList (map JStr (ob_reasons b)))]"

text \<open>The coverage after a run is stored and the receipt of the gate.\<close>

definition record_gate :: "ext \<Rightarrow> string \<Rightarrow> (string \<times> json) list option \<Rightarrow> coverage \<Rightarrow> corpus_db \<Rightarrow> unit res \<times> corpus_db" where
  "record_gate X fresh seen c s =
     and_then (record_synthesis_status X fresh c ''runtime/it-research/latest-code-agent-task.md'' seen s) (\<lambda>_ s. (Inr (), s))"

definition read_receipts :: "string \<Rightarrow> store \<Rightarrow> (evaluator_receipt option \<times> evaluator_receipt option) res" where
  "read_receipts url es =
     bindR (load_evaluator_receipt url ''article_scoring'' ''metadata_title_v1'' es) (\<lambda>article.
     bindR (load_evaluator_receipt url ''response_quality'' ''response_contract_v1'' es) (\<lambda>response. Inr (article, response)))"

text \<open>\<open>run_it_research.py\<close>; the result is the status of the coverage and the decision.\<close>

definition research_script ::
    "ext \<Rightarrow> dates \<Rightarrow> lib \<Rightarrow> transport \<Rightarrow> string \<Rightarrow> store \<Rightarrow> time \<Rightarrow> string \<Rightarrow> string \<Rightarrow> query \<Rightarrow> string option \<Rightarrow> string option \<Rightarrow> bool \<Rightarrow>
     corpus_db \<Rightarrow> (string \<times> string) res \<times> corpus_db" where
  "research_script X D L tr url es now fresh fresh' q key mailto persist s =
     and_then (bindR (make_query q) (\<lambda>q. run_it_research L q key mailto tr), s) (\<lambda>run s.
     if \<not> persist
     then and_then (mapR classify_item (run_items run), s) (\<lambda>as s. (Inr (coverage_status (evaluate_coverage default_policy as), ''not_persisted''), s))
     else and_then (persist_run X D url now fresh run ''runtime/it-research/latest-research.json'' s) (\<lambda>_ s.
       let c = evaluate_coverage default_policy (load_corpus_assessments s) in
       and_then (read_receipts url es, s) (\<lambda>(article, response) s.
       let b = observe_corpus_to_spec c article response in
       and_then (record_gate X fresh' (Some (as_snapshot b)) c s) (\<lambda>_ s. (Inr (coverage_status c, ob_decision b), s)))))"

text \<open>\<open>import_arxiv_record.py\<close> and \<open>import_openalex_doi_record.py\<close>: a run of one item.\<close>

definition single_run :: "string \<Rightarrow> string \<Rightarrow> string \<Rightarrow> research_item \<Rightarrow> research_run res" where
  "single_run audit_of topic_text day i =
     bindR (make_query \<lparr>topic = topic_text, max_results = 5\<rparr>) (\<lambda>q.
     Inr \<lparr>run_query = q, run_checked_on = day, run_items = [i], run_errors = [], run_decision = ''review_required'',
          run_audit = [audit_of, ''public_metadata_only'', ''review_required'']\<rparr>)"

definition store_single ::
    "ext \<Rightarrow> dates \<Rightarrow> string \<Rightarrow> time \<Rightarrow> string \<Rightarrow> string \<Rightarrow> string \<Rightarrow> bool \<Rightarrow> research_run \<Rightarrow> corpus_db \<Rightarrow> string res \<times> corpus_db" where
  "store_single X D url now fresh fresh' ref persist run s =
     (if \<not> persist then (Inr ''review_required'', s)
      else and_then (persist_run X D url now fresh run ref s) (\<lambda>_ s.
        let c = evaluate_coverage default_policy (load_corpus_assessments s) in
        and_then (record_gate X fresh' None c s) (\<lambda>_ s. (Inr (coverage_status c), s))))"

definition import_arxiv_record ::
    "ext \<Rightarrow> dates \<Rightarrow> lib \<Rightarrow> (string \<Rightarrow> (string \<times> (string \<times> string option) list) list) \<Rightarrow> transport \<Rightarrow> abstract_transport \<Rightarrow> string \<Rightarrow>
     time \<Rightarrow> string \<Rightarrow> string \<Rightarrow> string \<Rightarrow> string \<Rightarrow> bool \<Rightarrow> corpus_db \<Rightarrow> string res \<times> corpus_db" where
  "import_arxiv_record X D L tags_of tr page url now fresh fresh' aid topic_text persist s =
     and_then (bindR (lookup_arxiv_identifier L tags_of aid tr page) (single_run ''targeted_arxiv_identifier_lookup'' topic_text (today L)), s)
       (store_single X D url now fresh fresh' ''runtime/it-research/latest-targeted-arxiv-record.json'' persist)"

definition import_openalex_doi_record ::
    "ext \<Rightarrow> dates \<Rightarrow> lib \<Rightarrow> transport \<Rightarrow> string option \<Rightarrow> string \<Rightarrow> time \<Rightarrow> string \<Rightarrow> string \<Rightarrow> string \<Rightarrow> string \<Rightarrow> bool \<Rightarrow>
     corpus_db \<Rightarrow> string res \<times> corpus_db" where
  "import_openalex_doi_record X D L tr key url now fresh fresh' doi topic_text persist s =
     and_then (bindR (lookup_openalex_doi L doi key tr) (single_run ''targeted_openalex_doi_lookup'' topic_text (today L)), s)
       (store_single X D url now fresh fresh' ''runtime/it-research/latest-targeted-openalex-doi-record.json'' persist)"

text \<open>\<open>queue_arxiv_fulltext_preflight.py\<close>\<close>

definition preflight_script :: "int \<Rightarrow> corpus_db \<Rightarrow> preflight_candidate list res" where
  "preflight_script limit s = build_fulltext_preflight_queue (load_corpus_assessments s) limit"

end
