(* ===== verification/ResearchStoreProps.thy ===== *)
theory ResearchStoreProps
  imports CorpusProps ResearchStore "HOL-Library.Multiset"
begin

text \<open>
  Properties of the stored corpus over any sequence of operations: a reviewed card is final, every
  card stands on its document receipt, only the claims of humans verify a source, and the coverage
  gate does not open on a stored corpus.
\<close>

datatype corpus_op =
    StoreRun time string research_run string
  | StoreSynthesis string coverage string "(string \<times> json) list option"
  | StoreDocument time string fulltext_receipt
  | StoreLicense string license_receipt
  | StorePage string html_receipt
  | StoreClaim time string reviewed_claim
  | StoreArtifact time string artifact_receipt
  | StoreCard time string document_card
  | StoreDiagram time string diagram_card
  | ReviewCard time string string
  | ReviewDiagram time string string

fun corpus_step :: "ext \<Rightarrow> dates \<Rightarrow> string \<Rightarrow> corpus_op \<Rightarrow> corpus_db \<Rightarrow> corpus_db" where
  "corpus_step X D url (StoreRun now f run ref) s = snd (persist_run X D url now f run ref s)"
| "corpus_step X D url (StoreSynthesis f c ref obs) s = snd (record_synthesis_status X f c ref obs s)"
| "corpus_step X D url (StoreDocument now f r) s = snd (persist_fulltext_receipt X now f r s)"
| "corpus_step X D url (StoreLicense f r) s = snd (persist_license_receipt X D f r s)"
| "corpus_step X D url (StorePage f r) s = snd (persist_publisher_html_receipt X D f r s)"
| "corpus_step X D url (StoreClaim now f c) s = snd (persist_reviewed_claim X now f c s)"
| "corpus_step X D url (StoreArtifact now f r) s = snd (persist_public_artifact_receipt X now f r s)"
| "corpus_step X D url (StoreCard now f c) s = snd (persist_document_card X now f c s)"
| "corpus_step X D url (StoreDiagram now f c) s = snd (persist_diagram_card X now f c s)"
| "corpus_step X D url (ReviewCard now k d) s = snd (review_document_card X now k d s)"
| "corpus_step X D url (ReviewDiagram now k d) s = snd (review_diagram_card X now k d s)"

definition run_corpus :: "ext \<Rightarrow> dates \<Rightarrow> string \<Rightarrow> corpus_op list \<Rightarrow> corpus_db \<Rightarrow> corpus_db" where
  "run_corpus X D url ops s = foldl (\<lambda>s op. corpus_step X D url op s) s ops"

lemma run_corpus_simps [simp]:
  "run_corpus X D url [] s = s" "run_corpus X D url (ops @ [op]) s = corpus_step X D url op (run_corpus X D url ops s)"
  "run_corpus X D url (ops @ later) s = run_corpus X D url later (run_corpus X D url ops s)"
  by (simp_all add: run_corpus_def)

text \<open>The sources a human claim is about.\<close>

fun human_keys :: "corpus_op \<Rightarrow> string set" where
  "human_keys (StoreClaim now f c) = (if claim_assessor (claim_assessment c) = ''human'' then {claim_source_key c} else {})"
| "human_keys _ = {}"

lemma human_claim:
  "k \<in> human_keys op \<Longrightarrow> \<exists>now f c. op = StoreClaim now f c \<and> claim_source_key c = k \<and> claim_assessor (claim_assessment c) = ''human''"
  by (cases op) (auto split: if_splits)

subsection \<open>Changes\<close>

text \<open>The tables the properties are about.\<close>

definition core where
  "core s = (cd_sources s, cd_observations s, cd_assessments s, cd_documents s, cd_claims s, cd_cards s, cd_diagrams s)"

text \<open>One change inside a transaction; \<open>H\<close> are the sources of human claims.\<close>

inductive corpus_change :: "string set \<Rightarrow> corpus_db \<Rightarrow> corpus_db \<Rightarrow> bool" for H where
  other: "core s' = core s \<Longrightarrow> corpus_change H s s'"
| assess: "classify_item i = Inr a \<Longrightarrow> upsert_assessment D now k a s = Inr s' \<Longrightarrow> corpus_change H s s'"
| document: "store_document X now f r s = Inr (x, s') \<Longrightarrow> corpus_change H s s'"
| claim: "store_claim X now f c s = Inr (x, s') \<Longrightarrow> human_keys (StoreClaim now f c) \<subseteq> H \<Longrightarrow> corpus_change H s s'"
| card: "store_card X now f cd s = Inr (x, s') \<Longrightarrow> corpus_change H s s'"
| diagram: "store_diagram X now f dg s = Inr (x, s') \<Longrightarrow> corpus_change H s s'"
| review_card: "corpus_change H s (s\<lparr>cd_cards := set_reviewed now d k (cd_cards s)\<rparr>)"
| review_diagram: "corpus_change H s (s\<lparr>cd_diagrams := set_reviewed now d k (cd_diagrams s)\<rparr>)"

lemma corpus_change_mono: "corpus_change H s s' \<Longrightarrow> H \<subseteq> H' \<Longrightarrow> corpus_change H' s s'"
  by (induction rule: corpus_change.induct) (blast intro: corpus_change.intros)+

lemma change_transact:
  assumes "\<And>x s'. tx s = Inr (x, s') \<Longrightarrow> (corpus_change H)\<^sup>*\<^sup>* s s'"
  shows "(corpus_change H)\<^sup>*\<^sup>* s (snd (transact c failed own tx check s))"
  by (rule transact_keeps) (auto intro: assms)

lemma assessments_change:
  "upsert_assessments D now k as s = Inr s' \<Longrightarrow> list_all (\<lambda>a. \<exists>i. classify_item i = Inr a) as \<Longrightarrow> (corpus_change H)\<^sup>*\<^sup>* s s'"
proof (induction as arbitrary: s)
  case (Cons a as)
  then obtain s1 where "upsert_assessment D now k a s = Inr s1" "upsert_assessments D now k as s1 = Inr s'"
    by (auto simp: bindR_Inr_iff)
  then show ?case using Cons by (auto intro: converse_rtranclp_into_rtranclp corpus_change.assess)
qed simp

lemma classified_all: "mapR classify_item is = Inr as \<Longrightarrow> list_all (\<lambda>a. \<exists>i. classify_item i = Inr a) as"
  by (induction "is" arbitrary: as) (auto simp: bindR_Inr_iff)

lemma review_stars:
  "(corpus_change H)\<^sup>*\<^sup>* s (s\<lparr>cd_cards := set_reviewed now d k (cd_cards s)\<rparr>)"
  "(corpus_change H)\<^sup>*\<^sup>* s (s\<lparr>cd_diagrams := set_reviewed now d k (cd_diagrams s)\<rparr>)"
  by (rule r_into_rtranclp, rule corpus_change.review_card) (rule r_into_rtranclp, rule corpus_change.review_diagram)

lemma step_changes: "(corpus_change (human_keys op))\<^sup>*\<^sup>* s (corpus_step X D url op s)"
proof (cases op)
  case (StoreRun now f run ref)
  have run: "(corpus_change H)\<^sup>*\<^sup>* s s'" if tx: "store_run X D now f run ref as s = Inr (x, s')" and as: "mapR classify_item (run_items run) = Inr as" for x s' as H
  proof -
    obtain k r where r: "upsert_assessments D now k as (s\<lparr>cd_runs := r\<rparr>) = Inr s'" using tx by (auto simp: store_run_def bindR_Inr_iff)
    have "corpus_change H s (s\<lparr>cd_runs := r\<rparr>)" by (rule corpus_change.other) (simp add: core_def)
    then show ?thesis using assessments_change [OF r classified_all [OF as]] by (rule converse_rtranclp_into_rtranclp)
  qed
  show ?thesis unfolding StoreRun corpus_step.simps persist_run_def
    by (auto split: sum.split intro!: change_transact run)
next
  case (StoreSynthesis f c ref obs)
  have "(corpus_change H)\<^sup>*\<^sup>* s s'" if "store_synthesis X f c sn ref s = Inr (x, s')" for sn x s' H
    using that by (intro r_into_rtranclp corpus_change.other) (auto simp: store_synthesis_def bindR_Inr_iff core_def)
  then show ?thesis unfolding StoreSynthesis corpus_step.simps record_synthesis_status_def
    by (auto split: option.split intro: change_transact)
next
  case (StoreDocument now f r)
  then show ?thesis by (auto simp: persist_fulltext_receipt_def intro!: change_transact intro: corpus_change.document)
next
  case (StoreLicense f r)
  have "(corpus_change H)\<^sup>*\<^sup>* s s'" if "store_license X D f r s = Inr (x, s')" for x s' H
    using that by (intro r_into_rtranclp corpus_change.other) (auto simp: store_license_def bindR_Inr_iff core_def split: prod.splits)
  then show ?thesis by (auto simp: StoreLicense persist_license_receipt_def intro: change_transact)
next
  case (StorePage f r)
  have "(corpus_change H)\<^sup>*\<^sup>* s s'" if "store_page X D f r s = Inr (x, s')" for x s' H
    using that by (intro r_into_rtranclp corpus_change.other) (auto simp: store_page_def bindR_Inr_iff core_def split: prod.splits)
  then show ?thesis by (auto simp: StorePage persist_publisher_html_receipt_def intro: change_transact)
next
  case (StoreClaim now f c)
  then show ?thesis by (auto simp: persist_reviewed_claim_def intro!: change_transact intro: corpus_change.claim simp del: human_keys.simps)
next
  case (StoreArtifact now f r)
  have "(corpus_change H)\<^sup>*\<^sup>* s s'" if "store_artifact X now f r s = Inr (x, s')" for x s' H
    using that by (intro r_into_rtranclp corpus_change.other) (auto simp: store_artifact_def bindR_Inr_iff core_def split: prod.splits)
  then show ?thesis by (auto simp: StoreArtifact persist_public_artifact_receipt_def intro: change_transact)
next
  case (StoreCard now f c)
  then show ?thesis by (auto simp: persist_document_card_def intro!: change_transact intro: corpus_change.card)
next
  case (StoreDiagram now f c)
  then show ?thesis by (auto simp: persist_diagram_card_def intro!: change_transact intro: corpus_change.diagram)
next
  case (ReviewCard now k d)
  then show ?thesis by (auto simp: review_document_card_def bindR_Inr_iff intro!: change_transact intro: review_stars)
next
  case (ReviewDiagram now k d)
  then show ?thesis by (auto simp: review_diagram_card_def bindR_Inr_iff intro!: change_transact intro: review_stars)
qed

lemma star_mono: "(corpus_change H)\<^sup>*\<^sup>* s s' \<Longrightarrow> H \<subseteq> H' \<Longrightarrow> (corpus_change H')\<^sup>*\<^sup>* s s'"
  by (rule rtranclp_mono [THEN predicate2D]) (auto intro: corpus_change_mono)

lemma run_changes: "(corpus_change (\<Union> (human_keys ` set ops)))\<^sup>*\<^sup>* s (run_corpus X D url ops s)"
proof (induction ops rule: rev_induct)
  case (snoc op ops)
  have "(corpus_change (\<Union> (human_keys ` set (ops @ [op]))))\<^sup>*\<^sup>* s (run_corpus X D url ops s)"
    by (rule star_mono [OF snoc]) auto
  also have "(corpus_change (\<Union> (human_keys ` set (ops @ [op]))))\<^sup>*\<^sup>* (run_corpus X D url ops s) (run_corpus X D url (ops @ [op]) s)"
    by (simp only: run_corpus_simps(2)) (rule star_mono [OF step_changes], auto)
  finally show ?case .
qed simp

text \<open>What holds of the empty corpus and what every change keeps holds after any operations.\<close>

lemma run_invariant:
  assumes "P empty_corpus" "\<And>s s'. corpus_change (\<Union> (human_keys ` set ops)) s s' \<Longrightarrow> P s \<Longrightarrow> P s'"
  shows "P (run_corpus X D url ops empty_corpus)"
  using run_changes [of ops empty_corpus X D url] by (induction rule: rtranclp_induct) (auto intro: assms)

subsection \<open>What a change does to a table\<close>

lemma find_member: "find P xs = Some x \<Longrightarrow> x \<in> set xs \<and> P x"
  by (auto simp: find_Some_iff)

lemma upsert_unique_cases:
  assumes "upsert_unique same guard k v f refs t = Inr (k', t')"
  obtains k0 w where "(k0, w) \<in> set t" "same w" "guard w" "t' = update_where (\<lambda>j _. j = k0) f t"
    | "t' = t"
    | "row t k = None" "t' = t @ [(k, v)]"
proof (cases "find (\<lambda>(_, w). same w) t")
  case None
  then have "row t k = None" "t' = t @ [(k, v)]"
    using assms by (auto simp: upsert_unique_def bindR_Inr_iff new_key_def raise_if_Inr insert_nothing_def)
  then show thesis by (rule that(3))
next
  case (Some kw)
  obtain k0 w where kw: "kw = (k0, w)" by (cases kw)
  then have mem: "(k0, w) \<in> set t" "same w" using find_member [OF Some] by auto
  show thesis
  proof (cases "guard w")
    case True
    then show thesis using mem that(1) assms Some kw by (simp add: upsert_unique_def)
  next
    case False
    then show thesis using that(2) assms Some kw by (simp add: upsert_unique_def)
  qed
qed

lemma upsert_unique_keyed: "upsert_unique same guard k v f refs t = Inr (k', t') \<Longrightarrow> keyed t \<Longrightarrow> keyed t'"
  by (erule upsert_unique_cases) (auto simp: keyed_def map_of_eq_None_iff)

lemma keyed_row: "keyed t \<Longrightarrow> (k, v) \<in> set t \<Longrightarrow> row t k = Some v"
  by (simp add: keyed_def)

text \<open>A row the guard refuses stays; every other row stays or is updated.\<close>

lemma upsert_unique_final:
  "upsert_unique same guard k v f refs t = Inr (k', t') \<Longrightarrow> keyed t \<Longrightarrow> row t j = Some r \<Longrightarrow> \<not> guard r \<Longrightarrow> row t' j = Some r"
  by (erule upsert_unique_cases) (auto simp: table_simps dest: keyed_row)

lemma upsert_unique_rows:
  "upsert_unique same guard k v f refs t = Inr (k', t') \<Longrightarrow> (j, r) \<in> set t' \<Longrightarrow> (j, r) \<in> set t \<or> r = v \<or> (\<exists>w. (j, w) \<in> set t \<and> r = f w)"
  by (erule upsert_unique_cases) (auto simp: update_where_def split: if_splits)

lemma change_documents:
  "corpus_change H s s' \<Longrightarrow> row (cd_documents s) k = Some d \<Longrightarrow> \<exists>d'. row (cd_documents s') k = Some d' \<and> do_receipt d' = do_receipt d"
proof (induction rule: corpus_change.induct)
  case (document X now f r s x s')
  obtain fk k' where "upsert_unique (\<lambda>d. ft_source_key (do_receipt d) = ft_source_key r \<and> ft_sha256 (do_receipt d) = ft_sha256 r) (\<lambda>_. True)
         fk \<lparr>do_receipt = r, do_acquired = now\<rparr> (\<lambda>d. d\<lparr>do_acquired := now\<rparr>) (refers (ft_source_key r) (cd_sources s)) (cd_documents s) = Inr (k', cd_documents s')"
    using document(1) by (auto simp: store_document_def bindR_Inr_iff split: prod.splits)
  then show ?case using document(2) by (elim upsert_unique_cases) (auto simp: table_simps map_add_def)
qed (auto simp: core_def upsert_assessment_def store_claim_def store_card_def store_diagram_def bindR_Inr_iff Let_def split: prod.splits)

text \<open>A card that is written stands on a document of its source.\<close>

definition backed :: "corpus_db \<Rightarrow> string \<Rightarrow> string \<Rightarrow> int option \<Rightarrow> bool" where
  "backed s doc source page \<longleftrightarrow> (\<exists>d. row (cd_documents s) doc = Some d \<and> ft_source_key (do_receipt d) = source \<and>
     pred_option (\<lambda>p. p \<le> ft_page_count (do_receipt d)) page)"

lemma backed_change: "backed s doc source page \<Longrightarrow> corpus_change H s s' \<Longrightarrow> backed s' doc source page"
  unfolding backed_def using change_documents by metis

inductive table_change :: "('r \<Rightarrow> bool) \<Rightarrow> ('r \<Rightarrow> bool) \<Rightarrow> ('r \<Rightarrow> 'r \<Rightarrow> bool) \<Rightarrow> (string, 'r) table \<Rightarrow> (string, 'r) table \<Rightarrow> bool"
  for free new alike where
  same: "table_change free new alike t t"
| upsert: "upsert_unique sm free k v f (Inr ()) t = Inr (k', t') \<Longrightarrow> new v \<Longrightarrow> (\<And>w. alike w (f w)) \<Longrightarrow> table_change free new alike t t'"
| update: "(\<And>k r. p k r \<Longrightarrow> free r) \<Longrightarrow> (\<And>w. alike w (f w)) \<Longrightarrow> table_change free new alike t (update_where p f t)"

lemma table_change_keyed: "table_change free new alike t t' \<Longrightarrow> keyed t \<Longrightarrow> keyed t'"
  by (induction rule: table_change.induct) (auto dest: upsert_unique_keyed)

interpretation reviewed: lifecycle row insert_nothing update_where "\<lambda>r. \<not> free r" for free
  by unfold_locales

lemma table_change_final: "table_change free new alike t t' \<Longrightarrow> keyed t \<Longrightarrow> row t j = Some r \<Longrightarrow> \<not> free r \<Longrightarrow> row t' j = Some r"
proof (induction rule: table_change.induct)
  case (update p f t)
  then show ?case using reviewed.final_upd [of t j r free p f] by blast
qed (auto dest: upsert_unique_final)

lemma table_change_rows:
  "table_change free new alike t t' \<Longrightarrow> (j, r) \<in> set t' \<Longrightarrow> (j, r) \<in> set t \<or> new r \<or> (\<exists>w. (j, w) \<in> set t \<and> alike w r)"
  by (induction rule: table_change.induct) (auto simp: update_where_def dest: upsert_unique_rows split: if_splits)

definition same_place :: "'a card_row_scheme \<Rightarrow> 'a card_row_scheme \<Rightarrow> bool" where
  "same_place r r' \<longleftrightarrow> ca_document r' = ca_document r \<and> ca_source r' = ca_source r"

lemma reviews_update:
  "table_change waiting new same_place t (set_reviewed now d k t)"
  "table_change waiting new' (\<lambda>r r'. same_place r r' \<and> di_page r' = di_page r) u (set_reviewed now d k u)"
  unfolding set_reviewed_def by (rule table_change.update; simp add: same_place_def)+

lemma change_cards:
  assumes "corpus_change H s s'"
  shows "table_change waiting (\<lambda>r. backed s (ca_document r) (ca_source r) None) same_place (cd_cards s) (cd_cards s')"
  using assms
proof (cases rule: corpus_change.cases)
  case (card X now f c x)
  then obtain doc d k k' j where doc: "document_at doc (card_source_key c) s = Some d"
    and up: "upsert_unique (\<lambda>w. ca_document w = doc \<and> ca_version w = card_version c) waiting k (card_row_of now c doc j)
         (\<lambda>w. w\<lparr>ca_card := j, ca_sha256 := card_sha256 c, ca_generated := now, ca_status := ''needs_review'', ca_reviewed := None\<rparr>)
         (Inr ()) (cd_cards s) = Inr (k', cd_cards s')"
    by (auto simp: store_card_def bindR_Inr_iff raise_if_Inr split: prod.splits option.splits)
  show ?thesis using doc
    by (intro table_change.upsert [OF up]) (auto simp: backed_def card_row_of_def same_place_def document_at_def split: option.splits if_splits)
next
  case review_card
  then show ?thesis by (simp add: reviews_update)
qed (auto simp: core_def upsert_assessment_def store_claim_def store_document_def store_diagram_def bindR_Inr_iff Let_def
    intro: table_change.same split: prod.splits)

lemma change_diagrams:
  assumes "corpus_change H s s'"
  shows "table_change waiting (\<lambda>r. backed s (ca_document r) (ca_source r) (Some (di_page r)))
     (\<lambda>r r'. same_place r r' \<and> di_page r' = di_page r) (cd_diagrams s) (cd_diagrams s')"
  using assms
proof (cases rule: corpus_change.cases)
  case (diagram X now f c x)
  then obtain doc d k k' j where doc: "document_at doc (dc_source_key c) s = Some d" "dc_page_number c \<le> ft_page_count d"
    and up: "upsert_unique (\<lambda>w. ca_document w = doc \<and> di_page w = dc_page_number c \<and> ca_version w = dc_card_version c) waiting k
         \<lparr>ca_source = dc_source_key c, ca_document = doc, ca_version = dc_card_version c, ca_card = j, ca_sha256 = diagram_sha256 c,
          ca_status = ''needs_review'', ca_generated = now, ca_reviewed = None, di_page = dc_page_number c, di_image = image_sha256 c\<rparr>
         (\<lambda>w. w\<lparr>ca_card := j, ca_sha256 := diagram_sha256 c, di_image := image_sha256 c, ca_generated := now, ca_status := ''needs_review'',
            ca_reviewed := None\<rparr>)
         (Inr ()) (cd_diagrams s) = Inr (k', cd_diagrams s')"
    by (auto simp: store_diagram_def bindR_Inr_iff raise_if_Inr not_less split: prod.splits option.splits)
  show ?thesis using doc
    by (intro table_change.upsert [OF up]) (auto simp: backed_def same_place_def document_at_def split: option.splits if_splits)
next
  case review_diagram
  then show ?thesis by (simp add: reviews_update)
qed (auto simp: core_def upsert_assessment_def store_claim_def store_document_def store_card_def bindR_Inr_iff Let_def
    intro: table_change.same split: prod.splits)

text \<open>The invariant of the two card tables.\<close>

definition cards_ok :: "corpus_db \<Rightarrow> bool" where
  "cards_ok s \<longleftrightarrow> keyed (cd_cards s) \<and> keyed (cd_diagrams s) \<and> (\<forall>(k, r) \<in> set (cd_cards s). backed s (ca_document r) (ca_source r) None) \<and>
     (\<forall>(k, r) \<in> set (cd_diagrams s). backed s (ca_document r) (ca_source r) (Some (di_page r)))"

lemma cards_ok_change: "corpus_change H s s' \<Longrightarrow> cards_ok s \<Longrightarrow> cards_ok s'"
proof -
  assume ch: "corpus_change H s s'" and ok: "cards_ok s"
  note c = change_cards [OF ch] and d = change_diagrams [OF ch]
  have "backed s' (ca_document r) (ca_source r) None" if "(k, r) \<in> set (cd_cards s')" for k r
    using table_change_rows [OF c that] ok backed_change [OF _ ch] by (fastforce simp: cards_ok_def same_place_def)
  moreover have "backed s' (ca_document r) (ca_source r) (Some (di_page r))" if "(k, r) \<in> set (cd_diagrams s')" for k r
    using table_change_rows [OF d that] ok backed_change [OF _ ch] by (fastforce simp: cards_ok_def same_place_def)
  ultimately show ?thesis using table_change_keyed [OF c] table_change_keyed [OF d] ok by (auto simp: cards_ok_def)
qed

lemma cards_ok_run: "cards_ok (run_corpus X D url ops empty_corpus)"
  by (rule run_invariant) (simp add: cards_ok_def empty_corpus_def, rule cards_ok_change)

text \<open>
  C30: a card or diagram a human has reviewed or rejected is never changed by any later operations, of
  models or of reviewers, and every stored card stands on a document receipt of its source that has
  the page of a diagram.
\<close>

theorem reviewed_cards_final:
  assumes "s = run_corpus X D url ops empty_corpus" "s' = run_corpus X D url later s"
  shows "(row (cd_cards s) k = Some r \<and> ca_status r \<noteq> ''needs_review'' \<longrightarrow> row (cd_cards s') k = Some r) \<and>
    (row (cd_diagrams s) k = Some g \<and> ca_status g \<noteq> ''needs_review'' \<longrightarrow> row (cd_diagrams s') k = Some g) \<and>
    (row (cd_cards s) k = Some r \<longrightarrow> (\<exists>d. row (cd_documents s) (ca_document r) = Some d \<and> ft_source_key (do_receipt d) = ca_source r)) \<and>
    (row (cd_diagrams s) k = Some g \<longrightarrow> (\<exists>d. row (cd_documents s) (ca_document g) = Some d \<and> ft_source_key (do_receipt d) = ca_source g \<and>
       di_page g \<le> ft_page_count (do_receipt d)))"
proof -
  have ok: "cards_ok s" unfolding assms(1) by (rule cards_ok_run)
  have "cards_ok s' \<and> (row (cd_cards s) k = Some r \<and> \<not> waiting r \<longrightarrow> row (cd_cards s') k = Some r) \<and>
      (row (cd_diagrams s) k = Some g \<and> \<not> waiting g \<longrightarrow> row (cd_diagrams s') k = Some g)"
    unfolding assms(2) using run_changes [of later s X D url]
  proof (induction rule: rtranclp_induct)
    case (step y z)
    note c = change_cards [OF step(2)] and d = change_diagrams [OF step(2)]
    show ?case using step(3) cards_ok_change [OF step(2)] table_change_final [OF c] table_change_final [OF d] by (auto simp: cards_ok_def)
  qed (simp add: ok)
  then show ?thesis using ok by (fastforce simp: waiting_def cards_ok_def backed_def dest: map_of_SomeD)
qed

subsection \<open>The gate over the stored corpus\<close>

definition assessed_at_zero :: "corpus_db \<Rightarrow> bool" where
  "assessed_at_zero s \<longleftrightarrow> (\<forall>(k, a) \<in> set (cd_assessments s). at_reproducibility a = 0)"

lemma upsert_rows: "(j, r) \<in> set (upsert k v f t) \<Longrightarrow> (j, r) \<in> set t \<or> r = v \<and> j = k \<or> (\<exists>w. (j, w) \<in> set t \<and> r = f w \<and> j = k)"
  by (auto simp: upsert_def update_where_def split: option.splits if_splits)

lemma classified_zero: "classify_item i = Inr a \<Longrightarrow> sa_reproducibility a = 0 \<and> sa_verification a = MetadataObserved"
  by (auto simp: res_simps classify_item_def Let_def)

lemma upsert_assessment_tables:
  assumes "upsert_assessment D now k a s = Inr s'"
  obtains p where "cd_sources s' = upsert (sa_key a) (new_source now a p) (refresh_source now (sa_item a) p) (cd_sources s)"
    "cd_assessments s' = upsert (sa_key a) (assessment_of now a) (\<lambda>_. assessment_of now a) (cd_assessments s)"
  using assms by (auto simp: upsert_assessment_def bindR_Inr_iff Let_def)

lemma assessed_at_zero_change: "corpus_change H s s' \<Longrightarrow> assessed_at_zero s \<Longrightarrow> assessed_at_zero s'"
proof (induction rule: corpus_change.induct)
  case (assess i a D now k s s')
  have "at_reproducibility (assessment_of now a) = 0" using classified_zero [OF assess(1)] by (simp add: assessment_of_def num3_def floor_eq_iff)
  moreover have "cd_assessments s' = upsert (sa_key a) (assessment_of now a) (\<lambda>_. assessment_of now a) (cd_assessments s)"
    by (rule upsert_assessment_tables [OF assess(2)])
  ultimately show ?case using assess(3) by (fastforce simp: assessed_at_zero_def dest!: upsert_rows)
qed (auto simp: assessed_at_zero_def core_def store_document_def store_claim_def store_card_def store_diagram_def bindR_Inr_iff Let_def split: prod.splits)

lemma loaded_rows:
  assumes "a \<in> set (load_corpus_assessments s)"
  obtains r w where "(sa_key a, r) \<in> set (cd_sources s)" "sa_verification a = sr_verification r"
    "(sa_key a, w) \<in> set (cd_assessments s)" "sa_reproducibility a = at_reproducibility w"
proof -
  obtain kr where "kr \<in> set (cd_observations s)" "loaded_assessment s kr = Some a"
    using assms by (auto simp: load_corpus_assessments_def map_filter_def)
  then show thesis
    using that by (auto simp: loaded_assessment_def split: option.splits prod.splits dest!: map_of_SomeD)
qed

lemma loaded_zero: "assessed_at_zero s \<Longrightarrow> a \<in> set (load_corpus_assessments s) \<Longrightarrow> sa_reproducibility a = 0"
  by (erule loaded_rows) (auto simp: assessed_at_zero_def)

lemma sum_zero: "\<forall>x \<in> set xs. x = 0 \<Longrightarrow> sum_list xs = 0"
  by (induction xs) auto

lemma mean_zero: "\<forall>x \<in> set xs. x = 0 \<Longrightarrow> mean xs = 0"
  by (simp add: mean_def sum_zero)

lemma stored_gate_closed:
  "''need reproducibility evidence for component and feature sources'' \<in>
      set (cov_unmet (evaluate_coverage default_policy (load_corpus_assessments (run_corpus X D url ops empty_corpus)))) \<and>
    \<not> cov_ready (evaluate_coverage default_policy (load_corpus_assessments (run_corpus X D url ops empty_corpus)))"
proof -
  let ?as = "load_corpus_assessments (run_corpus X D url ops empty_corpus)"
  have "assessed_at_zero (run_corpus X D url ops empty_corpus)"
    by (rule run_invariant) (simp add: assessed_at_zero_def empty_corpus_def, rule assessed_at_zero_change)
  then have "mean (buildable (map snd (by_key ?as))) = 0"
    using by_key_values [of ?as] by (intro mean_zero) (force simp: buildable_def dest: loaded_zero)
  then have u: "''need reproducibility evidence for component and feature sources'' \<in> set (cov_unmet (evaluate_coverage default_policy ?as))"
    by (simp add: evaluate_coverage_def Let_def default_policy_def)
  then show ?thesis by (auto simp: evaluate_coverage_def Let_def)
qed

text \<open>
  C31: whatever is stored, reviewed and claimed, the coverage gate over the stored corpus does not
  open: nothing but the classification writes an assessment, with reproducibility zero, so the
  evidence of reproducibility is always missing and the observer keeps collecting.
\<close>

theorem stored_gate_never_opens:
  shows "\<not> cov_ready (evaluate_coverage default_policy (load_corpus_assessments (run_corpus X D url ops empty_corpus))) \<and>
    ''need reproducibility evidence for component and feature sources'' \<in>
      set (cov_unmet (evaluate_coverage default_policy (load_corpus_assessments (run_corpus X D url ops empty_corpus)))) \<and>
    ob_decision (observe_corpus_to_spec (evaluate_coverage default_policy (load_corpus_assessments (run_corpus X D url ops empty_corpus))) article response)
      = ''continue_collecting_evidence''"
  using stored_gate_closed by (simp add: observe_corpus_to_spec_def Let_def)

subsection \<open>Verified sources\<close>

definition verified_by :: "string set \<Rightarrow> corpus_db \<Rightarrow> bool" where
  "verified_by H s \<longleftrightarrow> (\<forall>(k, r) \<in> set (cd_sources s). sr_verification r = ContentVerified \<longrightarrow> k \<in> H)"

lemma verified_by_change: "corpus_change H s s' \<Longrightarrow> verified_by H s \<Longrightarrow> verified_by H s'"
proof (induction rule: corpus_change.induct)
  case (assess i a D now k s s')
  have "sr_verification (new_source now a p) \<noteq> ContentVerified" for p
    using classified_zero [OF assess(1)] by (simp add: new_source_def Let_def)
  moreover obtain p where "cd_sources s' = upsert (sa_key a) (new_source now a p) (refresh_source now (sa_item a) p) (cd_sources s)"
    by (rule upsert_assessment_tables [OF assess(2)])
  ultimately show ?case using assess(3) by (fastforce simp: verified_by_def refresh_source_def dest!: upsert_rows)
next
  case (claim X now f c s x s')
  then have "cd_sources s' = (if claim_assessor (claim_assessment c) = ''human''
         then update_where (\<lambda>k _. k = claim_source_key c) (\<lambda>r. r\<lparr>sr_verification := ContentVerified\<rparr>) (cd_sources s) else cd_sources s)"
    by (auto simp: store_claim_def bindR_Inr_iff Let_def split: prod.splits)
  then show ?case using claim(2,3) by (auto simp: verified_by_def update_where_def split: if_splits)
qed (auto simp: verified_by_def core_def store_document_def store_card_def store_diagram_def bindR_Inr_iff Let_def split: prod.splits)

lemma verified_by_run: "verified_by (\<Union> (human_keys ` set ops)) (run_corpus X D url ops empty_corpus)"
  by (rule run_invariant) (simp add: verified_by_def empty_corpus_def, rule verified_by_change)

lemma loaded_verified: "verified_by H s \<Longrightarrow> a \<in> set (load_corpus_assessments s) \<Longrightarrow> sa_verification a = ContentVerified \<Longrightarrow> sa_key a \<in> H"
  by (erule loaded_rows) (auto simp: verified_by_def)

lemma by_key_keys: "keyed (by_key as) \<and> (\<forall>(k, a) \<in> set (by_key as). sa_key a = k)"
proof (induction as rule: rev_induct)
  case (snoc a as)
  then have "keyed (observe a (by_key as)) \<and> (\<forall>(k, b) \<in> set (observe a (by_key as)). sa_key b = k)"
    by (auto simp: observe_def keyed_def map_of_eq_None_iff update_where_def split: option.splits if_splits) (auto simp: comp_def case_prod_beta)
  then show ?case by (simp add: by_key_def)
qed (simp add: by_key_def)

lemma verified_count:
  assumes "finite H" "\<And>a. a \<in> set as \<Longrightarrow> sa_verification a = ContentVerified \<Longrightarrow> sa_key a \<in> H"
  shows "cov_verified (evaluate_coverage P as) \<le> int (card H)"
proof -
  let ?vs = "filter (\<lambda>a. sa_verification a = ContentVerified) (map snd (by_key as))"
  have "map sa_key (map snd (by_key as)) = map fst (by_key as)" using by_key_keys [of as] by auto
  then have d: "distinct (map sa_key ?vs)"
    by (intro distinct_map_filter) (simp only: by_key_keys [unfolded keyed_def])
  have "set (map sa_key ?vs) \<subseteq> H" using assms(2) by_key_values [of as] by fastforce
  then have "card (set (map sa_key ?vs)) \<le> card H" by (rule card_mono [OF assms(1)])
  then show ?thesis using distinct_card [OF d] by (simp add: evaluate_coverage_def Let_def)
qed

text \<open>
  C32: a stored source is content-verified only after a claim a human has assessed on one of its
  documents, and the gate counts no more verified sources than there are such claims.
\<close>

theorem verified_by_humans:
  assumes "s = run_corpus X D url ops empty_corpus"
  shows "(row (cd_sources s) k = Some r \<and> sr_verification r = ContentVerified \<longrightarrow>
      (\<exists>now f c. StoreClaim now f c \<in> set ops \<and> claim_source_key c = k \<and> claim_assessor (claim_assessment c) = ''human'')) \<and>
    cov_verified (evaluate_coverage P (load_corpus_assessments s)) \<le> int (length (filter (\<lambda>op. human_keys op \<noteq> {}) ops))"
proof -
  let ?H = "\<Union> (human_keys ` set ops)"
  have v: "verified_by ?H s" unfolding assms by (rule verified_by_run)
  have "finite (human_keys op) \<and> card (human_keys op) \<le> (if human_keys op = {} then 0 else 1)" for op by (cases op) auto
  then have H: "finite ?H \<and> card ?H \<le> length (filter (\<lambda>op. human_keys op \<noteq> {}) ops)"
  proof (induction ops)
    case (Cons op ops)
    have n: "card (\<Union> (human_keys ` set (op # ops))) \<le> card (human_keys op) + card (\<Union> (human_keys ` set ops))"
      using card_Un_le [of "human_keys op" "\<Union> (human_keys ` set ops)"] by simp
    from Cons have fin: "\<And>op. finite (human_keys op)" by blast
    show ?case
    proof (cases "human_keys op = {}")
      case False
      then have "card (human_keys op) \<le> 1" using Cons.prems [of op] by simp
      then show ?thesis using n Cons fin False by simp
    qed (use Cons in simp)
  qed simp
  have "cov_verified (evaluate_coverage P (load_corpus_assessments s)) \<le> int (card ?H)"
    using H loaded_verified [OF v] by (intro verified_count) auto
  moreover have "\<exists>now f c. StoreClaim now f c \<in> set ops \<and> claim_source_key c = k \<and> claim_assessor (claim_assessment c) = ''human''" if kh: "k \<in> ?H"
    using kh by (auto dest!: human_claim)
  ultimately show ?thesis using v H by (force simp: verified_by_def dest: map_of_SomeD)
qed

subsection \<open>A stored card\<close>

text \<open>A bound of the length of a text by the value it is written from.\<close>

fun weight :: "json \<Rightarrow> nat" where
  "weight JNull = 4"
| "weight (JBool b) = 5"
| "weight (JInt i) = length (show_int i)"
| "weight (JFloat t) = length t"
| "weight (JStr s) = 6 * length s + 2"
| "weight (JList xs) = 2 + sum_list (map (\<lambda>x. weight x + 2) xs)"
| "weight (JObj kvs) = 2 + sum_list (map (\<lambda>(k, v). 6 * length k + 6 + weight v) kvs)"

lemma length_join: "length sep \<le> 2 \<Longrightarrow> length (join sep ts) \<le> sum_list (map (\<lambda>t. length t + 2) ts)"
  by (induction sep ts rule: join.induct) auto

lemma length_concat_le: "(\<And>x. x \<in> set xs \<Longrightarrow> length (f x) \<le> n) \<Longrightarrow> length (concat (map f xs)) \<le> n * length xs"
  by (induction xs) (auto simp: add_le_mono)

lemma length_dump_str: "length (dump_str a s) \<le> 6 * length s + 2"
  using length_concat_le [of s "esc_char a" 6] by (simp add: dump_str_def esc_char_def u_escape_def)

lemma length_utf8: "length (utf8 s) \<le> 2 * length s"
  unfolding utf8_def by (rule length_concat_le) (simp add: utf8_char_def Let_def)

lemma dumps_weight: "length (item_sep opt) \<le> 2 \<Longrightarrow> length (key_sep opt) \<le> 2 \<Longrightarrow> length (dumps opt j) \<le> weight j"
proof (induction j rule: weight.induct)
  case (5 s)
  show ?case using length_dump_str [of "ensure_ascii opt" s] by simp
next
  case (6 xs)
  have "sum_list (map (\<lambda>x. length (dumps opt x) + 2) xs) \<le> sum_list (map (\<lambda>x. weight x + 2) xs)"
    using 6 by (intro sum_list_mono) simp
  then show ?case using length_join [OF 6(2), of "map (dumps opt) xs"] by (simp add: comp_def)
next
  case (7 kvs)
  have "sum_list (map (\<lambda>t. length t + 2) (map (\<lambda>(k, v). dump_str (ensure_ascii opt) k @ key_sep opt @ dumps opt v) kvs))
      \<le> sum_list (map (\<lambda>(k, v). 6 * length k + 6 + weight v) kvs)"
  proof (unfold map_map comp_def, intro sum_list_mono)
    fix kv assume kv: "kv \<in> set kvs"
    obtain k v where kv': "kv = (k, v)" by (cases kv)
    have "length (dumps opt v) \<le> weight v" using 7(1) [OF kv kv' [symmetric]] 7(2,3) by blast
    then show "length (case kv of (k, v) \<Rightarrow> dump_str (ensure_ascii opt) k @ key_sep opt @ dumps opt v) + 2 \<le> (case kv of (k, v) \<Rightarrow> 6 * length k + 6 + weight v)"
      using 7(3) length_dump_str [of "ensure_ascii opt" k] unfolding kv' by simp
  qed
  from le_trans [OF length_join [OF 7(2)] this]
  show ?case by simp
qed simp_all

lemma sum_list_sort_key: "sum_list (map f (sort_key g xs)) = (sum_list (map f xs) :: nat)"
  by (simp flip: sum_mset_sum_list)

lemma sort_keys_weight [simp]: "weight (sort_keys j) = weight j"
proof (induction j rule: sort_keys.induct)
  case (1 xs)
  then show ?case by (simp add: comp_def cong: map_cong)
next
  case (2 kvs)
  then have "map ((\<lambda>(k, v). 6 * length k + 6 + weight v) \<circ> (\<lambda>(k, v). (k, sort_keys v))) kvs = map (\<lambda>(k, v). 6 * length k + 6 + weight v) kvs"
    by auto
  then show ?case by (simp only: sort_keys.simps weight.simps sum_list_sort_key map_map)
qed simp_all

lemma sort_keys_plain [simp]: "plain (sort_keys j) = plain j"
proof (induction j rule: sort_keys.induct)
  case (2 kvs)
  have "map fst (map (\<lambda>(k, v). (k, sort_keys v)) kvs) = map fst kvs" by auto
  moreover have "mset (map fst (sort_key fst xs)) = mset (map fst xs)" for xs :: "(string \<times> json) list" by simp
  ultimately have "distinct (map fst (sort_key fst (map (\<lambda>(k, v). (k, sort_keys v)) kvs))) = distinct (map fst kvs)"
    by (intro mset_eq_imp_distinct_iff) (simp only:)
  then show ?case using 2 by (auto simp: list_all_iff)
qed (auto simp: list_all_iff)

definition sample_source :: research_item where
  "sample_source = sample_item Openalex ''W1'' ''https://openalex.org/W1'' ''Safe agent architecture'' ''secondary'' ''limit'' None"

definition sample_key :: string where
  "sample_key = canonical_source_key sample_source"

definition sample_run :: research_run where
  "sample_run = \<lparr>run_query = sample_query, run_checked_on = ''2026-01-02'', run_items = [sample_source], run_errors = [], run_decision = ''ready'',
     run_audit = []\<rparr>"

definition sample_receipt :: fulltext_receipt where
  "sample_receipt = \<lparr>ft_source_key = sample_key, ft_provider = ''arxiv'', ft_document_url = ''https://arxiv.org/pdf/2601.00001'',
     ft_license_id = ''CC-BY-4.0'', ft_sha256 = replicate 64 CHR ''b'', ft_byte_count = 10, ft_page_count = 2,
     ft_text_sha256 = replicate 64 CHR ''c'', ft_character_count = 5, ft_status = ''extracted_untrusted''\<rparr>"

definition stored_card :: document_card where
  "stored_card = \<lparr>card_source_key = sample_key, card_document_id = ''doc'', card_document_sha256 = replicate 64 CHR ''b'',
     document_summary = replicate 20 CHR ''s'', research_problem = replicate 20 CHR ''p'', card_method = replicate 20 CHR ''m'',
     card_layers = [''feature''], card_implementation = [], card_evaluation = [], card_limitations = [],
     findings = [\<lparr>finding_start = 1, finding_end = 2, finding_kind = ''method'', finding_summary = replicate 20 CHR ''f''\<rparr>],
     card_scores = map (\<lambda>n. (n, None)) score_names,
     card_uncertainty = ''low'', card_reviewer_status = ''needs_review'', card_version = ''document-card-v1''\<rparr>"

definition sample_claim :: reviewed_claim where
  "sample_claim = \<lparr>claim_source_key = sample_key, claim_document_id = ''doc'', claim_summary = replicate 20 CHR ''c'', claim_page_start = 1, claim_page_end = 2,
     maturity = ''hypothesis'', action_lane = ''watchlist'', claim_assessment = \<lparr>claim_assessor = ''human'',
       claim_scores = [None, None, None, None, None], claim_uncertainty = ''low'', rationale = [''read'']\<rparr>\<rparr>"

definition corpus_ext :: ext where
  "corpus_ext = \<lparr>pg_text = (\<lambda>_. Inr None), pg_uuid = (\<lambda>j. case j of JStr s \<Rightarrow> Inr s | _ \<Rightarrow> raise PsycopgError ''invalid uuid''),
     pg_int = (\<lambda>_. Inr None), pg_num = (\<lambda>_. Inr None), pg_jsonb = Inr\<rparr>"

definition sample_assessment where
  "sample_assessment = \<lparr>sa_key = sample_key, sa_item = sample_source, sa_layers = [GlobalArchitecture, Component], sa_confidence = 55 / 100,
           sa_conceptual = 1 / 2, sa_implementation = 0, sa_reproducibility = 0,
           sa_independence = 55 / 100, sa_verification = MetadataObserved,
           sa_rationale = [''Architecture layer is a deterministic title-metadata classification and requires human review.'', ''Metadata-only discovery is not evidence of executable code, dataset availability, or reproduced results.'']\<rparr>"

lemma sample_classified: "classify_item sample_source = Inr sample_assessment"
proof -
  have "layers_of_title ''Safe agent architecture'' = [GlobalArchitecture, Component]" by code_simp
  then show ?thesis unfolding classify_item_def sample_assessment_def
    by (simp add: sample_source_def sample_item_def level_support_def provider_independence_def sample_key_def)
qed

lemma sample_upsert:
  assumes "cd_sources s = []"
  shows "upsert_assessment Inr now run sample_assessment s =
    Inr (s\<lparr>cd_sources := upsert sample_key (new_source now sample_assessment ''2026-01-02'') (refresh_source now sample_source ''2026-01-02'') (cd_sources s),
      cd_observations := insert_nothing (run, Openalex, ''W1'') \<lparr>on_source = sample_key, on_url = ''https://openalex.org/W1'', on_checked = ''2026-01-02'',
        on_level = ''secondary'', on_limitations = [''limit''], on_authors = []\<rparr> (cd_observations s),
      cd_assessments := upsert sample_key (assessment_of now sample_assessment) (\<lambda>_. assessment_of now sample_assessment) (cd_assessments s)\<rparr>)"
proof -
  have e: "sa_item sample_assessment = sample_source" "sa_key sample_assessment = sample_key" "it_published_on sample_source = ''2026-01-02''"
    "it_checked_on sample_source = ''2026-01-02''"
    by (simp_all add: sample_assessment_def sample_source_def sample_item_def)
  have n: "it_level sample_source \<in> set evidence_levels \<and> list_all no_nul (it_url sample_source # it_title sample_source #
      it_provider_id sample_source # it_limitations sample_source @ it_authors sample_source @ sa_rationale sample_assessment)"
    by (simp only: sample_assessment_def source_assessment.select_convs) code_simp
  have u: "starts_with ''https://'' (it_url sample_source) \<and> list_all (\<lambda>c. code c \<noteq> 13 \<and> code c \<noteq> 10) (it_title sample_source)" by code_simp
  have m: "sa_layers sample_assessment \<noteq> [] \<and> list_all (\<lambda>x. 0 \<le> x \<and> num3 x \<le> 1) [sa_confidence sample_assessment, sa_conceptual sample_assessment,
      sa_implementation sample_assessment, sa_reproducibility sample_assessment, sa_independence sample_assessment]"
    by (simp add: sample_assessment_def num3_def)
  have d: "doi_taken sample_key (source_doi sample_source) (cd_sources s) = False" using assms by (simp add: doi_taken_def)
  have pass: "P \<Longrightarrow> check_row P = Inr ()" for P by (simp add: raise_if_def)
  show ?thesis unfolding upsert_assessment_def Let_def e d pass [OF n] pass [OF u] pass [OF m]
    by (simp add: raise_if_def sample_source_def sample_item_def)
qed

text \<open>The corpus after a run, and after a run and a document.\<close>

definition stored_run :: corpus_db where
  "stored_run = run_corpus corpus_ext Inr ''db'' [StoreRun 1 ''run'' sample_run ''runs/a.json''] empty_corpus"

lemma stored_run_rows:
  "\<exists>r. row (cd_sources stored_run) sample_key = Some r" "cd_documents stored_run = []" "cd_licenses stored_run = []"
  "cd_claims stored_run = []" "cd_cards stored_run = []" "cd_scores stored_run = []"
proof -
  have c: "strip ''db'' = ''db''" "relative_ref ''runs/a.json''" "ref_column_ok ''runs/a.json''" by code_simp+
  show "\<exists>r. row (cd_sources stored_run) sample_key = Some r" "cd_documents stored_run = []" "cd_licenses stored_run = []"
    "cd_claims stored_run = []" "cd_cards stored_run = []" "cd_scores stored_run = []"
    unfolding stored_run_def
    by (simp_all add: run_corpus_def persist_run_def c sample_run_def sample_classified transact_def store_run_def
      corpus_ext_def new_key_def raise_if_def sample_upsert insert_nothing_def upsert_def empty_corpus_def)
qed

definition sample_corpus :: corpus_db where
  "sample_corpus = run_corpus corpus_ext Inr ''db'' [StoreRun 1 ''run'' sample_run ''runs/a.json'', StoreDocument 2 ''doc'' sample_receipt] empty_corpus"

lemma sample_corpus_rows:
  "\<exists>r. row (cd_sources sample_corpus) sample_key = Some r" "cd_documents sample_corpus = [(''doc'', \<lparr>do_receipt = sample_receipt, do_acquired = 2\<rparr>)]"
  "cd_claims sample_corpus = []" "cd_cards sample_corpus = []" "cd_scores sample_corpus = []"
proof -
  have d: "document_columns_ok sample_receipt"
  proof -
    have "document_url_ok ''https://arxiv.org/pdf/2601.00001''" by (simp add: document_url_ok_def starts_with_def)
    moreover have "''CC-BY-4.0'' \<in> set allowed_licenses" by code_simp
    ultimately show ?thesis by (simp add: document_columns_ok_def sample_receipt_def max_pdf_bytes_def max_pdf_pages_def max_extracted_chars_def)
  qed
  have "sample_corpus = corpus_step corpus_ext Inr ''db'' (StoreDocument 2 ''doc'' sample_receipt) stored_run"
    unfolding sample_corpus_def stored_run_def by (simp add: run_corpus_def)
  also have "\<dots> = stored_run\<lparr>cd_documents := [(''doc'', \<lparr>do_receipt = sample_receipt, do_acquired = 2\<rparr>)]\<rparr>"
    using stored_run_rows(1,2) d by (simp add: persist_fulltext_receipt_def transact_def store_document_def upsert_unique_def new_key_def refers_def
      raise_if_def insert_nothing_def sample_receipt_def corpus_ext_def split: option.splits)
  finally have eq: "sample_corpus = stored_run\<lparr>cd_documents := [(''doc'', \<lparr>do_receipt = sample_receipt, do_acquired = 2\<rparr>)]\<rparr>" .
  show "\<exists>r. row (cd_sources sample_corpus) sample_key = Some r" using stored_run_rows(1) by (simp add: eq)
  show "cd_documents sample_corpus = [(''doc'', \<lparr>do_receipt = sample_receipt, do_acquired = 2\<rparr>)]" by (simp add: eq)
  show "cd_claims sample_corpus = []" "cd_cards sample_corpus = []" "cd_scores sample_corpus = []"
    by (simp_all add: eq stored_run_rows(4-6))
qed

lemma stored_card_text: "\<exists>j. loads (card_json stored_card) = Inr j \<and> octets j \<le> 48000"
proof -
  let ?j = "JObj ([(''source_key'', JStr (card_source_key stored_card)), (''document_id'', JStr (card_document_id stored_card)),
      (''document_sha256'', JStr (card_document_sha256 stored_card)), (''document_summary'', JStr (document_summary stored_card)),
      (''research_problem'', JStr (research_problem stored_card)), (''method'', JStr (card_method stored_card)),
      (''architecture_layers'', strs (card_layers stored_card)), (''implementation_signals'', strs (card_implementation stored_card)),
      (''evaluation_signals'', strs (card_evaluation stored_card)), (''limitations'', strs (card_limitations stored_card)),
      (''findings'', JList (map finding_json (findings stored_card)))] @
     map (\<lambda>(k, s). (k, score_json s)) (card_scores stored_card) @
     [(''uncertainty'', JStr (card_uncertainty stored_card)), (''reviewer_status'', JStr (card_reviewer_status stored_card)),
      (''card_version'', JStr (card_version stored_card))])"
  have k: "length sample_key = 64" by (simp add: sample_key_def canonical_source_key_def)
  have one: "length (show_int 1) = 1" "length (show_int 2) = 1" by code_simp+
  have "plain ?j \<and> weight ?j \<le> 4000"
    by (simp add: stored_card_def finding_json_def score_json_def score_names_def k one)
  then obtain j where j: "card_json stored_card = dumps compact_unicode_opts (sort_keys j)" "plain j" "weight j \<le> 4000"
    unfolding card_json_def by blast
  have "ok_opts compact_unicode_opts" by (simp add: ok_opts_def compact_unicode_opts_def is_ws_def)
  then have "loads (card_json stored_card) = Inr (sort_keys j)" unfolding j(1) using j(2) by (intro loads_dumps) simp_all
  moreover have "octets (sort_keys j) \<le> 48000"
    using length_utf8 [of "dumps unicode_opts (sort_keys j)"] dumps_weight [of unicode_opts "sort_keys j"] j(3)
    by (simp add: octets_def unicode_opts_def)
  ultimately show ?thesis by blast
qed

lemma sample_card_stored:
  assumes "cd_cards s = []" "cd_documents s = [(''doc'', \<lparr>do_receipt = sample_receipt, do_acquired = 2\<rparr>)]"
  shows "\<exists>j. cd_cards (snd (persist_document_card corpus_ext 3 ''card'' stored_card s)) = [(''card'', card_row_of 3 stored_card ''doc'' j)]"
proof -
  obtain j where "loads (card_json stored_card) = Inr j" "octets j \<le> 48000" using stored_card_text by blast
  then have "cd_cards (snd (persist_document_card corpus_ext 3 ''card'' stored_card s)) = [(''card'', card_row_of 3 stored_card ''doc'' j)]"
    using assms by (simp add: persist_document_card_def transact_def store_card_def document_at_def upsert_unique_def new_key_def raise_if_def
      insert_nothing_def corpus_ext_def) (simp add: stored_card_def sample_receipt_def)
  then show ?thesis ..
qed

definition sample_ops :: "corpus_op list" where
  "sample_ops = [StoreRun 1 ''run'' sample_run ''runs/a.json'', StoreDocument 2 ''doc'' sample_receipt, StoreCard 3 ''card'' stored_card,
     ReviewCard 4 ''card'' ''reviewed'']"

theorem reviewed_cards_final_witness:
  "\<exists>r. ca_status r = ''reviewed'' \<and> row (cd_cards (run_corpus corpus_ext Inr ''db'' sample_ops empty_corpus)) ''card'' = Some r \<and>
    row (cd_cards (run_corpus corpus_ext Inr ''db'' [StoreCard 5 ''other'' stored_card, ReviewCard 6 ''card'' ''rejected'']
      (run_corpus corpus_ext Inr ''db'' sample_ops empty_corpus))) ''card'' = Some r"
proof -
  let ?s = "run_corpus corpus_ext Inr ''db'' sample_ops empty_corpus"
  have "?s = corpus_step corpus_ext Inr ''db'' (ReviewCard 4 ''card'' ''reviewed'') (snd (persist_document_card corpus_ext 3 ''card'' stored_card sample_corpus))"
    by (simp add: sample_ops_def sample_corpus_def run_corpus_def)
  then obtain j where "cd_cards ?s = set_reviewed 4 ''reviewed'' ''card'' [(''card'', card_row_of 3 stored_card ''doc'' j)]"
    using sample_card_stored [OF sample_corpus_rows(4,2)]
    by (auto simp: review_document_card_def transact_def corpus_ext_def)
  then have "row (cd_cards ?s) ''card'' = Some (card_row_of 3 stored_card ''doc'' j\<lparr>ca_status := ''reviewed'', ca_reviewed := Some 4\<rparr>)"
    by (simp add: set_reviewed_def update_where_def waiting_def card_row_of_def)
  then show ?thesis using reviewed_cards_final [OF refl refl, of corpus_ext Inr "''db''" sample_ops "''card''"] by fastforce
qed

theorem verified_by_humans_witness:
  "\<exists>r. row (cd_sources (run_corpus corpus_ext Inr ''db'' [StoreRun 1 ''run'' sample_run ''runs/a.json'', StoreDocument 2 ''doc'' sample_receipt,
       StoreClaim 3 ''claim'' sample_claim] empty_corpus)) sample_key = Some r \<and> sr_verification r = ContentVerified \<and>
    cov_verified (evaluate_coverage default_policy (load_corpus_assessments (run_corpus corpus_ext Inr ''db''
      [StoreRun 1 ''run'' sample_run ''runs/a.json'', StoreDocument 2 ''doc'' sample_receipt, StoreClaim 3 ''claim'' sample_claim] empty_corpus))) \<le> 1"
proof -
  let ?ops = "[StoreRun 1 ''run'' sample_run ''runs/a.json'', StoreDocument 2 ''doc'' sample_receipt, StoreClaim 3 ''claim'' sample_claim]"
  have "run_corpus corpus_ext Inr ''db'' ?ops empty_corpus = snd (persist_reviewed_claim corpus_ext 3 ''claim'' sample_claim sample_corpus)"
    by (simp add: sample_corpus_def run_corpus_def)
  then have "cd_sources (run_corpus corpus_ext Inr ''db'' ?ops empty_corpus) =
      update_where (\<lambda>k _. k = sample_key) (\<lambda>r. r\<lparr>sr_verification := ContentVerified\<rparr>) (cd_sources sample_corpus)"
    using sample_corpus_rows by (simp add: persist_reviewed_claim_def transact_def store_claim_def sample_claim_def sample_receipt_def document_at_def
      upsert_unique_def new_key_def raise_if_def corpus_ext_def returned_def Let_def)
  then show ?thesis using sample_corpus_rows(1) verified_by_humans [OF refl, where P=default_policy and ops="?ops" and X=corpus_ext and D=Inr and url="''db''" and k=sample_key]
    by (auto simp: table_simps sample_claim_def)
qed

subsection \<open>A second claim\<close>

lemma upsert_unique_row:
  assumes "upsert_unique same (\<lambda>_. True) k v f refs t = Inr (Some k', t')" "keyed t"
  shows "(k' = k \<and> row t' k = Some v \<and> \<not> (\<exists>j w. (j, w) \<in> set t \<and> same w)) \<or>
    (\<exists>w. row t k' = Some w \<and> same w \<and> row t' k' = Some (f w))"
proof (cases "find (\<lambda>(_, w). same w) t")
  case None
  then have "\<not> (\<exists>j w. (j, w) \<in> set t \<and> same w)" by (auto simp: find_None_iff)
  then show ?thesis using assms(1) None
    by (auto simp: upsert_unique_def bindR_Inr_iff new_key_def raise_if_Inr insert_nothing_def map_add_def)
next
  case (Some kw)
  then show ?thesis using assms find_member [OF Some]
    by (cases kw) (auto simp: upsert_unique_def table_simps dest: keyed_row)
qed

text \<open>
  a claim on the same document with the same summary replaces the stored one, whoever assessed it:
  its status and scores are those of the later claim, so the claim of a model takes back the review of
  a human, while the stored assessor stays the first one.
\<close>

theorem later_claim_replaces:
  assumes "persist_reviewed_claim X now f c s = (Inr k, s')" "keyed (cd_claims s)"
  shows "\<exists>r w doc. row (cd_claims s') k = Some r \<and> uuid_of X (claim_document_id c) = Inr doc \<and> cl_document r = doc \<and>
    cl_summary r = claim_summary c \<and> cl_status r = claim_reviewer_status c \<and>
    row (cd_scores s') k = Some w \<and> cs_scores w = claim_scores (claim_assessment c) \<and>
    (\<forall>w0. row (cd_scores s) k = Some w0 \<longrightarrow> cs_assessor w = cs_assessor w0) \<and>
    (\<forall>j r0. (j, r0) \<in> set (cd_claims s) \<and> cl_document r0 = doc \<and> cl_summary r0 = claim_summary c \<longrightarrow>
      (\<exists>r1. row (cd_claims s) k = Some r1 \<and> cl_document r1 = doc \<and> cl_summary r1 = claim_summary c))"
proof -
  obtain doc fk t where u: "uuid_of X (claim_document_id c) = Inr doc"
    and up: "upsert_unique (\<lambda>w. cl_document w = doc \<and> cl_summary w = claim_summary c) (\<lambda>_. True) fk (claim_row_of c doc)
         (\<lambda>w. w\<lparr>cl_locator := evidence_locator c, cl_maturity := maturity c, cl_lane := action_lane c, cl_status := claim_reviewer_status c\<rparr>)
         (Inr ()) (cd_claims s) = Inr (Some k, t)"
    and s': "cd_claims s' = t" "cd_scores s' = upsert k (scores_of now (claim_assessment c))
      (\<lambda>w. scores_of now (claim_assessment c)\<lparr>cs_assessor := cs_assessor w\<rparr>) (cd_scores s)"
    using assms(1) by (auto simp: persist_reviewed_claim_def transact_Inr store_claim_def bindR_Inr_iff Let_def returned_def
      split: option.splits prod.splits)
  show ?thesis using upsert_unique_row [OF up assms(2)] u
    by (auto simp: s' table_simps claim_row_of_def scores_of_def split: option.splits)
qed

theorem later_claim_replaces_witness:
  "\<exists>s1 s2 r w. persist_reviewed_claim corpus_ext 3 ''claim'' sample_claim sample_corpus = (Inr ''claim'', s1) \<and>
     persist_reviewed_claim corpus_ext 4 ''second'' (sample_claim\<lparr>claim_assessment := (claim_assessment sample_claim)\<lparr>claim_assessor := ''model''\<rparr>\<rparr>) s1
       = (Inr ''claim'', s2) \<and>
     row (cd_claims s2) ''claim'' = Some r \<and> cl_status r = ''needs_review'' \<and> row (cd_scores s2) ''claim'' = Some w \<and> cs_assessor w = ''human''"
proof -
  let ?m = "sample_claim\<lparr>claim_assessment := (claim_assessment sample_claim)\<lparr>claim_assessor := ''model''\<rparr>\<rparr>"
  obtain s1 where s1: "persist_reviewed_claim corpus_ext 3 ''claim'' sample_claim sample_corpus = (Inr ''claim'', s1)"
    "cd_claims s1 = [(''claim'', claim_row_of sample_claim ''doc'')]" "\<exists>w. row (cd_scores s1) ''claim'' = Some w \<and> cs_assessor w = ''human''"
    "cd_documents s1 = cd_documents sample_corpus"
    using sample_corpus_rows by (simp add: persist_reviewed_claim_def transact_def store_claim_def sample_claim_def sample_receipt_def document_at_def
      upsert_unique_def new_key_def raise_if_def corpus_ext_def returned_def Let_def insert_nothing_def table_simps scores_of_def)
  obtain s2 where s2: "persist_reviewed_claim corpus_ext 4 ''second'' ?m s1 = (Inr ''claim'', s2)"
    using sample_corpus_rows(2) s1(2,4) by (simp add: persist_reviewed_claim_def transact_def store_claim_def sample_claim_def sample_receipt_def
      document_at_def upsert_unique_def raise_if_def corpus_ext_def returned_def Let_def claim_row_of_def)
  have "keyed (cd_claims s1)" by (simp add: s1(2) keyed_def)
  from later_claim_replaces [OF s2 this] show ?thesis
    using s1(1,3) s2 by (auto simp: claim_reviewer_status_def)
qed

end
