(* ===== verification/Briefs.thy ===== *)
theory Briefs
  imports CorpusProps
begin

text \<open>
  The artifacts of a research run: the run as indented JSON and the texts for the code agent
  (\<open>render_code_agent_brief\<close> of \<open>it_research.py\<close> and \<open>render_synthesis_status\<close> of \<open>research_corpus.py\<close>).
  Their fixed Russian passages and the dash of a citation, which lie outside the characters covered here,
  are arguments: \<open>passage n\<close> is the text before the hole \<open>n\<close>. The property at the end says that nothing a
  provider sends adds a line.
\<close>

definition line_break :: char where "line_break = char_of (10 :: nat)"

subsection \<open>The texts\<close>

definition citation_line :: "string \<Rightarrow> research_item \<Rightarrow> string res" where
  "citation_line dash i = (case it_limitations i of
     [] \<Rightarrow> raise IndexError ''tuple index out of range''
   | l # _ \<Rightarrow> Inr (''- ['' @ provider_text (it_provider i) @ ''] '' @ it_title i @ dash @ it_url i @ '' (checked '' @ it_checked_on i @ ''; '' @ l @ '')''))"

definition render_code_agent_brief :: "(nat \<Rightarrow> string) \<Rightarrow> string \<Rightarrow> research_run \<Rightarrow> string \<Rightarrow> string res" where
  "render_code_agent_brief passage dash run goal =
     thenR (raise_if (\<not> fullmatch topic_rx (strip goal)) ItResearchError ''Code-agent goal must be a single line of 5 to 180 characters'')
     (bindR (mapR (citation_line dash) (run_items run)) (\<lambda>citations.
      Inr (passage 0 @ strip goal @ passage 1 @ run_decision run @ passage 2 @ strip (topic (run_query run)) @ passage 3 @ strip goal @
           passage 4 @ show_nat (length (run_items run)) @ passage 5 @ run_checked_on run @ passage 6 @ join [line_break] citations @ passage 7)))"

definition render_synthesis_status :: "(nat \<Rightarrow> string) \<Rightarrow> coverage \<Rightarrow> string \<Rightarrow> string" where
  "render_synthesis_status passage c goal =
     (if cov_ready c then passage 0 @ goal @ passage 1
      else passage 2 @ goal @ passage 3 @ join [line_break] (map (\<lambda>u. ''- '' @ u) (cov_unmet c)) @ passage 4)"

subsection \<open>The run as JSON\<close>

text \<open>\<open>json.dumps\<close> with an indent of two: an empty list or dict stays on its line.\<close>

definition fresh_line :: "nat \<Rightarrow> string" where
  "fresh_line depth = line_break # replicate (2 * depth) CHR '' ''"

fun dumps_indent :: "bool \<Rightarrow> nat \<Rightarrow> json \<Rightarrow> string" where
  "dumps_indent ascii depth (JList xs) = (if xs = [] then ''[]'' else
     CHR ''['' # fresh_line (Suc depth) @ join (CHR '','' # fresh_line (Suc depth)) (map (dumps_indent ascii (Suc depth)) xs) @ fresh_line depth @ '']'')"
| "dumps_indent ascii depth (JObj kvs) = (if kvs = [] then ''{}'' else
     CHR ''{'' # fresh_line (Suc depth) @ join (CHR '','' # fresh_line (Suc depth))
       (map (\<lambda>(k, v). dump_str ascii k @ '': '' @ dumps_indent ascii (Suc depth) v) kvs) @ fresh_line depth @ ''}'')"
| "dumps_indent ascii depth j = dumps \<lparr>ensure_ascii = ascii, item_sep = '','', key_sep = '': ''\<rparr> j"

abbreviation jstrs :: "string list \<Rightarrow> json" where
  "jstrs ss \<equiv> JList (map JStr ss)"

definition item_dict :: "research_item \<Rightarrow> json" where
  "item_dict i = JObj [(''provider'', JStr (provider_text (it_provider i))), (''provider_id'', JStr (it_provider_id i)), (''url'', JStr (it_url i)),
     (''title'', JStr (it_title i)), (''published_on'', JStr (it_published_on i)), (''checked_on'', JStr (it_checked_on i)),
     (''evidence_level'', JStr (it_level i)), (''limitations'', jstrs (it_limitations i)), (''abstract'', JStr (it_abstract i)),
     (''authors'', jstrs (it_authors i)), (''doi'', case it_doi i of None \<Rightarrow> JNull | Some s \<Rightarrow> JStr s)]"

definition run_to_json :: "research_run \<Rightarrow> string" where
  "run_to_json run = dumps_indent False 0 (sort_keys (JObj
     [(''query'', JObj [(''topic'', JStr (topic (run_query run))), (''max_results_per_provider'', JInt (max_results (run_query run)))]),
      (''checked_on'', JStr (run_checked_on run)), (''items'', JList (map item_dict (run_items run))),
      (''provider_errors'', jstrs (run_errors run)), (''decision'', JStr (run_decision run)), (''audit'', jstrs (run_audit run))])) @ [line_break]"

subsection \<open>Lines\<close>

definition breaks :: "string \<Rightarrow> nat" where
  "breaks s = count_list s line_break"

lemma breaks_simps [simp]: "breaks [] = 0" "breaks (s @ t) = breaks s + breaks t" "breaks (c # s) = (if c = line_break then 1 else 0) + breaks s"
  by (simp_all add: breaks_def)

lemma breaks_0: "breaks s = 0 \<longleftrightarrow> line_break \<notin> set s"
  by (simp add: breaks_def count_list_0_iff)

lemma breaks_join: "list_all (\<lambda>s. breaks s = 0) ss \<Longrightarrow> breaks (join [line_break] ss) = length ss - 1"
proof (induction "[line_break]" ss rule: join.induct)
  case (3 x y xs)
  then show ?case by (simp add: line_break_def)
qed simp_all

lemma show_no_break: "breaks (show_nat n) = 0"
proof -
  have "is_digit c \<Longrightarrow> c \<noteq> line_break" for c by (auto simp: is_digit_def line_break_def in_range_def)
  moreover have "list_all is_digit (show_nat n)" by (simp add: list_all_iff show_nat_digits)
  ultimately show ?thesis by (auto simp: breaks_0 list_all_iff)
qed

lemma words_no_break: "line_break \<notin> set w \<Longrightarrow> list_all (\<lambda>v. breaks v = 0) (words_acc w s)"
proof (induction w s rule: words_acc.induct)
  case (2 w x xs)
  have "is_space line_break" by code_simp
  then show ?case using 2 by (auto simp: breaks_0)
qed (simp add: breaks_0)

lemma plain_no_break: "breaks '' '' = 0" "breaks ''https://'' = 0"
  by code_simp+

lemma join_space_no_break: "list_all (\<lambda>v. breaks v = 0) ws \<Longrightarrow> breaks (join '' '' ws) = 0"
proof (induction "'' ''" ws rule: join.induct)
  case (3 x y xs)
  then show ?case using plain_no_break(1) by (simp only: join.simps breaks_simps(2) list.pred_inject)
qed simp_all

lemma take_no_break: "breaks s = 0 \<Longrightarrow> breaks (take n s) = 0"
  by (auto simp: breaks_0 dest: in_set_takeD)

lemma drop_no_break: "breaks s = 0 \<Longrightarrow> breaks (drop n s) = 0"
  by (auto simp: breaks_0 dest: in_set_dropD)

lemma clean_no_break: "breaks (clean_string s) = 0" "breaks (clean_text j) = 0"
proof -
  show c: "breaks (clean_string s) = 0" for s
    unfolding clean_string_def words_def by (intro take_no_break join_space_no_break words_no_break) simp
  show "breaks (clean_text j) = 0" using c by (simp add: clean_text_def split: json.split)
qed

lemma https_no_break:
  assumes u: "https_url ip j fallback = Inr u" and f: "breaks fallback = 0"
  shows "breaks u = 0"
proof -
  let ?u0 = "clean_or j fallback"
  have b: "breaks ?u0 = 0" using f clean_no_break(1) by (simp add: clean_or_def split: json.split)
  have h: "breaks (''https://'' @ drop 7 ?u0) = 0" using drop_no_break [OF b] plain_no_break(2) by (simp only: breaks_simps(2))
  have "u = fallback \<or> u = (if starts_with ''http://'' ?u0 then ''https://'' @ drop 7 ?u0 else ?u0)"
    using u unfolding https_url_def Let_def bindR_Inr_iff by (elim exE conjE) (auto split: sum.splits if_splits)
  then show ?thesis using f b h by (cases "starts_with ''http://'' ?u0") auto
qed

subsection \<open>One item, one line\<close>

definition one_line :: "lib \<Rightarrow> research_item \<Rightarrow> bool" where
  "one_line L i \<longleftrightarrow> breaks (it_title i) = 0 \<and> breaks (it_url i) = 0 \<and> it_checked_on i = today L \<and>
     (\<exists>l ls. it_limitations i = l # ls \<and> breaks l = 0)"

lemma const_no_break:
  "breaks ''https://arxiv.org'' = 0" "breaks ''https://openalex.org'' = 0" "breaks ''https://doi.org/'' = 0"
  "breaks ''arXiv preprint; peer-review status must be checked separately.'' = 0"
  "breaks ''OpenAlex metadata; verify publisher record and full-text licence separately.'' = 0"
  "breaks ''Crossref metadata; publisher abstract and full text may have separate copyright terms.'' = 0"
  by code_simp+

lemma arxiv_one_line: "arxiv_entries L es = Inr is \<Longrightarrow> list_all (one_line L) is"
proof (induction es arbitrary: "is")
  case (Cons e es)
  have "arxiv_item L e ident = Inr i \<Longrightarrow> one_line L i" for ident i
    using https_no_break const_no_break clean_no_break(2) by (auto simp: arxiv_item_def bindR_Inr_iff one_line_def)
  then show ?case using Cons by (auto simp: Let_def bindR_Inr_iff split: if_splits)
qed simp

lemma openalex_one_line: "openalex_items L js = Inr is \<Longrightarrow> list_all (one_line L) is"
proof (induction js arbitrary: "is")
  case (Cons j js)
  have "openalex_item L r = Inr (Some i) \<Longrightarrow> one_line L i" for r i
    using https_no_break const_no_break clean_no_break(2) by (auto simp: openalex_item_def Let_def bindR_Inr_iff one_line_def split: if_splits)
  then show ?case using Cons by (auto simp: bindR_Inr_iff split: json.splits option.splits)
qed simp

lemma crossref_one_line: "crossref_items L js = Inr is \<Longrightarrow> list_all (one_line L) is"
proof (induction js arbitrary: "is")
  case (Cons j js)
  have "crossref_item L r = Inr (Some i) \<Longrightarrow> one_line L i" for r i
    using https_no_break const_no_break clean_no_break(2)
    by (auto simp: crossref_item_def Let_def bindR_Inr_iff one_line_def split: if_splits json.splits list.splits)
  then show ?case using Cons by (auto simp: bindR_Inr_iff split: json.splits option.splits)
qed simp

lemma collected_one_line:
  "collect ps = Inr (items, errs) \<Longrightarrow> (\<And>p is. (p, Inr is) \<in> set ps \<Longrightarrow> list_all (one_line L) is) \<Longrightarrow> list_all (one_line L) items"
proof (induction ps arbitrary: items errs)
  case (Cons pr ps)
  obtain p r where pr: "pr = (p, r)" by fastforce
  show ?case
  proof (cases r)
    case (Inl e)
    then obtain errs' where "collect ps = Inr (items, errs')" using Cons.prems(1) by (auto simp: pr bindR_Inr_iff split: if_splits)
    then show ?thesis using Cons by (metis list.set_intros(2))
  next
    case (Inr found)
    then obtain items' errs' where "collect ps = Inr (items', errs')" "items = found @ items'" using Cons.prems(1) by (auto simp: pr bindR_Inr_iff)
    moreover have "list_all (one_line L) found" using Cons.prems(2) [of p found] by (simp add: pr Inr)
    ultimately show ?thesis using Cons by (metis list.set_intros(2) list_all_append)
  qed
qed simp

lemma run_one_line:
  assumes "run_it_research L q key mailto tr = Inr run"
  shows "list_all (one_line L) (run_items run) \<and> run_query run = q \<and> run_checked_on run = today L \<and> run_decision run = ''review_required''"
proof -
  let ?ps = "[(Arxiv, search_arxiv L q tr), (Openalex, search_openalex L q key tr), (Crossref, search_crossref L q mailto tr)]"
  obtain items errs where c: "collect ?ps = Inr (items, errs)"
    using assms by (cases "collect ?ps") (auto simp: run_it_research_def simp del: collect.simps)
  obtain rep where rep: "build_research_review_report (ipa L) (map to_evidence items) = Inr rep"
    using assms unfolding run_it_research_def c
    by (cases "build_research_review_report (ipa L) (map to_evidence items)") (simp_all add: reraise_def split: if_splits)
  have run: "run = \<lparr>run_query = q, run_checked_on = today L, run_items = items, run_errors = errs, run_decision = report_decision rep,
          run_audit = report_audit rep @ [''scope:it-public-only'', ''output:code-agent-brief'']\<rparr>"
    using assms unfolding run_it_research_def c by (simp add: rep reraise_def)
  have "list_all (one_line L) is" if found: "search_arxiv L q tr = Inr is" for "is"
  proof -
    obtain payload where p: "tr (''https://export.arxiv.org/api/query?'' @ urlencode arxiv_params) user_agent = Inr payload"
      using found unfolding search_arxiv_def bindR_Inr_iff by blast
    obtain doc where d: "xml_of L payload = Some doc"
      using found unfolding search_arxiv_def p by (cases "xml_of L payload") simp_all
    obtain all where all: "arxiv_entries L (take arxiv_scan_results (find_all doc (atom @ ''entry''))) = Inr all"
      "is = take (nat (max_results q)) (sort_key (\<lambda>i. - int (title_relevance (it_title i) (topic q))) all)"
      using found unfolding search_arxiv_def p by (auto simp: d bindR_Inr_iff)
    have "set is \<subseteq> set all" unfolding all(2) by (auto dest: in_set_takeD)
    with all(1) show ?thesis using arxiv_one_line by (metis list_all_iff subsetD)
  qed
  moreover have "list_all (one_line L) is" if found: "search_openalex L q key tr = Inr is" for "is"
  proof -
    obtain env where "(case jget env ''results'' of JList rs \<Rightarrow> openalex_items L (take (nat (max_results q)) rs)
        | _ \<Rightarrow> raise ItResearchError ''OpenAlex results are invalid'') = Inr is"
      using found unfolding search_openalex_def bindR_Inr_iff by blast
    then show ?thesis by (cases "jget env ''results''") (simp_all add: openalex_one_line)
  qed
  moreover have "list_all (one_line L) is" if found: "search_crossref L q mailto tr = Inr is" for "is"
  proof -
    obtain j where "(case j of JList rs \<Rightarrow> crossref_items L (take (nat (max_results q)) rs)
        | _ \<Rightarrow> raise ItResearchError ''Crossref results are invalid'') = Inr is"
      using found unfolding search_crossref_def bindR_Inr_iff by blast
    then show ?thesis by (cases j) (simp_all add: crossref_one_line)
  qed
  ultimately have "list_all (one_line L) items" using collected_one_line [OF c] by (metis (no_types, lifting) empty_iff empty_set insert_iff list.set(2) prod.inject)
  moreover have "report_decision rep = ''review_required''" using rep by (auto simp: build_research_review_report_def bindR_Inr_iff Let_def)
  ultimately show ?thesis by (simp add: run)
qed

lemma citations_one_line:
  "list_all (one_line L) is \<Longrightarrow> breaks dash = 0 \<Longrightarrow> breaks (today L) = 0 \<Longrightarrow>
   \<exists>cs. mapR (citation_line dash) is = Inr cs \<and> length cs = length is \<and> list_all (\<lambda>c. breaks c = 0) cs"
proof (induction "is")
  case (Cons i "is")
  have "breaks (provider_text Arxiv) = 0" "breaks (provider_text Openalex) = 0" "breaks (provider_text Crossref) = 0" by code_simp+
  then have "breaks (provider_text p) = 0" for p by (cases p) simp_all
  moreover have "breaks ''- ['' = 0" "breaks ''] '' = 0" "breaks '' (checked '' = 0" "breaks ''; '' = 0" "breaks '')'' = 0" by code_simp+
  ultimately have "\<exists>c. citation_line dash i = Inr c \<and> breaks c = 0"
    using Cons.prems by (auto simp only: one_line_def list.pred_inject citation_line_def list.case breaks_simps(2))
  then show ?case using Cons by auto
qed simp

text \<open>
  C24: A brief over a run of the research pipeline has the lines of its fixed passages and one line for
  each item, whatever the providers sent and whatever the goal: no title, URL, date or limitation, no
  topic and no goal adds a line to the task of the code agent.
\<close>

theorem brief_lines_fixed:
  assumes "make_query q = Inr q'" "run_it_research L q' key mailto tr = Inr run" "render_code_agent_brief passage dash run goal = Inr t"
    and "breaks dash = 0" "breaks (today L) = 0"
  shows "breaks t = sum_list (map (\<lambda>n. breaks (passage n)) [0..<8]) + (length (run_items run) - 1)"
proof -
  note run = run_one_line [OF assms(2)]
  obtain cs where cs: "mapR (citation_line dash) (run_items run) = Inr cs" "length cs = length (run_items run)" "list_all (\<lambda>c. breaks c = 0) cs"
    using citations_one_line [OF conjunct1 [OF run] assms(4,5)] by blast
  have line: "fullmatch topic_rx s \<Longrightarrow> breaks s = 0" for s
    by (auto simp: topic_rx_def match_line breaks_0 line_break_def list_all_iff simp del: fullmatch.simps)
  have g: "breaks (strip goal) = 0" using assms(3) line unfolding render_code_agent_brief_def bindR_Inr_iff raise_if_Inr by blast
  have t: "breaks (strip (topic (run_query run))) = 0"
    using assms(1) run line by (auto simp: make_query_def bindR_Inr_iff raise_if_Inr simp del: fullmatch.simps)
  have "breaks ''review_required'' = 0" by code_simp
  then have d: "breaks (run_decision run) = 0" using run by metis
  have "breaks (join [line_break] cs) = length (run_items run) - 1" using breaks_join [OF cs(3)] cs(2) by simp
  then show ?thesis using assms(3) g t d run assms(5) show_no_break
    by (auto simp: render_code_agent_brief_def cs(1) bindR_Inr_iff raise_if_Inr upt_rec eval_nat_numeral)
qed

lemma sample_research:
  "\<exists>run. run_it_research sample_lib sample_query None None sample_transport = Inr run \<and> run_items run = sample_items"
  using report_of_items [OF sample_hosts, of sample_items] sample_items_good sample_collect
  by (auto simp: run_it_research_def reraise_def)

theorem brief_lines_fixed_witness:
  "\<exists>run t. run_it_research sample_lib sample_query None None sample_transport = Inr run \<and>
     render_code_agent_brief (\<lambda>_. []) '' - '' run ''a careful goal'' = Inr t \<and> breaks t = 1"
proof -
  obtain run where run: "run_it_research sample_lib sample_query None None sample_transport = Inr run" "run_items run = sample_items"
    using sample_research by blast
  have q: "make_query sample_query = Inr sample_query" by code_simp
  have "breaks '' - '' = 0" "breaks (today sample_lib) = 0" by code_simp+
  moreover have "fullmatch topic_rx (strip ''a careful goal'')" by code_simp
  moreover obtain cs where "mapR (citation_line '' - '') (run_items run) = Inr cs"
    using citations_one_line [OF conjunct1 [OF run_one_line [OF run(1)]]] calculation(1,2) by blast
  ultimately obtain t where t: "render_code_agent_brief (\<lambda>_. []) '' - '' run ''a careful goal'' = Inr t"
    by (simp only: render_code_agent_brief_def raise_if_simps not_True_eq_False bindR_simps)
  have "length (run_items run) = 2" by (simp add: run(2) sample_items_def)
  then show ?thesis using brief_lines_fixed [OF q run(1) t] \<open>breaks '' - '' = 0\<close> \<open>breaks (today sample_lib) = 0\<close> run(1) t
    by (auto simp: upt_rec)
qed

end
