(* ===== verification/WorkflowProps.thy ===== *)
theory WorkflowProps
  imports Workflows ResearchStoreProps Briefs
begin

text \<open>
  Properties of the scripts together: every document a licence cycle stores has its licence proof in
  the corpus, and a persisted research run records that evidence is still collected.
\<close>

subsection \<open>Licences\<close>

text \<open>What the scripts do to the corpus, without the script that takes the licence as an argument.\<close>

inductive script_step :: "corpus_db \<Rightarrow> corpus_db \<Rightarrow> bool" where
  arxiv: "script_step s (snd (arxiv_cycle X D html reader pdf now day fresh fresh' key aid persist s))"
| f1000: "script_step s (snd (f1000_cycle X D dec events html reader pub now day fresh fresh' key article version persist s))"
| other: "(\<And>now f r. op \<noteq> StoreDocument now f r) \<Longrightarrow> script_step s (corpus_step X D url op s)"

definition licence_proved :: "corpus_db \<Rightarrow> fulltext_receipt \<Rightarrow> bool" where
  "licence_proved s r \<longleftrightarrow>
     ft_provider r = ''arxiv'' \<and> (\<exists>w \<in> snd ` set (cd_licenses s). li_source_key (lw_receipt w) = ft_source_key r \<and> li_license_id (lw_receipt w) = ft_license_id r) \<or>
     ft_provider r = ''f1000research'' \<and> ft_license_id r = ''CC-BY-4.0'' \<and> (\<exists>w \<in> snd ` set (cd_pages s). ht_source_key (hw_receipt w) = ft_source_key r)"

definition all_proved :: "corpus_db \<Rightarrow> bool" where
  "all_proved s \<longleftrightarrow> (\<forall>(k, d) \<in> set (cd_documents s). licence_proved s (do_receipt d))"

lemma and_then_snd:
  "P (snd r) \<Longrightarrow> (\<And>x s. r = (Inr x, s) \<Longrightarrow> P (snd (f x s))) \<Longrightarrow> P (snd (and_then r f))"
  by (cases r) (auto simp: and_then_def split: sum.split)

text \<open>A successful upsert leaves a row that meets its key, and no other row loses what updates keep.\<close>

lemma upsert_unique_present:
  assumes "upsert_unique same guard k v f refs t = Inr (k', t')" "same v" "\<And>w. same w \<Longrightarrow> same (f w)"
  shows "\<exists>w \<in> snd ` set t'. same w"
proof (cases "find (\<lambda>(_, w). same w) t")
  case None
  then have "t' = t @ [(k, v)]" using assms(1)
    by (auto simp: upsert_unique_def bindR_Inr_iff new_key_def raise_if_Inr insert_nothing_def)
  then show ?thesis using assms(2) by force
next
  case (Some kw)
  then show ?thesis using assms find_member [OF Some]
    by (cases kw) (force simp: upsert_unique_def update_where_def image_iff split: if_splits)
qed

lemma upsert_unique_stays:
  assumes "upsert_unique same guard k v f refs t = Inr (k', t')" "\<And>w. p w \<Longrightarrow> p (f w)" "\<exists>w \<in> snd ` set t. p w"
  shows "\<exists>w \<in> snd ` set t'. p w"
  using assms(1) by (rule upsert_unique_cases) (use assms(2,3) in \<open>force simp: update_where_def\<close>)+

text \<open>The licence proofs of \<open>s\<close> are in \<open>s'\<close>.\<close>

definition keeps_proofs :: "corpus_db \<Rightarrow> corpus_db \<Rightarrow> bool" where
  "keeps_proofs s s' \<longleftrightarrow> (\<forall>r. licence_proved s r \<longrightarrow> licence_proved s' r)"

abbreviation papers where "papers s \<equiv> (cd_licenses s, cd_pages s, cd_documents s)"

lemma keeps_papers: "cd_licenses s' = cd_licenses s \<Longrightarrow> cd_pages s' = cd_pages s \<Longrightarrow> keeps_proofs s s'"
  by (simp add: keeps_proofs_def licence_proved_def)

lemma assessments_papers: "upsert_assessments D now k as s = Inr s' \<Longrightarrow> papers s' = papers s"
  by (induction as arbitrary: s) (fastforce simp: bindR_Inr_iff upsert_assessment_def Let_def)+

lemma store_license_keeps:
  assumes "store_license X D f r s = Inr (x, s')"
  shows "keeps_proofs s s' \<and> cd_documents s' = cd_documents s \<and>
    (\<exists>w \<in> snd ` set (cd_licenses s'). li_source_key (lw_receipt w) = li_source_key r \<and> li_license_id (lw_receipt w) = li_license_id r)"
proof -
  obtain k day t refs where up: "upsert_unique (\<lambda>w. li_source_key (lw_receipt w) = li_source_key r \<and> li_license_id (lw_receipt w) = li_license_id r \<and>
              li_evidence_sha256 (lw_receipt w) = li_evidence_sha256 r) (\<lambda>_. True)
         k \<lparr>lw_receipt = r\<lparr>li_checked_on := day\<rparr>\<rparr> (\<lambda>w. w\<lparr>lw_receipt := (lw_receipt w)\<lparr>li_checked_on := day\<rparr>\<rparr>) refs (cd_licenses s) = Inr (x, t)"
    and s': "s' = s\<lparr>cd_licenses := t\<rparr>"
    using assms by (auto simp: store_license_def bindR_Inr_iff split: prod.splits)
  have "\<exists>w \<in> snd ` set t. li_source_key (lw_receipt w) = key \<and> li_license_id (lw_receipt w) = l"
    if "\<exists>w \<in> snd ` set (cd_licenses s). li_source_key (lw_receipt w) = key \<and> li_license_id (lw_receipt w) = l" for key l
    using that by (rule upsert_unique_stays [OF up, rotated]) simp
  then have "keeps_proofs s s'" unfolding keeps_proofs_def licence_proved_def s' by simp
  moreover have "\<exists>w \<in> snd ` set t. li_source_key (lw_receipt w) = li_source_key r \<and> li_license_id (lw_receipt w) = li_license_id r \<and>
      li_evidence_sha256 (lw_receipt w) = li_evidence_sha256 r" by (rule upsert_unique_present [OF up]) simp_all
  ultimately show ?thesis by (auto simp: s')
qed

lemma store_page_keeps:
  assumes "store_page X D f r s = Inr (x, s')"
  shows "keeps_proofs s s' \<and> cd_documents s' = cd_documents s \<and> (\<exists>w \<in> snd ` set (cd_pages s'). ht_source_key (hw_receipt w) = ht_source_key r)"
proof -
  obtain k day t refs where up: "upsert_unique (\<lambda>w. ht_source_key (hw_receipt w) = ht_source_key r \<and> ht_text_sha256 (hw_receipt w) = ht_text_sha256 r) (\<lambda>_. True)
         k \<lparr>hw_receipt = r\<lparr>ht_checked_on := day\<rparr>\<rparr>
         (\<lambda>w. w\<lparr>hw_receipt := (hw_receipt w)\<lparr>ht_checked_on := day, ht_html_sha256 := ht_html_sha256 r\<rparr>\<rparr>) refs (cd_pages s) = Inr (x, t)"
    and s': "s' = s\<lparr>cd_pages := t\<rparr>"
    using assms by (auto simp: store_page_def bindR_Inr_iff split: prod.splits)
  have "\<exists>w \<in> snd ` set t. ht_source_key (hw_receipt w) = key"
    if "\<exists>w \<in> snd ` set (cd_pages s). ht_source_key (hw_receipt w) = key" for key
    using that by (rule upsert_unique_stays [OF up, rotated]) simp
  then have "keeps_proofs s s'" unfolding keeps_proofs_def licence_proved_def s' by simp
  moreover have "\<exists>w \<in> snd ` set t. ht_source_key (hw_receipt w) = ht_source_key r \<and> ht_text_sha256 (hw_receipt w) = ht_text_sha256 r"
    by (rule upsert_unique_present [OF up]) simp_all
  ultimately show ?thesis by (auto simp: s')
qed

lemma store_document_proved:
  assumes "store_document X now f r s = Inr (x, s')" "all_proved s" "licence_proved s r"
  shows "all_proved s'"
proof -
  obtain k t refs where up: "upsert_unique (\<lambda>d. ft_source_key (do_receipt d) = ft_source_key r \<and> ft_sha256 (do_receipt d) = ft_sha256 r) (\<lambda>_. True)
         k \<lparr>do_receipt = r, do_acquired = now\<rparr> (\<lambda>d. d\<lparr>do_acquired := now\<rparr>) refs (cd_documents s) = Inr (x, t)"
    and s': "s' = s\<lparr>cd_documents := t\<rparr>"
    using assms(1) by (auto simp: store_document_def bindR_Inr_iff split: prod.splits)
  have "licence_proved s' r0 = licence_proved s r0" for r0 by (simp add: licence_proved_def s')
  then show ?thesis using upsert_unique_rows [OF up] assms(2,3) by (fastforce simp: all_proved_def s')
qed

text \<open>Every operation but the one on documents.\<close>

lemma other_keeps:
  assumes "\<And>now f r. op \<noteq> StoreDocument now f r"
  shows "keeps_proofs s (corpus_step X D url op s) \<and> cd_documents (corpus_step X D url op s) = cd_documents s"
proof (cases op)
  case (StoreDocument now f r)
  then show ?thesis using assms by blast
next
  case (StoreLicense f r)
  show ?thesis unfolding StoreLicense corpus_step.simps persist_license_receipt_def
    by (rule transact_keeps) (auto simp: keeps_papers dest: store_license_keeps)
next
  case (StorePage f r)
  show ?thesis unfolding StorePage corpus_step.simps persist_publisher_html_receipt_def
    by (rule transact_keeps) (auto simp: keeps_papers dest: store_page_keeps)
next
  case (StoreRun now f run ref)
  have run: "papers s' = papers s" if "store_run X D now f run ref as s = Inr (x, s')" for x s' as
    using that assessments_papers by (fastforce simp: store_run_def bindR_Inr_iff)
  have "papers (corpus_step X D url op s) = papers s" unfolding StoreRun corpus_step.simps persist_run_def
    by (auto split: sum.split simp: transact_def dest: run)
  then show ?thesis by (simp add: keeps_papers)
next
  case (StoreSynthesis f c ref obs)
  have "papers (corpus_step X D url op s) = papers s" unfolding StoreSynthesis corpus_step.simps record_synthesis_status_def
    by (auto split: option.split sum.split simp: transact_def store_synthesis_def bindR_Inr_iff)
  then show ?thesis by (simp add: keeps_papers)
next
  case (StoreClaim now f c)
  have "papers (corpus_step X D url op s) = papers s" unfolding StoreClaim corpus_step.simps persist_reviewed_claim_def
    by (rule transact_keeps) (auto simp: store_claim_def bindR_Inr_iff Let_def split: prod.splits)
  then show ?thesis by (simp add: keeps_papers)
next
  case (StoreArtifact now f r)
  have "papers (corpus_step X D url op s) = papers s" unfolding StoreArtifact corpus_step.simps persist_public_artifact_receipt_def
    by (rule transact_keeps) (auto simp: store_artifact_def bindR_Inr_iff Let_def split: prod.splits)
  then show ?thesis by (simp add: keeps_papers)
next
  case (StoreCard now f c)
  have "papers (corpus_step X D url op s) = papers s" unfolding StoreCard corpus_step.simps persist_document_card_def
    by (rule transact_keeps) (auto simp: store_card_def bindR_Inr_iff Let_def split: prod.splits)
  then show ?thesis by (simp add: keeps_papers)
next
  case (StoreDiagram now f c)
  have "papers (corpus_step X D url op s) = papers s" unfolding StoreDiagram corpus_step.simps persist_diagram_card_def
    by (rule transact_keeps) (auto simp: store_diagram_def bindR_Inr_iff Let_def split: prod.splits)
  then show ?thesis by (simp add: keeps_papers)
next
  case (ReviewCard now k d)
  have "papers (corpus_step X D url op s) = papers s" unfolding ReviewCard corpus_step.simps
    by (auto simp: review_document_card_def bindR_Inr_iff transact_def split: sum.split)
  then show ?thesis by (simp add: keeps_papers)
next
  case (ReviewDiagram now k d)
  have "papers (corpus_step X D url op s) = papers s" unfolding ReviewDiagram corpus_step.simps
    by (auto simp: review_diagram_card_def bindR_Inr_iff transact_def split: sum.split)
  then show ?thesis by (simp add: keeps_papers)
qed

lemma all_proved_keeps: "all_proved s \<Longrightarrow> keeps_proofs s s' \<Longrightarrow> cd_documents s' = cd_documents s \<Longrightarrow> all_proved s'"
  by (auto simp: all_proved_def keeps_proofs_def)

subsection \<open>The cycles\<close>

lemma licence_of_known: "licence_of license_patterns b = Some (lid, m) \<Longrightarrow> lid \<in> {''CC-BY-4.0'', ''CC0-1.0''}"
  by (auto simp: license_patterns_def split: option.splits)

lemma upper_licences: "lid \<in> {''CC-BY-4.0'', ''CC0-1.0''} \<Longrightarrow> upper lid = lid"
  by (elim insertE emptyE; simp only:; code_simp)

text \<open>The receipts of one cycle agree on the source and on the licence.\<close>

lemma verify_arxiv_license_Inr:
  assumes "verify_arxiv_license r html day = Inr lic"
  shows "li_source_key lic = lr_source_key r \<and> li_license_id lic \<in> {''CC-BY-4.0'', ''CC0-1.0''}"
proof -
  obtain resp :: html_response where r: "(case licence_of license_patterns (html_payload resp) of
        None \<Rightarrow> raise LicenseVerificationError ''no compatible explicit open licence was found''
      | Some (lid, m) \<Rightarrow> Inr \<lparr>li_source_key = lr_source_key r, li_provider = ''arxiv'', li_metadata_url = license_url r, li_license_id = lid,
           li_evidence_sha256 = sha256_bytes m, li_checked_on = day\<rparr>) = Inr lic"
    using assms unfolding verify_arxiv_license_def bindR_Inr_iff by (elim exE conjE) (erule that)
  then show ?thesis by (cases "licence_of license_patterns (html_payload resp)") (auto dest!: licence_of_known)
qed

lemma verify_pdf_Inr:
  "verify_open_access_pdf reader p pdf = Inr doc \<Longrightarrow>
     ft_provider doc = ''arxiv'' \<and> ft_source_key doc = pr_source_key p \<and> ft_license_id doc = upper (pr_license_id p)"
  by (auto simp: verify_open_access_pdf_def bindR_Inr_iff split: prod.splits)

lemma arxiv_evidence_agrees:
  assumes "arxiv_evidence html reader pdf day key aid = Inr (lic, doc)"
  shows "ft_provider doc = ''arxiv'' \<and> ft_source_key doc = key \<and> li_source_key lic = key \<and> ft_license_id doc = li_license_id lic"
proof -
  obtain r p where r: "make_license_request \<lparr>lr_source_key = key, lr_arxiv_id = aid\<rparr> = Inr r" "verify_arxiv_license r html day = Inr lic"
      "make_pdf_request \<lparr>pr_source_key = key, pr_arxiv_id = aid, pr_license_id = li_license_id lic\<rparr> = Inr p" "verify_open_access_pdf reader p pdf = Inr doc"
    using assms by (auto simp: arxiv_evidence_def bindR_Inr_iff)
  have "lr_source_key r = key" "pr_source_key p = key \<and> pr_license_id p = li_license_id lic"
    using r(1,3) by (auto simp: make_license_request_def make_pdf_request_def bindR_Inr_iff)
  then show ?thesis using verify_arxiv_license_Inr [OF r(2)] verify_pdf_Inr [OF r(4)] upper_licences [of "li_license_id lic"] by simp
qed

lemma f1000_evidence_agrees:
  assumes "f1000_evidence dec events html reader pub day key article version = Inr (page, doc)"
  shows "ft_provider doc = ''f1000research'' \<and> ft_license_id doc = ''CC-BY-4.0'' \<and> ft_source_key doc = key \<and> ht_source_key page = key"
  using assms by (auto simp: f1000_evidence_def verify_f1000_article_def verify_f1000_open_access_pdf_def make_article_request_def make_publisher_request_def
      bindR_Inr_iff raise_if_Inr Let_def split: option.splits prod.splits)

lemma arxiv_cycle_proved: "all_proved s \<Longrightarrow> all_proved (snd (arxiv_cycle X D html reader pdf now day f f' key aid persist s))"
  unfolding arxiv_cycle_def
proof (rule and_then_snd, goal_cases)
  case (2 x s1)
  obtain lic doc where x: "x = (lic, doc)" "arxiv_evidence html reader pdf day key aid = Inr (lic, doc)" "s1 = s" using 2 by (cases x) auto
  note agree = arxiv_evidence_agrees [OF x(2)]
  have "all_proved (snd (persist_license_receipt X D f lic s))"
    unfolding persist_license_receipt_def
    by (rule transact_keeps [where P = all_proved, OF 2(1)], drule store_license_keeps, elim conjE, rule all_proved_keeps [OF 2(1)])
  moreover have "all_proved (snd (persist_fulltext_receipt X now f' doc s2))" if lic: "persist_license_receipt X D f lic s = (Inr k, s2)" for k s2
  proof -
    obtain y where y: "store_license X D f lic s = Inr (y, s2)" using lic by (auto simp: persist_license_receipt_def transact_Inr)
    note kept = store_license_keeps [OF y]
    have ok: "all_proved s2" using kept 2(1) by (blast intro: all_proved_keeps)
    have "licence_proved s2 doc" using kept agree by (auto simp: licence_proved_def)
    then show ?thesis unfolding persist_fulltext_receipt_def
      by (intro transact_keeps [where P = all_proved, OF ok]) (rule store_document_proved [OF _ ok])
  qed
  ultimately have "all_proved (snd (and_then (persist_license_receipt X D f lic s) (\<lambda>_ s.
       and_then (persist_fulltext_receipt X now f' doc s) (\<lambda>_ s. (Inr (ft_page_count doc), s)))))"
    by (intro and_then_snd [where P = all_proved]) simp_all
  then show ?case using 2(1) by (simp add: x(1,3))
qed simp

lemma f1000_cycle_proved:
  "all_proved s \<Longrightarrow> all_proved (snd (f1000_cycle X D dec events html reader pub now day f f' key article version persist s))"
  unfolding f1000_cycle_def
proof (rule and_then_snd, goal_cases)
  case (2 x s1)
  obtain page doc where x: "x = (page, doc)" "f1000_evidence dec events html reader pub day key article version = Inr (page, doc)" "s1 = s"
    using 2 by (cases x) auto
  note agree = f1000_evidence_agrees [OF x(2)]
  have "all_proved (snd (persist_publisher_html_receipt X D f page s))"
    unfolding persist_publisher_html_receipt_def
    by (rule transact_keeps [where P = all_proved, OF 2(1)], drule store_page_keeps, elim conjE, rule all_proved_keeps [OF 2(1)])
  moreover have "all_proved (snd (persist_fulltext_receipt X now f' doc s2))" if pg: "persist_publisher_html_receipt X D f page s = (Inr k, s2)" for k s2
  proof -
    obtain y where y: "store_page X D f page s = Inr (y, s2)" using pg by (auto simp: persist_publisher_html_receipt_def transact_Inr)
    note kept = store_page_keeps [OF y]
    have ok: "all_proved s2" using kept 2(1) by (blast intro: all_proved_keeps)
    have "licence_proved s2 doc" using kept agree by (auto simp: licence_proved_def)
    then show ?thesis unfolding persist_fulltext_receipt_def
      by (intro transact_keeps [where P = all_proved, OF ok]) (rule store_document_proved [OF _ ok])
  qed
  ultimately have "all_proved (snd (and_then (persist_publisher_html_receipt X D f page s) (\<lambda>_ s.
       and_then (persist_fulltext_receipt X now f' doc s) (\<lambda>_ s. (Inr (ft_page_count doc), s)))))"
    by (intro and_then_snd [where P = all_proved]) simp_all
  then show ?case using 2(1) by (simp add: x(1,3))
qed simp

lemma script_step_proved: "script_step s s' \<Longrightarrow> all_proved s \<Longrightarrow> all_proved s'"
proof (induction rule: script_step.induct)
  case (other op s X D url)
  then show ?case using other_keeps [of op s X D url] by (blast intro: all_proved_keeps)
qed (auto intro: arxiv_cycle_proved f1000_cycle_proved)

text \<open>
  C33: after any sequence of the document cycles and of the other operations on the corpus, every
  stored document has the proof of its licence there: an arXiv document a licence receipt of the same
  source and the same licence, a document of the publisher a verified page of its source.
\<close>

theorem documents_have_licences:
  assumes "script_step\<^sup>*\<^sup>* empty_corpus s" "row (cd_documents s) k = Some d"
  shows "(ft_provider (do_receipt d) = ''arxiv'' \<and> (\<exists>w \<in> snd ` set (cd_licenses s). li_source_key (lw_receipt w) = ft_source_key (do_receipt d) \<and>
        li_license_id (lw_receipt w) = ft_license_id (do_receipt d))) \<or>
    (ft_provider (do_receipt d) = ''f1000research'' \<and> ft_license_id (do_receipt d) = ''CC-BY-4.0'' \<and>
      (\<exists>w \<in> snd ` set (cd_pages s). ht_source_key (hw_receipt w) = ft_source_key (do_receipt d)))"
proof -
  have "all_proved s" using assms(1)
    by (induction rule: rtranclp_induct) (simp add: all_proved_def empty_corpus_def, rule script_step_proved)
  then have "licence_proved s (do_receipt d)" using map_of_SomeD [OF assms(2)] by (auto simp: all_proved_def)
  then show ?thesis by (fastforce simp: licence_proved_def)
qed

text \<open>A cycle over the corpus of a run.\<close>

definition licence_page :: html_response where
  "licence_page = \<lparr>html_type = ''text/html'', html_payload = ''<a href=http://creativecommons.org/licenses/by/4.0/>''\<rparr>"

definition small_pdf :: pdf_response where
  "small_pdf = \<lparr>pdf_type = ''application/pdf'', pdf_payload = ''%PDF-1.7''\<rparr>"

lemma sample_key_hex: "fullmatch hex64_rx sample_key"
  by (simp add: match_hex64 sample_key_def canonical_source_key_def)

lemma sample_evidence:
  "\<exists>lic doc. arxiv_evidence (\<lambda>_. Inr licence_page) (\<lambda>_. Inr [Inr ''text'']) (\<lambda>_. Inr small_pdf) ''2026-01-02'' sample_key ''2601.00001'' = Inr (lic, doc) \<and>
     document_columns_ok doc \<and> li_license_id lic = ''CC-BY-4.0'' \<and> li_provider lic = ''arxiv'' \<and>
     starts_with ''https://arxiv.org/abs/'' (li_metadata_url lic)"
proof -
  have aid: "fullmatch arxiv_id_rx ''2601.00001''" by code_simp
  have found: "licence_of license_patterns (html_payload licence_page) = Some (''CC-BY-4.0'', ''http://creativecommons.org/licenses/by/4.0/'')" by code_simp
  have page: "html_type licence_page \<in> set page_types" "length (html_payload licence_page) \<le> max_html_bytes"
    by (simp_all add: licence_page_def page_types_def max_html_bytes_def)
  have pdf: "pdf_type small_pdf = ''application/pdf''" "starts_with ''%PDF-'' (pdf_payload small_pdf)" "length (pdf_payload small_pdf) = 8"
    by (simp_all add: small_pdf_def starts_with_def)
  have lics: "upper ''CC-BY-4.0'' = ''CC-BY-4.0''" "''CC-BY-4.0'' \<in> set allowed_licenses" by code_simp+
  have url: "document_url_ok (''https://export.arxiv.org/pdf/'' @ ''2601.00001'')" by (simp add: document_url_ok_def starts_with_def)
  have req: "make_license_request \<lparr>lr_source_key = sample_key, lr_arxiv_id = ''2601.00001''\<rparr> = Inr \<lparr>lr_source_key = sample_key, lr_arxiv_id = ''2601.00001''\<rparr>"
    "make_pdf_request \<lparr>pr_source_key = sample_key, pr_arxiv_id = ''2601.00001'', pr_license_id = ''CC-BY-4.0''\<rparr> =
      Inr \<lparr>pr_source_key = sample_key, pr_arxiv_id = ''2601.00001'', pr_license_id = ''CC-BY-4.0''\<rparr>"
    unfolding make_license_request_def make_pdf_request_def arxiv_license_request.select_convs pdf_request.select_convs raise_if_def lics(1)
    using aid sample_key_hex lics(2) by (simp_all only: simp_thms if_False bindR_def sum.case)
  have meta: "starts_with ''https://arxiv.org/abs/'' (''https://arxiv.org/abs/'' @ x)" for x by (simp add: starts_with_def)
  show ?thesis
    by (simp add: arxiv_evidence_def req verify_arxiv_license_def verify_open_access_pdf_def read_pages_def
      raise_if_def found page pdf lics max_pdf_bytes_def max_pdf_pages_def max_extracted_chars_def pdf_url_def license_url_def
      document_columns_ok_def url [simplified] meta [of "''2601.00001''", simplified] not_less)
qed

theorem documents_have_licences_witness:
  "\<exists>s k d. script_step\<^sup>*\<^sup>* empty_corpus s \<and> row (cd_documents s) k = Some d \<and> ft_provider (do_receipt d) = ''arxiv'' \<and>
    (\<exists>w \<in> snd ` set (cd_licenses s). li_source_key (lw_receipt w) = ft_source_key (do_receipt d) \<and> li_license_id (lw_receipt w) = ft_license_id (do_receipt d))"
proof -
  let ?cycle = "arxiv_cycle corpus_ext Inr (\<lambda>_. Inr licence_page) (\<lambda>_. Inr [Inr ''text'']) (\<lambda>_. Inr small_pdf) 2 ''2026-01-02'' ''lic'' ''doc'' sample_key
    ''2601.00001'' True stored_run"
  obtain lic doc where ev: "arxiv_evidence (\<lambda>_. Inr licence_page) (\<lambda>_. Inr [Inr ''text'']) (\<lambda>_. Inr small_pdf) ''2026-01-02'' sample_key ''2601.00001''
      = Inr (lic, doc)" "document_columns_ok doc" "li_license_id lic = ''CC-BY-4.0''" "li_provider lic = ''arxiv''"
      "starts_with ''https://arxiv.org/abs/'' (li_metadata_url lic)" using sample_evidence by blast
  note agree = arxiv_evidence_agrees [OF ev(1)]
  obtain r where src: "row (cd_sources stored_run) sample_key = Some r" using stored_run_rows(1) by blast
  have "cd_documents (snd ?cycle) = [(''doc'', \<lparr>do_receipt = doc, do_acquired = 2\<rparr>)]"
    using agree src stored_run_rows(2,3) ev(2-5)
    by (simp add: arxiv_cycle_def and_then_def ev(1) persist_license_receipt_def persist_fulltext_receipt_def transact_def store_license_def store_document_def
      upsert_unique_def new_key_def refers_def raise_if_def insert_nothing_def corpus_ext_def returned_def)
  then have d: "row (cd_documents (snd ?cycle)) ''doc'' = Some \<lparr>do_receipt = doc, do_acquired = 2\<rparr>" by simp
  have "script_step empty_corpus stored_run"
    unfolding stored_run_def run_corpus_def by (simp only: foldl.simps) (rule script_step.other, simp)
  then have "script_step\<^sup>*\<^sup>* empty_corpus (snd ?cycle)" by (rule converse_rtranclp_into_rtranclp) (rule r_into_rtranclp, rule script_step.arxiv)
  from documents_have_licences [OF this d] show ?thesis using \<open>script_step\<^sup>*\<^sup>* empty_corpus (snd ?cycle)\<close> d agree
    by (intro exI [of _ "snd ?cycle"] exI [of _ "''doc''"] exI [of _ "\<lparr>do_receipt = doc, do_acquired = 2\<rparr>"]) simp
qed

text \<open>The script that takes the licence as an argument stores a document whose licence nothing proves.\<close>

lemma open_pdf_needs_no_proof:
  "\<exists>s. open_pdf corpus_ext (\<lambda>_. Inr [Inr ''text'']) (\<lambda>_. Inr small_pdf) 2 ''doc'' sample_key ''2601.00001'' ''CC-BY-4.0'' True stored_run = (Inr 1, s) \<and>
     cd_documents s \<noteq> [] \<and> cd_licenses s = []"
proof -
  obtain lic doc where ev: "arxiv_evidence (\<lambda>_. Inr licence_page) (\<lambda>_. Inr [Inr ''text'']) (\<lambda>_. Inr small_pdf) ''2026-01-02'' sample_key ''2601.00001''
      = Inr (lic, doc)" "document_columns_ok doc" "li_license_id lic = ''CC-BY-4.0''" using sample_evidence by blast
  then have run: "bindR (make_pdf_request \<lparr>pr_source_key = sample_key, pr_arxiv_id = ''2601.00001'', pr_license_id = ''CC-BY-4.0''\<rparr>)
      (\<lambda>p. verify_open_access_pdf (\<lambda>_. Inr [Inr ''text'']) p (\<lambda>_. Inr small_pdf)) = Inr doc"
    by (auto simp: arxiv_evidence_def bindR_Inr_iff)
  have "ft_page_count doc = 1"
    using run by (auto simp: bindR_Inr_iff verify_open_access_pdf_def read_pages_def raise_if_def max_pdf_pages_def split: prod.splits)
  moreover obtain r where "row (cd_sources stored_run) sample_key = Some r" using stored_run_rows(1) by blast
  ultimately show ?thesis using arxiv_evidence_agrees [OF ev(1)] ev(2) stored_run_rows(2,3)
    by (simp add: open_pdf_def run and_then_def persist_fulltext_receipt_def transact_def store_document_def upsert_unique_def new_key_def refers_def
      raise_if_def insert_nothing_def corpus_ext_def returned_def)
qed

subsection \<open>Persisted research runs\<close>

lemma and_then_Inr: "and_then r f = (Inr y, s') \<longleftrightarrow> (\<exists>x s. r = (Inr x, s) \<and> f x s = (Inr y, s'))"
  by (cases r) (auto simp: and_then_def split: sum.split)

lemma snapshot_fits:
  "set (map fst (as_snapshot (observe_corpus_to_spec c article response))) = set observation_keys \<and>
    length (dumps default_opts (JObj (as_snapshot (observe_corpus_to_spec c article response)))) \<le> 2048"
proof -
  let ?b = "observe_corpus_to_spec c article response"
  have "weight (JObj (as_snapshot ?b)) \<le> 2048"
    by (simp add: as_snapshot_def observe_corpus_to_spec_def Let_def response_status_def split: option.split)
  then have "length (dumps default_opts (JObj (as_snapshot ?b))) \<le> 2048"
    using dumps_weight [of default_opts "JObj (as_snapshot ?b)"] by (simp add: default_opts_def)
  then show ?thesis by (simp add: as_snapshot_def observation_keys_def)
qed

lemma stored_synthesis:
  assumes "record_synthesis_status X f c ref seen s = (Inr k, s')"
  shows "\<exists>j y. row (cd_synthesis s) j = None \<and> row (cd_synthesis s') j = Some y \<and> sy_decision y = coverage_status c"
  using assms by (auto simp: record_synthesis_status_def transact_Inr store_synthesis_def bindR_Inr_iff new_key_def raise_if_Inr table_simps
    split: option.splits if_splits)

lemma upserts_keep_synthesis: "upsert_assessments D now j as s = Inr s' \<Longrightarrow> cd_synthesis s' = cd_synthesis s"
  by (induction as arbitrary: s) (fastforce simp: bindR_Inr_iff upsert_assessment_def Let_def)+

text \<open>
  C34: a persisted research run that ends well, over any corpus the operations can build, reports that
  evidence is still collected and stores a new receipt of the gate that says so.
\<close>

theorem research_keeps_collecting:
  assumes "s = run_corpus X D url ops empty_corpus"
    and "research_script X D L tr url es now f f' q key mailto True s = (Inr (outcome, decision), s')"
  shows "outcome = ''collecting_evidence'' \<and> decision = ''continue_collecting_evidence'' \<and>
    (\<exists>k y. row (cd_synthesis s) k = None \<and> row (cd_synthesis s') k = Some y \<and> sy_decision y = ''collecting_evidence'')"
proof -
  obtain run x s1 article response where run: "persist_run X D url now f run ''runtime/it-research/latest-research.json'' s = (Inr x, s1)"
    and out: "and_then (record_gate X f' (Some (as_snapshot (observe_corpus_to_spec (evaluate_coverage default_policy (load_corpus_assessments s1))
         article response))) (evaluate_coverage default_policy (load_corpus_assessments s1)) s1)
       (\<lambda>_ s. (Inr (coverage_status (evaluate_coverage default_policy (load_corpus_assessments s1)),
          ob_decision (observe_corpus_to_spec (evaluate_coverage default_policy (load_corpus_assessments s1)) article response)), s))
      = (Inr (outcome, decision), s')"
    using assms(2) by (auto simp: research_script_def and_then_Inr Let_def)
  have s1: "s1 = run_corpus X D url (ops @ [StoreRun now f run ''runtime/it-research/latest-research.json'']) empty_corpus"
    using run by (simp only: assms(1) run_corpus_simps(2) corpus_step.simps snd_conv)
  have closed: "\<not> cov_ready (evaluate_coverage default_policy (load_corpus_assessments s1))" unfolding s1 using stored_gate_closed by blast
  obtain k s2 where rec: "record_synthesis_status X f' (evaluate_coverage default_policy (load_corpus_assessments s1))
      ''runtime/it-research/latest-code-agent-task.md'' (Some (as_snapshot (observe_corpus_to_spec (evaluate_coverage default_policy (load_corpus_assessments s1))
         article response))) s1 = (Inr k, s')"
    using out by (auto simp: and_then_Inr record_gate_def)
  have "cd_synthesis s1 = cd_synthesis s" using run upserts_keep_synthesis
    by (fastforce simp: persist_run_def transact_Inr store_run_def bindR_Inr_iff split: if_splits sum.splits)
  then show ?thesis using stored_synthesis [OF rec] out closed
    by (auto simp: and_then_Inr coverage_status_def observe_corpus_to_spec_def Let_def)
qed

lemma upsert_passes:
  assumes "starts_with ''https://'' (it_url (sa_item a)) \<and> list_all (\<lambda>c. code c \<noteq> 13 \<and> code c \<noteq> 10) (it_title (sa_item a))"
    "\<not> doi_taken (sa_key a) (source_doi (sa_item a)) (cd_sources s)"
    "it_level (sa_item a) \<in> set evidence_levels \<and> list_all no_nul (it_url (sa_item a) # it_title (sa_item a) # it_provider_id (sa_item a) #
       it_limitations (sa_item a) @ it_authors (sa_item a) @ sa_rationale a)"
    "sa_layers a \<noteq> [] \<and> list_all (\<lambda>x. 0 \<le> x \<and> num3 x \<le> 1)
       [sa_confidence a, sa_conceptual a, sa_implementation a, sa_reproducibility a, sa_independence a]"
  shows "\<exists>s'. upsert_assessment Inr now run a s = Inr s' \<and> cd_sources s' =
    upsert (sa_key a) (new_source now a (it_published_on (sa_item a))) (refresh_source now (sa_item a) (it_published_on (sa_item a))) (cd_sources s)"
proof -
  have pass: "P \<Longrightarrow> check_row P = Inr ()" for P by (simp add: raise_if_def)
  show ?thesis unfolding upsert_assessment_def Let_def pass [OF assms(1)] pass [OF assms(3)] pass [OF assms(4)]
    using assms(2) by (simp add: raise_if_def)
qed

lemma sample_items_stored:
  "\<exists>as s'. mapR classify_item sample_items = Inr as \<and> upsert_assessments Inr now run as s = Inr s'" if "cd_sources s = []"
proof -
  let ?a = "\<lambda>i ls c k n. \<lparr>sa_key = canonical_source_key i, sa_item = i, sa_layers = ls, sa_confidence = c, sa_conceptual = k, sa_implementation = 0,
     sa_reproducibility = 0, sa_independence = n, sa_verification = MetadataObserved,
     sa_rationale = [''Architecture layer is a deterministic title-metadata classification and requires human review.'',
       ''Metadata-only discovery is not evidence of executable code, dataset availability, or reproduced results.'']\<rparr>"
  let ?i = "hd sample_items" and ?j = "hd (tl sample_items)"
  define a b where "a = ?a ?i [GlobalArchitecture, Component] (55 / 100) (1 / 2) (55 / 100)" and "b = ?a ?j [Component] (45 / 100) (55 / 100) (55 / 100)"
  have l: "layers_of_title ''Safe agent architecture'' = [GlobalArchitecture, Component]" "layers_of_title ''Evidence gated tools'' = [Component]" by code_simp+
  have cl: "mapR classify_item sample_items = Inr [a, b]"
    by (simp add: sample_items_def sample_item_def classify_item_def l level_support_def provider_independence_def a_def b_def)
  have fields: "sa_item a = ?i" "sa_item b = ?j" "sa_rationale a = sa_rationale b" by (simp_all add: a_def b_def)
  have texts: "list_all no_nul (it_url ?i # it_title ?i # it_provider_id ?i # it_limitations ?i @ it_authors ?i)"
    "list_all no_nul (it_url ?j # it_title ?j # it_provider_id ?j # it_limitations ?j @ it_authors ?j)"
    "starts_with ''https://'' (it_url ?i) \<and> list_all (\<lambda>c. code c \<noteq> 13 \<and> code c \<noteq> 10) (it_title ?i)"
    "starts_with ''https://'' (it_url ?j) \<and> list_all (\<lambda>c. code c \<noteq> 13 \<and> code c \<noteq> 10) (it_title ?j)"
    "it_level ?i \<in> set evidence_levels" "it_level ?j \<in> set evidence_levels" "source_doi ?i = None"
    by code_simp+
  have "list_all no_nul (sa_rationale b)" unfolding b_def source_assessment.select_convs by code_simp
  note texts = texts this
  have nums: "list_all (\<lambda>x. 0 \<le> x \<and> num3 x \<le> 1) [sa_confidence a, sa_conceptual a, sa_implementation a, sa_reproducibility a, sa_independence a]"
    "list_all (\<lambda>x. 0 \<le> x \<and> num3 x \<le> 1) [sa_confidence b, sa_conceptual b, sa_implementation b, sa_reproducibility b, sa_independence b]"
    by (simp_all add: a_def b_def num3_def)
  obtain s1 where s1: "upsert_assessment Inr now run a s = Inr s1" "cd_sources s1 =
      upsert (sa_key a) (new_source now a (it_published_on ?i)) (refresh_source now ?i (it_published_on ?i)) (cd_sources s)"
    using upsert_passes [of a s now run] texts nums that by (auto simp: fields doi_taken_def) (auto simp: a_def)
  have "\<not> doi_taken (sa_key b) (source_doi ?j) (cd_sources s1)"
    by (cases "source_doi ?j") (auto simp: s1(2) that doi_taken_def upsert_def new_source_def Let_def fields texts(7))
  then obtain s2 where "upsert_assessment Inr now run b s1 = Inr s2"
    using upsert_passes [of b s1 now run] texts nums by (auto simp: fields) (auto simp: b_def)
  then show ?thesis using cl s1(1) by auto
qed

lemma gate_recorded:
  assumes "row (cd_synthesis s) f = None"
  shows "\<exists>s'. record_gate corpus_ext f (Some (as_snapshot (observe_corpus_to_spec c article response))) c' s = (Inr (), s')"
proof -
  let ?o = "as_snapshot (observe_corpus_to_spec c article response)"
  have ref: "ref_column_ok ''runtime/it-research/latest-code-agent-task.md''" by code_simp
  have "new_key f (cd_synthesis s) = Inr ()" using assms by (simp add: new_key_def raise_if_def)
  then have stored: "\<exists>s'. store_synthesis corpus_ext f c' snap ''runtime/it-research/latest-code-agent-task.md'' s = Inr ((), s')" for snap
    using ref by (simp add: store_synthesis_def corpus_ext_def raise_if_def)
  obtain s' where "store_synthesis corpus_ext f c' (snapshot_of c' @ [(''evaluator_observation'', JObj ?o)]) ''runtime/it-research/latest-code-agent-task.md'' s = Inr ((), s')"
    using stored by blast
  then have "record_synthesis_status corpus_ext f c' ''runtime/it-research/latest-code-agent-task.md'' (Some ?o) s = (Inr f, s')"
    using snapshot_fits [of c article response] by (simp add: record_synthesis_status_def transact_def)
  then show ?thesis by (simp add: record_gate_def and_then_def)
qed

lemma research_script_ends_well:
  assumes "make_query q = Inr q'" "run_it_research L q' key mailto tr = Inr run" "persist_run corpus_ext D url now f run ''runtime/it-research/latest-research.json'' s = (Inr k, s1)"
    "read_receipts url es = Inr (article, response)" "row (cd_synthesis s1) f' = None"
  shows "\<exists>outcome decision s'. research_script corpus_ext D L tr url es now f f' q key mailto True s = (Inr (outcome, decision), s')"
proof -
  let ?c = "evaluate_coverage default_policy (load_corpus_assessments s1)"
  obtain s' where "record_gate corpus_ext f' (Some (as_snapshot (observe_corpus_to_spec ?c article response))) ?c s1 = (Inr (), s')"
    using gate_recorded [OF assms(5)] by blast
  then show ?thesis by (simp add: research_script_def and_then_def assms(1-4) Let_def)
qed

theorem research_keeps_collecting_witness:
  "\<exists>outcome decision s'. research_script corpus_ext Inr sample_lib sample_transport ''db'' empty_store 1 ''run'' ''gate'' sample_query None None True empty_corpus
     = (Inr (outcome, decision), s') \<and> outcome = ''collecting_evidence''"
proof -
  obtain run where run: "run_it_research sample_lib sample_query None None sample_transport = Inr run" "run_items run = sample_items"
    using sample_research by blast
  have q: "make_query sample_query = Inr sample_query" by code_simp
  let ?s0 = "empty_corpus\<lparr>cd_runs := insert_nothing ''run'' \<lparr>rn_completed = 1, rn_topic = sha256 (strip (topic (run_query run))),
     rn_status = JObj [(''errors'', JList (map JStr (run_errors run))), (''audit'', JList (map JStr (run_audit run)))],
     rn_artifact = ''runtime/it-research/latest-research.json''\<rparr> (cd_runs empty_corpus)\<rparr>"
  have "cd_sources ?s0 = []" by (simp add: empty_corpus_def)
  from sample_items_stored [OF this, of 1 "''run''"] obtain as s1 where stored: "mapR classify_item sample_items = Inr as"
    "upsert_assessments Inr 1 ''run'' as ?s0 = Inr s1" by blast
  have c: "strip ''db'' \<noteq> []" "relative_ref ''runtime/it-research/latest-research.json''" "ref_column_ok ''runtime/it-research/latest-research.json''" by code_simp+
  have p: "persist_run corpus_ext Inr ''db'' 1 ''run'' run ''runtime/it-research/latest-research.json'' empty_corpus = (Inr ''run'', s1)"
    using stored c by (simp add: persist_run_def run(2) transact_def store_run_def corpus_ext_def new_key_def raise_if_def empty_corpus_def)
  have "cd_synthesis s1 = cd_synthesis ?s0" using stored(2) by (rule upserts_keep_synthesis)
  then have k: "row (cd_synthesis s1) ''gate'' = None" by (simp add: empty_corpus_def)
  have r: "read_receipts ''db'' empty_store = Inr (None, None)" by code_simp
  obtain outcome decision s' where "research_script corpus_ext Inr sample_lib sample_transport ''db'' empty_store 1 ''run'' ''gate'' sample_query None None True empty_corpus
     = (Inr (outcome, decision), s')" using research_script_ends_well [OF q run(1) p r k] by blast
  moreover have "empty_corpus = run_corpus corpus_ext Inr ''db'' [] empty_corpus" by (simp add: run_corpus_def)
  ultimately show ?thesis using research_keeps_collecting by blast
qed

end
