(* ===== verification/McpServers.thy ===== *)
theory McpServers
  imports SmokeGraph
begin

text \<open>
  The three tool servers of the tests (\<open>mcp_test_server.py\<close>, \<open>mcp_fixture_server.py\<close>,
  \<open>mcp_git_fixture_server.py\<close>): the tools they publish and what they answer to a call. The file system
  of the fixture container and the process that runs \<open>git\<close> are arguments; the transport over standard
  input and output is left out. The properties at the end say that every answer is the blocked one or
  data marked as untrusted, and what of the outside can reach an answer.
\<close>

subsection \<open>Tools and answers\<close>

record tool =
  tool_name :: string
  tool_text :: string
  tool_schema :: json

definition text_type :: json where
  "text_type = JObj [(''type'', JStr ''string'')]"

definition object_schema :: "(string \<times> json) list \<Rightarrow> string list \<Rightarrow> json" where
  "object_schema properties needed = JObj [(''type'', JStr ''object''), (''properties'', JObj properties),
     (''required'', JList (map JStr needed)), (''additionalProperties'', JBool False)]"

definition obj_of :: "json \<Rightarrow> (string \<times> json) list" where
  "obj_of j = (case j of JObj d \<Rightarrow> d | _ \<Rightarrow> [])"

definition test_tools :: "tool list" where
  "test_tools =
     [\<lparr>tool_name = ''test.docs.lookup'', tool_text = ''Return a synthetic documentation lookup result.'',
       tool_schema = object_schema [(''query'', JObj [(''type'', JStr ''string''), (''minLength'', JInt 1), (''maxLength'', JInt 500)])] [''query'']\<rparr>,
      \<lparr>tool_name = ''test.fixture.read'', tool_text = ''Return a synthetic fixture-read result.'',
       tool_schema = object_schema [(''path'', text_type)] [''path'']\<rparr>,
      \<lparr>tool_name = ''test.git.diff'', tool_text = ''Return a synthetic Git-diff result.'',
       tool_schema = object_schema [(''base'', text_type), (''path'', text_type)] [''base'', ''path'']\<rparr>]"

definition fixture_tool :: tool where
  "fixture_tool = \<lparr>tool_name = ''test.fixture.read'', tool_text = ''Read a pre-approved synthetic fixture from the read-only sandbox mount.'',
     tool_schema = object_schema [(''path'', text_type)] [''path'']\<rparr>"

definition git_tool :: tool where
  "git_tool = \<lparr>tool_name = ''test.git.diff'', tool_text = ''Return a Git diff from the read-only synthetic fixture repository.'',
     tool_schema = object_schema [(''base'', text_type), (''path'', text_type)] [''base'', ''path'']\<rparr>"

record call_result =
  answer_text :: string
  answer_error :: bool
  answer_data :: "json option"

definition blocked_call :: call_result where
  "blocked_call = \<lparr>answer_text = ''MCP request is blocked by policy'', answer_error = True, answer_data = None\<rparr>"

definition wire_opts :: json_opts where
  "wire_opts = \<lparr>ensure_ascii = False, item_sep = '','', key_sep = '':''\<rparr>"

definition data_result :: "string \<Rightarrow> call_result" where
  "data_result content = (let payload = mark_untrusted_result content in
     \<lparr>answer_text = dumps wire_opts payload, answer_error = False, answer_data = Some payload\<rparr>)"

text \<open>The common frame: \<open>params.arguments or {}\<close>, the policy, and a body that may have no result.\<close>

definition policed :: "string \<Rightarrow> dict option \<Rightarrow> (dict \<Rightarrow> string option res) \<Rightarrow> call_result res" where
  "policed name arguments body =
     (case validate_tool_call (JStr name) (JObj (case arguments of None \<Rightarrow> [] | Some d \<Rightarrow> d)) of
        Inl e \<Rightarrow> if is_a e McpPolicyError then Inr blocked_call else Inl e
      | Inr d \<Rightarrow> bindR (body d) (\<lambda>t. case t of None \<Rightarrow> Inr blocked_call | Some t \<Rightarrow> Inr (data_result t)))"

subsection \<open>The test server\<close>

definition rendered_arguments :: "dict \<Rightarrow> string" where
  "rendered_arguments d = join '', '' (map (\<lambda>(k, v). k @ ''='' @ str_of v) (sort_key fst d))"

definition test_server :: "string \<Rightarrow> dict option \<Rightarrow> call_result res" where
  "test_server name arguments = policed name arguments (\<lambda>d.
     Inr (Some (''synthetic MCP result: '' @ name @ '' ('' @ rendered_arguments d @ '')'')))"

subsection \<open>The fixture server\<close>

text \<open>An absolute path is the list of its parts.\<close>

record files =
  resolved :: "string list \<Rightarrow> string list res"
  regular :: "string list \<Rightarrow> bool"
  read_utf8 :: "string list \<Rightarrow> string res"

definition path_parts :: "string \<Rightarrow> string list" where
  "path_parts p = filter (\<lambda>x. x \<noteq> [] \<and> x \<noteq> ''.'') (split_on CHR ''/'' p)"

definition path_join :: "string list \<Rightarrow> string \<Rightarrow> string list" where
  "path_join root_parts p = (if starts_with ''/'' p then path_parts p else root_parts @ path_parts p)"

definition fixture_root :: "string list" where
  "fixture_root = [''fixtures'']"

definition under :: "string list \<Rightarrow> string list \<Rightarrow> bool" where
  "under dir p \<longleftrightarrow> take (length dir) p = dir"

definition fixture_path :: "files \<Rightarrow> string \<Rightarrow> string list option res" where
  "fixture_path F requested =
     bindR (resolved F fixture_root) (\<lambda>dir.
     bindR (resolved F (path_join dir (remove_prefix ''fixtures/'' requested))) (\<lambda>candidate.
     Inr (if \<not> under dir candidate \<or> \<not> regular F candidate then None else Some candidate)))"

definition fixture_server :: "files \<Rightarrow> string \<Rightarrow> dict option \<Rightarrow> call_result res" where
  "fixture_server F name arguments = policed name arguments (\<lambda>d.
     bindR (item_of d ''path'') (\<lambda>p.
     bindR (fixture_path F (str_of p)) (\<lambda>fixture.
     case fixture of None \<Rightarrow> Inr None | Some f \<Rightarrow> bindR (read_utf8 F f) (\<lambda>t. Inr (Some t)))))"

subsection \<open>The git server\<close>

datatype finished = Expired | Exited int string

definition git_command :: "string \<Rightarrow> string list" where
  "git_command path = [''/usr/bin/git'', ''-c'', ''safe.directory=/repository'', ''-C'', ''/repository'', ''diff'', ''--no-ext-diff'',
     ''--no-textconv'', ''--unified=3'', ''HEAD'', ''--'', path]"

definition git_env :: "(string \<times> string) list" where
  "git_env = [(''PATH'', ''/usr/bin:/bin''), (''GIT_CONFIG_NOSYSTEM'', ''1''), (''GIT_CONFIG_GLOBAL'', ''/dev/null''),
     (''GIT_TERMINAL_PROMPT'', ''0''), (''LANG'', ''C'')]"

text \<open>A process: its command, environment and time limit.\<close>

type_synonym spawner = "string list \<Rightarrow> (string \<times> string) list \<Rightarrow> int \<Rightarrow> finished res"

definition git_diff :: "spawner \<Rightarrow> string \<Rightarrow> string option res" where
  "git_diff spawn path =
     (case spawn (git_command path) git_env 3 of
        Inl e \<Rightarrow> if is_a e OSError then Inr None else Inl e
      | Inr Expired \<Rightarrow> Inr None
      | Inr (Exited rc out) \<Rightarrow> Inr (if rc \<noteq> 0 then None else Some out))"

definition git_server :: "spawner \<Rightarrow> string \<Rightarrow> dict option \<Rightarrow> call_result res" where
  "git_server spawn name arguments = policed name arguments (\<lambda>d. bindR (item_of d ''path'') (\<lambda>p. git_diff spawn (str_of p)))"

subsection \<open>Every answer is blocked or untrusted\<close>

definition untrusted_answer :: "call_result \<Rightarrow> bool" where
  "untrusted_answer r \<longleftrightarrow> r = blocked_call \<or>
     (\<exists>d. answer_data r = Some (JObj d) \<and> loads (answer_text r) = Inr (JObj d) \<and> jget d ''trusted'' = JBool False \<and>
       jget d ''origin'' = JStr ''test-mcp'' \<and> \<not> answer_error r)"

lemma data_is_untrusted: "untrusted_answer (data_result t)"
proof -
  have "ok_opts wire_opts" by (simp add: ok_opts_def wire_opts_def is_ws_def)
  then have "loads (dumps wire_opts (mark_untrusted_result t)) = Inr (mark_untrusted_result t)"
    by (rule loads_dumps) (simp add: mark_untrusted_result_def)
  then show ?thesis by (simp add: untrusted_answer_def data_result_def Let_def mark_untrusted_result_def jget_def)
qed

lemma blocked_is_untrusted: "untrusted_answer blocked_call"
  by (simp add: untrusted_answer_def)

lemma policed_cases: "policed name arguments body = Inr r \<Longrightarrow> r = blocked_call \<or> (\<exists>t. r = data_result t)"
  by (auto simp: policed_def bindR_Inr_iff split: sum.splits if_splits option.splits)

lemma policed_untrusted: "policed name arguments body = Inr r \<Longrightarrow> untrusted_answer r"
  using policed_cases blocked_is_untrusted data_is_untrusted by blast

lemma validate_raises: "validate_tool_call n a = Inl e \<Longrightarrow> unhashable n \<or> is_a e McpPolicyError"
  by (auto simp: validate_tool_call_def is_a_def res_simps Let_def split: if_splits option.splits json.splits)

lemma validate_policy_error: "validate_tool_call (JStr n) a = Inl e \<Longrightarrow> is_a e McpPolicyError"
  using validate_raises [of "JStr n" a e] by (auto simp: unhashable_def)

text \<open>
  C35: The three servers only ever answer with the blocked result or with data whose text and structure
  both say that it is not trusted; the test server answers every call.
\<close>

theorem tool_answers_untrusted:
  "(case test_server name arguments of Inl e \<Rightarrow> False | Inr r \<Rightarrow> untrusted_answer r) \<and>
   (case fixture_server F name arguments of Inl e \<Rightarrow> True | Inr r \<Rightarrow> untrusted_answer r) \<and>
   (case git_server spawn name arguments of Inl e \<Rightarrow> True | Inr r \<Rightarrow> untrusted_answer r)"
proof -
  have "\<exists>r. test_server name arguments = Inr r"
    by (auto simp: test_server_def policed_def dest: validate_policy_error split: sum.split)
  then show ?thesis
    by (auto simp: test_server_def fixture_server_def git_server_def dest: policed_untrusted split: sum.split)
qed

subsection \<open>What can reach an answer\<close>

definition allowed_path :: "string \<Rightarrow> bool" where
  "allowed_path p \<longleftrightarrow> fullmatch fixture_path_rx p \<or> fullmatch repository_path_rx p"

lemma jget_map_strip:
  "map_of (map (\<lambda>(k, v). (k, JStr (strip (str_of v)))) d) ''path'' = Some p \<Longrightarrow> str_of p = normalized d ''path''"
  by (induction d) (auto simp: normalized_def jget_def split: if_splits)

lemma validated_path:
  assumes "validate_tool_call (JStr name) (JObj args) = Inr d" "item_of d ''path'' = Inr p"
  shows "allowed_path (str_of p)"
  using assms jget_map_strip [of args p]
  by (auto simp: validate_tool_call_def allowed_path_def item_of_def contracts_def res_simps Let_def list_ex_iff dest!: map_of_SomeD
      split: if_splits option.splits) fastforce

lemma policed_cong:
  assumes "\<And>d. validate_tool_call (JStr name) (JObj (case arguments of None \<Rightarrow> [] | Some d \<Rightarrow> d)) = Inr d \<Longrightarrow> f d = g d"
  shows "policed name arguments f = policed name arguments g"
  using assms by (auto simp: policed_def split: sum.split)

lemma fixture_path_under:
  "fixture_path F p = Inr (Some c) \<Longrightarrow> \<exists>dir. resolved F fixture_root = Inr dir \<and> under dir c"
  by (auto simp: fixture_path_def bindR_Inr_iff split: if_splits)

text \<open>
  C36: The fixture server depends on nothing outside the directory it serves: two file systems that resolve
  paths alike and agree below it give the same answers. The git server depends on one command only,
  with a path the policy allows as its last argument.
\<close>

theorem servers_confined:
  assumes "resolved F = resolved G"
    and "\<And>dir p. resolved F fixture_root = Inr dir \<Longrightarrow> under dir p \<Longrightarrow> regular F p = regular G p \<and> read_utf8 F p = read_utf8 G p"
    and "\<And>p. allowed_path p \<Longrightarrow> spawn (git_command p) git_env 3 = spawn' (git_command p) git_env 3"
  shows "fixture_server F name arguments = fixture_server G name arguments \<and>
    git_server spawn name arguments = git_server spawn' name arguments"
proof
  have "fixture_path F p = fixture_path G p" for p
    using assms(1,2) by (cases "resolved G fixture_root") (auto simp: fixture_path_def intro!: arg_cong [where f = "bindR _"])
  moreover have "fixture_path G p = Inr (Some c) \<Longrightarrow> read_utf8 F c = read_utf8 G c" for p c
    using fixture_path_under [of G p c] assms(1,2) by auto
  ultimately show "fixture_server F name arguments = fixture_server G name arguments"
    by (auto simp: fixture_server_def bindR_def intro!: policed_cong split: sum.split option.split)
  show "git_server spawn name arguments = git_server spawn' name arguments"
    unfolding git_server_def using assms(3) validated_path
    by (intro policed_cong) (auto simp: bindR_def git_diff_def split: sum.split)
qed

text \<open>Two file systems that differ outside the directory, and two processes that differ on other commands.\<close>

definition sample_files :: "string \<Rightarrow> files" where
  "sample_files outside = \<lparr>resolved = Inr, regular = (\<lambda>_. True),
     read_utf8 = (\<lambda>p. Inr (if under [''fixtures''] p then ''note'' else outside))\<rparr>"

definition sample_spawn :: "string \<Rightarrow> spawner" where
  "sample_spawn other c e t = Inr (if c = git_command (c ! 11) then Exited 0 ''diff'' else Exited 0 other)"

theorem servers_confined_witness:
  "fixture_server (sample_files ''a'') ''test.fixture.read'' (Some [(''path'', JStr ''fixtures/a.md'')]) =
     fixture_server (sample_files ''b'') ''test.fixture.read'' (Some [(''path'', JStr ''fixtures/a.md'')]) \<and>
   fixture_server (sample_files ''b'') ''test.fixture.read'' (Some [(''path'', JStr ''fixtures/a.md'')]) = Inr (data_result ''note'')"
proof -
  have "fixture_server (sample_files ''a'') ''test.fixture.read'' (Some [(''path'', JStr ''fixtures/a.md'')]) =
     fixture_server (sample_files ''b'') ''test.fixture.read'' (Some [(''path'', JStr ''fixtures/a.md'')]) \<and>
     git_server (sample_spawn ''a'') ''test.fixture.read'' (Some [(''path'', JStr ''fixtures/a.md'')]) =
     git_server (sample_spawn ''b'') ''test.fixture.read'' (Some [(''path'', JStr ''fixtures/a.md'')])"
    by (rule servers_confined) (simp_all add: sample_files_def sample_spawn_def fixture_root_def git_command_def)
  moreover have "fixture_server (sample_files ''b'') ''test.fixture.read'' (Some [(''path'', JStr ''fixtures/a.md'')]) = Inr (data_result ''note'')"
    by code_simp
  ultimately show ?thesis by simp
qed

text \<open>
  A server does not ask whether the tool called is the one it publishes: the git server runs for a path
  only the fixture tool allows, and the fixture server has no path for a lookup. The allowlist of paths
  admits the parent directory.
\<close>

lemma servers_serve_other_tools:
  "git_server (sample_spawn ''a'') ''test.fixture.read'' (Some [(''path'', JStr ''fixtures/a.md'')]) = Inr (data_result ''diff'')"
  "\<not> fullmatch repository_path_rx ''fixtures/a.md''"
  "fixture_server (sample_files ''a'') ''test.docs.lookup'' (Some [(''query'', JStr ''x'')]) = raise KeyError ''path''"
  by code_simp+

lemma parent_directory_allowed: "fullmatch repository_path_rx ''src/a/../../secret''"
  by code_simp

text \<open>The published schemas name the arguments of the contracts.\<close>

lemma schemas_match_contracts:
  "map (\<lambda>t. (tool_name t, jget (obj_of (tool_schema t)) ''required'', map fst (obj_of (jget (obj_of (tool_schema t)) ''properties'')))) test_tools =
   map (\<lambda>(n, c). (n, JList (map JStr (required c)), allowed c)) contracts"
  by code_simp

end
