(* ===== verification/CardRuns.thy ===== *)
theory CardRuns
  imports Workflows DiagramCards Retry
begin

text \<open>
  The scripts that ask a model for cards (\<open>run_gigachat_diagram_cards.py\<close>,
  \<open>run_gigachat_document_card.py\<close>), the settings of their client (\<open>gigachat/config.py\<close>,
  \<open>gigachat/client.py\<close>) and the scripts of the reviewer. The client of the provider, the PDF library and
  the validation by pydantic are arguments; the client may answer differently each time, so its
  functions get the log of the calls so far. Files under \<open>runtime\<close> and printed lines are left out.
\<close>

subsection \<open>Settings\<close>

definition default_base_url :: string where "default_base_url = ''https://api.giga.chat/v1''"
definition default_scope :: string where "default_scope = ''GIGACHAT_API_PERS''"
definition sdk_default_model :: string where "sdk_default_model = ''GigaChat-2-Pro''"

definition model_rx :: rx where
  "model_rx = RRep (RSet (\<lambda>c. name_char c \<or> c = CHR '':'')) 2 (Some 80)"

record settings =
  set_credentials :: string
  set_scope :: string
  set_model :: string
  set_base_url :: string
  set_timeout :: fval
  set_verify :: bool

text \<open>\<open>os.environ.get\<close> with a default.\<close>

definition environ_or :: "(string \<Rightarrow> string option) \<Rightarrow> string \<Rightarrow> string \<Rightarrow> string" where
  "environ_or env k d = (case env k of None \<Rightarrow> d | Some v \<Rightarrow> v)"

definition from_environment :: "(string \<Rightarrow> string option) \<Rightarrow> settings res" where
  "from_environment env =
     (let credentials = strip (environ_or env ''GIGACHAT_CREDENTIALS'' []); base = strip (environ_or env ''GIGACHAT_BASE_URL'' default_base_url);
          mdl = strip (environ_or env ''GIGACHAT_MODEL'' sdk_default_model); scope = strip (environ_or env ''GIGACHAT_SCOPE'' default_scope) in
      thenR (raise_if (credentials = []) ValueError ''GIGACHAT_CREDENTIALS is required; provide it only through the local environment.'')
      (thenR (raise_if (lower (strip (environ_or env ''GIGACHAT_VERIFY_SSL_CERTS'' ''true'')) \<notin> {''true'', ''1'', ''yes''})
               ValueError ''TLS verification must remain enabled for this integration.'')
      (thenR (raise_if (base \<noteq> default_base_url) ValueError (''Only the approved base URL is allowed: '' @ default_base_url))
      (thenR (raise_if (\<not> fullmatch model_rx mdl) ValueError ''GigaChat model identifier is malformed'')
      (case py_float (environ_or env ''GIGACHAT_TIMEOUT'' ''60'') of
         None \<Rightarrow> raise ValueError ''could not convert string to float''
       | Some t \<Rightarrow> Inr \<lparr>set_credentials = credentials, set_scope = (if scope = [] then default_scope else scope), set_model = mdl,
           set_base_url = base, set_timeout = t, set_verify = True\<rparr>)))))"

text \<open>\<open>GigaChatClientFactory.create\<close>; without a constructor the one of the package is loaded, if it is there.\<close>

definition create_client :: "(settings \<Rightarrow> 'c res) option \<Rightarrow> (settings \<Rightarrow> 'c res) option \<Rightarrow> settings \<Rightarrow> 'c res" where
  "create_client given package st =
     (case given of Some f \<Rightarrow> f st
      | None \<Rightarrow> (case package of Some f \<Rightarrow> f st
                 | None \<Rightarrow> raise RuntimeError ''The gigachat package is not installed. Install project dependencies first.''))"

subsection \<open>Pages as images\<close>

record pdf_library =
  pdf_open :: "string \<Rightarrow> nat res"
  pdf_png :: "string \<Rightarrow> int \<Rightarrow> string res"

definition png_signature :: string where
  "png_signature = map char_of [0x89, 0x50, 0x4E, 0x47, 0x0D, 0x0A, 0x1A, 0x0A :: nat]"

definition max_png_bytes :: nat where "max_png_bytes = 10 * 1024 * 1024"

definition render_page_png :: "pdf_library \<Rightarrow> string \<Rightarrow> int \<Rightarrow> string res" where
  "render_page_png L pdf page =
     thenR (raise_if (\<not> starts_with ''%PDF-'' pdf \<or> \<not> between 1 100 page) DiagramCardError ''diagram PDF input is malformed'')
     (case bindR (pdf_open L pdf) (\<lambda>n.
             thenR (raise_if (int n < page) DiagramCardError ''diagram page exceeds document'') (pdf_png L pdf page)) of
        Inl e \<Rightarrow> if is_a e DiagramCardError then Inl e else raise DiagramCardError ''diagram page rendering failed''
      | Inr png \<Rightarrow>
          thenR (raise_if (\<not> starts_with png_signature png \<or> max_png_bytes < length png) DiagramCardError
                   ''rendered diagram image is outside the limit'')
          (Inr png))"

subsection \<open>The vision call\<close>

datatype vision_event = Uploaded int string | Asked string string | Deleted string | DeleteFailed string

type_synonym vision_log = "vision_event list"

text \<open>The content of an answer is a text or something else.\<close>

record vision_client =
  upload_file :: "string \<Rightarrow> int \<Rightarrow> vision_log \<Rightarrow> string res"
  chat_content :: "string \<Rightarrow> string \<Rightarrow> vision_log \<Rightarrow> string option res"
  delete_file :: "string \<Rightarrow> vision_log \<Rightarrow> unit res"

definition array_fields :: "string list" where
  "array_fields = [''components'', ''connections'', ''feedback_or_control'', ''limitations'']"

text \<open>A text in the place of an array becomes an array of one text.\<close>

definition one_text :: "json \<Rightarrow> json" where
  "one_text v = (case v of JStr t \<Rightarrow> JList [JStr t] | _ \<Rightarrow> v)"

definition as_arrays :: "json \<Rightarrow> json" where
  "as_arrays j = (case j of
     JObj d \<Rightarrow> JObj (map (\<lambda>(k, v). (k, if k \<in> set array_fields then one_text v else v)) d)
   | _ \<Rightarrow> j)"

definition vision_text :: "vision_client \<Rightarrow> (json \<Rightarrow> string res) \<Rightarrow> string \<Rightarrow> string \<Rightarrow> vision_log \<Rightarrow> string res" where
  "vision_text C schema question uploaded lg =
     bindR (chat_content C question uploaded lg) (\<lambda>content. case content of
        None \<Rightarrow> raise RuntimeError ''Vision response does not contain text JSON''
      | Some t \<Rightarrow> bindR (reraise JSONDecodeError RuntimeError ''Vision response is not JSON'' (loads (unfenced t))) (\<lambda>j. schema (as_arrays j)))"

definition vision :: "vision_client \<Rightarrow> (json \<Rightarrow> string res) \<Rightarrow> string \<Rightarrow> string \<Rightarrow> int \<Rightarrow> vision_log \<Rightarrow> string res \<times> vision_log" where
  "vision C schema question png page lg =
     (case upload_file C png page lg of
        Inl e \<Rightarrow> (Inl e, lg)
      | Inr uploaded \<Rightarrow>
          let lg1 = lg @ [Uploaded page uploaded]; r = vision_text C schema question uploaded lg1; lg2 = lg1 @ [Asked question uploaded] in
          case delete_file C uploaded lg2 of
            Inl e \<Rightarrow> (raise RuntimeError ''temporary Vision upload could not be deleted'', lg2 @ [DeleteFailed uploaded])
          | Inr _ \<Rightarrow> (r, lg2 @ [Deleted uploaded]))"

subsection \<open>The diagram script\<close>

record diagram_run =
  run_cards :: "(int \<times> string \<times> diagram_card) list"
  run_failures :: "int list"
  run_log :: vision_log
  run_db :: corpus_db

definition first_occurrences :: "'a list \<Rightarrow> 'a list" where
  "first_occurrences xs = rev (remdups (rev xs))"

text \<open>One page: any exception makes it a failure and leaves the other pages alone.\<close>

definition diagram_page ::
    "ext \<Rightarrow> pdf_library \<Rightarrow> vision_client \<Rightarrow> (json \<Rightarrow> string res) \<Rightarrow> time \<Rightarrow> (int \<Rightarrow> string) \<Rightarrow> document_identity \<Rightarrow> string \<Rightarrow>
     int \<Rightarrow> diagram_run \<Rightarrow> diagram_run" where
  "diagram_page X L C schema now fresh idn pdf page r =
     (case render_page_png L pdf page of
        Inl e \<Rightarrow> r\<lparr>run_failures := run_failures r @ [page]\<rparr>
      | Inr png \<Rightarrow>
          (case vision C schema (build_diagram_prompt (id_title idn) page) png page (run_log r) of (answer, lg) \<Rightarrow>
          (case bindR answer (\<lambda>raw. parse_diagram_card raw (id_source_key idn) (id_document_id idn) (id_document_sha256 idn) page png) of
             Inl e \<Rightarrow> r\<lparr>run_failures := run_failures r @ [page], run_log := lg\<rparr>
           | Inr made \<Rightarrow>
               (case persist_diagram_card X now (fresh page) made (run_db r) of
                  (Inl e, s) \<Rightarrow> r\<lparr>run_failures := run_failures r @ [page], run_log := lg, run_db := s\<rparr>
                | (Inr k, s) \<Rightarrow> r\<lparr>run_cards := run_cards r @ [(page, k, made)], run_log := lg, run_db := s\<rparr>))))"

definition diagram_pages ::
    "ext \<Rightarrow> pdf_library \<Rightarrow> vision_client \<Rightarrow> (json \<Rightarrow> string res) \<Rightarrow> time \<Rightarrow> (int \<Rightarrow> string) \<Rightarrow> document_identity \<Rightarrow> string \<Rightarrow>
     int list \<Rightarrow> diagram_run \<Rightarrow> diagram_run" where
  "diagram_pages X L C schema now fresh idn pdf pages r = foldl (\<lambda>r page. diagram_page X L C schema now fresh idn pdf page r) r pages"

text \<open>The checks before the client is made: the document, its bytes and the pages.\<close>

definition diagram_input ::
    "ext \<Rightarrow> pdf_reader \<Rightarrow> pdf_transport \<Rightarrow> string \<Rightarrow> string \<Rightarrow> string \<Rightarrow> int list \<Rightarrow> int \<Rightarrow> corpus_db \<Rightarrow>
     (document_identity \<times> string \<times> int list) res" where
  "diagram_input X reader tr key did aid pages maximum s =
     bindR (load_document_identity X key did s) (\<lambda>idn.
     bindR (make_pdf_request \<lparr>pr_source_key = id_source_key idn, pr_arxiv_id = aid, pr_license_id = id_license_id idn\<rparr>) (\<lambda>q.
     thenR (raise_if (id_provider idn \<noteq> ''arxiv'' \<or> id_document_url idn \<noteq> pdf_url q) RuntimeError
              ''diagram route requires the exact verified arXiv document'')
     (bindR (tr (pdf_url q)) (\<lambda>resp.
     thenR (raise_if (\<not> starts_with ''%PDF-'' (pdf_payload resp) \<or> sha256_bytes (pdf_payload resp) \<noteq> id_document_sha256 idn) RuntimeError
              ''PDF does not match document receipt'')
     (bindR (bindR (reader (pdf_payload resp)) (mapR (\<lambda>p. p))) (\<lambda>texts.
     thenR (raise_if (int (length texts) \<noteq> id_page_count idn) RuntimeError ''PDF page count does not match document receipt'')
     (bindR (if pages \<noteq> [] then Inr pages else bindR (candidate_diagram_pages texts maximum) (\<lambda>ps. Inr (map int ps))) (\<lambda>ps.
     thenR (raise_if (ps = [] \<or> 12 < length ps \<or> list_ex (\<lambda>p. \<not> between 1 (int (length texts)) p) ps) RuntimeError
              ''diagram page selection is outside the limit'')
     (Inr (idn, pdf_payload resp, ps))))))))))"

definition diagram_script ::
    "ext \<Rightarrow> pdf_library \<Rightarrow> pdf_reader \<Rightarrow> pdf_transport \<Rightarrow> (string \<Rightarrow> string option) \<Rightarrow> (settings \<Rightarrow> vision_client res) option \<Rightarrow> (json \<Rightarrow> string res) \<Rightarrow>
     time \<Rightarrow> (int \<Rightarrow> string) \<Rightarrow> string \<Rightarrow> string \<Rightarrow> string \<Rightarrow> int list \<Rightarrow> int \<Rightarrow> corpus_db \<Rightarrow> diagram_run res" where
  "diagram_script X L reader tr env package schema now fresh key did aid pages maximum s =
     bindR (diagram_input X reader tr key did aid pages maximum s) (\<lambda>(idn, pdf, ps).
     bindR (from_environment env) (\<lambda>st.
     bindR (create_client None package st) (\<lambda>C.
     Inr (diagram_pages X L C schema now fresh idn pdf (first_occurrences ps) \<lparr>run_cards = [], run_failures = [], run_log = [], run_db = s\<rparr>))))"

text \<open>How the script ends.\<close>

definition diagram_outcome :: "diagram_run res \<Rightarrow> (int \<times> string \<times> diagram_card) list res" where
  "diagram_outcome r = bindR r (\<lambda>run. thenR (raise_if (run_cards run = []) RuntimeError ''no diagram cards could be created'') (Inr (run_cards run)))"

subsection \<open>The document card script\<close>

datatype ask_event = Prompted string | Paused nat

type_synonym ask_log = "ask_event list"

text \<open>One structured answer; \<open>'e\<close> is an exception of the client and \<open>kind_of\<close> its class.\<close>

definition ask ::
    "(string \<Rightarrow> bool \<Rightarrow> ask_log \<Rightarrow> 'e + 'a) \<Rightarrow> ('e \<Rightarrow> string) \<Rightarrow> ('a \<Rightarrow> string res) \<Rightarrow> string \<Rightarrow> bool \<Rightarrow> int \<Rightarrow> ask_log \<Rightarrow> string res \<times> ask_log" where
  "ask parse kind_of dump question card_format retries lg =
     (case bounded_gigachat_call (\<lambda>l. (parse question card_format l, l @ [Prompted question])) (\<lambda>d l. l @ [Paused d]) kind_of retries lg of
        (Returned x, l) \<Rightarrow> (case dump x of
             Inl e \<Rightarrow> raise RuntimeError ''GigaChat structured document-card request failed''
           | Inr t \<Rightarrow> Inr t, l)
      | (Reraised e, l) \<Rightarrow> (raise RuntimeError ''GigaChat structured document-card request failed'', l)
      | (Raised e, l) \<Rightarrow> (if is_a e GigaChatRetryError then Inl e else raise RuntimeError ''GigaChat structured document-card request failed'', l))"

fun window_notes ::
    "(string \<Rightarrow> bool \<Rightarrow> ask_log \<Rightarrow> 'e + 'a) \<Rightarrow> ('e \<Rightarrow> string) \<Rightarrow> ('a \<Rightarrow> string res) \<Rightarrow> string \<Rightarrow> int \<Rightarrow> page_window list \<Rightarrow> ask_log \<Rightarrow>
     window_note list res \<times> ask_log" where
  "window_notes parse kind_of dump ttl retries [] lg = (Inr [], lg)"
| "window_notes parse kind_of dump ttl retries (w # ws) lg =
     and_then (ask parse kind_of dump (build_window_prompt ttl w) False retries lg) (\<lambda>raw lg.
     and_then (parse_window_note raw w, lg) (\<lambda>n lg.
     and_then (window_notes parse kind_of dump ttl retries ws lg) (\<lambda>ns lg. (Inr (n # ns), lg))))"

definition card_of_windows ::
    "(string \<Rightarrow> bool \<Rightarrow> ask_log \<Rightarrow> 'e + 'a) \<Rightarrow> ('e \<Rightarrow> string) \<Rightarrow> ('a \<Rightarrow> string res) \<Rightarrow> document_identity \<Rightarrow> int \<Rightarrow> page_window list \<Rightarrow> ask_log \<Rightarrow>
     document_card res \<times> ask_log" where
  "card_of_windows parse kind_of dump idn retries ws lg =
     and_then (window_notes parse kind_of dump (id_title idn) retries ws lg) (\<lambda>notes lg.
     and_then (ask parse kind_of dump (build_card_prompt (id_title idn) (id_page_count idn) notes) True retries lg) (\<lambda>raw lg.
     (parse_document_card raw (id_source_key idn) (id_document_id idn) (id_document_sha256 idn) (id_page_count idn), lg)))"

text \<open>
  \<open>extract\<close> stands for the function the script imports, which \<open>fulltext_verification.py\<close> does not
  define. The digest and the page count of its receipt are those of the identity from here on.
\<close>

definition card_input ::
    "ext \<Rightarrow> (pdf_request \<Rightarrow> (fulltext_receipt \<times> string list) res) \<Rightarrow> string \<Rightarrow> string \<Rightarrow> string \<Rightarrow> int \<Rightarrow> corpus_db \<Rightarrow>
     (document_identity \<times> page_window list) res" where
  "card_input X extract key did aid per s =
     bindR (load_document_identity X key did s) (\<lambda>idn.
     thenR (raise_if (id_provider idn \<noteq> ''arxiv'') RuntimeError ''document-card route currently accepts only verified arXiv documents'')
     (bindR (make_pdf_request \<lparr>pr_source_key = id_source_key idn, pr_arxiv_id = aid, pr_license_id = id_license_id idn\<rparr>) (\<lambda>q.
     thenR (raise_if (pdf_url q \<noteq> id_document_url idn) RuntimeError ''arXiv identifier does not match the stored document receipt'')
     (bindR (extract q) (\<lambda>(receipt, texts).
     thenR (raise_if (ft_sha256 receipt \<noteq> id_document_sha256 idn \<or> ft_page_count receipt \<noteq> id_page_count idn) RuntimeError
              ''retrieved PDF does not match the stored document receipt'')
     (bindR (plan_page_windows texts per) (\<lambda>ws. Inr (idn, ws))))))))"

definition card_script ::
    "ext \<Rightarrow> (pdf_request \<Rightarrow> (fulltext_receipt \<times> string list) res) \<Rightarrow> (string \<Rightarrow> string option) \<Rightarrow>
     (settings \<Rightarrow> (string \<Rightarrow> bool \<Rightarrow> ask_log \<Rightarrow> 'e + 'a) res) option \<Rightarrow> ('e \<Rightarrow> string) \<Rightarrow> ('a \<Rightarrow> string res) \<Rightarrow>
     time \<Rightarrow> string \<Rightarrow> string \<Rightarrow> string \<Rightarrow> string \<Rightarrow> int \<Rightarrow> int \<Rightarrow> bool \<Rightarrow> ask_log \<times> corpus_db \<Rightarrow> document_card res \<times> ask_log \<times> corpus_db" where
  "card_script X extract env package kind_of dump now fresh key did aid per retries persist =
     (\<lambda>(lg, s).
     case bindR (card_input X extract key did aid per s) (\<lambda>(idn, ws).
            bindR (from_environment env) (\<lambda>st. bindR (create_client None package st) (\<lambda>parse. Inr (idn, ws, parse)))) of
       Inl e \<Rightarrow> (Inl e, lg, s)
     | Inr (idn, ws, parse) \<Rightarrow>
         (case card_of_windows parse kind_of dump idn retries ws lg of
            (Inl e, lg) \<Rightarrow> (Inl e, lg, s)
          | (Inr made, lg) \<Rightarrow>
              if \<not> persist then (Inr made, lg, s)
              else (case persist_document_card X now fresh made s of
                      (Inl e, s) \<Rightarrow> (Inl e, lg, s)
                    | (Inr k, s) \<Rightarrow> (Inr made, lg, s))))"

text \<open>What the handler around \<open>main\<close> turns into an exit of the process.\<close>

definition exits_with_message :: "exn \<Rightarrow> bool" where
  "exits_with_message e \<longleftrightarrow> is_a e GigaChatRetryError \<or> is_a e RuntimeError \<or> is_a e ValueError"

subsection \<open>The reviewer\<close>

definition review_choice :: "string \<Rightarrow> unit res" where
  "review_choice decision = choice decision [''reviewed'', ''rejected'']"

definition review_card_script :: "ext \<Rightarrow> time \<Rightarrow> string \<Rightarrow> string \<Rightarrow> corpus_db \<Rightarrow> string res \<times> corpus_db" where
  "review_card_script X now card_id decision s =
     and_then (review_choice decision, s) (\<lambda>_ s. review_document_card X now card_id decision s)"

definition review_diagram_script :: "ext \<Rightarrow> time \<Rightarrow> string \<Rightarrow> string \<Rightarrow> corpus_db \<Rightarrow> string res \<times> corpus_db" where
  "review_diagram_script X now card_id decision s =
     and_then (choice decision [''reviewed'', ''rejected''], s) (\<lambda>_ s. review_diagram_card X now card_id decision s)"

text \<open>The packet is written only below \<open>runtime\<close>; paths are lists of parts, already resolved.\<close>

definition packet_script :: "string list \<Rightarrow> string list \<Rightarrow> int \<Rightarrow> corpus_db \<Rightarrow> (string list \<times> string) res" where
  "packet_script runtime output n s =
     bindR (render_reviewed_card_packet n s) (\<lambda>packet.
     thenR (raise_if (\<not> (take (length runtime) output = runtime \<and> length runtime < length output)) RuntimeError
              ''card packet output must stay under the ignored runtime directory'')
     (Inr (output, packet)))"

end
