(* ===== verification/CardRunProps.thy ===== *)
theory CardRunProps
  imports CardRuns "HOL-Library.Sublist"
begin

text \<open>
  Properties of the scripts that ask a model: every temporary upload is followed by its deletion and a
  diagram is stored only when that succeeded; the calls and pauses of a document card are bounded and
  the card stands on a stored receipt.
\<close>

subsection \<open>Uploads\<close>

text \<open>A log in which every upload is followed by one question and one attempt to delete it.\<close>

fun cleaned :: "vision_log \<Rightarrow> bool" where
  "cleaned [] \<longleftrightarrow> True"
| "cleaned (Uploaded p u # Asked q v # Deleted w # l) \<longleftrightarrow> u = v \<and> u = w \<and> cleaned l"
| "cleaned (Uploaded p u # Asked q v # DeleteFailed w # l) \<longleftrightarrow> u = v \<and> u = w \<and> cleaned l"
| "cleaned (_ # l) \<longleftrightarrow> False"

fun uploaded_pages :: "vision_log \<Rightarrow> int list" where
  "uploaded_pages [] = []"
| "uploaded_pages (Uploaded p u # l) = p # uploaded_pages l"
| "uploaded_pages (_ # l) = uploaded_pages l"

text \<open>The pages whose upload was deleted.\<close>

fun deleted_pages :: "vision_log \<Rightarrow> int list" where
  "deleted_pages (Uploaded p u # Asked q v # Deleted w # l) = p # deleted_pages l"
| "deleted_pages (_ # l) = deleted_pages l"
| "deleted_pages [] = []"

lemma cleaned_append: "cleaned l \<Longrightarrow> cleaned (l @ m) \<longleftrightarrow> cleaned m"
  by (induction l rule: cleaned.induct) auto

lemma uploaded_append [simp]: "uploaded_pages (l @ m) = uploaded_pages l @ uploaded_pages m"
  by (induction l rule: uploaded_pages.induct) auto

lemma deleted_append: "cleaned l \<Longrightarrow> deleted_pages (l @ m) = deleted_pages l @ deleted_pages m"
  by (induction l rule: cleaned.induct) auto

lemma distinct_subseq: "subseq xs ys \<Longrightarrow> distinct ys \<Longrightarrow> distinct xs"
  by (induction rule: list_emb.induct) (auto dest: list_emb_set)

text \<open>What one vision call adds to the log.\<close>

lemma vision_log_cases:
  assumes "vision C schema q png page lg = (r, lg')"
  obtains (failed) e where "r = Inl e" "lg' = lg"
  | (kept) e u where "r = Inl e" "lg' = lg @ [Uploaded page u, Asked q u, DeleteFailed u]"
  | (gone) u where "lg' = lg @ [Uploaded page u, Asked q u, Deleted u]"
  using assms by (cases "upload_file C png page lg") (simp_all add: vision_def Let_def split: sum.splits, metis+)

text \<open>What holds of a run between two pages; \<open>done_pages\<close> are the pages behind it.\<close>

definition clean_run :: "document_identity \<Rightarrow> int list \<Rightarrow> diagram_run \<Rightarrow> bool" where
  "clean_run idn done_pages r \<longleftrightarrow> cleaned (run_log r) \<and> subseq (uploaded_pages (run_log r)) done_pages \<and>
     set (map fst (run_cards r)) \<subseteq> set (deleted_pages (run_log r)) \<and>
     set (map fst (run_cards r)) \<union> set (run_failures r) = set done_pages \<and>
     (distinct done_pages \<longrightarrow> set (map fst (run_cards r)) \<inter> set (run_failures r) = {}) \<and>
     list_all (\<lambda>(p, k, c). dc_page_number c = p \<and> dc_source_key c = id_source_key idn \<and> dc_document_sha256 c = id_document_sha256 idn \<and>
       dc_reviewer_status c = ''needs_review'') (run_cards r)"

lemma make_diagram_same: "make_diagram c = Inr d \<Longrightarrow> d = c"
  by (auto simp: make_diagram_def bindR_Inr_iff)

lemma parsed_diagram_identity:
  assumes "parse_diagram_card raw key did digest page png = Inr c"
  shows "dc_page_number c = page \<and> dc_source_key c = key \<and> dc_document_sha256 c = digest \<and> dc_reviewer_status c = ''needs_review''"
proof -
  obtain j where j: "loads (unfenced raw) = Inr j"
    using assms by (cases "loads (unfenced raw)") (simp_all add: parse_diagram_card_def reraise_def split: if_splits)
  then obtain d where d: "j = JObj d" using assms by (cases j) (simp_all add: parse_diagram_card_def reraise_def)
  have m: "bindR (diagram_text d ''diagram_kind'') (\<lambda>k. bindR (diagram_text d ''summary'') (\<lambda>s.
         bindR (diagram_values d ''components'' 16) (\<lambda>co. bindR (diagram_values d ''connections'' 24) (\<lambda>cn.
         bindR (diagram_values d ''feedback_or_control'' 12) (\<lambda>fb. bindR (diagram_values d ''limitations'' 12) (\<lambda>li.
         make_diagram \<lparr>dc_source_key = key, dc_document_id = did, dc_document_sha256 = digest, dc_page_number = page,
           image_sha256 = sha256_bytes png, diagram_kind = k, dc_summary = s, components = co, connections = cn,
           feedback_or_control = fb, dc_limitations = li, dc_reviewer_status = ''needs_review'', dc_card_version = ''diagram-card-v1''\<rparr>)))))) = Inr c"
    using assms by (simp add: parse_diagram_card_def reraise_def j d raise_if_def split: if_splits)
  obtain k s co cn fb li where "make_diagram \<lparr>dc_source_key = key, dc_document_id = did, dc_document_sha256 = digest, dc_page_number = page,
           image_sha256 = sha256_bytes png, diagram_kind = k, dc_summary = s, components = co, connections = cn,
           feedback_or_control = fb, dc_limitations = li, dc_reviewer_status = ''needs_review'', dc_card_version = ''diagram-card-v1''\<rparr> = Inr c"
    using m unfolding bindR_Inr_iff by blast
  from make_diagram_same [OF this] show ?thesis by simp
qed

text \<open>One page keeps it.\<close>

lemma page_keeps_clean:
  assumes "clean_run idn d r"
  shows "clean_run idn (d @ [page]) (diagram_page X L C schema now fresh idn pdf page r)"
proof -
  note c = assms [unfolded clean_run_def]
  have fail: "clean_run idn (d @ [page]) r'" if "run_cards r' = run_cards r" "run_failures r' = run_failures r @ [page]"
    "run_log r' = run_log r \<or> (\<exists>l. run_log r' = run_log r @ l \<and> cleaned l \<and> uploaded_pages l = [page])" for r' :: diagram_run
    using that c by (auto simp: clean_run_def cleaned_append deleted_append intro: list_emb_append_mono)
  show ?thesis
  proof (cases "render_page_png L pdf page")
    case (Inl e)
    show ?thesis unfolding diagram_page_def Inl sum.case by (rule fail) simp_all
  next
    case (Inr png)
    obtain answer lg where v: "vision C schema (build_diagram_prompt (id_title idn) page) png page (run_log r) = (answer, lg)" by fastforce
    have logs: "lg = run_log r \<or> (\<exists>l. lg = run_log r @ l \<and> cleaned l \<and> uploaded_pages l = [page])"
      by (rule vision_log_cases [OF v]) auto
    show ?thesis
    proof (cases "bindR answer (\<lambda>raw. parse_diagram_card raw (id_source_key idn) (id_document_id idn) (id_document_sha256 idn) page png)")
      case Inl2: (Inl e)
      show ?thesis unfolding diagram_page_def Inr v sum.case prod.case Inl2 by (rule fail) (use logs in simp_all)
    next
      case made: (Inr made)
      obtain raw where raw: "answer = Inr raw"
        "parse_diagram_card raw (id_source_key idn) (id_document_id idn) (id_document_sha256 idn) page png = Inr made"
        using made unfolding bindR_Inr_iff by blast
      obtain res s where p: "persist_diagram_card X now (fresh page) made (run_db r) = (res, s)" by fastforce
      show ?thesis
      proof (cases res)
        case Inl3: (Inl e)
        show ?thesis unfolding diagram_page_def Inr v sum.case prod.case made p Inl3 by (rule fail) (use logs in simp_all)
      next
        case k: (Inr k)
        obtain u where u: "lg = run_log r @ [Uploaded page u, Asked (build_diagram_prompt (id_title idn) page) u, Deleted u]"
          by (rule vision_log_cases [OF v]) (use raw(1) in auto)
        show ?thesis unfolding diagram_page_def Inr v sum.case prod.case made p k
          using c parsed_diagram_identity [OF raw(2)] unfolding u
          by (auto simp: clean_run_def cleaned_append deleted_append intro: list_emb_append_mono)
      qed
    qed
  qed
qed

lemma pages_keep_clean:
  "clean_run idn d r \<Longrightarrow> clean_run idn (d @ ps) (diagram_pages X L C schema now fresh idn pdf ps r)"
proof (induction ps arbitrary: d r)
  case Nil
  then show ?case by (simp add: diagram_pages_def)
next
  case (Cons p ps)
  then show ?case using page_keeps_clean [of idn d r p X L C schema now fresh pdf] Cons.IH [of "d @ [p]"]
    by (simp add: diagram_pages_def)
qed

lemma first_occurrences_simps: "distinct (first_occurrences xs)" "set (first_occurrences xs) = set xs" "length (first_occurrences xs) \<le> length xs"
  by (simp_all add: first_occurrences_def) (metis length_remdups_leq length_rev)

text \<open>
  C37: The diagram script: whatever the provider answers, every upload is followed by its question and by
  one attempt to delete it; there are at most twelve uploads, of different pages; a card is kept only
  for a page whose upload was deleted, carries that page and the digest of the stored document and
  waits for review; and the pages with a card and the failed pages are different pages.
\<close>

theorem vision_uploads_cleaned:
  "case diagram_script X L reader tr env package schema now fresh key did aid pages maximum s of
     Inl e \<Rightarrow> True
   | Inr run \<Rightarrow> cleaned (run_log run) \<and> distinct (uploaded_pages (run_log run)) \<and> length (uploaded_pages (run_log run)) \<le> 12 \<and>
       set (map fst (run_cards run)) \<subseteq> set (deleted_pages (run_log run)) \<and>
       set (map fst (run_cards run)) \<inter> set (run_failures run) = {} \<and>
       list_all (\<lambda>(p, k, c). dc_page_number c = p \<and> dc_reviewer_status c = ''needs_review'' \<and>
         list_ex (\<lambda>(_, d). ft_source_key (do_receipt d) = dc_source_key c \<and> ft_sha256 (do_receipt d) = dc_document_sha256 c) (cd_documents s)) (run_cards run)"
proof (cases "diagram_script X L reader tr env package schema now fresh key did aid pages maximum s")
  case (Inr run)
  then obtain idn pdf ps C where i: "diagram_input X reader tr key did aid pages maximum s = Inr (idn, pdf, ps)"
    and run: "run = diagram_pages X L C schema now fresh idn pdf (first_occurrences ps) \<lparr>run_cards = [], run_failures = [], run_log = [], run_db = s\<rparr>"
    by (auto simp: diagram_script_def bindR_Inr_iff)
  have ps: "length ps \<le> 12" and idn: "load_document_identity X key did s = Inr idn"
    using i by (auto simp: diagram_input_def bindR_Inr_iff res_simps)
  have "clean_run idn ([] @ first_occurrences ps) run" unfolding run by (rule pages_keep_clean) (simp add: clean_run_def)
  then have c: "clean_run idn (first_occurrences ps) run" by simp
  then have sub: "subseq (uploaded_pages (run_log run)) (first_occurrences ps)" by (simp add: clean_run_def)
  have "length (uploaded_pages (run_log run)) \<le> 12" "distinct (uploaded_pages (run_log run))"
    using list_emb_length [OF sub] first_occurrences_simps [of ps] ps distinct_subseq [OF sub] by auto
  moreover have "list_ex (\<lambda>(_, d). ft_source_key (do_receipt d) = id_source_key idn \<and> ft_sha256 (do_receipt d) = id_document_sha256 idn) (cd_documents s)"
    using idn by (auto simp: load_document_identity_def document_at_def list_ex_iff split: sum.splits option.splits if_splits dest!: map_of_SomeD) fastforce+
  ultimately show ?thesis using c first_occurrences_simps [of ps] unfolding Inr sum.case clean_run_def list_all_iff by fastforce
qed simp

text \<open>A provider that answers, and one that cannot delete: then the answer is lost too.\<close>

definition sample_vision :: "unit res \<Rightarrow> vision_client" where
  "sample_vision d = \<lparr>upload_file = (\<lambda>_ _ _. Inr ''file''), chat_content = (\<lambda>_ _ _. Inr (Some ''{}'')), delete_file = (\<lambda>_ _. d)\<rparr>"

lemma sample_vision_calls:
  "vision (sample_vision (Inr ())) (\<lambda>_. Inr ''{}'') ''q'' ''png'' 3 [] = (Inr ''{}'', [Uploaded 3 ''file'', Asked ''q'' ''file'', Deleted ''file''])"
  "vision (sample_vision (raise OSError ''down'')) (\<lambda>_. Inr ''{}'') ''q'' ''png'' 3 [] =
     (raise RuntimeError ''temporary Vision upload could not be deleted'', [Uploaded 3 ''file'', Asked ''q'' ''file'', DeleteFailed ''file''])"
  by code_simp+

text \<open>Settings read from an environment name the approved server and keep TLS verification on.\<close>

lemma settings_approved:
  "from_environment env = Inr st \<Longrightarrow> set_base_url st = default_base_url \<and> set_verify st \<and> set_credentials st \<noteq> [] \<and> set_scope st \<noteq> [] \<and>
     fullmatch model_rx (set_model st)"
  by (auto simp: from_environment_def Let_def bindR_Inr_iff res_simps default_scope_def simp del: fullmatch.simps split: option.splits if_splits)

subsection \<open>Document cards\<close>

fun questions :: "ask_log \<Rightarrow> string list" where
  "questions [] = []"
| "questions (Prompted q # l) = q # questions l"
| "questions (Paused n # l) = questions l"

fun paused :: "ask_log \<Rightarrow> nat" where
  "paused [] = 0"
| "paused (Prompted q # l) = paused l"
| "paused (Paused n # l) = n + paused l"

lemma questions_append [simp]: "questions (l @ m) = questions l @ questions m"
  by (induction l rule: questions.induct) auto

lemma paused_append [simp]: "paused (l @ m) = paused l + paused m"
  by (induction l rule: paused.induct) auto

text \<open>What a function may add to the log: so many questions and seconds.\<close>

definition adds :: "nat \<Rightarrow> nat \<Rightarrow> ask_log \<Rightarrow> ask_log \<Rightarrow> bool" where
  "adds n d lg lg' \<longleftrightarrow> (\<exists>new. lg' = lg @ new \<and> length (questions new) \<le> n \<and> paused new \<le> d)"

lemma adds_trans: "adds n d l1 l2 \<Longrightarrow> adds m e l2 l3 \<Longrightarrow> adds (n + m) (d + e) l1 l3"
  unfolding adds_def by (metis add_mono append.assoc length_append paused_append questions_append)

lemma adds_refl: "adds n d l l"
  by (simp add: adds_def)

lemma adds_mono: "adds n d l l' \<Longrightarrow> n \<le> m \<Longrightarrow> d \<le> e \<Longrightarrow> adds m e l l'"
  unfolding adds_def by (metis le_trans)

definition pause_of :: "nat \<Rightarrow> nat \<Rightarrow> nat" where
  "pause_of m attempt = (if attempt = m then 0 else 2 ^ (attempt + 1))"

lemma loop_adds:
  "adds (length tries) (sum_list (map (pause_of m) tries)) lg
     (snd (bounded_loop (\<lambda>l. (parse q f l, l @ [Prompted q])) (\<lambda>d l. l @ [Paused d]) kind_of m tries lg))"
proof (induction tries arbitrary: lg)
  case Nil
  then show ?case by (simp add: adds_refl)
next
  case (Cons a as)
  have one: "adds (Suc n) d lg (lg @ [Prompted q])" for n d by (simp add: adds_def)
  have two: "adds 1 (2 * 2 ^ a) lg (lg @ [Prompted q, Paused (2 * 2 ^ a)])" by (simp add: adds_def)
  have "adds (1 + length as) (2 * 2 ^ a + sum_list (map (pause_of m) as)) lg
     (snd (bounded_loop (\<lambda>l. (parse q f l, l @ [Prompted q])) (\<lambda>d l. l @ [Paused d]) kind_of m as (lg @ [Prompted q, Paused (2 * 2 ^ a)])))"
    using Cons.IH [of "lg @ [Prompted q, Paused (2 * 2 ^ a)]"] by (rule adds_trans [OF two])
  then show ?case using one by (simp add: pause_of_def [of m a] split: sum.split)
qed

lemma call_adds:
  "adds 3 6 lg (snd (bounded_gigachat_call (\<lambda>l. (parse q f l, l @ [Prompted q])) (\<lambda>d l. l @ [Paused d]) kind_of retries lg))"
proof (cases "0 \<le> retries \<and> retries \<le> 2")
  case True
  then have "nat retries = 0 \<or> nat retries = 1 \<or> nat retries = 2" by auto
  then have "length [0..<nat retries + 1] \<le> 3 \<and> sum_list (map (pause_of (nat retries)) [0..<nat retries + 1]) \<le> 6"
    by (elim disjE) (simp_all add: pause_of_def upt_rec)
  then have "adds 3 6 lg (snd (bounded_loop (\<lambda>l. (parse q f l, l @ [Prompted q])) (\<lambda>d l. l @ [Paused d]) kind_of (nat retries) [0..<nat retries + 1] lg))"
    by (intro adds_mono [OF loop_adds]) (erule conjunct1, erule conjunct2)
  moreover have "\<not> (retries < 0 \<or> 2 < retries)" using True by auto
  ultimately show ?thesis unfolding bounded_gigachat_call_def by (simp only: if_False)
qed (auto simp: bounded_gigachat_call_def adds_refl)

lemma ask_adds: "adds 3 6 lg (snd (ask parse kind_of dump q f retries lg))"
  using call_adds [of lg parse q f kind_of retries] by (auto simp: ask_def split: prod.split ended.split)

lemma and_then_adds:
  assumes "adds n d lg (snd r)" "\<And>x l. r = (Inr x, l) \<Longrightarrow> adds m e l (snd (g x l))"
  shows "adds (n + m) (d + e) lg (snd (and_then r g))"
proof (cases r)
  case (Pair x l)
  show ?thesis
  proof (cases x)
    case (Inl err)
    then show ?thesis using assms(1) adds_mono [of n d lg l "n + m" "d + e"] by (simp add: and_then_def Pair)
  next
    case (Inr y)
    then show ?thesis using adds_trans [OF assms(1) assms(2)] by (simp add: and_then_def Pair)
  qed
qed

lemma notes_add: "adds (3 * length ws) (6 * length ws) lg (snd (window_notes parse kind_of dump ttl retries ws lg))"
proof (induction ws arbitrary: lg)
  case Nil
  then show ?case by (simp add: adds_refl)
next
  case (Cons w ws)
  have "adds (3 + (0 + (3 * length ws + 0))) (6 + (0 + (6 * length ws + 0))) lg (snd (window_notes parse kind_of dump ttl retries (w # ws) lg))"
    unfolding window_notes.simps
    by (intro and_then_adds ask_adds) (simp_all add: adds_refl Cons.IH)
  then show ?case by simp
qed

lemma card_adds: "adds (3 * length ws + 3) (6 * length ws + 6) lg (snd (card_of_windows parse kind_of dump idn retries ws lg))"
proof -
  have "adds (3 * length ws + (3 + 0)) (6 * length ws + (6 + 0)) lg (snd (card_of_windows parse kind_of dump idn retries ws lg))"
    unfolding card_of_windows_def by (intro and_then_adds notes_add ask_adds) (simp add: adds_refl)
  then show ?thesis by simp
qed

lemma windows_at_most: "plan_page_windows texts per = Inr ws \<Longrightarrow> length ws \<le> 50"
  by (auto simp: plan_page_windows_def bindR_Inr_iff res_simps max_windows_def Let_def)

lemma make_card_same: "make_card c = Inr d \<Longrightarrow> d = c"
  by (auto simp: make_card_def bindR_Inr_iff)

lemma parsed_card_identity:
  assumes "parse_document_card raw key did digest n = Inr c"
  shows "card_source_key c = key \<and> card_document_sha256 c = digest \<and> card_reviewer_status c = ''needs_review''"
proof -
  obtain v where v: "strict_json raw card_keys = Inr v"
    using assms unfolding parse_document_card_def bindR_Inr_iff by blast
  moreover obtain fs where "jget v ''findings'' = JList fs"
    using assms v by (cases "jget v ''findings''") (simp_all add: parse_document_card_def)
  ultimately show ?thesis using assms
    by (simp add: parse_document_card_def bindR_Inr_iff) (elim exE conjE, drule make_card_same, simp)
qed

lemma store_card_documents: "store_card X now fresh c s = Inr (k, s') \<Longrightarrow> cd_documents s' = cd_documents s"
  by (auto simp: store_card_def bindR_Inr_iff)

lemma persist_card_documents: "cd_documents (snd (persist_document_card X now fresh c s)) = cd_documents s"
  unfolding persist_document_card_def
  by (rule transact_keeps [where P = "\<lambda>s'. cd_documents s' = cd_documents s"]) (auto dest: store_card_documents)

lemma identity_stored:
  "load_document_identity X key did s = Inr idn \<Longrightarrow>
   list_ex (\<lambda>(_, d). ft_source_key (do_receipt d) = id_source_key idn \<and> ft_sha256 (do_receipt d) = id_document_sha256 idn \<and>
     ft_provider (do_receipt d) = id_provider idn) (cd_documents s)"
  by (auto simp: load_document_identity_def document_at_def list_ex_iff split: sum.splits option.splits if_splits dest!: map_of_SomeD) fastforce+

text \<open>
  C38: The document card script, with whatever stands for the reader it imports and whatever the provider
  answers: at most 153 calls and 306 seconds of pauses; a card it ends with waits for review and
  belongs to a stored arXiv document with its digest; no document receipt changes.
\<close>

theorem card_route_bounded:
  "case card_script X extract env package kind_of dump now fresh key did aid per retries persist ([], s) of (r, lg, s') \<Rightarrow>
     length (questions lg) \<le> 153 \<and> paused lg \<le> 306 \<and> cd_documents s' = cd_documents s \<and>
     (case r of Inl e \<Rightarrow> True
      | Inr c \<Rightarrow> card_reviewer_status c = ''needs_review'' \<and>
          list_ex (\<lambda>(_, d). ft_source_key (do_receipt d) = card_source_key c \<and> ft_sha256 (do_receipt d) = card_document_sha256 c \<and>
            ft_provider (do_receipt d) = ''arxiv'') (cd_documents s))"
proof (cases "bindR (card_input X extract key did aid per s) (\<lambda>(idn, ws).
            bindR (from_environment env) (\<lambda>st. bindR (create_client None package st) (\<lambda>parse. Inr (idn, ws, parse))))")
  case (Inl e)
  show ?thesis unfolding card_script_def prod.case Inl sum.case by simp
next
  case (Inr t)
  then obtain idn ws parse where t: "t = (idn, ws, parse)" and i: "card_input X extract key did aid per s = Inr (idn, ws)"
    by (auto simp: bindR_Inr_iff)
  have idn: "load_document_identity X key did s = Inr idn" "id_provider idn = ''arxiv''" and ws: "length ws \<le> 50"
    using i by (auto simp: card_input_def bindR_Inr_iff res_simps dest: windows_at_most)
  obtain r lg where c: "card_of_windows parse kind_of dump idn retries ws [] = (r, lg)" by fastforce
  have "adds (3 * length ws + 3) (6 * length ws + 6) [] lg"
    using card_adds [of ws "[]" parse kind_of dump idn retries] by (simp only: c snd_conv)
  then have "adds 153 306 [] lg" by (rule adds_mono) (use ws in linarith)+
  then have bounds: "length (questions lg) \<le> 153" "paused lg \<le> 306" by (auto simp: adds_def)
  have made: "card_reviewer_status d = ''needs_review'' \<and> list_ex (\<lambda>(_, w). ft_source_key (do_receipt w) = card_source_key d \<and>
      ft_sha256 (do_receipt w) = card_document_sha256 d \<and> ft_provider (do_receipt w) = ''arxiv'') (cd_documents s)" if rd: "r = Inr d" for d
  proof -
    obtain raw where "parse_document_card raw (id_source_key idn) (id_document_id idn) (id_document_sha256 idn) (id_page_count idn) = Inr d"
      using c rd by (auto simp: card_of_windows_def and_then_def split: prod.splits sum.splits)
    from parsed_card_identity [OF this] show ?thesis using identity_stored [OF idn(1)] idn(2) by simp
  qed
  show ?thesis
  proof (cases r)
    case (Inl e)
    show ?thesis unfolding card_script_def prod.case Inr sum.case t c Inl using bounds by simp
  next
    case d: (Inr d)
    obtain res s' where p: "persist_document_card X now fresh d s = (res, s')" by fastforce
    have s': "cd_documents s' = cd_documents s" using persist_card_documents [of X now fresh d s] unfolding p by simp
    show ?thesis unfolding card_script_def prod.case Inr sum.case t c d p using bounds made [OF d] s'
      by (cases persist; cases res) simp_all
  qed
qed

end
