(* ===== verification/ModelProbe.thy ===== *)
theory ModelProbe
  imports Worker
begin

text \<open>
  The probe of the provider's models (\<open>orchestrator/probe_models.py\<close>): one minimal task per model is
  pushed to the task list, the rows are polled until all are final or the time is over, and a report
  with an exit code is made. The two Russian texts, the clock and the table at each poll are arguments.
\<close>

definition chat_models :: "string list" where
  "chat_models = [''GigaChat-2'', ''GigaChat-2-Max'', ''GigaChat-2-Pro'', ''GigaChat-3-Lightning'', ''GigaChat-3-Pro'', ''GigaChat-3-Ultra'']"

definition embedding_models :: "string list" where
  "embedding_models = [''Embeddings'', ''Embeddings-2'', ''EmbeddingsGigaR'', ''GigaEmbeddings-3B-2025-09'']"

definition all_models :: "string list" where
  "all_models = chat_models @ embedding_models"

subsection \<open>Pushing\<close>

record probe_task =
  pt_id :: string
  pt_model :: string
  pt_operation :: string

text \<open>\<open>set(args.models or all_models)\<close>, as the list of the models in the order of the catalogue.\<close>

definition selected_models :: "string list \<Rightarrow> string list res" where
  "selected_models arg =
     (let selected = (if arg = [] then all_models else arg) in
      thenR (raise_if (list_ex (\<lambda>x. x \<notin> set all_models) selected) SystemExit ''Unknown model(s)'')
      (Inr (filter (\<lambda>x. x \<in> set selected) all_models)))"

definition probe_task_of :: "(string \<Rightarrow> string) \<Rightarrow> string \<Rightarrow> probe_task" where
  "probe_task_of uuid4 mdl =
     \<lparr>pt_id = uuid4 mdl, pt_model = mdl, pt_operation = (if mdl \<in> set chat_models then ''chat'' else ''embeddings'')\<rparr>"

definition probe_payload :: "string \<Rightarrow> string \<Rightarrow> string \<Rightarrow> string \<Rightarrow> probe_task \<Rightarrow> (string \<times> json) list" where
  "probe_payload chat_text embed_text lane ref t =
     [(''task_id'', JStr (pt_id t)), (''provider'', JStr ''gigachat''), (''operation'', JStr (pt_operation t)),
      (''credential_lane'', JStr lane), (''model'', JStr (pt_model t)), (''request_ref'', JStr (ref @ '':'' @ pt_model t))] @
     (if pt_operation t = ''chat''
      then [(''messages'', JList [JObj [(''role'', JStr ''user''), (''content'', JStr chat_text)]]), (''max_tokens'', JInt 4),
            (''temperature'', JFloat ''0.1'')]
      else [(''input'', JStr embed_text)])"

text \<open>The pushes; a failed one ends the script, those before it stay in the list.\<close>

fun push_probes ::
    "string \<Rightarrow> string \<Rightarrow> string \<Rightarrow> string \<Rightarrow> (string \<Rightarrow> outcome) \<Rightarrow> probe_task list \<Rightarrow> queues \<Rightarrow> unit res \<times> queues" where
  "push_probes chat_text embed_text lane ref out [] q = (Inr (), q)"
| "push_probes chat_text embed_text lane ref out (t # ts) q =
     (case redis_call (out (pt_model t))
             (\<lambda>q. ((), rpush_task (dumps unicode_opts (JObj (probe_payload chat_text embed_text lane ref t))) q)) q of
        (Inl e, q) \<Rightarrow> (Inl e, q)
      | (Inr _, q) \<Rightarrow> push_probes chat_text embed_text lane ref out ts q)"

subsection \<open>Waiting\<close>

definition probe_rows :: "string list \<Rightarrow> db \<Rightarrow> (string \<times> task_row) list" where
  "probe_rows ids d = filter (\<lambda>(k, _). k \<in> set ids) (tasks d)"

text \<open>
  The loop, with fuel; None is a loop that has not ended. \<open>clock i\<close> and \<open>seen i\<close> are the time and the
  table of its poll \<open>i\<close>.
\<close>

fun wait_rows ::
    "nat \<Rightarrow> nat \<Rightarrow> rat \<Rightarrow> (nat \<Rightarrow> rat) \<Rightarrow> (nat \<Rightarrow> db res) \<Rightarrow> string list \<Rightarrow> (string \<times> task_row) list \<Rightarrow>
     (string \<times> task_row) list res option" where
  "wait_rows 0 i deadline clock seen ids rows = None"
| "wait_rows (Suc n) i deadline clock seen ids rows =
     (if \<not> clock i < deadline then Some (Inr rows)
      else case seen i of
          Inl e \<Rightarrow> Some (Inl e)
        | Inr d \<Rightarrow>
            let rows' = probe_rows ids d in
            if length rows' = length ids \<and> list_all (\<lambda>(_, r). terminal r) rows' then Some (Inr rows')
            else wait_rows n (Suc i) deadline clock seen ids rows')"

subsection \<open>The report\<close>

definition status_name :: "task_status \<Rightarrow> string" where
  "status_name st = (case st of Queued \<Rightarrow> ''queued'' | Running \<Rightarrow> ''running'' | Succeeded \<Rightarrow> ''succeeded'' | Failed \<Rightarrow> ''failed'')"

definition opt_text :: "string option \<Rightarrow> json" where
  "opt_text x = (case x of None \<Rightarrow> JNull | Some s \<Rightarrow> JStr s)"

text \<open>\<open>row[3] or {}\<close>; its \<open>get\<close> is called only for a task that succeeded.\<close>

definition result_or_empty :: "json option \<Rightarrow> json" where
  "result_or_empty r = (case r of None \<Rightarrow> JObj [] | Some j \<Rightarrow> if truthy j then j else JObj [])"

definition report_item :: "string \<Rightarrow> (string \<times> task_row) list \<Rightarrow> probe_task \<Rightarrow> (string \<times> json) list res" where
  "report_item lane rows t =
     (case map_of rows (pt_id t) of
        None \<Rightarrow> Inr [(''requested_model'', JStr (pt_model t)), (''operation'', JStr (pt_operation t)), (''status'', JStr ''timeout'')]
      | Some r \<Rightarrow>
          let entry = [(''requested_model'', JStr (pt_model t)), (''returned_model'', opt_text (model r)), (''operation'', JStr (pt_operation t)),
                      (''status'', JStr (status_name (status r))), (''credential_lane'', JStr lane)] in
          if status r \<noteq> Succeeded then Inr (entry @ [(''error'', opt_text (error_message r))])
          else case result_or_empty (result r) of
              JObj d \<Rightarrow> Inr (entry @ [(''usage'', (case map_of d ''usage'' of None \<Rightarrow> JObj [] | Some u \<Rightarrow> u)),
                 if pt_operation t = ''chat'' then (''content'', jget d ''content'') else (''dimensions'', jget d ''dimensions'')])
            | _ \<Rightarrow> raise AttributeError ''object has no attribute get'')"

definition exit_code :: "(string \<times> json) list list \<Rightarrow> int" where
  "exit_code report = (if list_ex (\<lambda>entry. jget entry ''status'' \<noteq> JStr ''succeeded'') report then 1 else 0)"

definition probe_report :: "string \<Rightarrow> string \<Rightarrow> probe_task list \<Rightarrow> (string \<times> task_row) list \<Rightarrow> (json \<times> int) res" where
  "probe_report ref lane ts rows =
     bindR (mapR (report_item lane rows) ts) (\<lambda>report.
     Inr (JObj [(''run_ref'', JStr ref), (''results'', JList (map JObj report))], exit_code report))"

definition probe_script ::
    "string \<Rightarrow> string \<Rightarrow> string \<Rightarrow> string list \<Rightarrow> int \<Rightarrow> string \<Rightarrow> (string \<Rightarrow> string) \<Rightarrow> (string \<Rightarrow> outcome) \<Rightarrow> nat \<Rightarrow> rat \<Rightarrow>
     (nat \<Rightarrow> rat) \<Rightarrow> (nat \<Rightarrow> db res) \<Rightarrow> queues \<Rightarrow> (json \<times> int) res option \<times> queues" where
  "probe_script chat_text embed_text lane arg timeout ref uuid4 out fuel now clock seen q =
     (case selected_models arg of
        Inl e \<Rightarrow> (Some (Inl e), q)
      | Inr ms \<Rightarrow>
          let ts = map (probe_task_of uuid4) ms in
          case push_probes chat_text embed_text lane ref out ts q of
            (Inl e, q) \<Rightarrow> (Some (Inl e), q)
          | (Inr _, q) \<Rightarrow>
              (map_option (\<lambda>r. bindR r (probe_report ref lane ts)) (wait_rows fuel 0 (now + of_int timeout) clock seen (map pt_id ts) []), q))"

subsection \<open>The wait ends\<close>

lemma wait_rows_ends:
  assumes "\<And>i. clock i + 2 \<le> clock (Suc i)" "deadline \<le> clock i + 2 * of_nat n"
  shows "\<exists>r. wait_rows (Suc n) i deadline clock seen ids rows = Some r \<and>
    (case r of Inl e \<Rightarrow> \<exists>j \<ge> i. seen j = Inl e
     | Inr rows' \<Rightarrow> (\<exists>j \<ge> i. deadline \<le> clock j) \<or> length rows' = length ids \<and> list_all (\<lambda>(_, r). terminal r) rows')"
  using assms(2)
proof (induction n arbitrary: i rows)
  case 0
  then show ?case by (auto intro: exI [of _ i])
next
  case (Suc n)
  have less: "deadline \<le> clock (Suc i) + 2 * of_nat n" using Suc.prems assms(1) [of i] by simp
  show ?case
  proof (cases "clock i < deadline")
    case False
    then show ?thesis by (auto simp: not_less intro: exI [of _ i])
  next
    case True
    show ?thesis
    proof (cases "seen i")
      case (Inl e)
      then show ?thesis using True by (auto intro: exI [of _ i])
    next
      case (Inr d)
      show ?thesis
      proof (cases "length (probe_rows ids d) = length ids \<and> list_all (\<lambda>(_, r). terminal r) (probe_rows ids d)")
        case True2: True
        then show ?thesis using True Inr by (simp add: Let_def)
      next
        case False
        obtain r where r: "wait_rows (Suc n) (Suc i) deadline clock seen ids (probe_rows ids d) = Some r"
          "case r of Inl e \<Rightarrow> \<exists>j \<ge> Suc i. seen j = Inl e
           | Inr rows' \<Rightarrow> (\<exists>j \<ge> Suc i. deadline \<le> clock j) \<or> length rows' = length ids \<and> list_all (\<lambda>(_, r). terminal r) rows'"
          using Suc.IH [OF less] by blast
        have "wait_rows (Suc (Suc n)) i deadline clock seen ids rows = Some r"
          using r(1) True Inr False by (simp only: wait_rows.simps(2) [of "Suc n"] sum.case Let_def if_False not_not if_True) simp
        then show ?thesis using r(2) by (auto split: sum.splits intro: Suc_leD)
      qed
    qed
  qed
qed

lemma wait_rows_source:
  "wait_rows n i deadline clock seen ids rows0 = Some (Inr rows) \<Longrightarrow> rows = rows0 \<or> (\<exists>j d. seen j = Inr d \<and> rows = probe_rows ids d)"
proof (induction n i deadline clock seen ids rows0 rule: wait_rows.induct)
  case (2 n i deadline clock seen ids rows0)
  then show ?case by (auto simp: Let_def split: if_splits sum.splits)
qed simp

lemma pushed_deliveries:
  "push_probes chat_text embed_text lane ref out ts q = (Inr u, q') \<Longrightarrow>
   task_q q' = task_q q @ map (\<lambda>t. dumps unicode_opts (JObj (probe_payload chat_text embed_text lane ref t))) ts"
  by (induction ts arbitrary: q) (auto simp: redis_call_def rpush_task_def split: prod.splits outcome.splits)

lemma item_succeeded:
  assumes "report_item lane rows t = Inr entry" "jget entry ''status'' = JStr ''succeeded''"
  shows "\<exists>r. map_of rows (pt_id t) = Some r \<and> status r = Succeeded"
  using assms by (auto simp: report_item_def Let_def jget_def status_name_def split: option.splits if_splits task_status.splits json.splits)

lemma report_succeeded:
  assumes "probe_report ref lane ts rows = Inr (j, 0)"
  shows "list_all (\<lambda>t. \<exists>r. map_of rows (pt_id t) = Some r \<and> status r = Succeeded) ts"
proof -
  obtain report where rep: "mapR (report_item lane rows) ts = Inr report" "exit_code report = 0"
    using assms by (auto simp: probe_report_def bindR_Inr_iff)
  from rep show ?thesis
  proof (induction ts arbitrary: report)
    case (Cons t ts)
    then show ?case by (auto simp: bindR_Inr_iff exit_code_def split: if_splits dest: item_succeeded)
  qed simp
qed

lemma probe_rows_of: "k \<in> set ids \<Longrightarrow> map_of (probe_rows ids d) k = row (tasks d) k"
proof -
  have "map_of (filter (\<lambda>(k, _). k \<in> set ids) t) k = map_of t k" if "k \<in> set ids" for t :: "(string \<times> task_row) list"
    using that by (induction t) auto
  then show "k \<in> set ids \<Longrightarrow> map_of (probe_rows ids d) k = row (tasks d) k" by (simp add: probe_rows_def)
qed

lemma selected_nonempty:
  assumes "selected_models arg = Inr ms"
  shows "ms \<noteq> []"
proof -
  let ?sel = "if arg = [] then all_models else arg"
  have "hd ?sel \<in> set ?sel" by (rule hd_in_set) (simp add: all_models_def chat_models_def)
  moreover have "ms = filter (\<lambda>x. x \<in> set ?sel) all_models \<and> list_all (\<lambda>x. x \<in> set all_models) ?sel"
    using assms unfolding selected_models_def Let_def bindR_Inr_iff raise_if_Inr list_ex_iff list_all_iff sum.inject by blast
  ultimately have "hd ?sel \<in> set ms" by (simp add: list_all_iff)
  then show ?thesis by auto
qed

text \<open>
  C39: The probe ends when the clock advances by the pause of two seconds: after at most one poll more than
  the time-out has seconds. A report means that every selected model got one delivery, and the exit
  code zero means that one poll saw the task of every selected model succeeded.
\<close>

theorem probe_ends:
  assumes "\<And>i. clock i + 2 \<le> clock (Suc i)" "now \<le> clock 0"
  shows "\<exists>r q'. probe_script chat_text embed_text lane arg timeout ref uuid4 out (nat timeout + 1) now clock seen q = (Some r, q') \<and>
    (case r of Inl e \<Rightarrow> True
     | Inr (rep, rc) \<Rightarrow> \<exists>ms. selected_models arg = Inr ms \<and>
         task_q q' = task_q q @ map (\<lambda>m. dumps unicode_opts (JObj (probe_payload chat_text embed_text lane ref (probe_task_of uuid4 m)))) ms \<and>
         (rc = 0 \<longrightarrow> (\<exists>j d. seen j = Inr d \<and> list_all (\<lambda>m. \<exists>w. row (tasks d) (uuid4 m) = Some w \<and> status w = Succeeded) ms)))"
proof (cases "selected_models arg")
  case (Inl e)
  then show ?thesis by (simp add: probe_script_def)
next
  case ms: (Inr ms)
  let ?ts = "map (probe_task_of uuid4) ms"
  obtain u q1 where push: "push_probes chat_text embed_text lane ref out ?ts q = (u, q1)" by fastforce
  have dl: "now + of_int timeout \<le> clock 0 + 2 * of_nat (nat timeout)"
  proof -
    have "of_int timeout \<le> (2 * of_nat (nat timeout) :: rat)" by (cases "0 \<le> timeout") (simp_all add: of_nat_nat)
    then show ?thesis using assms(2) by linarith
  qed
  obtain w where w: "wait_rows (Suc (nat timeout)) 0 (now + of_int timeout) clock seen (map pt_id ?ts) [] = Some w"
    using wait_rows_ends [OF assms(1) dl] by blast
  show ?thesis
  proof (cases u)
    case (Inl e)
    then show ?thesis by (simp add: probe_script_def ms push Let_def)
  next
    case (Inr v)
    have script: "probe_script chat_text embed_text lane arg timeout ref uuid4 out (nat timeout + 1) now clock seen q =
        (Some (bindR w (probe_report ref lane ?ts)), q1)"
      using w by (simp add: probe_script_def ms push Inr Let_def)
    have "\<exists>j d. seen j = Inr d \<and> list_all (\<lambda>m. \<exists>w. row (tasks d) (uuid4 m) = Some w \<and> status w = Succeeded) ms"
      if rep: "bindR w (probe_report ref lane ?ts) = Inr (x, 0)" for x
    proof -
      obtain rows where rows: "w = Inr rows" "probe_report ref lane ?ts rows = Inr (x, 0)" using rep unfolding bindR_Inr_iff by blast
      note ok = report_succeeded [OF rows(2)]
      have "rows \<noteq> []" using ok selected_nonempty [OF ms] by (cases ms) auto
      then obtain j d where jd: "seen j = Inr d" "rows = probe_rows (map pt_id ?ts) d" using wait_rows_source [OF w [unfolded rows(1)]] by blast
      have "row (tasks d) (uuid4 m) = map_of rows (uuid4 m)" if "m \<in> set ms" for m
        using that unfolding jd(2) by (subst probe_rows_of) (auto simp: probe_task_of_def)
      then show ?thesis using jd(1) ok by (intro exI [of _ j] exI [of _ d]) (simp add: list_all_iff probe_task_of_def)
    qed
    moreover have "task_q q1 = task_q q @ map (\<lambda>m. dumps unicode_opts (JObj (probe_payload chat_text embed_text lane ref (probe_task_of uuid4 m)))) ms"
      using pushed_deliveries [OF push [unfolded Inr]] by (simp add: comp_def)
    ultimately show ?thesis unfolding script using ms by (auto split: sum.split)
  qed
qed

text \<open>Ten models whose tasks are queued at the only poll before the time-out of one second.\<close>

theorem probe_ends_witness:
  "\<exists>r q'. probe_script ''ok'' ''test'' ''primary'' [] 1 ''run'' (\<lambda>m. m) (\<lambda>_. Done) 2 0 (\<lambda>i. 2 * of_nat i) (\<lambda>_. Inr empty_db) no_queues = (Some r, q') \<and>
     length (task_q q') = 10"
proof -
  have "\<And>i. 2 * of_nat i + 2 \<le> (2 * of_nat (Suc i) :: rat)" by simp
  from probe_ends [where clock = "\<lambda>i. 2 * of_nat i", OF this, of 0 "''ok''" "''test''" "''primary''" "[]" 1 "''run''" "\<lambda>m. m" "\<lambda>_. Done" "\<lambda>_. Inr empty_db" no_queues]
  obtain r q' where run: "probe_script ''ok'' ''test'' ''primary'' [] 1 ''run'' (\<lambda>m. m) (\<lambda>_. Done) 2 0 (\<lambda>i. 2 * of_nat i) (\<lambda>_. Inr empty_db) no_queues = (Some r, q')"
    by (auto simp: eval_nat_numeral)
  moreover have "length (task_q q') = 10"
  proof -
    have push: "push_probes chat_text embed_text lane ref (\<lambda>_. Done) ts q =
        (Inr (), q\<lparr>task_q := task_q q @ map (\<lambda>t. dumps unicode_opts (JObj (probe_payload chat_text embed_text lane ref t))) ts\<rparr>)" for chat_text embed_text lane ref ts q
      by (induction ts arbitrary: q) (simp_all add: redis_call_def rpush_task_def)
    have "selected_models [] = Inr all_models" by code_simp
    then show ?thesis using run by (auto simp: probe_script_def Let_def push no_queues_def all_models_def chat_models_def embedding_models_def)
  qed
  ultimately show ?thesis by blast
qed

text \<open>A worker accepts every payload of the probe, for the lanes the script allows.\<close>

lemma probe_payload_valid:
  "lane \<in> {''primary'', ''freemium''} \<Longrightarrow> uuid_of_json (JStr (pt_id t)) = Inr k \<Longrightarrow>
   validate_payload True (JObj (probe_payload chat_text embed_text lane ref t)) = Inr (Some k)"
  by (auto simp: validate_payload_def probe_payload_def valid_lane_def VALID_CREDENTIAL_LANES_def jget_def)

end
