(* ===== verification/EvaluatorRuns.thy ===== *)
theory EvaluatorRuns
  imports Workflows Corpus ResponseQuality SemanticHoldout
begin

text \<open>
  The scripts that run the evaluators: the two shadow runs, the import of a sealed holdout receipt, the
  live replay of the synthetic prompts and the smoke test of an evaluator's promotion. They change the
  evaluator store only; identifiers, times, files and the client of the provider are arguments, and the
  printed receipts and convenience files are left out.
\<close>

subsection \<open>Shadow runs\<close>

text \<open>The two calls at the core of every script: the version, then its run.\<close>

definition persist_receipt ::
    "ext \<Rightarrow> string \<Rightarrow> time \<Rightarrow> evaluator_version \<Rightarrow> evaluation_run \<Rightarrow> store \<Rightarrow> string res \<times> store" where
  "persist_receipt X url now v r s =
     and_then (persist_evaluator_version X url v s) (\<lambda>_ s. persist_evaluation_run X url now r s)"

definition article_shadow_script ::
    "ext \<Rightarrow> string \<Rightarrow> time \<Rightarrow> string \<Rightarrow> string \<Rightarrow> bool \<Rightarrow> store \<Rightarrow> (evaluator_version \<times> evaluation_run) res \<times> store" where
  "article_shadow_script X url now src fresh persist s =
     and_then (bindR (article_scorer_baseline src) (\<lambda>v.
         bindR (evaluate_article_scorer src fresh classify_item ''contract_evaluator'') (\<lambda>r. Inr (v, r))), s) (\<lambda>(v, r) s.
     if \<not> persist then (Inr (v, r), s)
     else and_then (persist_receipt X url now v r s) (\<lambda>_ s. (Inr (v, r), s)))"

definition response_shadow_script ::
    "ext \<Rightarrow> string \<Rightarrow> time \<Rightarrow> string \<Rightarrow> bool \<Rightarrow> store \<Rightarrow> (evaluator_version \<times> evaluation_run) res \<times> store" where
  "response_shadow_script X url now fresh persist s =
     and_then (bindR response_quality_shadow_evaluator (\<lambda>v.
         bindR (evaluate_response_quality fresh ''contract_evaluator'' response_quality_fixture_responses) (\<lambda>r. Inr (v, r))), s) (\<lambda>(v, r) s.
     if \<not> persist then (Inr (v, r), s)
     else and_then (persist_receipt X url now v r s) (\<lambda>_ s. (Inr (v, r), s)))"

subsection \<open>The sealed holdout\<close>

definition sha256_argument :: "string \<Rightarrow> unit res" where
  "sha256_argument v = raise_if (length v \<noteq> 64 \<or> list_ex (\<lambda>c. \<not> is_hex_lower c) v) SystemExit ''must be a lower-case SHA-256 hash''"

text \<open>The receipt file: None when there is none, or its size in bytes and its text.\<close>

definition holdout_script ::
    "ext \<Rightarrow> string \<Rightarrow> time \<Rightarrow> string \<Rightarrow> string \<Rightarrow> string \<Rightarrow> string \<Rightarrow> (nat \<times> string res) option \<Rightarrow> bool \<Rightarrow> store \<Rightarrow> evaluation_run res \<times> store" where
  "holdout_script X url now fresh key artifact model_sha file persist s =
     and_then (thenR (sha256_argument artifact) (thenR (sha256_argument model_sha)
        (case file of
           None \<Rightarrow> raise RuntimeError ''sealed receipt input is unavailable or exceeds the boundary''
         | Some (n, text) \<Rightarrow>
             thenR (raise_if (8192 < n) RuntimeError ''sealed receipt input is unavailable or exceeds the boundary'')
             (bindR text (\<lambda>raw. bindR (receipt_from_json raw) (\<lambda>receipt.
              bindR (verified_semantic_holdout_run fresh receipt key artifact model_sha) (\<lambda>r.
              bindR semantic_holdout_evaluator (\<lambda>v. Inr (v, r)))))))), s) (\<lambda>(v, r) s.
     if \<not> persist then (Inr r, s)
     else and_then (persist_receipt X url now v r s) (\<lambda>k s.
       if k \<noteq> run_id r then (raise RuntimeError ''semantic holdout run receipt identity changed'', s) else (Inr r, s)))"

subsection \<open>The live replay\<close>

definition replay_script ::
    "ext \<Rightarrow> string \<Rightarrow> time \<Rightarrow> string \<Rightarrow> string \<Rightarrow> string \<Rightarrow> sdk res \<Rightarrow> string \<Rightarrow> bool \<Rightarrow> store \<Rightarrow> (evaluation_run \<times> json) res \<times> store" where
  "replay_script X url now fresh diag_id outcome_id client_of variant persist s =
     and_then (thenR (choice variant [''v1'', ''v2''])
        (bindR client_of (\<lambda>create.
         bindR (fst (request_synthetic_replay create variant)) (\<lambda>responses.
         bindR response_quality_shadow_evaluator (\<lambda>v.
         bindR (evaluate_response_quality fresh ''deterministic_contract_evaluator'' responses) (\<lambda>r.
         bindR (diagnose_response_quality responses) (\<lambda>ds. Inr (v, r, ds))))))), s) (\<lambda>(v, r, ds) s.
     and_then (if \<not> persist then (Inr (), s) else
       and_then (persist_receipt X url now v r s) (\<lambda>k s.
       if k \<noteq> run_id r then (raise RuntimeError ''evaluator run receipt identity changed'', s)
       else and_then (persist_response_replay_diagnostics X url diag_id r ds s) (\<lambda>_ s.
         and_then (response_replay_prompt_asset variant, s) (\<lambda>asset s.
         and_then (persist_solution_asset X url asset s) (\<lambda>_ s.
         and_then (response_replay_outcome r variant, s) (\<lambda>oc s.
         and_then (persist_solution_outcomes X url now asset [(outcome_id, oc)] s) (\<lambda>_ s. (Inr (), s)))))))) (\<lambda>_ s.
     and_then (diagnostic_summary ds, s) (\<lambda>summary s. and_then (response_replay_outcome r variant, s) (\<lambda>_ s. (Inr (r, summary), s)))))"

subsection \<open>The smoke test of a promotion\<close>

text \<open>\<open>ids\<close> are the identifiers in the order the script draws them; \<open>uuid4().hex[:12]\<close> is \<open>suffix\<close>.\<close>

definition smoke_versions :: "(nat \<Rightarrow> string) \<Rightarrow> string \<Rightarrow> (evaluator_version \<times> evaluator_version) res" where
  "smoke_versions ids suffix =
     (let frozen = [''synthetic_case_a'', ''synthetic_case_b''] in
      bindR (make_version \<lparr>evaluator_id = ids 0, ev_kind = ''article_scoring'', ev_version = ''v_base_'' @ suffix, proposed_by = ''author_agent'',
        definition_sha256 = sha256 (''baseline'' @ suffix), frozen_case_ids = frozen, active_case_ids = frozen, ev_state = ''promoted'',
        parent_evaluator_id = None\<rparr>) (\<lambda>b.
      bindR (make_version \<lparr>evaluator_id = ids 1, ev_kind = ''article_scoring'', ev_version = ''v_candidate_'' @ suffix, proposed_by = ''author_agent'',
        definition_sha256 = sha256 (''candidate'' @ suffix), frozen_case_ids = frozen, active_case_ids = frozen @ [''synthetic_case_c''],
        ev_state = ''shadow'', parent_evaluator_id = Some (evaluator_id b)\<rparr>) (\<lambda>c. Inr (b, c))))"

definition smoke_run :: "string \<Rightarrow> string \<Rightarrow> string \<Rightarrow> string \<Rightarrow> rat \<Rightarrow> rat \<Rightarrow> evaluation_run res" where
  "smoke_run rid evaluator suffix who primary calibration =
     bindR (make_metrics (Fin primary) (Fin (95 / 100)) (Fin calibration) (Fin (70 / 100)) 24) (\<lambda>m.
     make_run \<lparr>run_id = rid, run_evaluator_id = evaluator, cohort_sha256 = sha256 (''synthetic-holdout-'' @ suffix), assessor = who,
       assessor_role = ''independent_evaluator'', run_metrics = m\<rparr>)"

definition smoke_outcomes :: "(nat \<Rightarrow> string) \<Rightarrow> string \<Rightarrow> string \<Rightarrow> string \<Rightarrow> (string \<times> solution_outcome) list res" where
  "smoke_outcomes ids suffix asset rid = mapR (\<lambda>i.
     bindR (make_outcome asset (sha256 (''run-'' @ suffix @ ''-'' @ show_nat i)) rid ''success'' (Fin (85 / 100)) (Fin (95 / 100))) (\<lambda>x. Inr (ids (6 + i), x))) [0, 1, 2]"

definition promotion_smoke_script :: "ext \<Rightarrow> string \<Rightarrow> time \<Rightarrow> (nat \<Rightarrow> string) \<Rightarrow> string \<Rightarrow> store \<Rightarrow> evaluator_decision res \<times> store" where
  "promotion_smoke_script X url now ids suffix s =
     and_then (smoke_versions ids suffix, s) (\<lambda>(b, c) s.
     and_then (persist_evaluator_version X url b s) (\<lambda>_ s.
     and_then (persist_evaluator_version X url c s) (\<lambda>_ s.
     and_then (smoke_run (ids 2) (evaluator_id b) suffix ''baseline_evaluator'' (80 / 100) (80 / 100), s) (\<lambda>br s.
     and_then (smoke_run (ids 3) (evaluator_id c) suffix ''independent_evaluator'' (84 / 100) (83 / 100), s) (\<lambda>cr s.
     and_then (persist_evaluation_run X url now br s) (\<lambda>_ s.
     and_then (persist_evaluation_run X url now cr s) (\<lambda>_ s.
     and_then (decide_evaluator_transition (ids 4) b c br cr, s) (\<lambda>d s.
     if ev_decision d \<noteq> ''promoted'' then (raise RuntimeError ''synthetic evaluator candidate was not promoted'', s)
     else and_then (persist_evaluator_decision X url d s) (\<lambda>_ s.
       and_then (make_asset \<lparr>asset_id = ids 5, asset_kind = ''workflow_scheme'', asset_label = ''synthetic evaluator workflow'',
           content_sha256 = sha256 (''asset'' @ suffix), asset_state = ''candidate''\<rparr>, s) (\<lambda>a s.
       and_then (persist_solution_asset X url a s) (\<lambda>_ s.
       and_then (smoke_outcomes ids suffix (asset_id a) (run_id cr), s) (\<lambda>xs s.
       and_then (persist_solution_outcomes X url now a xs s) (\<lambda>_ s. (Inr d, s))))))))))))))"

subsection \<open>What the scripts guarantee\<close>

text \<open>A persisted receipt is a new run of a stored version.\<close>

lemma receipt_stored:
  assumes "persist_receipt X url now v r s = (Inr k, s')"
  shows "\<exists>w. row (es_runs s) k = None \<and> row (es_runs s') k = Some w \<and> row (es_versions s') (rr_evaluator w) \<noteq> None \<and> rr_completed w = now"
proof -
  obtain k1 s1 where v: "persist_evaluator_version X url v s = (Inr k1, s1)" and r: "persist_evaluation_run X url now r s1 = (Inr k, s')"
    using assms by (auto simp: persist_receipt_def and_then_def split: prod.splits sum.splits)
  have runs: "es_runs s1 = es_runs s"
    using v by (auto simp: persist_evaluator_version_def run_tx_def transact_def insert_version_def bindR_Inr_iff
        split: if_splits sum.splits option.splits)
  show ?thesis using r runs
    by (auto simp: persist_evaluation_run_def run_tx_def transact_def insert_run_def bindR_Inr_iff new_key_def refers_def raise_if_Inr
        table_simps split: if_splits sum.splits)
qed

text \<open>The decision of the smoke test, whatever the identifiers: the candidate is promoted.\<close>

lemma smoke_decides_promotion:
  assumes "smoke_versions ids suffix = Inr (b, c)"
    "smoke_run (ids 2) (evaluator_id b) suffix ''baseline_evaluator'' (80 / 100) (80 / 100) = Inr br"
    "smoke_run (ids 3) (evaluator_id c) suffix ''independent_evaluator'' (84 / 100) (83 / 100) = Inr cr"
    "decide_evaluator_transition (ids 4) b c br cr = Inr d"
  shows "ev_decision d = ''promoted''"
proof -
  have v: "ev_state b = ''promoted''" "parent_evaluator_id c = Some (evaluator_id b)" "ev_kind c = ev_kind b" "proposed_by c = ''author_agent''"
    "frozen_case_ids b = [''synthetic_case_a'', ''synthetic_case_b'']" "active_case_ids c = [''synthetic_case_a'', ''synthetic_case_b'', ''synthetic_case_c'']"
    using assms(1) by (auto simp: smoke_versions_def Let_def bindR_Inr_iff make_version_def)
  have r: "run_evaluator_id br = evaluator_id b" "run_evaluator_id cr = evaluator_id c" "cohort_sha256 br = cohort_sha256 cr"
    "assessor cr = ''independent_evaluator''" "assessor_role cr = ''independent_evaluator''"
    "run_metrics br = \<lparr>primary_quality = 80 / 100, safety_quality = 95 / 100, calibration_quality = 80 / 100, cost_efficiency = 70 / 100, evaluated_case_count = 24\<rparr>"
    "run_metrics cr = \<lparr>primary_quality = 84 / 100, safety_quality = 95 / 100, calibration_quality = 83 / 100, cost_efficiency = 70 / 100, evaluated_case_count = 24\<rparr>"
    using assms(2,3) by (auto simp: smoke_run_def bindR_Inr_iff make_run_def make_metrics_def rat_of_def)
  show ?thesis using assms(4)
    by (auto simp: decide_evaluator_transition_def Let_def v r minimum_holdout_cases_def primary_improvement_def decision_of_def make_decision_def
      bindR_Inr_iff split: if_splits)
qed

end
