(* ===== verification/ProcessGuards.thy ===== *)
theory ProcessGuards
  imports PublisherPdf
begin

text \<open>
  The two context managers around the fetch of a publisher's file
  (\<open>publisher_fulltext_verification.py\<close>): they replace the resolver of the process and its alarm, and put
  both back however the body ends. The fetch inside is the one of \<open>PublisherPdf\<close>.
\<close>

datatype family = Inet | Inet6 | OtherFamily

type_synonym resolver = "string \<Rightarrow> (family \<times> string) list res"

text \<open>The handler of \<open>SIGALRM\<close> by name and the interval timer: seconds left and period.\<close>

record process =
  getaddrinfo :: resolver
  alarm_handler :: string
  alarm_timer :: "rat \<times> rat"
  main_thread :: bool
  has_setitimer :: bool

definition ipv4_only :: "resolver \<Rightarrow> resolver" where
  "ipv4_only original h = bindR (original h) (\<lambda>addresses.
     let selected = filter (\<lambda>(f, _). f = Inet) addresses in
     thenR (raise_if (selected = []) OSError ''no IPv4 address for static PDF host'') (Inr selected))"

definition ipv4_only_resolution :: "(process \<Rightarrow> 'a res \<times> process) \<Rightarrow> process \<Rightarrow> 'a res \<times> process" where
  "ipv4_only_resolution body p =
     (case body (p\<lparr>getaddrinfo := ipv4_only (getaddrinfo p)\<rparr>) of (r, p') \<Rightarrow> (r, p'\<lparr>getaddrinfo := getaddrinfo p\<rparr>))"

definition wall_clock_seconds :: rat where "wall_clock_seconds = 180"

definition network_wall_clock_limit :: "(process \<Rightarrow> 'a res \<times> process) \<Rightarrow> process \<Rightarrow> 'a res \<times> process" where
  "network_wall_clock_limit body p =
     (if \<not> main_thread p \<or> \<not> has_setitimer p then body p
      else case body (p\<lparr>alarm_handler := ''expired'', alarm_timer := (wall_clock_seconds, 0)\<rparr>) of
          (r, p') \<Rightarrow> (r, p'\<lparr>alarm_timer := alarm_timer p, alarm_handler := alarm_handler p\<rparr>))"

text \<open>The static host as the process reaches it: a body that may use resolver and alarm.\<close>

definition guarded_fetch :: "(process \<Rightarrow> (string \<times> string) res \<times> process) \<Rightarrow> process \<Rightarrow> (string \<times> string) res \<times> process" where
  "guarded_fetch body = network_wall_clock_limit (ipv4_only_resolution body)"

text \<open>Whatever the body does to them, the resolver is restored, and on the main thread the alarm.\<close>

lemma guards_restore:
  "getaddrinfo (snd (guarded_fetch body p)) = getaddrinfo p"
  "main_thread p \<Longrightarrow> has_setitimer p \<Longrightarrow>
     alarm_handler (snd (guarded_fetch body p)) = alarm_handler p \<and> alarm_timer (snd (guarded_fetch body p)) = alarm_timer p"
  by (auto simp: guarded_fetch_def network_wall_clock_limit_def ipv4_only_resolution_def split: prod.split)

text \<open>Inside, a host resolves to addresses of one family only, and never to none.\<close>

lemma only_ipv4: "ipv4_only original h = Inr addresses \<Longrightarrow> addresses \<noteq> [] \<and> list_all (\<lambda>(f, _). f = Inet) addresses"
  by (auto simp: ipv4_only_def bindR_Inr_iff res_simps Let_def list_all_iff)

end
