(* ===== verification/Monitor.thy ===== *)
theory Monitor
  imports Dashboard
begin

text \<open>
  The monitor (\<open>monitor/monitor.py\<close>): one sample of the host, the transaction that stores it and deletes
  what is older than thirty days, and the loop that goes on after every failure. The property says what the
  dashboard's temperature history shows of it.
\<close>

record metrics_row =
  mt_temperature :: rat
  mt_load :: fval
  mt_memory_total :: int
  mt_memory_available :: int
  mt_disk_total :: int
  mt_disk_free :: int

type_synonym metric_table = "(time, metrics_row) table"

definition interval_seconds :: "(string \<Rightarrow> int option) \<Rightarrow> int" where
  "interval_seconds env = max 30 (env_int env ''METRICS_INTERVAL_SECONDS'' 60)"

definition read_temperature :: "host \<Rightarrow> rat res" where
  "read_temperature h = bindR (read_text h ''/host/sys/thermal_temp'') (\<lambda>s. temperature_of (strip s))"

definition read_memory :: "host \<Rightarrow> (int \<times> int) res" where
  "read_memory h = bindR (read_text h ''/host/proc/meminfo'') (\<lambda>s. bindR (memory_of s) (\<lambda>values.
     case values ''MemTotal'' of None \<Rightarrow> raise KeyError ''MemTotal''
     | Some n \<Rightarrow> (case values ''MemAvailable'' of None \<Rightarrow> raise KeyError ''MemAvailable'' | Some a \<Rightarrow> Inr (n, a))))"

definition sample :: "host \<Rightarrow> metrics_row res" where
  "sample h = bindR (read_text h ''/host/proc/loadavg'') (\<lambda>s. bindR (load_of s) (\<lambda>load_1m.
     bindR (read_memory h) (\<lambda>(n, a). bindR (host_disk h) (\<lambda>(dt, df). bindR (read_temperature h) (\<lambda>t.
       Inr \<lparr>mt_temperature = t, mt_load = load_1m, mt_memory_total = n, mt_memory_available = a,
            mt_disk_total = dt, mt_disk_free = df\<rparr>)))))"

subsection \<open>The columns\<close>

text \<open>\<open>NUMERIC(p, s)\<close> rounds halves away from zero and refuses what has more digits; it stores NaN.\<close>

definition round_away :: "rat \<Rightarrow> int" where
  "round_away x = (if x < 0 then - \<lfloor>1 / 2 - x\<rfloor> else \<lfloor>x + 1 / 2\<rfloor>)"

definition numeric_column :: "nat \<Rightarrow> nat \<Rightarrow> fval \<Rightarrow> fval res" where
  "numeric_column p s v = (case v of
     NaN \<Rightarrow> Inr NaN
   | Fin q \<Rightarrow> let n = round_away (q * 10 ^ s) in
       thenR (raise_if (10 ^ p \<le> \<bar>n\<bar>) PsycopgError ''numeric field overflow'') (Inr (Fin (of_int n / 10 ^ s)))
   | _ \<Rightarrow> raise PsycopgError ''numeric field overflow'')"

definition bigint_column :: "int \<Rightarrow> int res" where
  "bigint_column i = thenR (raise_if (i < - (2 ^ 63) \<or> 2 ^ 63 \<le> i) PsycopgError ''bigint out of range'') (Inr i)"

definition stored_row :: "metrics_row \<Rightarrow> metrics_row res" where
  "stored_row m =
     bindR (numeric_column 4 1 (Fin (mt_temperature m))) (\<lambda>t. bindR (numeric_column 6 2 (mt_load m)) (\<lambda>load.
     bindR (mapR bigint_column [mt_memory_total m, mt_memory_available m, mt_disk_total m, mt_disk_free m]) (\<lambda>_.
       Inr (m\<lparr>mt_temperature := rat_of t, mt_load := load\<rparr>))))"

definition write_sample :: "time \<Rightarrow> metrics_row \<Rightarrow> metric_table \<Rightarrow> (unit \<times> metric_table) res" where
  "write_sample now m t = bindR (stored_row m) (\<lambda>m'. thenR (new_key now t)
     (Inr ((), delete_where (\<lambda>ts _. ts < now - secs (30 * 24 * 3600)) (insert_nothing now m' t))))"

subsection \<open>The loop\<close>

text \<open>One round: when its transaction starts, what the host answers, how the connection goes.\<close>

record round_env =
  rd_now :: time
  rd_host :: host
  rd_db :: outcome

definition monitor_round :: "round_env \<Rightarrow> metric_table \<Rightarrow> exn option \<times> metric_table" where
  "monitor_round r t = (case sample (rd_host r) of
     Inl e \<Rightarrow> (Some e, t)
   | Inr m \<Rightarrow> (case db_call (rd_db r) (write_sample (rd_now r) m) t of (Inl e, t') \<Rightarrow> (Some e, t') | (Inr _, t') \<Rightarrow> (None, t')))"

definition monitor_rounds :: "round_env list \<Rightarrow> metric_table \<Rightarrow> metric_table" where
  "monitor_rounds rs t = fold (\<lambda>r t. snd (monitor_round r t)) rs t"

text \<open>What a round adds: the row of its sample, when the sample is complete, fits and is committed.\<close>

definition kept_row :: "round_env \<Rightarrow> (time \<times> metrics_row) option" where
  "kept_row r = (if rd_db r = Refused then None else
     case bindR (sample (rd_host r)) stored_row of Inl _ \<Rightarrow> None | Inr m \<Rightarrow> Some (rd_now r, m))"

subsection \<open>What the table holds\<close>

definition recent_rows_of :: "time \<Rightarrow> metric_table \<Rightarrow> metric_table" where
  "recent_rows_of since t = filter (\<lambda>(ts, _). since \<le> ts) t"

lemma recent_rows_simps [simp]:
  "recent_rows_of since [] = []" "recent_rows_of since (s @ t) = recent_rows_of since s @ recent_rows_of since t"
  "old \<le> since \<Longrightarrow> recent_rows_of since (filter (\<lambda>(ts, _). old \<le> ts) t) = recent_rows_of since t"
  by (auto simp: recent_rows_of_def intro!: filter_cong)

lemma kept_row_time: "kept_row r = Some x \<Longrightarrow> fst x = rd_now r" "kept_row r = Some (ts, m) \<Longrightarrow> ts = rd_now r"
  by (auto simp: kept_row_def split: if_splits sum.splits)

text \<open>A round that fails before its commit, or whose key is taken, changes nothing.\<close>

lemma monitor_round_snd:
  "snd (monitor_round r t) = (case kept_row r of None \<Rightarrow> t
     | Some x \<Rightarrow> if row t (rd_now r) = None then filter (\<lambda>(ts, _). rd_now r - secs (30 * 24 * 3600) \<le> ts) (t @ [x]) else t)"
  by (auto simp: monitor_round_def kept_row_def db_call_def write_sample_def insert_nothing_def delete_where_def new_key_def res_simps raise_if_def
      not_less bindR_def case_prod_beta split: sum.split outcome.split option.splits)

lemma monitor_rounds_snoc: "monitor_rounds (rs @ [r]) t = snd (monitor_round r (monitor_rounds rs t))"
  by (simp add: monitor_rounds_def)

lemma monitor_keys: "fst ` set (monitor_rounds rs []) \<subseteq> set (map rd_now rs)"
proof (induction rs rule: rev_induct)
  case (snoc r rs)
  have "fst ` set (snd (monitor_round r t)) \<subseteq> insert (rd_now r) (fst ` set t)" for t
  proof (cases "kept_row r")
    case (Some x)
    then show ?thesis using kept_row_time(1) [OF Some] by (auto simp: monitor_round_snd)
  qed (auto simp: monitor_round_snd)
  from this [of "monitor_rounds rs []"] snoc show ?case unfolding monitor_rounds_snoc map_append set_append by auto
qed (simp add: monitor_rounds_def)

text \<open>While the clock moves forward, deletion only takes rows that are old at the last round.\<close>

lemma monitor_recent:
  "sorted_wrt (<) (map rd_now rs) \<Longrightarrow> list_all (\<lambda>r. rd_now r - secs (30 * 24 * 3600) \<le> since) rs \<Longrightarrow>
   recent_rows_of since (monitor_rounds rs []) = recent_rows_of since (List.map_filter kept_row rs)"
proof (induction rs rule: rev_induct)
  case (snoc r rs)
  have "rd_now r \<notin> set (map rd_now rs)" using snoc.prems(1) by (auto simp: sorted_wrt_append)
  then have "row (monitor_rounds rs []) (rd_now r) = None" using monitor_keys [of rs] by (auto simp: map_of_eq_None_iff)
  then show ?case using snoc
    by (auto simp: monitor_rounds_snoc monitor_round_snd sorted_wrt_append map_filter_def secs_def dest: kept_row_time split: option.split)
qed (simp add: monitor_rounds_def)

text \<open>Every committed round leaves only rows of the last thirty days.\<close>

lemma retention:
  assumes "fst (monitor_round r t) = None" "row t (rd_now r) = None"
  shows "list_all (\<lambda>(ts, _). rd_now r - secs (30 * 24 * 3600) \<le> ts) (snd (monitor_round r t))"
proof -
  have "kept_row r \<noteq> None" using assms(1)
    by (auto simp: monitor_round_def kept_row_def db_call_def write_sample_def bindR_def split: sum.splits outcome.splits prod.splits)
  then show ?thesis using assms(2) by (auto simp: monitor_round_snd list_all_iff split: if_splits)
qed

subsection \<open>The history\<close>

definition sensor :: "host \<Rightarrow> int res" where
  "sensor h = bindR (read_text h ''/host/sys/thermal_temp'') (\<lambda>s. int_of_text (strip s))"

lemma round_away_int: "round_away (of_int n) = n"
proof -
  have "\<lfloor>rat_of_int n + 1 / 2\<rfloor> = n" "\<lfloor>1 / 2 - rat_of_int n\<rfloor> = - n" by linarith+
  then show ?thesis by (simp add: round_away_def)
qed

lemma kept_row_near:
  assumes "kept_row r = Some (ts, m)"
  shows "\<exists>k. sensor (rd_host r) = Inr k \<and> mt_temperature m = of_int (tenths k) / 10 \<and>
    \<bar>100 * tenths k - k\<bar> \<le> 50 \<and> (k mod 500 = 250 \<longrightarrow> even (tenths k))"
proof -
  obtain m0 where m0: "sample (rd_host r) = Inr m0" "stored_row m0 = Inr m"
    using assms by (auto simp: kept_row_def bindR_Inr_iff split: if_splits sum.splits)
  then have "read_temperature (rd_host r) = Inr (mt_temperature m0)" by (auto simp: sample_def bindR_Inr_iff)
  then obtain s k where s: "read_text (rd_host r) ''/host/sys/thermal_temp'' = Inr s" "int_of_text (strip s) = Inr k"
      and t: "mt_temperature m0 = of_int (tenths k) / 10"
    by (auto simp: read_temperature_def bindR_Inr_iff dest!: temperature_ofD)
  have n: "\<bar>tenths k\<bar> < 10000" "mt_temperature m = of_int (tenths k) / 10"
    using m0(2) by (auto simp: stored_row_def numeric_column_def t bindR_Inr_iff raise_if_Inr Let_def round_away_int not_le)
  then show ?thesis using s tenths_near [OF n(1)] tenths_half_even [OF _ n(1)] by (auto simp: sensor_def)
qed

text \<open>The two columns the dashboard selects.\<close>

definition temperatures :: "metric_table \<Rightarrow> (time \<times> rat) list" where
  "temperatures t = map (\<lambda>(ts, m). (ts, mt_temperature m)) t"

lemma temperatures_recent: "filter (\<lambda>(ts, _). since \<le> ts) (temperatures t) = temperatures (recent_rows_of since t)"
  by (induction t) (auto simp: temperatures_def recent_rows_of_def)

lemma kept_sorted: "sorted_wrt (<) (map rd_now rs) \<Longrightarrow> sorted (map fst (List.map_filter kept_row rs))"
proof (induction rs)
  case (Cons r rs)
  have "x \<in> set (List.map_filter kept_row rs) \<Longrightarrow> fst x \<in> set (map rd_now rs)" for x
    by (force simp: map_filter_def dest: kept_row_time(2))
  then show ?case using Cons by (force split: option.split dest: kept_row_time)
qed simp

text \<open>
  C40: While the clock moves forward, the temperature history of one, twelve or twenty-four hours is exactly the
  list of the committed samples of that window in the order they were taken: neither the deletion of old rows
  nor failed rounds lose one. Each temperature is a whole number of tenths of a degree next to the sensor's
  reading: the one Python's division and rounding of doubles give, at most fifty thousandths away and even
  where the half of a tenth is a double (42.25 becomes 42.2).
\<close>

theorem temperature_history:
  assumes "sorted_wrt (<) (map rd_now rs)" "list_all (\<lambda>r. rd_now r \<le> now) rs" "hours \<in> {1, 12, 24}"
  shows "get_temperature now hours (Inr (temperatures (monitor_rounds rs []))) =
      Answer (hours, temperatures (recent_rows_of (now - secs (3600 * hours)) (List.map_filter kept_row rs))) \<and>
    list_all (\<lambda>r. case kept_row r of None \<Rightarrow> True
      | Some (ts, m) \<Rightarrow> \<exists>k. sensor (rd_host r) = Inr k \<and> mt_temperature m = of_int (tenths k) / 10 \<and>
          \<bar>100 * tenths k - k\<bar> \<le> 50 \<and> (k mod 500 = 250 \<longrightarrow> even (tenths k))) rs"
proof
  let ?since = "now - secs (3600 * hours)"
  have "list_all (\<lambda>r. rd_now r - secs (30 * 24 * 3600) \<le> ?since) rs"
    using assms(2,3) by (auto simp: list_all_iff secs_def)
  then have rows: "recent_rows_of ?since (monitor_rounds rs []) = recent_rows_of ?since (List.map_filter kept_row rs)"
    by (rule monitor_recent [OF assms(1)])
  have "sorted (map fst (temperatures (recent_rows_of ?since (List.map_filter kept_row rs))))"
    using kept_sorted [OF assms(1)] by (simp add: temperatures_def recent_rows_of_def comp_def case_prod_beta sorted_filter)
  then show "get_temperature now hours (Inr (temperatures (monitor_rounds rs []))) =
      Answer (hours, temperatures (recent_rows_of ?since (List.map_filter kept_row rs)))"
    using assms(3) rows by (simp add: get_temperature_def temperatures_recent sort_key_id_if_sorted)
qed (use kept_row_near in \<open>force simp: list_all_iff split: option.split\<close>)

text \<open>A host at 42.25 degrees: the half of a tenth is exact and goes to the even digit.\<close>

definition sample_host :: host where
  "sample_host = \<lparr>host_file = (\<lambda>p. if p = ''/host/proc/loadavg'' then Inr ''0.52 0.40 0.31 1/200 4242''
      else if p = ''/host/sys/thermal_temp'' then Inr ''42250'' else Inr (''MemTotal: 8000 kB'' @ [CHR 10] @ ''MemAvailable: 4000 kB'')),
    host_disk = Inr (64000, 32000)\<rparr>"

definition sample_rounds :: "round_env list" where
  "sample_rounds = [\<lparr>rd_now = secs 60, rd_host = sample_host, rd_db = Done\<rparr>, \<lparr>rd_now = secs 7000, rd_host = sample_host, rd_db = ReplyLost\<rparr>,
     \<lparr>rd_now = secs 7100, rd_host = sample_host, rd_db = Refused\<rparr>]"

lemma half: "\<lfloor>845 / 2 :: rat\<rfloor> = 422"
  by linarith

lemma sample_temperature: "temperature_of ''42250'' = Inr (422 / 10)"
proof -
  have "strip ''42250'' = ''42250''" "read_sign ''42250'' = (1, ''42250'')" "digit_part ''42250'' = (''42250'', [])" by code_simp+
  moreover have "read_base 10 ''42250'' = 42250" by (simp add: read_base_def digit_val_def)
  moreover have "tenths 42250 = 422" by (simp add: tenths_def div1000_def ulp_of_def ilog2.simps round_even_def half)
  ultimately show ?thesis by (simp add: temperature_of_def int_of_text_def py_int_def as_double_def)
qed

lemma sample_memory:
  "\<exists>values. memory_of (''MemTotal: 8000 kB'' @ [CHR 10] @ ''MemAvailable: 4000 kB'') = Inr values \<and> values ''MemTotal'' = Some 8192000 \<and> values ''MemAvailable'' = Some 4096000"
proof -
  have "splitlines (''MemTotal: 8000 kB'' @ [CHR 10] @ ''MemAvailable: 4000 kB'') = [''MemTotal: 8000 kB'', ''MemAvailable: 4000 kB'']" by code_simp
  moreover have "first_field (words (strip '' 8000 kB'')) = Inr ''8000''" "first_field (words (strip '' 4000 kB'')) = Inr ''4000''" by code_simp+
  moreover have "strip ''8000'' = ''8000''" "strip ''4000'' = ''4000''" by code_simp+
  moreover have "read_base 10 ''8000'' = 8000" "read_base 10 ''4000'' = 4000" by (simp_all add: read_base_def digit_val_def)
  ultimately show ?thesis by (simp add: memory_of_def memory_line_def int_of_text_def py_int_def read_sign_def is_digit_def)
qed

lemma sample_load: "load_of ''0.52 0.40 0.31 1/200 4242'' = Inr (Fin (52 / 100))"
proof -
  have "first_field (words ''0.52 0.40 0.31 1/200 4242'') = Inr ''0.52''" "strip ''0.52'' = ''0.52''" "lower ''0.52'' = ''0.52''" 
      "read_sign ''0.52'' = (1, ''0.52'')" "digit_part ''0.52'' = (''0'', ''.52'')" "digit_part ''52'' = (''52'', [])" by code_simp+
  moreover have "read_base 10 ''052'' = 52" by (simp add: read_base_def digit_val_def)
  ultimately show ?thesis by (simp add: load_of_def float_of_text_def py_float_def read_decimal_def as_double_def)
qed

lemma sample_sample:
  "sample sample_host = Inr \<lparr>mt_temperature = 422 / 10, mt_load = Fin (52 / 100), mt_memory_total = 8192000, mt_memory_available = 4096000,
  mt_disk_total = 64000, mt_disk_free = 32000\<rparr>"
proof -
  have "strip ''42250'' = ''42250''" by code_simp
  then show ?thesis using sample_memory sample_load sample_temperature
    by (auto simp: sample_def sample_host_def read_text_def read_memory_def read_temperature_def)
qed

lemma sample_history:
  "temperatures (recent_rows_of (secs 7200 - secs (3600 * 1)) (List.map_filter kept_row sample_rounds)) = [(secs 7000, 422 / 10)]"
proof -
  have "round_away 422 = 422" "round_away 52 = 52" using round_away_int [of 422] round_away_int [of 52] by simp_all
  then have "\<exists>m. stored_row \<lparr>mt_temperature = 422 / 10, mt_load = Fin (52 / 100), mt_memory_total = 8192000, mt_memory_available = 4096000,
      mt_disk_total = 64000, mt_disk_free = 32000\<rparr> = Inr m \<and> mt_temperature m = 422 / 10"
    by (simp add: stored_row_def numeric_column_def bigint_column_def raise_if_def)
  then show ?thesis
    by (auto simp: sample_rounds_def kept_row_def sample_sample temperatures_def recent_rows_of_def secs_def)
qed

theorem temperature_history_witness:
  "get_temperature (secs 7200) 1 (Inr (temperatures (monitor_rounds sample_rounds []))) = Answer (1, [(secs 7000, 422 / 10)])"
proof -
  have "sorted_wrt (<) (map rd_now sample_rounds)" "list_all (\<lambda>r. rd_now r \<le> secs 7200) sample_rounds"
    by (simp_all add: sample_rounds_def secs_def)
  then show ?thesis using temperature_history [of sample_rounds "secs 7200" 1] sample_history by simp
qed

end
