(* ===== verification/Spec2Isabelle.thy ===== *)
theory Spec2Isabelle
  imports ControlPlaneProps GigaChatProps SmokeProps ResponseProps SemanticHoldout CardProps DashboardProps CorpusProps Retry EvaluatorStoreProps WorkflowProps McpServers CardRunProps ModelProbe EvaluatorRuns ProcessGuards Monitor
begin

text \<open>
  A verification development of the neurolab repository.

  The program is a private laboratory for language-model tasks. It has a control plane that runs tasks
  against the GigaChat provider, a synthetic multi-agent test bench, evaluators with a durable record of
  their promotions, and a pipeline that collects public research, verifies licences, artifacts and full
  texts and has a model describe documents for a human reviewer.

  Foundations.
  \<^item> \<open>Prelude\<close>: exceptions, code that may raise as a sum, the theorem collections. \<open>PyStrings\<close>, \<open>Json\<close>,
    \<open>Uuid\<close>, \<open>PyFloat\<close>, \<open>PyRegex\<close>, \<open>Digest\<close>, \<open>Urls\<close>: what the source uses of Python and its standard library.
    Texts are lists of characters with code points below 256; SHA-256, SHA-1, HMAC and UUID version 5 are
    defined. Quality values are exact rational numbers, so a sum or margin at the boundary of doubles is decided
    exactly; doubles are rounded in \<open>HostMetrics\<close> only.
  \<^item> \<open>Tables\<close>: SQL statement forms on keyed tables, with the locales \<open>keyed_store\<close> and \<open>lifecycle\<close>.

  The control plane (\<open>dashboard/app.py\<close>, \<open>orchestrator/worker.py\<close>, \<open>monitor/monitor.py\<close>, \<open>postgres/init.sql\<close>).
  The dashboard records a task and a dispatch outbox row in one transaction; workers publish the outbox to
  Redis lists, claim task rows under execution leases, record an attempt before they call the provider and
  the outcome after it.
  \<^item> \<open>TaskStore\<close>: the tables and each transaction of worker and dashboard; \<open>TaskStoreProps\<close>, \<open>Transactions\<close>:
    what each transaction keeps. \<open>Queues\<close>: the Redis lists, with the locale \<open>delivery_moves\<close>.
  \<^item> \<open>Worker\<close>: \<open>run_worker\<close>, \<open>handle_delivery\<close> and the maintenance loops as a step function whose steps end at
    each transaction, Redis command or provider call; \<open>WorkerProps\<close>: what a step does.
  \<^item> \<open>Interleaving\<close>: the locales \<open>rely_guarantee\<close> and \<open>counting\<close>; \<open>ControlPlane\<close>: any number of workers,
    submissions, foreign producers and killed processes, interleaved; \<open>Deliveries\<close>: no waiting task is
    forgotten; \<open>OutboxClaims\<close>: what a dispatch claim is worth through any history of transactions;
    \<open>Scenarios\<close>: concrete histories; \<open>ControlPlaneProps\<close>: the properties.
  \<^item> \<open>GigaChatClient\<close>, \<open>GigaChatProps\<close>: the HTTP retry loop, the token cache and the two operations.
  \<^item> \<open>Dashboard\<close>, \<open>DashboardProps\<close>: admission and submission of a task, also with overlapping requests, and the
    read side. \<open>HostMetrics\<close>, \<open>Monitor\<close>: the sample of the host, its table with thirty days of retention, and
    the temperature history the dashboard shows of it. \<open>ModelProbe\<close>: \<open>orchestrator/probe_models.py\<close>.

  The agents' test bench (\<open>src/neurolab\<close>: \<open>agent_*\<close>, \<open>engineering_policy\<close>, \<open>workflow\<close>, \<open>synthetic_mcp_trace\<close>,
  \<open>architecture_smoke\<close>, \<open>run_trace\<close>, \<open>mcp_*\<close>).
  \<^item> \<open>AgentPolicy\<close>: roles, transitions, budget, chained receipts and the acceptance of a change; \<open>SmokeGraph\<close>,
    \<open>SmokeProps\<close>: the two graphs, the tool contracts and the architecture scenario.
  \<^item> \<open>McpServers\<close>: the three tool servers over a file system and a git process.

  Evaluators (\<open>evaluator_*\<close>, \<open>solution_memory\<close>, \<open>response_*\<close>, \<open>gigachat_response_replay\<close>, \<open>semantic_holdout_gate\<close>).
  \<^item> \<open>Evaluators\<close>, \<open>EvaluatorProps\<close>: the promotion gate and the solution memory. \<open>ResponseQuality\<close>,
    \<open>ResponseProps\<close>: metrics, diagnostics and live replay of responses. \<open>SemanticHoldout\<close>: the signed receipt.
  \<^item> \<open>EvaluatorStore\<close>, \<open>EvaluatorStoreProps\<close>: the stored receipts under any sequence of operations;
    \<open>EvaluatorRuns\<close>: the scripts that run the evaluators.

  Public research (\<open>it_research\<close>, \<open>research_*\<close>, \<open>corpus_spec_observer\<close>, \<open>fulltext_*\<close>, \<open>*_verification\<close>,
  \<open>publisher_evidence\<close>, \<open>document_cards\<close>, \<open>diagram_cards\<close>, \<open>claim_review\<close>, \<open>scripts\<close>).
  \<^item> \<open>ResearchEvidence\<close>, \<open>ItResearch\<close>: the contract of public sources and the three providers. \<open>Corpus\<close>,
    \<open>CorpusProps\<close>: classification, coverage gate, candidate queue and observer. \<open>Briefs\<close>: the artifacts of
    a run, with the property that nothing a provider sends adds a line to the task of the code agent.
  \<^item> \<open>PublicSources\<close>, \<open>PublisherPdf\<close>, \<open>ProcessGuards\<close>: licences, full texts, repositories and the range
    fetch of a publisher's file.
  \<^item> \<open>Cards\<close>, \<open>DiagramCards\<close>, \<open>CardProps\<close>: claims, page windows, notes, cards and diagram pages. \<open>Retry\<close>: the
    bounded provider call. \<open>CardRuns\<close>, \<open>CardRunProps\<close>: the scripts that ask a model for cards.
  \<^item> \<open>ResearchStore\<close>, \<open>ResearchStoreProps\<close>: the corpus tables under any sequence of operations; \<open>Workflows\<close>,
    \<open>WorkflowProps\<close>: the scripts that join the components.

  What is assumed. PostgreSQL's conversion of bound values (\<open>ext\<close>), its dates and clocks, fresh identifiers,
  failed connections and everything the network, the provider, the file system, the git process, the PDF,
  HTML and XML libraries, the graph library and the schema validation answer are arguments. A transaction
  either commits, fails without effect, or commits while the reply is lost. The fixed Russian passages of a
  text are arguments too, as their characters lie outside the range covered.

  Bounds and fuel. \<open>loads\<close> starts with twice the length of its text, which never runs out (\<open>Json\<close>); the
  polling loop of the model probe takes fuel, and \<open>probe_ends\<close> shows that one poll more than the time-out
  has seconds is enough; the range fetch is a total function whose measure is the rest of the file; every
  other loop is a total function with its termination proved. A document card costs at most 153 provider calls and 306 seconds of pauses.

  Not modelled: log output and printed lines, the convenience files under \<open>runtime\<close>, the static page and
  the set-up of its web server, process supervision, container files and shell scripts, the tests, and the
  moment at which an alarm interrupts a fetch. The monitor's endless loop is modelled by its finite runs.
\<close>

end
